(* ===== verification/Prelude.thy ===== *)
theory Prelude
  imports Main "HOL-Library.Monad_Syntax" "HOL-Library.List_Lexorder" "HOL-Library.Char_ord"
begin

text \<open>
  Shared vocabulary of the development.

  A Go call that may panic or run for ever is a computation of type \<open>('w, 'a) go\<close>: it takes
  the state of the world and returns \<open>Some (value, world)\<close>, or \<open>None\<close> when control does not come
  back to the caller (a panic, which nothing under \<^verbatim>\<open>src/reconcilers\<close> recovers from, or a loop
  that does not end).  Computations are composed with the \<open>do\<close> notation of the option monad and
  the world is threaded by hand, so every effect of the source is visible in the model.

  The theory also holds the generic facts the components share: inversion of a \<open>do\<close> block, the
  relational frame calculus \<open>keeps\<close> and the decimal rendering used for logger names.
\<close>

section \<open>Computations\<close>

type_synonym ('w, 'a) go = "'w \<Rightarrow> ('a \<times> 'w) option"

text \<open>Facts that invert a computation that returned, and the rules of the frame calculus.\<close>

named_theorems go_inv "inversion of computations that returned"

named_theorems keeps_rules "introduction rules of the frame calculus"

declare Option.bind_eq_Some_conv [go_inv]
declare split_paired_Ex [go_inv]

lemma bind_SomeE [elim!]:
  assumes "Option.bind m f = Some y"
  obtains x where "m = Some x" and "f x = Some y"
  using assms by (cases m) auto

lemma bind_eq_NoneI [intro]: "m = None \<Longrightarrow> Option.bind m f = None"
  by simp

section \<open>The relational frame calculus\<close>

text \<open>
  \<open>keeps R m\<close>: whenever \<open>m\<close> returns, the world before and the world after are related by \<open>R\<close>.
  For a reflexive and transitive \<open>R\<close> the relation is closed under the constructs computations are
  written with, so a component keeps \<open>R\<close> as soon as the calls it makes do.
\<close>

definition keeps :: "('w \<Rightarrow> 'w \<Rightarrow> bool) \<Rightarrow> ('w, 'a) go \<Rightarrow> bool" where
  "keeps R m \<longleftrightarrow> (\<forall>w x w'. m w = Some (x, w') \<longrightarrow> R w w')"

lemma keepsI [intro?]: "(\<And>w x w'. m w = Some (x, w') \<Longrightarrow> R w w') \<Longrightarrow> keeps R m"
  by (simp add: keeps_def)

lemma keepsD [dest?]: "keeps R m \<Longrightarrow> m w = Some (x, w') \<Longrightarrow> R w w'"
  by (simp add: keeps_def)

lemma keeps_None [keeps_rules]: "keeps R (\<lambda>w. None)"
  by (simp add: keeps_def)

lemma keeps_if [keeps_rules]:
  "(b \<Longrightarrow> keeps R m) \<Longrightarrow> (\<not> b \<Longrightarrow> keeps R n) \<Longrightarrow> keeps R (\<lambda>w. if b then m w else n w)"
  by (simp add: keeps_def)

lemma keeps_case_prod [keeps_rules]:
  "(\<And>a b. keeps R (g a b)) \<Longrightarrow> keeps R (\<lambda>w. case x of (a, b) \<Rightarrow> g a b w)"
  by (cases x) simp

lemma keeps_case_option [keeps_rules]:
  "keeps R m \<Longrightarrow> (\<And>y. x = Some y \<Longrightarrow> keeps R (f y))
    \<Longrightarrow> keeps R (\<lambda>w. case x of None \<Rightarrow> m w | Some y \<Rightarrow> f y w)"
  by (cases x) simp_all

lemma keeps_case_sum [keeps_rules]:
  "(\<And>y. x = Inl y \<Longrightarrow> keeps R (f y)) \<Longrightarrow> (\<And>y. x = Inr y \<Longrightarrow> keeps R (g y))
    \<Longrightarrow> keeps R (\<lambda>w. case x of Inl y \<Rightarrow> f y w | Inr y \<Rightarrow> g y w)"
  by (cases x) simp_all

lemma keeps_let [keeps_rules]: "(\<And>x. keeps R (f x)) \<Longrightarrow> keeps R (\<lambda>w. let x = v w in f x w)"
  by (simp add: keeps_def Let_def)

locale world_relation =
  fixes R :: "'w \<Rightarrow> 'w \<Rightarrow> bool"
  assumes R_refl: "R w w"
    and R_trans: "R u v \<Longrightarrow> R v w \<Longrightarrow> R u w"
begin

lemma keeps_return [keeps_rules]: "keeps R (\<lambda>w. Some (x, w))"
  by (simp add: keeps_def R_refl)

lemma keeps_bind [keeps_rules]:
  assumes "keeps R m" and "\<And>x. keeps R (f x)"
  shows "keeps R (\<lambda>w. Option.bind (m w) (\<lambda>(x, w'). f x w'))"
proof
  fix w y w'
  assume "Option.bind (m w) (\<lambda>(x, w'). f x w') = Some (y, w')"
  then obtain x v where "m w = Some (x, v)" and "f x v = Some (y, w')" by auto
  with assms have "R w v" and "R v w'" by (auto dest: keepsD)
  then show "R w w'" by (rule R_trans)
qed

lemma keeps_option [keeps_rules]:
  assumes "\<And>x. m = Some x \<Longrightarrow> keeps R (f x)"
  shows "keeps R (\<lambda>w. Option.bind m (\<lambda>x. f x w))"
  using assms by (cases m) (simp_all add: keeps_None)

text \<open>A step that only changes the world, bound by \<open>let\<close>.\<close>

lemma keeps_let_world:
  "(\<And>w. R w (g w)) \<Longrightarrow> keeps R m \<Longrightarrow> keeps R (\<lambda>w. let w' = g w in m w')"
  unfolding keeps_def Let_def by (blast intro: R_trans)

lemma keeps_let_pair:
  "(\<And>w. R w (snd (g w))) \<Longrightarrow> (\<And>x. keeps R (m x)) \<Longrightarrow>
    keeps R (\<lambda>w. let (x, w') = g w in m x w')"
  unfolding keeps_def Let_def by (auto split: prod.splits) (metis R_trans snd_conv)

end

section \<open>Options\<close>

lemma ball_set_option_iff [simp]: "(\<forall>x \<in> set_option m. P x) \<longleftrightarrow> (\<forall>x. m = Some x \<longrightarrow> P x)"
  by (cases m) auto

text \<open>Looking an element up by a key that is unique in the list.\<close>

lemma find_by_key:
  "distinct (map f xs) \<Longrightarrow> find (\<lambda>x. f x = i) xs = Some x \<longleftrightarrow> x \<in> set xs \<and> f x = i"
  by (induction xs) auto

section \<open>Decimal rendering\<close>

text \<open>\<open>fmt.Sprintf("%d", i)\<close> for a loop index.\<close>

fun decimal :: "nat \<Rightarrow> string" where
  "decimal n =
     (if n < 10 then [char_of (48 + n)] else decimal (n div 10) @ [char_of (48 + n mod 10)])"

declare decimal.simps [simp del]

text \<open>The number a sequence of digits stands for; leading zeros do not matter.\<close>

definition digits_value :: "string \<Rightarrow> nat" where
  "digits_value ds = foldl (\<lambda>v d. 10 * v + (of_char d - 48)) 0 ds"

lemma digits_value_snoc: "digits_value (ds @ [d]) = 10 * digits_value ds + (of_char d - 48)"
  by (simp add: digits_value_def)

lemma digits_value_decimal: "digits_value (decimal n) = n"
proof (induction n rule: decimal.induct)
  case (1 n)
  have digit: "of_char (char_of (48 + d) :: char) - 48 = d" if "d < 10" for d :: nat
    using that by (simp add: take_bit_eq_mod)
  show ?case
  proof (cases "n < 10")
    case True
    then have "decimal n = [] @ [char_of (48 + n)]" by (simp add: decimal.simps)
    then show ?thesis using digit [OF True] by (simp only: digits_value_snoc) (simp add: digits_value_def)
  next
    case False
    then have "decimal n = decimal (n div 10) @ [char_of (48 + n mod 10)]" by (subst decimal.simps) simp
    then show ?thesis using digit [of "n mod 10"] 1 False by (simp only: digits_value_snoc) simp
  qed
qed

lemma digits_value_zeros: "digits_value (replicate k (CHR ''0'') @ ds) = digits_value ds"
proof -
  have "foldl (\<lambda>v d. 10 * v + (of_char d - 48)) 0 (replicate k (CHR ''0'')) = (0 :: nat)"
    by (induction k) simp_all
  then show ?thesis by (simp add: digits_value_def)
qed

text \<open>\<open>%d\<close> of an \<open>int\<close>.\<close>

definition decimal_int :: "int \<Rightarrow> string" where
  "decimal_int i = (if i < 0 then CHR ''-'' # decimal (nat (- i)) else decimal (nat i))"

end
