(* ===== verification/Errors.thy ===== *)
theory Errors
  imports Prelude
begin

text \<open>
  Go error values as the reconcilers see them: the sentinels declared in
  \<^verbatim>\<open>src/reconcilers/reconcilers.go\<close>, \<^verbatim>\<open>src/reconcilers/child.go\<close> and
  \<^verbatim>\<open>src/reconcilers/resourcemanager.go\<close>, the errors built with \<open>fmt.Errorf\<close>, and the errors of
  code outside the repository, which carry the errors their \<open>Is\<close> and \<open>Unwrap\<close> methods report.
  \<open>errors_is\<close> is \<open>errors.Is\<close> of the Go standard library on these values.
\<close>

datatype err =
    ErrQuiet
  | ErrHaltSubReconcilers
  | OnlyReconcileChildStatus
  | PatchGenerationMismatch
  | ErrMaxIterations int
  | Errorf string "string list"
  | Foreign string "err list"

text \<open>
  The errors an error wraps.  \<open>ErrHaltSubReconcilers\<close> is built with \<open>%w\<close> around \<open>ErrQuiet\<close>.
\<close>

fun unwrap :: "err \<Rightarrow> err list" where
  "unwrap ErrHaltSubReconcilers = [ErrQuiet]"
| "unwrap (Foreign _ es) = es"
| "unwrap _ = []"

fun err_rank :: "err \<Rightarrow> nat" where
  "err_rank ErrHaltSubReconcilers = 1"
| "err_rank (Foreign _ es) = 2 + sum_list (map err_rank es)"
| "err_rank _ = 0"

lemma err_rank_unwrap: "e' \<in> set (unwrap e) \<Longrightarrow> err_rank e' < err_rank e"
proof (induction e)
  case (Foreign t es)
  then have "err_rank e' \<le> sum_list (map err_rank es)"
    by (auto intro: member_le_sum_list)
  then show ?case by simp
qed simp_all

function errors_is :: "err \<Rightarrow> err \<Rightarrow> bool" where
  "errors_is e target \<longleftrightarrow> e = target \<or> (\<exists>e' \<in> set (unwrap e). errors_is e' target)"
  by pat_completeness auto
termination
  by (relation "measure (\<lambda>(e, t). err_rank e)") (auto dest: err_rank_unwrap)

declare errors_is.simps [simp del]

lemma errors_is_refl [simp]: "errors_is e e"
  by (subst errors_is.simps) simp

lemma errors_is_sentinel [simp]:
  "errors_is ErrQuiet t \<longleftrightarrow> t = ErrQuiet"
  "errors_is ErrHaltSubReconcilers t \<longleftrightarrow> t = ErrHaltSubReconcilers \<or> t = ErrQuiet"
  "errors_is OnlyReconcileChildStatus t \<longleftrightarrow> t = OnlyReconcileChildStatus"
  "errors_is PatchGenerationMismatch t \<longleftrightarrow> t = PatchGenerationMismatch"
  "errors_is (ErrMaxIterations i) t \<longleftrightarrow> t = ErrMaxIterations i"
  "errors_is (Errorf f as) t \<longleftrightarrow> t = Errorf f as"
  by (auto simp: errors_is.simps [of ErrQuiet] errors_is.simps [of ErrHaltSubReconcilers]
      errors_is.simps [of OnlyReconcileChildStatus] errors_is.simps [of PatchGenerationMismatch]
      errors_is.simps [of "ErrMaxIterations i"] errors_is.simps [of "Errorf f as"])

lemma errors_is_Foreign [simp]:
  "errors_is (Foreign t es) x \<longleftrightarrow> x = Foreign t es \<or> (\<exists>e \<in> set es. errors_is e x)"
  by (subst errors_is.simps) auto

text \<open>Whatever halts is quiet: the halting sentinel wraps the quiet one, however deep it sits.\<close>

lemma halt_is_quiet: "errors_is e ErrHaltSubReconcilers \<Longrightarrow> errors_is e ErrQuiet"
proof (induction "err_rank e" arbitrary: e rule: less_induct)
  case less
  show ?case
  proof (cases "e = ErrHaltSubReconcilers")
    case True
    then show ?thesis by simp
  next
    case False
    with less.prems obtain e' where "e' \<in> set (unwrap e)" and "errors_is e' ErrHaltSubReconcilers"
      by (subst (asm) errors_is.simps) auto
    with less.hyps [of e'] show ?thesis
      by (subst errors_is.simps) (auto dest: err_rank_unwrap)
  qed
qed

text \<open>The two tests the reconcilers make on an error before they log, record or swallow it.\<close>

definition is_quiet :: "err \<Rightarrow> bool" where
  "is_quiet e \<longleftrightarrow> errors_is e ErrQuiet"

definition is_halt :: "err \<Rightarrow> bool" where
  "is_halt e \<longleftrightarrow> errors_is e ErrHaltSubReconcilers"

lemma is_quiet_simps [simp]:
  "is_quiet ErrQuiet" "is_quiet ErrHaltSubReconcilers" "\<not> is_quiet OnlyReconcileChildStatus"
  "\<not> is_quiet (Errorf f as)" "\<not> is_quiet (ErrMaxIterations i)"
  "\<not> is_quiet PatchGenerationMismatch"
  by (simp_all add: is_quiet_def)

lemma is_halt_simps [simp]:
  "\<not> is_halt ErrQuiet" "is_halt ErrHaltSubReconcilers" "\<not> is_halt OnlyReconcileChildStatus"
  "\<not> is_halt (Errorf f as)" "\<not> is_halt (ErrMaxIterations i)" "\<not> is_halt PatchGenerationMismatch"
  by (simp_all add: is_halt_def)

lemma is_halt_quiet: "is_halt e \<Longrightarrow> is_quiet e"
  by (simp add: is_halt_def is_quiet_def halt_is_quiet)

end
