(* ===== verification/Objects.thy ===== *)
theory Objects
  imports Errors
begin

text \<open>
  The parts of a Kubernetes object the reconcilers read and write: the object metadata, the status
  as \<^verbatim>\<open>src/reconcilers/resource.go\<close> looks at it through reflection, and status conditions.
  Everything else of an object is carried along unread in \<open>body\<close>, its JSON text.  Object identity
  and aliasing are explicit in the operations that mutate an object: they return the new value.
\<close>

section \<open>Names and kinds\<close>

record namespaced_name =
  nnNamespace :: string
  nnName :: string

record gvk =
  gvkGroup :: string
  gvkVersion :: string
  gvkKind :: string

definition empty_gvk :: gvk where
  "empty_gvk = \<lparr>gvkGroup = [], gvkVersion = [], gvkKind = []\<rparr>"

definition gvk_Empty :: "gvk \<Rightarrow> bool" where
  "gvk_Empty k \<longleftrightarrow> gvkGroup k = [] \<and> gvkVersion k = [] \<and> gvkKind k = []"

record owner_reference =
  ownerUID :: string
  ownerController :: bool

section \<open>Conditions and status\<close>

text \<open>\<open>metav1.Condition\<close>; a condition status is a string, "True", "False" and "Unknown" by convention.\<close>

record condition =
  condType :: string
  condStatus :: string
  condObservedGeneration :: int
  condLastTransitionTime :: int
  condReason :: string
  condMessage :: string

definition ConditionTrue :: string where "ConditionTrue = ''True''"
definition ConditionFalse :: string where "ConditionFalse = ''False''"
definition ConditionUnknown :: string where "ConditionUnknown = ''Unknown''"

lemma condition_status_distinct [simp]:
  "ConditionTrue \<noteq> ConditionFalse" "ConditionTrue \<noteq> ConditionUnknown"
  "ConditionFalse \<noteq> ConditionTrue" "ConditionFalse \<noteq> ConditionUnknown"
  "ConditionUnknown \<noteq> ConditionTrue" "ConditionUnknown \<noteq> ConditionFalse"
  by (simp_all add: ConditionTrue_def ConditionFalse_def ConditionUnknown_def)

text \<open>
  A structured status: the two fields reconcilers look up by name, each absent (or of another type)
  when \<open>None\<close>, and the JSON text of the rest.
\<close>

record status_struct =
  observedGeneration :: "int option"
  conditions :: "condition list option"
  statusRest :: string

text \<open>
  What reflection finds under \<open>Status\<close>: nothing (no such field, or a nil pointer, or an unstructured
  object without a status), the map of an unstructured object, some other value (an unstructured
  status that is not an object), or a struct.
\<close>

datatype object_status =
    NoStatus
  | MapStatus string
  | OtherStatus string
  | StructStatus status_struct

section \<open>Objects\<close>

record object =
  goType :: string
  objectKind :: gvk
  objNamespace :: string
  objName :: string
  generateName :: string
  uid :: string
  resourceVersion :: string
  generation :: int
  creationTimestamp :: "int option"
  deletionTimestamp :: "int option"
  labels :: "(string \<times> string) list"
  finalizers :: "string list"
  ownerReferences :: "owner_reference list"
  status :: object_status
  body :: string

text \<open>A zero value of an object type, what \<open>newEmpty\<close> and \<open>replaceWithEmpty\<close> produce.\<close>

definition empty_object :: "string \<Rightarrow> object" where
  "empty_object t =
     \<lparr>goType = t, objectKind = empty_gvk, objNamespace = [], objName = [], generateName = [], uid = [],
      resourceVersion = [], generation = 0, creationTimestamp = None, deletionTimestamp = None,
      labels = [], finalizers = [], ownerReferences = [], status = NoStatus, body = []\<rparr>"

text \<open>
  \<open>typeName\<close> of \<^verbatim>\<open>src/reconcilers/reconcilers.go\<close>: the kind an object carries, else its Go type.
\<close>

definition typeName :: "object \<Rightarrow> string" where
  "typeName i = (if gvkKind (objectKind i) \<noteq> [] then gvkKind (objectKind i) else goType i)"

definition namespaceName :: "object \<Rightarrow> namespaced_name" where
  "namespaceName obj = \<lparr>nnNamespace = objNamespace obj, nnName = objName obj\<rparr>"

text \<open>\<open>replaceWithEmpty\<close> keeps the type of the value and resets the value itself.\<close>

definition replaceWithEmpty :: "object \<Rightarrow> object" where
  "replaceWithEmpty x = empty_object (goType x)"

definition newEmpty :: "object \<Rightarrow> object" where
  "newEmpty x = empty_object (goType x)"

section \<open>Object lists\<close>

text \<open>
  The items of a typed list are structs, pointers or interfaces; any other element kind makes
  \<open>extractItems\<close> (\<^verbatim>\<open>src/reconcilers/util.go\<close>) panic.
\<close>

datatype list_item =
    PointerItem object
  | InterfaceItem object
  | StructItem object
  | UnknownItem string

record object_list =
  listType :: string
  listKind :: gvk
  listItems :: "list_item list"

fun extractItem :: "list_item \<Rightarrow> object option" where
  "extractItem (PointerItem x) = Some x"
| "extractItem (InterfaceItem x) = Some x"
| "extractItem (StructItem x) = Some x"
| "extractItem (UnknownItem _) = None"

fun extract_items_from :: "object list \<Rightarrow> list_item list \<Rightarrow> object list option" where
  "extract_items_from items [] = Some items"
| "extract_items_from items (v # vs) =
     (case extractItem v of
        None \<Rightarrow> None
      | Some item \<Rightarrow> extract_items_from (items @ [item]) vs)"

definition extractItems :: "object_list \<Rightarrow> object list option" where
  "extractItems list = extract_items_from [] (listItems list)"

lemma extract_items_from_eq:
  "extract_items_from acc vs =
     (if \<exists>v \<in> set vs. extractItem v = None then None
      else Some (acc @ map (the \<circ> extractItem) vs))"
  by (induction vs arbitrary: acc) (auto split: option.splits)

lemma extractItems_eq:
  "extractItems l =
     (if \<exists>v \<in> set (listItems l). extractItem v = None then None
      else Some (map (the \<circ> extractItem) (listItems l)))"
  by (simp add: extractItems_def extract_items_from_eq)

end
