(* ===== verification/Conditions.thy ===== *)
theory Conditions
  imports Objects
begin

text \<open>
  The condition manager of \<^verbatim>\<open>src/apis/conditionset.go\<close> and the accessor of
  \<^verbatim>\<open>src/apis/status_types.go\<close>.  Operations act on the status \<open>'s\<close> behind a \<open>ConditionsAccessor\<close>,
  an interface value with a getter and a setter that may be nil; \<open>rfc\<close> stands for
  \<open>metav1.Time.Rfc3339Copy\<close>, which belongs to apimachinery.  Messages are the formatted strings.
\<close>

section \<open>Condition sets\<close>

definition ConditionReady :: string where "ConditionReady = ''Ready''"
definition ConditionSucceeded :: string where "ConditionSucceeded = ''Succeeded''"

record ConditionSet =
  happyType :: string
  happyReason :: string
  dependents :: "string list"

fun contains :: "string list \<Rightarrow> string \<Rightarrow> bool" where
  "contains [] t = False"
| "contains (c # ct) t = (if c = t then True else contains ct t)"

lemma contains_iff [simp]: "contains ct t \<longleftrightarrow> t \<in> set ct"
  by (induction ct) auto

fun add_dependents :: "string \<Rightarrow> string list \<Rightarrow> string list \<Rightarrow> string list" where
  "add_dependents happy deps [] = deps"
| "add_dependents happy deps (d # ds) =
     (if d = happy \<or> contains deps d then add_dependents happy deps ds
      else add_dependents happy (deps @ [d]) ds)"

definition newConditionSet :: "string \<Rightarrow> string \<Rightarrow> string list \<Rightarrow> ConditionSet" where
  "newConditionSet happy reason ds =
     \<lparr>happyType = happy, happyReason = reason, dependents = add_dependents happy [] ds\<rparr>"

definition NewLivingConditionSetWithHappyReason :: "string \<Rightarrow> string list \<Rightarrow> ConditionSet" where
  "NewLivingConditionSetWithHappyReason reason d = newConditionSet ConditionReady reason d"

definition NewLivingConditionSet :: "string list \<Rightarrow> ConditionSet" where
  "NewLivingConditionSet d = NewLivingConditionSetWithHappyReason ''Ready'' d"

definition NewBatchConditionSetWithHappyReason :: "string \<Rightarrow> string list \<Rightarrow> ConditionSet" where
  "NewBatchConditionSetWithHappyReason reason d = newConditionSet ConditionSucceeded reason d"

definition NewBatchConditionSet :: "string list \<Rightarrow> ConditionSet" where
  "NewBatchConditionSet d = NewBatchConditionSetWithHappyReason ''Succeeded'' d"

section \<open>The condition manager\<close>

record 's ConditionsAccessor =
  GetConditions :: "'s \<Rightarrow> condition list"
  SetConditions :: "'s \<Rightarrow> condition list \<Rightarrow> 's"

record 's conditionsImpl =
  conditionSet :: ConditionSet
  accessor :: "'s ConditionsAccessor option"
  now :: int

text \<open>\<open>RetrieveNow\<close> of the context gives the manager its clock.\<close>

definition ManageWithContext :: "ConditionSet \<Rightarrow> int \<Rightarrow> 's ConditionsAccessor option \<Rightarrow> 's conditionsImpl" where
  "ManageWithContext r ctxNow a = \<lparr>conditionSet = r, accessor = a, now = ctxNow\<rparr>"

definition ConditionIsTrue :: "condition option \<Rightarrow> bool" where
  "ConditionIsTrue c \<longleftrightarrow> (case c of None \<Rightarrow> False | Some c \<Rightarrow> condStatus c = ConditionTrue)"

definition ConditionIsFalse :: "condition option \<Rightarrow> bool" where
  "ConditionIsFalse c \<longleftrightarrow> (case c of None \<Rightarrow> False | Some c \<Rightarrow> condStatus c = ConditionFalse)"

definition ConditionIsUnknown :: "condition option \<Rightarrow> bool" where
  "ConditionIsUnknown c \<longleftrightarrow> \<not> ConditionIsTrue c \<and> \<not> ConditionIsFalse c"

fun first_of_type :: "string \<Rightarrow> condition list \<Rightarrow> condition option" where
  "first_of_type t [] = None"
| "first_of_type t (c # cs) = (if condType c = t then Some c else first_of_type t cs)"

definition GetCondition :: "'s conditionsImpl \<Rightarrow> string \<Rightarrow> 's \<Rightarrow> condition option" where
  "GetCondition r t s =
     (case accessor r of
        None \<Rightarrow> None
      | Some a \<Rightarrow> first_of_type t (GetConditions a s))"

definition IsHappy :: "'s conditionsImpl \<Rightarrow> 's \<Rightarrow> bool" where
  "IsHappy r s =
     (case GetCondition r (happyType (conditionSet r)) s of
        None \<Rightarrow> False
      | Some c \<Rightarrow> if \<not> ConditionIsTrue (Some c) then False else True)"

text \<open>
  The loop of \<open>SetCondition\<close>: \<open>None\<close> is its early return (the new condition equals the stored one but
  for the transition time), \<open>Some\<close> the new condition and the conditions to keep.
\<close>

fun set_condition_loop ::
    "string \<Rightarrow> condition \<Rightarrow> condition list \<Rightarrow> condition list \<Rightarrow> (condition \<times> condition list) option" where
  "set_condition_loop t new kept [] = Some (new, kept)"
| "set_condition_loop t new kept (c # cs) =
     (if condType c \<noteq> t then set_condition_loop t new (kept @ [c]) cs
      else let new = new\<lparr>condLastTransitionTime := condLastTransitionTime c\<rparr>
           in if new = c then None else set_condition_loop t new kept cs)"

text \<open>
  \<open>sort.Slice\<close> by type.  Go's sort is not stable; conditions of distinct types have only one sorted
  order, so any sort gives the list \<open>sort_key\<close> gives.
\<close>

definition sort_conditions :: "condition list \<Rightarrow> condition list" where
  "sort_conditions cs = sort_key condType cs"

definition SetCondition ::
    "(int \<Rightarrow> int) \<Rightarrow> 's conditionsImpl \<Rightarrow> condition \<Rightarrow> 's \<Rightarrow> 's" where
  "SetCondition rfc r new s =
     (case accessor r of
        None \<Rightarrow> s
      | Some a \<Rightarrow>
          (case set_condition_loop (condType new) new [] (GetConditions a s) of
             None \<Rightarrow> s
           | Some (new, kept) \<Rightarrow>
               SetConditions a s
                 (sort_conditions (kept @ [new\<lparr>condLastTransitionTime := rfc (now r)\<rparr>]))))"

definition isTerminal :: "'s conditionsImpl \<Rightarrow> string \<Rightarrow> bool" where
  "isTerminal r t \<longleftrightarrow>
     (\<exists>cond \<in> set (dependents (conditionSet r)). cond = t) \<or> t = happyType (conditionSet r)"

definition ClearCondition :: "'s conditionsImpl \<Rightarrow> string \<Rightarrow> 's \<Rightarrow> err option \<times> 's" where
  "ClearCondition r t s =
     (case accessor r of
        None \<Rightarrow> (None, s)
      | Some a \<Rightarrow>
          if isTerminal r t then (Some (Errorf ''Clearing terminal conditions not implemented'' []), s)
          else (case GetCondition r t s of
                  None \<Rightarrow> (None, s)
                | Some _ \<Rightarrow>
                    (None, SetConditions a s
                       (sort_conditions (filter (\<lambda>c. condType c \<noteq> t) (GetConditions a s))))))"

text \<open>A condition with the fields a composite literal of the source leaves out set to zero.\<close>

definition new_condition :: "string \<Rightarrow> string \<Rightarrow> string \<Rightarrow> string \<Rightarrow> condition" where
  "new_condition t st reason message =
     \<lparr>condType = t, condStatus = st, condObservedGeneration = 0, condLastTransitionTime = 0,
      condReason = reason, condMessage = message\<rparr>"

definition MarkTrue ::
    "(int \<Rightarrow> int) \<Rightarrow> 's conditionsImpl \<Rightarrow> string \<Rightarrow> string \<Rightarrow> string \<Rightarrow> 's \<Rightarrow> 's" where
  "MarkTrue rfc r t reason message s =
     (let s = SetCondition rfc r (new_condition t ConditionTrue reason message) s
      in if length (dependents (conditionSet r)) = 0 then s
         else if \<exists>cond \<in> set (dependents (conditionSet r)).
                   \<not> ConditionIsTrue (GetCondition r cond s) then s
         else SetCondition rfc r
                (new_condition (happyType (conditionSet r)) ConditionTrue
                   (happyReason (conditionSet r)) []) s)"

fun set_conditions_false ::
    "(int \<Rightarrow> int) \<Rightarrow> 's conditionsImpl \<Rightarrow> string list \<Rightarrow> string \<Rightarrow> string \<Rightarrow> 's \<Rightarrow> 's" where
  "set_conditions_false rfc r [] reason message s = s"
| "set_conditions_false rfc r (t # types) reason message s =
     set_conditions_false rfc r types reason message
       (SetCondition rfc r (new_condition t ConditionFalse reason message) s)"

definition MarkFalse ::
    "(int \<Rightarrow> int) \<Rightarrow> 's conditionsImpl \<Rightarrow> string \<Rightarrow> string \<Rightarrow> string \<Rightarrow> 's \<Rightarrow> 's" where
  "MarkFalse rfc r t reason message s =
     (let types = [t] @ [happyType (conditionSet r). cond \<leftarrow> dependents (conditionSet r), cond = t]
      in set_conditions_false rfc r types reason message s)"

text \<open>
  The loop of \<open>MarkUnknown\<close> over the dependents: \<open>Inl\<close> is its early return (a failed dependent),
  \<open>Inr\<close> says whether the marked type is a dependent.
\<close>

fun mark_unknown_loop ::
    "(int \<Rightarrow> int) \<Rightarrow> 's conditionsImpl \<Rightarrow> string \<Rightarrow> string \<Rightarrow> string \<Rightarrow> bool \<Rightarrow> string list \<Rightarrow> 's \<Rightarrow> 's + bool" where
  "mark_unknown_loop rfc r t reason message isDependent [] s = Inr isDependent"
| "mark_unknown_loop rfc r t reason message isDependent (cond # conds) s =
     (if ConditionIsFalse (GetCondition r cond s) then
        (let happy = GetCondition r (happyType (conditionSet r)) s
         in Inl (if \<not> ConditionIsFalse happy
                 then MarkFalse rfc r (happyType (conditionSet r)) reason message s
                 else s))
      else mark_unknown_loop rfc r t reason message (isDependent \<or> cond = t) conds s)"

definition MarkUnknown ::
    "(int \<Rightarrow> int) \<Rightarrow> 's conditionsImpl \<Rightarrow> string \<Rightarrow> string \<Rightarrow> string \<Rightarrow> 's \<Rightarrow> 's" where
  "MarkUnknown rfc r t reason message s =
     (let s = SetCondition rfc r (new_condition t ConditionUnknown reason message) s
      in if length (dependents (conditionSet r)) = 0 then s
         else (case mark_unknown_loop rfc r t reason message False (dependents (conditionSet r)) s of
                 Inl s \<Rightarrow> s
               | Inr isDependent \<Rightarrow>
                   if isDependent
                   then SetCondition rfc r
                          (new_condition (happyType (conditionSet r)) ConditionUnknown reason message) s
                   else s))"

definition initializeTerminalCondition ::
    "(int \<Rightarrow> int) \<Rightarrow> 's conditionsImpl \<Rightarrow> string \<Rightarrow> string \<Rightarrow> string \<Rightarrow> 's \<Rightarrow> condition \<times> 's" where
  "initializeTerminalCondition rfc r t reason st s =
     (case GetCondition r t s of
        Some c \<Rightarrow> (c, s)
      | None \<Rightarrow> let c = new_condition t st reason [] in (c, SetCondition rfc r c s))"

fun initialize_dependents ::
    "(int \<Rightarrow> int) \<Rightarrow> 's conditionsImpl \<Rightarrow> string \<Rightarrow> string list \<Rightarrow> 's \<Rightarrow> 's" where
  "initialize_dependents rfc r st [] s = s"
| "initialize_dependents rfc r st (t # ts) s =
     initialize_dependents rfc r st ts
       (snd (initializeTerminalCondition rfc r t ''Initializing'' st s))"

definition InitializeConditions :: "(int \<Rightarrow> int) \<Rightarrow> 's conditionsImpl \<Rightarrow> 's \<Rightarrow> 's" where
  "InitializeConditions rfc r s =
     (let (happy, s) =
        (case GetCondition r (happyType (conditionSet r)) s of
           Some happy \<Rightarrow> (happy, s)
         | None \<Rightarrow>
             let happy = new_condition (happyType (conditionSet r)) ConditionUnknown ''Initializing'' []
             in (happy, SetCondition rfc r happy s));
          st = (if condStatus happy = ConditionTrue then ConditionTrue else ConditionUnknown)
      in initialize_dependents rfc r st (dependents (conditionSet r)) s)"

section \<open>The status structure\<close>

text \<open>\<open>apis.Status\<close> and its accessor methods.\<close>

record api_status =
  statusObservedGeneration :: int
  statusConditions :: "condition list"

definition Status_GetConditions :: "api_status \<Rightarrow> condition list" where
  "Status_GetConditions s = statusConditions s"

definition Status_SetConditions :: "api_status \<Rightarrow> condition list \<Rightarrow> api_status" where
  "Status_SetConditions s c = s\<lparr>statusConditions := c\<rparr>"

definition Status_GetCondition :: "api_status \<Rightarrow> string \<Rightarrow> condition option" where
  "Status_GetCondition s t = first_of_type t (statusConditions s)"

definition Status_accessor :: "api_status ConditionsAccessor" where
  "Status_accessor =
     \<lparr>GetConditions = Status_GetConditions, SetConditions = Status_SetConditions\<rparr>"

section \<open>Lists of conditions\<close>

text \<open>The order a condition list is stored in: strictly increasing types.\<close>

definition canonical :: "condition list \<Rightarrow> bool" where
  "canonical cs \<longleftrightarrow> sorted (map condType cs) \<and> distinct (map condType cs)"

lemma first_of_type_None: "first_of_type t cs = None \<longleftrightarrow> t \<notin> condType ` set cs"
  by (induction cs) auto

lemma first_of_type_Some:
  "distinct (map condType cs) \<Longrightarrow> first_of_type t cs = Some c \<longleftrightarrow> c \<in> set cs \<and> condType c = t"
  by (induction cs) auto

lemma first_of_type_type: "first_of_type t cs = Some c \<Longrightarrow> condType c = t"
  by (induction cs) (auto split: if_splits)

lemma first_of_type_cong:
  assumes "distinct (map condType cs)" and "distinct (map condType ds)" and "set cs = set ds"
  shows "first_of_type t cs = first_of_type t ds"
proof (cases "first_of_type t ds")
  case None
  with assms(3) have "first_of_type t cs = None" by (simp add: first_of_type_None)
  with None show ?thesis by simp
next
  case (Some c)
  with assms have "first_of_type t cs = Some c" by (simp add: first_of_type_Some)
  with Some show ?thesis by simp
qed

lemma first_of_type_append:
  "first_of_type t (cs @ ds) =
     (case first_of_type t cs of None \<Rightarrow> first_of_type t ds | Some c \<Rightarrow> Some c)"
  by (induction cs) auto

lemma filter_absent: "t \<notin> condType ` set cs \<Longrightarrow> filter (\<lambda>c. condType c \<noteq> t) cs = cs"
  by (induction cs) auto

lemma first_of_type_filter:
  "first_of_type t (filter (\<lambda>c. condType c \<noteq> u) cs) =
     (if t = u then None else first_of_type t cs)"
  by (induction cs) auto

lemma sort_conditions_facts [simp]:
  "set (sort_conditions cs) = set cs"
  "distinct (map condType (sort_conditions cs)) \<longleftrightarrow> distinct (map condType cs)"
  "sorted (map condType (sort_conditions cs))"
  by (simp_all add: sort_conditions_def distinct_map)

lemma first_of_type_sort:
  "distinct (map condType cs) \<Longrightarrow> first_of_type t (sort_conditions cs) = first_of_type t cs"
  by (rule first_of_type_cong) simp_all

text \<open>The loop of \<open>SetCondition\<close> on a list without duplicate types.\<close>

lemma set_condition_loop_absent:
  "t \<notin> condType ` set cs \<Longrightarrow> set_condition_loop t new kept cs = Some (new, kept @ cs)"
  by (induction cs arbitrary: kept) auto

lemma set_condition_loop_eq:
  assumes "distinct (map condType cs)"
  shows "set_condition_loop t new kept cs =
    (case first_of_type t cs of
       None \<Rightarrow> Some (new, kept @ cs)
     | Some c \<Rightarrow>
         if new\<lparr>condLastTransitionTime := condLastTransitionTime c\<rparr> = c then None
         else Some (new\<lparr>condLastTransitionTime := condLastTransitionTime c\<rparr>,
                    kept @ filter (\<lambda>c. condType c \<noteq> t) cs))"
  using assms
proof (induction cs arbitrary: kept)
  case Nil
  then show ?case by simp
next
  case (Cons c cs)
  show ?case
  proof (cases "condType c = t")
    case True
    with Cons.prems have "t \<notin> condType ` set cs" by auto
    moreover from this have "filter (\<lambda>c. condType c \<noteq> t) cs = cs"
      by (rule filter_absent)
    ultimately show ?thesis using True by (simp add: Let_def set_condition_loop_absent)
  next
    case False
    with Cons show ?thesis by (simp split: option.split)
  qed
qed

section \<open>Abstract specification: a map from types to statuses\<close>

text \<open>
  What a reader of the conditions relies on is the status of each type.  Each operation is specified
  on that map; \<open>spec\<close> below is implemented by the manager on the condition list.
\<close>

type_synonym statuses = "string \<rightharpoonup> string"

datatype cond_op =
    Initialize
  | True_of string
  | Unknown_of string
  | False_of string
  | Clear string
  | Set_to condition

definition all_true :: "ConditionSet \<Rightarrow> statuses \<Rightarrow> bool" where
  "all_true C m \<longleftrightarrow> (\<forall>d \<in> set (dependents C). m d = Some ConditionTrue)"

definition some_false :: "ConditionSet \<Rightarrow> statuses \<Rightarrow> bool" where
  "some_false C m \<longleftrightarrow> (\<exists>d \<in> set (dependents C). m d = Some ConditionFalse)"

fun spec :: "ConditionSet \<Rightarrow> cond_op \<Rightarrow> statuses \<Rightarrow> statuses" where
  "spec C Initialize m =
     (let m = (if m (happyType C) = None then m(happyType C \<mapsto> ConditionUnknown) else m);
          st = (if m (happyType C) = Some ConditionTrue then ConditionTrue else ConditionUnknown)
      in (\<lambda>t. if t \<in> set (dependents C) \<and> m t = None then Some st else m t))"
| "spec C (True_of t) m =
     (let m = m(t \<mapsto> ConditionTrue)
      in if dependents C \<noteq> [] \<and> all_true C m then m(happyType C \<mapsto> ConditionTrue) else m)"
| "spec C (Unknown_of t) m =
     (let m = m(t \<mapsto> ConditionUnknown)
      in if some_false C m then m(happyType C \<mapsto> ConditionFalse)
         else if t \<in> set (dependents C) then m(happyType C \<mapsto> ConditionUnknown)
         else m)"
| "spec C (False_of t) m =
     (let m = m(t \<mapsto> ConditionFalse)
      in if t \<in> set (dependents C) then m(happyType C \<mapsto> ConditionFalse) else m)"
| "spec C (Clear t) m =
     (if t \<in> set (dependents C) \<or> t = happyType C then m else m(t := None))"
| "spec C (Set_to c) m = m(condType c \<mapsto> condStatus c)"

section \<open>The accessor interface\<close>

text \<open>
  What the manager needs of a \<open>ConditionsAccessor\<close>: the getter returns what the setter stored.  The
  manager is a client of this contract; its correctness is proved once for every accessor.
\<close>

locale conditions_accessor =
  fixes A :: "'s ConditionsAccessor"
  assumes get_set: "GetConditions A (SetConditions A s cs) = cs"
begin

definition mgr :: "ConditionSet \<Rightarrow> int \<Rightarrow> 's conditionsImpl" where
  "mgr C n = ManageWithContext C n (Some A)"

definition wf :: "'s \<Rightarrow> bool" where
  "wf s \<longleftrightarrow> distinct (map condType (GetConditions A s))"

definition lookup :: "'s \<Rightarrow> string \<Rightarrow> condition option" where
  "lookup s t = first_of_type t (GetConditions A s)"

definition abs :: "'s \<Rightarrow> statuses" where
  "abs s t = map_option condStatus (lookup s t)"

lemma mgr_sel [simp]: "conditionSet (mgr C n) = C" "accessor (mgr C n) = Some A" "now (mgr C n) = n"
  by (simp_all add: mgr_def ManageWithContext_def)

lemma GetCondition_eq [simp]: "GetCondition (mgr C n) t s = lookup s t"
  by (simp add: GetCondition_def lookup_def)

lemma ConditionIsTrue_lookup [simp]:
  "ConditionIsTrue (lookup s t) \<longleftrightarrow> abs s t = Some ConditionTrue"
  by (simp add: ConditionIsTrue_def abs_def split: option.split)

lemma ConditionIsFalse_lookup [simp]:
  "ConditionIsFalse (lookup s t) \<longleftrightarrow> abs s t = Some ConditionFalse"
  by (simp add: ConditionIsFalse_def abs_def split: option.split)

lemma lookup_None: "lookup s t = None \<longleftrightarrow> abs s t = None"
  by (simp add: abs_def)

lemma lookup_type: "lookup s t = Some c \<Longrightarrow> condType c = t"
  unfolding lookup_def by (rule first_of_type_type)

text \<open>What \<open>SetCondition\<close> stores, the stored condition of the type being given.\<close>

definition stored :: "(int \<Rightarrow> int) \<Rightarrow> int \<Rightarrow> condition \<Rightarrow> condition option \<Rightarrow> condition" where
  "stored rfc n new old =
     (case old of
        None \<Rightarrow> new\<lparr>condLastTransitionTime := rfc n\<rparr>
      | Some c \<Rightarrow>
          if new\<lparr>condLastTransitionTime := condLastTransitionTime c\<rparr> = c then c
          else new\<lparr>condLastTransitionTime := rfc n\<rparr>)"

lemma stored_status [simp]: "condStatus (stored rfc n new old) = condStatus new"
  by (auto simp: stored_def split: option.split dest: arg_cong [of _ _ condStatus])

lemma SetCondition_cases:
  assumes "wf s"
  obtains (same) c where "lookup s (condType new) = Some c"
      and "new\<lparr>condLastTransitionTime := condLastTransitionTime c\<rparr> = c"
      and "SetCondition rfc (mgr C n) new s = s"
  | (changed) "GetConditions A (SetCondition rfc (mgr C n) new s) =
        sort_conditions (filter (\<lambda>c. condType c \<noteq> condType new) (GetConditions A s)
          @ [new\<lparr>condLastTransitionTime := rfc n\<rparr>])"
      and "stored rfc n new (lookup s (condType new)) = new\<lparr>condLastTransitionTime := rfc n\<rparr>"
proof (cases "lookup s (condType new)")
  case None
  then have "condType new \<notin> condType ` set (GetConditions A s)"
    by (simp add: lookup_def first_of_type_None)
  then have "filter (\<lambda>c. condType c \<noteq> condType new) (GetConditions A s) = GetConditions A s"
    by (rule filter_absent)
  with None assms show ?thesis
    by (intro changed)
      (simp_all add: SetCondition_def lookup_def wf_def set_condition_loop_eq get_set stored_def)
next
  case (Some c)
  show ?thesis
  proof (cases "new\<lparr>condLastTransitionTime := condLastTransitionTime c\<rparr> = c")
    case True
    with Some assms show ?thesis
      by (intro same) (simp_all add: SetCondition_def lookup_def wf_def set_condition_loop_eq)
  next
    case False
    with Some assms show ?thesis
      by (intro changed)
        (simp_all add: SetCondition_def lookup_def wf_def set_condition_loop_eq get_set stored_def)
  qed
qed

lemma wf_SetCondition: "wf s \<Longrightarrow> wf (SetCondition rfc (mgr C n) new s)"
  by (rule SetCondition_cases [of s new rfc C n])
    (auto simp: wf_def distinct_map_filter)

lemma canonical_SetCondition:
  "canonical (GetConditions A s) \<Longrightarrow> canonical (GetConditions A (SetCondition rfc (mgr C n) new s))"
  by (rule SetCondition_cases [of s new rfc C n])
    (auto simp: wf_def canonical_def distinct_map_filter)

lemma lookup_SetCondition:
  assumes "wf s"
  shows "lookup (SetCondition rfc (mgr C n) new s) t =
    (if t = condType new then Some (stored rfc n new (lookup s t)) else lookup s t)"
proof (cases rule: SetCondition_cases [OF assms, of new rfc C n, case_names same changed])
  case (same c)
  then show ?thesis by (auto simp: stored_def)
next
  case changed
  have "distinct (map condType (filter (\<lambda>c. condType c \<noteq> condType new) (GetConditions A s)
      @ [new\<lparr>condLastTransitionTime := rfc n\<rparr>]))"
    using assms by (auto simp: wf_def distinct_map_filter)
  with changed show ?thesis
    by (auto simp: lookup_def first_of_type_sort first_of_type_append first_of_type_filter
        split: option.split)
qed

lemma abs_SetCondition:
  "wf s \<Longrightarrow> abs (SetCondition rfc (mgr C n) new s) = (abs s)(condType new \<mapsto> condStatus new)"
  by (auto simp: abs_def lookup_SetCondition fun_eq_iff)

text \<open>Every operation is a sequence of \<open>SetCondition\<close> steps or leaves the status alone.\<close>

lemma wf_set_conditions_false: "wf s \<Longrightarrow> wf (set_conditions_false rfc (mgr C n) ts reason msg s)"
  by (induction ts arbitrary: s) (auto simp: wf_SetCondition)

lemma canonical_set_conditions_false:
  "canonical (GetConditions A s)
    \<Longrightarrow> canonical (GetConditions A (set_conditions_false rfc (mgr C n) ts reason msg s))"
  by (induction ts arbitrary: s) (auto simp: canonical_SetCondition)

lemma abs_set_conditions_false:
  "wf s \<Longrightarrow> abs (set_conditions_false rfc (mgr C n) ts reason msg s) =
     (\<lambda>u. if u \<in> set ts then Some ConditionFalse else abs s u)"
  by (induction ts arbitrary: s)
    (auto simp: wf_SetCondition abs_SetCondition new_condition_def fun_eq_iff)

lemma abs_MarkFalse:
  "wf s \<Longrightarrow> abs (MarkFalse rfc (mgr C n) t reason msg s) = spec C (False_of t) (abs s)"
  by (auto simp: MarkFalse_def Let_def abs_set_conditions_false fun_eq_iff
      simp del: set_conditions_false.simps)

lemma wf_MarkFalse: "wf s \<Longrightarrow> wf (MarkFalse rfc (mgr C n) t reason msg s)"
  unfolding MarkFalse_def Let_def by (rule wf_set_conditions_false)

lemma canonical_MarkFalse:
  "canonical (GetConditions A s)
    \<Longrightarrow> canonical (GetConditions A (MarkFalse rfc (mgr C n) t reason msg s))"
  unfolding MarkFalse_def Let_def by (rule canonical_set_conditions_false)

lemma mark_unknown_loop_eq:
  "mark_unknown_loop rfc (mgr C n) t reason msg b conds s =
     (if \<exists>d \<in> set conds. abs s d = Some ConditionFalse
      then Inl (if abs s (happyType C) \<noteq> Some ConditionFalse
                then MarkFalse rfc (mgr C n) (happyType C) reason msg s else s)
      else Inr (b \<or> t \<in> set conds))"
  by (induction conds arbitrary: b) auto

lemma abs_MarkTrue:
  assumes "wf s"
  shows "abs (MarkTrue rfc (mgr C n) t reason msg s) = spec C (True_of t) (abs s)"
proof -
  let ?s = "SetCondition rfc (mgr C n) (new_condition t ConditionTrue reason msg) s"
  have s: "abs ?s = (abs s)(t \<mapsto> ConditionTrue)" and w: "wf ?s"
    using assms by (simp_all add: abs_SetCondition wf_SetCondition new_condition_def)
  have "abs (SetCondition rfc (mgr C n) (new_condition h ConditionTrue r []) ?s) =
      ((abs s)(t \<mapsto> ConditionTrue))(h \<mapsto> ConditionTrue)" for h r
    using w s by (simp add: abs_SetCondition new_condition_def)
  with s show ?thesis by (auto simp: MarkTrue_def all_true_def Let_def)
qed

lemma abs_MarkUnknown:
  assumes "wf s"
  shows "abs (MarkUnknown rfc (mgr C n) t reason msg s) = spec C (Unknown_of t) (abs s)"
proof -
  let ?s = "SetCondition rfc (mgr C n) (new_condition t ConditionUnknown reason msg) s"
  have s: "abs ?s = (abs s)(t \<mapsto> ConditionUnknown)" and w: "wf ?s"
    using assms by (simp_all add: abs_SetCondition wf_SetCondition new_condition_def)
  have "abs (SetCondition rfc (mgr C n) (new_condition h ConditionUnknown reason msg) ?s) =
      ((abs s)(t \<mapsto> ConditionUnknown))(h \<mapsto> ConditionUnknown)" for h
    using w s by (simp add: abs_SetCondition new_condition_def)
  moreover have "abs (MarkFalse rfc (mgr C n) h reason msg ?s) =
      spec C (False_of h) ((abs s)(t \<mapsto> ConditionUnknown))" for h
    using w s by (simp add: abs_MarkFalse)
  ultimately show ?thesis using s
    by (auto simp: MarkUnknown_def some_false_def Let_def mark_unknown_loop_eq fun_upd_idem)
qed

lemma wf_MarkTrue: "wf s \<Longrightarrow> wf (MarkTrue rfc (mgr C n) t reason msg s)"
  by (simp add: MarkTrue_def Let_def wf_SetCondition)

lemma wf_MarkUnknown: "wf s \<Longrightarrow> wf (MarkUnknown rfc (mgr C n) t reason msg s)"
  by (simp add: MarkUnknown_def Let_def mark_unknown_loop_eq wf_SetCondition wf_MarkFalse)

lemma canonical_MarkTrue:
  "canonical (GetConditions A s)
    \<Longrightarrow> canonical (GetConditions A (MarkTrue rfc (mgr C n) t reason msg s))"
  by (simp add: MarkTrue_def Let_def canonical_SetCondition)

lemma canonical_MarkUnknown:
  "canonical (GetConditions A s)
    \<Longrightarrow> canonical (GetConditions A (MarkUnknown rfc (mgr C n) t reason msg s))"
  by (simp add: MarkUnknown_def Let_def mark_unknown_loop_eq canonical_SetCondition
      canonical_MarkFalse)

lemma initializeTerminalCondition_snd:
  "snd (initializeTerminalCondition rfc (mgr C n) t reason st s) =
     (if abs s t = None then SetCondition rfc (mgr C n) (new_condition t st reason []) s else s)"
  by (auto simp: initializeTerminalCondition_def Let_def lookup_None [symmetric] split: option.split)

lemma initialize_dependents_facts:
  assumes "wf s"
  shows "wf (initialize_dependents rfc (mgr C n) st ts s)"
    and "abs (initialize_dependents rfc (mgr C n) st ts s) =
      (\<lambda>t. if t \<in> set ts \<and> abs s t = None then Some st else abs s t)"
  using assms
  by (induction ts arbitrary: s)
    (auto simp: initializeTerminalCondition_snd wf_SetCondition abs_SetCondition new_condition_def
      fun_eq_iff)

lemma canonical_initialize_dependents:
  "canonical (GetConditions A s)
    \<Longrightarrow> canonical (GetConditions A (initialize_dependents rfc (mgr C n) st ts s))"
  by (induction ts arbitrary: s)
    (auto simp: initializeTerminalCondition_snd canonical_SetCondition)

lemma canonical_InitializeConditions:
  "canonical (GetConditions A s)
    \<Longrightarrow> canonical (GetConditions A (InitializeConditions rfc (mgr C n) s))"
  by (simp add: InitializeConditions_def Let_def canonical_initialize_dependents
      canonical_SetCondition split: option.split)

lemma InitializeConditions_facts:
  assumes "wf s"
  shows "wf (InitializeConditions rfc (mgr C n) s)"
    and "abs (InitializeConditions rfc (mgr C n) s) = spec C Initialize (abs s)"
proof -
  let ?u = "new_condition (happyType C) ConditionUnknown ''Initializing'' []"
  have w: "wf (SetCondition rfc (mgr C n) ?u s)"
    and a: "abs (SetCondition rfc (mgr C n) ?u s) = (abs s)(happyType C \<mapsto> ConditionUnknown)"
    using assms by (simp_all add: wf_SetCondition abs_SetCondition new_condition_def)
  show "wf (InitializeConditions rfc (mgr C n) s)"
    using assms w
    by (auto simp: InitializeConditions_def Let_def initialize_dependents_facts split: option.split)
  show "abs (InitializeConditions rfc (mgr C n) s) = spec C Initialize (abs s)"
  proof (cases "lookup s (happyType C)")
    case None
    then have "abs s (happyType C) = None" by (simp add: lookup_None)
    with None a w show ?thesis
      by (auto simp: InitializeConditions_def Let_def initialize_dependents_facts fun_eq_iff
          new_condition_def)
  next
    case (Some c)
    then have "abs s (happyType C) = Some (condStatus c)" by (simp add: abs_def)
    with Some assms show ?thesis
      by (auto simp: InitializeConditions_def Let_def initialize_dependents_facts fun_eq_iff)
  qed
qed

lemma ClearCondition_facts:
  "wf s \<Longrightarrow> wf (snd (ClearCondition (mgr C n) t s))"
  "wf s \<Longrightarrow> abs (snd (ClearCondition (mgr C n) t s)) = spec C (Clear t) (abs s)"
  "canonical (GetConditions A s) \<Longrightarrow> canonical (GetConditions A (snd (ClearCondition (mgr C n) t s)))"
  by (auto simp: ClearCondition_def isTerminal_def wf_def canonical_def get_set abs_def lookup_def
      first_of_type_sort first_of_type_filter distinct_map_filter fun_eq_iff split: option.split)

end

interpretation api: conditions_accessor Status_accessor
  by unfold_locales (simp add: Status_accessor_def Status_GetConditions_def Status_SetConditions_def)

section \<open>The manager of a status structure\<close>

definition status_manager :: "ConditionSet \<Rightarrow> int \<Rightarrow> api_status conditionsImpl" where
  "status_manager C n = ManageWithContext C n (Some Status_accessor)"

text \<open>The status of every type, as \<open>Status.GetCondition\<close> reports it.\<close>

definition statuses_of :: "api_status \<Rightarrow> statuses" where
  "statuses_of s t = map_option condStatus (Status_GetCondition s t)"

text \<open>One call on the manager of \<open>C\<close> at time \<open>n\<close>.\<close>

fun manager_call ::
    "(int \<Rightarrow> int) \<Rightarrow> ConditionSet \<Rightarrow> int \<Rightarrow> cond_op \<Rightarrow> string \<Rightarrow> string \<Rightarrow> api_status \<Rightarrow> api_status" where
  "manager_call rfc C n Initialize reason msg s = InitializeConditions rfc (status_manager C n) s"
| "manager_call rfc C n (True_of t) reason msg s = MarkTrue rfc (status_manager C n) t reason msg s"
| "manager_call rfc C n (Unknown_of t) reason msg s =
     MarkUnknown rfc (status_manager C n) t reason msg s"
| "manager_call rfc C n (False_of t) reason msg s = MarkFalse rfc (status_manager C n) t reason msg s"
| "manager_call rfc C n (Clear t) reason msg s = snd (ClearCondition (status_manager C n) t s)"
| "manager_call rfc C n (Set_to c) reason msg s = SetCondition rfc (status_manager C n) c s"

lemma status_manager_api: "status_manager C n = api.mgr C n"
  by (simp add: status_manager_def api.mgr_def)

lemma Status_accessor_sel [simp]:
  "GetConditions Status_accessor s = statusConditions s"
  "SetConditions Status_accessor s cs = s\<lparr>statusConditions := cs\<rparr>"
  by (simp_all add: Status_accessor_def Status_GetConditions_def Status_SetConditions_def)

lemma statuses_of_api: "statuses_of s = api.abs s"
  by (simp add: statuses_of_def api.abs_def api.lookup_def Status_GetCondition_def fun_eq_iff)

lemma manager_call_wf:
  "api.wf s \<Longrightarrow> api.wf (manager_call rfc C n call reason msg s)"
  by (cases call) (simp_all add: status_manager_api api.InitializeConditions_facts api.wf_MarkTrue
      api.wf_MarkUnknown api.wf_MarkFalse api.ClearCondition_facts api.wf_SetCondition)

lemma manager_call_canonical:
  "canonical (statusConditions s)
    \<Longrightarrow> canonical (statusConditions (manager_call rfc C n call reason msg s))"
  using api.canonical_InitializeConditions [of s] api.canonical_MarkTrue [of s]
    api.canonical_MarkUnknown [of s] api.canonical_MarkFalse [of s] api.ClearCondition_facts(3) [of s]
    api.canonical_SetCondition [of s]
  by (cases call) (simp_all add: status_manager_api)

lemma manager_call_spec:
  "api.wf s \<Longrightarrow> api.abs (manager_call rfc C n call reason msg s) = spec C call (api.abs s)"
  by (cases call) (simp_all add: status_manager_api api.InitializeConditions_facts api.abs_MarkTrue
      api.abs_MarkUnknown api.abs_MarkFalse api.ClearCondition_facts api.abs_SetCondition
      del: spec.simps(1-5))

lemma api_wf_iff: "api.wf s \<longleftrightarrow> distinct (map condType (statusConditions s))"
  by (simp add: api.wf_def)

text \<open>
  SetCondition on a status whose conditions are sorted by type without duplicates keeps them so,
  leaves every other type alone, and stores the new condition; when it differs from the stored one
  only in its transition time the status is not touched, otherwise the transition time is the
  manager's clock.
\<close>

theorem SetCondition_correct:
  assumes "canonical (statusConditions s)"
  shows "canonical (statusConditions (SetCondition rfc (status_manager C n) new s)) \<and>
    (\<forall>t. t \<noteq> condType new \<longrightarrow>
       Status_GetCondition (SetCondition rfc (status_manager C n) new s) t = Status_GetCondition s t) \<and>
    (case Status_GetCondition s (condType new) of
       Some c \<Rightarrow>
         if new\<lparr>condLastTransitionTime := condLastTransitionTime c\<rparr> = c
         then SetCondition rfc (status_manager C n) new s = s
         else Status_GetCondition (SetCondition rfc (status_manager C n) new s) (condType new)
                = Some (new\<lparr>condLastTransitionTime := rfc n\<rparr>)
     | None \<Rightarrow>
         Status_GetCondition (SetCondition rfc (status_manager C n) new s) (condType new)
           = Some (new\<lparr>condLastTransitionTime := rfc n\<rparr>))"
proof -
  have wf: "api.wf s" using assms by (simp add: api_wf_iff canonical_def)
  have l: "Status_GetCondition s' t = api.lookup s' t" for s' t
    by (simp add: Status_GetCondition_def api.lookup_def)
  have same: "SetCondition rfc (status_manager C n) new s = s"
    if "api.lookup s (condType new) = Some c"
      and "new\<lparr>condLastTransitionTime := condLastTransitionTime c\<rparr> = c" for c
    using that wf
    by (simp add: SetCondition_def status_manager_api api.lookup_def api.wf_def set_condition_loop_eq)
  show ?thesis
    using assms wf same api.canonical_SetCondition [of s rfc C n new]
    by (auto simp: l status_manager_api api.lookup_SetCondition api.stored_def split: option.split)
qed

theorem SetCondition_correct_witness:
  "canonical (statusConditions (SetCondition id (status_manager (NewLivingConditionSet []) 5)
      (new_condition ''Ready'' ConditionTrue ''Up'' [])
      \<lparr>statusObservedGeneration = 1, statusConditions = []\<rparr>))"
  by (rule SetCondition_correct [THEN conjunct1]) (simp add: canonical_def)

text \<open>
  C8. Refinement of the condition manager: on a status without duplicate condition types every
  operation of the manager that changes the status, \<open>InitializeConditions\<close>, \<open>MarkTrue\<close>,
  \<open>MarkUnknown\<close>, \<open>MarkFalse\<close>, \<open>ClearCondition\<close> and \<open>SetCondition\<close>, changes the statuses of the
  condition types exactly as the abstract specification on maps says, whatever the reasons, messages
  and clock, and only clearing the happy condition or a dependent is refused with an error.  By the
  specification a condition that is not a dependent is marked without touching the happy one, and
  without dependents the happy condition never follows, unlike the comments on the Mark functions.
\<close>

theorem manager_refines_spec:
  assumes "distinct (map condType (statusConditions s))"
  shows "statuses_of (manager_call rfc C n call reason msg s) = spec C call (statuses_of s) \<and>
    (fst (ClearCondition (status_manager C n) t s) \<noteq> None \<longleftrightarrow>
       t = happyType C \<or> t \<in> set (dependents C))"
proof
  show "statuses_of (manager_call rfc C n call reason msg s) = spec C call (statuses_of s)"
    unfolding statuses_of_api using assms by (intro manager_call_spec) (simp add: api_wf_iff)
  show "fst (ClearCondition (status_manager C n) t s) \<noteq> None \<longleftrightarrow>
      t = happyType C \<or> t \<in> set (dependents C)"
    by (auto simp: ClearCondition_def isTerminal_def status_manager_api split: option.split)
qed

theorem manager_refines_spec_witness:
  "statuses_of (manager_call id (NewLivingConditionSet [''A'', ''B'']) 7 (False_of ''B'') ''R'' []
      \<lparr>statusObservedGeneration = 0, statusConditions = []\<rparr>) ''Ready'' = Some ConditionFalse"
  by (subst manager_refines_spec [THEN conjunct1])
    (simp_all add: NewLivingConditionSet_def NewLivingConditionSetWithHappyReason_def
      newConditionSet_def ConditionReady_def)

section \<open>Every reachable status\<close>

text \<open>
  A status starts empty, is initialised and then goes through any sequence of calls at any times,
  by any managers of the same condition set, none of which marks the happy condition itself or sets
  it or a dependent with \<open>SetCondition\<close>, behind the back of the Mark functions.
\<close>

definition marks_happy :: "ConditionSet \<Rightarrow> cond_op \<Rightarrow> bool" where
  "marks_happy C call \<longleftrightarrow>
     call = True_of (happyType C) \<or> call = Unknown_of (happyType C) \<or> call = False_of (happyType C) \<or>
     (\<exists>c. call = Set_to c \<and> (condType c = happyType C \<or> condType c \<in> set (dependents C)))"

inductive reachable_status :: "(int \<Rightarrow> int) \<Rightarrow> ConditionSet \<Rightarrow> api_status \<Rightarrow> bool" for rfc C where
  start: "statusConditions s = []
    \<Longrightarrow> reachable_status rfc C (manager_call rfc C n Initialize [] [] s)"
| step: "reachable_status rfc C s \<Longrightarrow> \<not> marks_happy C call
    \<Longrightarrow> reachable_status rfc C (manager_call rfc C n call reason msg s)"

definition status_invariant :: "ConditionSet \<Rightarrow> statuses \<Rightarrow> bool" where
  "status_invariant C m \<longleftrightarrow>
     (m (happyType C) = Some ConditionTrue \<longrightarrow> all_true C m) \<and>
     m (happyType C) \<noteq> None \<and> (\<forall>d \<in> set (dependents C). m d \<noteq> None)"

lemma spec_Initialize_empty: "status_invariant C (spec C Initialize (\<lambda>_. None))"
  by (auto simp: status_invariant_def all_true_def Let_def)

lemma spec_invariant:
  assumes "status_invariant C m" and "\<not> marks_happy C call"
  shows "status_invariant C (spec C call m)"
  using assms
  by (cases call)
    (auto simp: status_invariant_def all_true_def some_false_def marks_happy_def Let_def)

lemma reachable_status_facts:
  "reachable_status rfc C s \<Longrightarrow>
     canonical (statusConditions s) \<and> status_invariant C (statuses_of s)"
proof (induction rule: reachable_status.induct)
  case (start s n)
  have c: "canonical (statusConditions s)" using start by (simp add: canonical_def)
  then have w: "api.wf s" by (simp add: api_wf_iff canonical_def)
  have "api.abs s = (\<lambda>_. None)"
    using start by (simp add: api.abs_def api.lookup_def fun_eq_iff)
  with manager_call_canonical [OF c] manager_call_spec [OF w] show ?case
    by (simp add: statuses_of_api spec_Initialize_empty del: spec.simps manager_call.simps)
next
  case (step s call n reason msg)
  then have w: "api.wf s" by (simp add: api_wf_iff canonical_def)
  with step manager_call_canonical manager_call_spec [OF w] spec_invariant show ?case
    by (simp add: statuses_of_api del: spec.simps manager_call.simps)
qed

text \<open>
  C9. Invariant of every status the condition manager can reach from an empty one, as long as nobody
  marks the happy condition directly or sets it or a dependent with \<open>SetCondition\<close>: the conditions are sorted by type without duplicates, the
  happy condition and all dependents are present, and a happy status has every dependent true.
\<close>

theorem reachable_status_invariant:
  assumes "reachable_status rfc C s"
  shows "sorted (map condType (statusConditions s)) \<and> distinct (map condType (statusConditions s)) \<and>
    Status_GetCondition s (happyType C) \<noteq> None \<and>
    (\<forall>d \<in> set (dependents C). Status_GetCondition s d \<noteq> None) \<and>
    (IsHappy (status_manager C n) s \<longrightarrow>
       (\<forall>d \<in> set (dependents C). ConditionIsTrue (Status_GetCondition s d)))"
proof -
  have l: "Status_GetCondition s t = api.lookup s t" for t
    by (simp add: Status_GetCondition_def api.lookup_def)
  have "IsHappy (status_manager C n) s \<longleftrightarrow> api.abs s (happyType C) = Some ConditionTrue"
    by (auto simp: IsHappy_def status_manager_api ConditionIsTrue_def api.abs_def split: option.split)
  moreover have "api.abs s t \<noteq> None \<longleftrightarrow> api.lookup s t \<noteq> None" for t
    by (simp add: api.abs_def)
  moreover have "api.abs s t = Some ConditionTrue \<Longrightarrow> ConditionIsTrue (api.lookup s t)" for t
    by (auto simp: api.abs_def ConditionIsTrue_def split: option.splits)
  ultimately show ?thesis
    using reachable_status_facts [OF assms]
    unfolding canonical_def status_invariant_def all_true_def statuses_of_api l by blast
qed

theorem reachable_status_invariant_witness:
  "Status_GetCondition (manager_call id (NewLivingConditionSet [''A'']) 3 (True_of ''A'') [] []
     (manager_call id (NewLivingConditionSet [''A'']) 1 Initialize [] []
       \<lparr>statusObservedGeneration = 0, statusConditions = []\<rparr>)) ''Ready'' \<noteq> None"
proof -
  let ?C = "NewLivingConditionSet [''A'']"
  have h: "happyType ?C = ''Ready''"
    by (simp add: NewLivingConditionSet_def NewLivingConditionSetWithHappyReason_def
        newConditionSet_def ConditionReady_def)
  have "reachable_status id ?C (manager_call id ?C 3 (True_of ''A'') [] []
     (manager_call id ?C 1 Initialize [] [] \<lparr>statusObservedGeneration = 0, statusConditions = []\<rparr>))"
    by (intro reachable_status.step reachable_status.start) (simp_all add: marks_happy_def h)
  from reachable_status_invariant [OF this] h show ?thesis by simp
qed

end
