(* ===== verification/Results.thy ===== *)
theory Results
  imports Prelude
begin

text \<open>
  Reconcile results and the helpers of \<^verbatim>\<open>src/reconcilers/reconcilers.go\<close> that combine plain values:
  \<open>AggregateResults\<close> and \<open>MergeMaps\<close>.  The binary form of \<open>AggregateResults\<close>, which \<open>Sequence\<close>,
  \<open>While\<close>, \<open>TryCatch\<close> and \<open>SyncReconciler\<close> use, is shown to be a semilattice, so the order and
  the grouping in which results are combined never matter.
\<close>

section \<open>AggregateResults\<close>

text \<open>
  \<open>reconcile.Result\<close> of controller-runtime: two plain fields.  \<open>RequeueAfter\<close> is a signed duration
  that the code only compares, so it is an \<open>int\<close>; the zero duration is \<open>0\<close>.
\<close>

record result =
  Requeue :: bool
  RequeueAfter :: int

definition empty_result :: result where
  "empty_result = \<lparr>Requeue = False, RequeueAfter = 0\<rparr>"

text \<open>The body of the loop of \<open>AggregateResults\<close>.\<close>

definition aggregate_step :: "result \<Rightarrow> result \<Rightarrow> result" where
  "aggregate_step aggregate result =
     (let aggregate =
        (if RequeueAfter result \<noteq> 0 \<and>
            (RequeueAfter aggregate = 0 \<or> RequeueAfter result < RequeueAfter aggregate)
         then aggregate\<lparr>RequeueAfter := RequeueAfter result\<rparr>
         else aggregate)
      in if Requeue result then aggregate\<lparr>Requeue := True\<rparr> else aggregate)"

definition AggregateResults :: "result list \<Rightarrow> result" where
  "AggregateResults results = foldl aggregate_step empty_result results"

text \<open>The least non-zero delay of two, \<open>0\<close> standing for "no delay asked for".\<close>

definition sooner :: "int \<Rightarrow> int \<Rightarrow> int" where
  "sooner a b = (if a = 0 then b else if b = 0 then a else min a b)"

lemma sooner_zero [simp]: "sooner 0 a = a" "sooner a 0 = a"
  by (simp_all add: sooner_def)

interpretation sooner: semilattice_neutr sooner 0
  by unfold_locales (auto simp: sooner_def min_def)

lemma aggregate_step_eq:
  "aggregate_step a r =
     \<lparr>Requeue = Requeue a \<or> Requeue r, RequeueAfter = sooner (RequeueAfter a) (RequeueAfter r)\<rparr>"
  by (cases a; cases r) (auto simp: aggregate_step_def sooner_def min_def Let_def)

lemma aggregate_step_sel [simp]:
  "Requeue (aggregate_step a r) \<longleftrightarrow> Requeue a \<or> Requeue r"
  "RequeueAfter (aggregate_step a r) = sooner (RequeueAfter a) (RequeueAfter r)"
  by (simp_all add: aggregate_step_eq)

lemma empty_result_sel [simp]: "\<not> Requeue empty_result" "RequeueAfter empty_result = 0"
  by (simp_all add: empty_result_def)

interpretation aggregate: semilattice_neutr aggregate_step empty_result
  by unfold_locales
    (auto simp: aggregate_step_eq empty_result_def sooner.assoc sooner.commute sooner.left_commute)

lemma foldl_aggregate_step:
  "foldl aggregate_step a rs = aggregate_step a (AggregateResults rs)"
proof (induction rs arbitrary: a)
  case Nil
  then show ?case by (simp add: AggregateResults_def)
next
  case (Cons r rs)
  have "AggregateResults (r # rs) = aggregate_step r (AggregateResults rs)"
    using Cons.IH [of r] by (simp add: AggregateResults_def)
  with Cons.IH [of "aggregate_step a r"] show ?case
    by (simp add: aggregate.assoc)
qed

lemma AggregateResults_Nil [simp]: "AggregateResults [] = empty_result"
  by (simp add: AggregateResults_def)

lemma AggregateResults_Cons [simp]:
  "AggregateResults (r # rs) = aggregate_step r (AggregateResults rs)"
  using foldl_aggregate_step [of r rs] by (simp add: AggregateResults_def)

lemma AggregateResults_append:
  "AggregateResults (rs @ ss) = aggregate_step (AggregateResults rs) (AggregateResults ss)"
  by (induction rs) (simp_all add: aggregate.assoc)

lemma Requeue_AggregateResults: "Requeue (AggregateResults rs) \<longleftrightarrow> (\<exists>r \<in> set rs. Requeue r)"
  by (induction rs) auto

lemma RequeueAfter_AggregateResults_zero:
  "RequeueAfter (AggregateResults rs) = 0 \<longleftrightarrow> (\<forall>r \<in> set rs. RequeueAfter r = 0)"
  by (induction rs) (auto simp: sooner_def min_def)

lemma RequeueAfter_AggregateResults_le:
  "r \<in> set rs \<Longrightarrow> RequeueAfter r \<noteq> 0 \<Longrightarrow> RequeueAfter (AggregateResults rs) \<le> RequeueAfter r"
  by (induction rs) (auto simp: sooner_def min_def RequeueAfter_AggregateResults_zero)

lemma RequeueAfter_AggregateResults_mem:
  "RequeueAfter (AggregateResults rs) \<noteq> 0
    \<Longrightarrow> \<exists>r \<in> set rs. RequeueAfter r = RequeueAfter (AggregateResults rs)"
  by (induction rs) (auto simp: sooner_def min_def split: if_splits)

lemma AggregateResults_set:
  "AggregateResults rs =
     \<lparr>Requeue = (\<exists>r \<in> set rs. Requeue r),
      RequeueAfter = (let delays = {RequeueAfter r | r. r \<in> set rs \<and> RequeueAfter r \<noteq> 0}
                      in if delays = {} then 0 else Min delays)\<rparr>"
proof -
  let ?D = "{RequeueAfter r | r. r \<in> set rs \<and> RequeueAfter r \<noteq> 0}"
  have fin: "finite ?D" by simp
  have "RequeueAfter (AggregateResults rs) = (if ?D = {} then 0 else Min ?D)"
  proof (cases "?D = {}")
    case True
    then have "\<forall>r \<in> set rs. RequeueAfter r = 0" by blast
    with True show ?thesis by (simp add: RequeueAfter_AggregateResults_zero)
  next
    case False
    then have nz: "RequeueAfter (AggregateResults rs) \<noteq> 0"
      by (auto simp: RequeueAfter_AggregateResults_zero)
    then have "RequeueAfter (AggregateResults rs) \<in> ?D"
      using RequeueAfter_AggregateResults_mem [OF nz] by (auto intro: sym)
    moreover have "\<forall>d \<in> ?D. RequeueAfter (AggregateResults rs) \<le> d"
      using RequeueAfter_AggregateResults_le by blast
    ultimately have "Min ?D = RequeueAfter (AggregateResults rs)"
      by (intro Min_eqI fin) blast+
    then show ?thesis unfolding if_not_P [OF False] by (rule sym)
  qed
  then show ?thesis
    by (simp add: Requeue_AggregateResults result.equality Let_def)
qed

text \<open>
  C11. AggregateResults, for any number of results: the aggregate asks for a requeue exactly when
  some result does, and its delay is the shortest non-zero delay among the results, or zero when
  none has a delay.
\<close>

theorem AggregateResults_spec:
  "Requeue (AggregateResults results) = (\<exists>r \<in> set results. Requeue r) \<and>
   RequeueAfter (AggregateResults results) =
     (let delays = {RequeueAfter r | r. r \<in> set results \<and> RequeueAfter r \<noteq> 0}
      in if delays = {} then 0 else Min delays)"
  by (subst (1 2) AggregateResults_set) simp

text \<open>
  AggregateResults depends only on the set of results: permuting them, repeating them or
  aggregating any prefix first and the rest later gives the same aggregate.
\<close>

theorem AggregateResults_order_irrelevant:
  assumes "set rs = set ss"
  shows "AggregateResults rs = AggregateResults ss \<and>
    AggregateResults (AggregateResults (take n rs) # drop n rs) = AggregateResults ss"
proof -
  have "AggregateResults rs = AggregateResults ss"
    using assms by (simp add: AggregateResults_set)
  moreover have "AggregateResults (AggregateResults (take n rs) # drop n rs) = AggregateResults rs"
    by (metis AggregateResults_append AggregateResults_Cons append_take_drop_id)
  ultimately show ?thesis by simp
qed

theorem AggregateResults_order_irrelevant_witness:
  "AggregateResults [\<lparr>Requeue = True, RequeueAfter = 0\<rparr>, \<lparr>Requeue = False, RequeueAfter = 60\<rparr>]
   = AggregateResults [\<lparr>Requeue = False, RequeueAfter = 60\<rparr>, \<lparr>Requeue = True, RequeueAfter = 0\<rparr>]"
  by (rule AggregateResults_order_irrelevant [THEN conjunct1]) auto

section \<open>MergeMaps\<close>

text \<open>
  \<open>MergeMaps\<close> copies the maps into a fresh one, in order; each inner loop is \<open>out ++ m\<close>, whatever
  order the keys are visited in, because the keys of one map are distinct.
\<close>

fun merge_maps_into :: "(string \<rightharpoonup> string) \<Rightarrow> (string \<rightharpoonup> string) list \<Rightarrow> (string \<rightharpoonup> string)" where
  "merge_maps_into out [] = out"
| "merge_maps_into out (m # maps) = merge_maps_into (out ++ m) maps"

definition MergeMaps :: "(string \<rightharpoonup> string) list \<Rightarrow> (string \<rightharpoonup> string)" where
  "MergeMaps maps = merge_maps_into Map.empty maps"

lemma merge_maps_into_eq: "merge_maps_into out maps = out ++ MergeMaps maps"
proof (induction maps arbitrary: out)
  case Nil
  then show ?case by (simp add: MergeMaps_def)
next
  case (Cons m maps)
  from Cons.IH [of "Map.empty ++ m"] Cons.IH [of "out ++ m"] show ?case
    by (simp add: MergeMaps_def)
qed

lemma MergeMaps_Nil [simp]: "MergeMaps [] = Map.empty"
  by (simp add: MergeMaps_def)

lemma MergeMaps_Cons [simp]: "MergeMaps (m # ms) = m ++ MergeMaps ms"
  using merge_maps_into_eq [of m ms] by (simp add: MergeMaps_def)

lemma MergeMaps_append: "MergeMaps (ms @ ns) = MergeMaps ms ++ MergeMaps ns"
  by (induction ms) simp_all

lemma MergeMaps_lookup:
  "MergeMaps ms k = (case filter (\<lambda>m. m k \<noteq> None) ms of [] \<Rightarrow> None | ns \<Rightarrow> last ns k)"
proof (induction ms rule: rev_induct)
  case Nil
  then show ?case by simp
next
  case (snoc m ms)
  then show ?case
    by (cases "m k") (auto simp: MergeMaps_append map_add_def split: list.splits)
qed

end
