(* ===== verification/Tracker.thy ===== *)
theory Tracker
  imports Objects "HOL-Library.AList"
begin

text \<open>
  The reference tracker of \<^verbatim>\<open>src/tracker/enqueue.go\<close> and \<^verbatim>\<open>src/tracker/interface.go\<close>: a table of
  leases, each saying that one object watches another by name or by selector until it expires.  Go
  maps are association lists with distinct keys; the mutex makes each operation atomic, so an
  operation is a function of the table and of the clock it reads.  The record \<open>refs_lib\<close> stands for the
  apimachinery and client-go functions the tracker calls.
\<close>

section \<open>Data\<close>

text \<open>A \<open>labels.Selector\<close>, known by how it was built; rendering and matching belong to apimachinery.\<close>

datatype selector = Selector string

record Reference =
  refAPIGroup :: string
  refKind :: string
  refNamespace :: string
  refName :: string
  refSelector :: "selector option"

record object_reference =
  orAPIVersion :: string
  orKind :: string
  orNamespace :: string
  orName :: string

record refs_lib =
  GetReference :: "object \<Rightarrow> err + object_reference"
  FromAPIVersionAndKind :: "string \<Rightarrow> string \<Rightarrow> gvk"
  ParseGroupVersion :: "string \<Rightarrow> err + (string \<times> string)"
  IsCIdentifier :: "string \<Rightarrow> string list"
  IsDNS1123Subdomain :: "string \<Rightarrow> string list"
  IsDNS1123Label :: "string \<Rightarrow> string list"
  selString :: "selector \<Rightarrow> string"
  selMatches :: "selector \<Rightarrow> (string \<times> string) list \<Rightarrow> bool"

record matcherKey =
  mkSelector :: string
  mkNamespace :: string

record matcher =
  mSelector :: selector
  mExpiry :: int

type_synonym exactSet = "(namespaced_name \<times> int) list"
type_synonym matchers = "(matcherKey \<times> matcher) list"
type_synonym inexactSet = "(namespaced_name \<times> matchers) list"

record impl =
  exact :: "(Reference \<times> exactSet) list"
  inexact :: "(Reference \<times> inexactSet) list"
  leaseDuration :: int

text \<open>\<open>tracker.New\<close>; the scheme is only used inside \<open>GetReference\<close>.\<close>

definition New :: "int \<Rightarrow> impl" where
  "New lease = \<lparr>exact = [], inexact = [], leaseDuration = lease\<rparr>"

section \<open>TrackReference\<close>

definition reference_errors :: "refs_lib \<Rightarrow> Reference \<Rightarrow> string list" where
  "reference_errors L ref =
     (let invalidFields =
            [(''Kind'', IsCIdentifier L (refKind ref))]
            @ (if refAPIGroup ref \<noteq> []
               then [(''APIGroup'', IsDNS1123Subdomain L (refAPIGroup ref))] else [])
            @ (if refNamespace ref \<noteq> []
               then [(''Namespace'', IsDNS1123Label L (refNamespace ref))] else []);
          (fieldErrors, invalidFields) =
            (if refSelector ref \<noteq> None \<and> refName ref \<noteq> []
             then ([''cannot provide both Name and Selector''], invalidFields)
             else if refName ref \<noteq> []
             then ([], invalidFields @ [(''Name'', IsDNS1123Subdomain L (refName ref))])
             else if refSelector ref \<noteq> None then ([], invalidFields)
             else ([''must provide either Name or Selector''], invalidFields))
      in fieldErrors
         @ concat (map (\<lambda>(k, v). map (\<lambda>msg. k @ '': '' @ msg) v) invalidFields))"

fun join :: "string \<Rightarrow> string list \<Rightarrow> string" where
  "join sep [] = []"
| "join sep [x] = x"
| "join sep (x # xs) = x @ sep @ join sep xs"

definition observer_key :: "object \<Rightarrow> namespaced_name" where
  "observer_key obj = \<lparr>nnNamespace = objNamespace obj, nnName = objName obj\<rparr>"

definition partialRef :: "Reference \<Rightarrow> Reference" where
  "partialRef ref =
     \<lparr>refAPIGroup = refAPIGroup ref, refKind = refKind ref, refNamespace = [], refName = [],
      refSelector = None\<rparr>"

definition TrackReference ::
    "refs_lib \<Rightarrow> impl \<Rightarrow> int \<Rightarrow> Reference \<Rightarrow> object \<Rightarrow> err option \<times> impl" where
  "TrackReference L i now ref obj =
     (let fieldErrors = reference_errors L ref in
      if length fieldErrors > 0
      then (Some (Errorf (''invalid Reference:'' @ [CHR 0x0A] @ ''%s'')
                  [join [CHR 0x0A] (sort fieldErrors)]), i)
      else
        (let key = observer_key obj in
         case refSelector ref of
           None \<Rightarrow>
             (let l = (case map_of (exact i) ref of None \<Rightarrow> [] | Some l \<Rightarrow> l);
                  l = AList.update key (now + leaseDuration i) l
              in (None, i\<lparr>exact := AList.update ref l (exact i)\<rparr>))
         | Some sel \<Rightarrow>
             (let is = (case map_of (inexact i) (partialRef ref) of None \<Rightarrow> [] | Some is \<Rightarrow> is);
                  m = (case map_of is key of None \<Rightarrow> [] | Some m \<Rightarrow> m);
                  m = AList.update
                        \<lparr>mkSelector = selString L sel, mkNamespace = refNamespace ref\<rparr>
                        \<lparr>mSelector = sel, mExpiry = now + leaseDuration i\<rparr> m;
                  is = AList.update key m is
              in (None, i\<lparr>inexact := AList.update (partialRef ref) is (inexact i)\<rparr>))))"

definition TrackObject ::
    "refs_lib \<Rightarrow> impl \<Rightarrow> int \<Rightarrow> object \<Rightarrow> object \<Rightarrow> err option \<times> impl" where
  "TrackObject L i now ref obj =
     (case GetReference L ref of
        Inl e \<Rightarrow> (Some e, i)
      | Inr oref \<Rightarrow>
          (let gvk = FromAPIVersionAndKind L (orAPIVersion oref) (orKind oref)
           in TrackReference L i now
                \<lparr>refAPIGroup = gvkGroup gvk, refKind = gvkKind gvk, refNamespace = orNamespace oref,
                 refName = orName oref, refSelector = None\<rparr> obj))"

section \<open>GetObservers\<close>

text \<open>
  The two nested range loops.  A lapsed entry is deleted from the map under iteration, the others
  stay; \<open>keys\<close> is the set of observers found so far.
\<close>

fun exact_loop :: "int \<Rightarrow> exactSet \<Rightarrow> namespaced_name list \<Rightarrow> exactSet \<times> namespaced_name list" where
  "exact_loop now [] keys = ([], keys)"
| "exact_loop now ((key, expiry) # s) keys =
     (if now > expiry then exact_loop now s keys
      else let (s, keys) = exact_loop now s (List.insert key keys) in ((key, expiry) # s, keys))"

fun matcher_loop ::
    "refs_lib \<Rightarrow> int \<Rightarrow> object \<Rightarrow> namespaced_name \<Rightarrow> matchers \<Rightarrow> namespaced_name list
      \<Rightarrow> matchers \<times> namespaced_name list" where
  "matcher_loop L now obj key [] keys = ([], keys)"
| "matcher_loop L now obj key ((k, m) # ms) keys =
     (if now > mExpiry m then matcher_loop L now obj key ms keys
      else let keys =
                 (if mkNamespace k \<noteq> [] \<and> mkNamespace k \<noteq> objNamespace obj then keys
                  else if \<not> selMatches L (mSelector m) (labels obj) then keys
                  else List.insert key keys);
               (ms, keys) = matcher_loop L now obj key ms keys
           in ((k, m) # ms, keys))"

fun inexact_loop ::
    "refs_lib \<Rightarrow> int \<Rightarrow> object \<Rightarrow> inexactSet \<Rightarrow> namespaced_name list
      \<Rightarrow> inexactSet \<times> namespaced_name list" where
  "inexact_loop L now obj [] keys = ([], keys)"
| "inexact_loop L now obj ((key, ms) # is) keys =
     (let (ms, keys) = matcher_loop L now obj key ms keys;
          (is, keys) = inexact_loop L now obj is keys
      in (if length ms = 0 then is else (key, ms) # is, keys))"

definition GetObservers ::
    "refs_lib \<Rightarrow> impl \<Rightarrow> int \<Rightarrow> object \<Rightarrow> (err + namespaced_name list) \<times> impl" where
  "GetObservers L i now obj =
     (case GetReference L obj of
        Inl e \<Rightarrow> (Inl e, i)
      | Inr oref \<Rightarrow>
          (case ParseGroupVersion L (orAPIVersion oref) of
             Inl e \<Rightarrow> (Inl e, i)
           | Inr (grp, version) \<Rightarrow>
               (let ref = \<lparr>refAPIGroup = grp, refKind = orKind oref, refNamespace = orNamespace oref,
                           refName = orName oref, refSelector = None\<rparr>;
                    (i, keys) =
                      (case map_of (exact i) ref of
                         None \<Rightarrow> (i, [])
                       | Some s \<Rightarrow>
                           (let (s, keys) = exact_loop now s []
                            in (i\<lparr>exact := (if length s = 0 then AList.delete ref (exact i)
                                              else AList.update ref s (exact i))\<rparr>, keys)));
                    ref = ref\<lparr>refName := [], refNamespace := []\<rparr>;
                    (i, keys) =
                      (case map_of (inexact i) ref of
                         None \<Rightarrow> (i, keys)
                       | Some is \<Rightarrow>
                           (let (is, keys) = inexact_loop L now obj is keys
                            in (i\<lparr>inexact := (if length is = 0 then AList.delete ref (inexact i)
                                                else AList.update ref is (inexact i))\<rparr>, keys)))
                in (Inr keys, i))))"

section \<open>The loops\<close>

lemma exact_loop_fst: "fst (exact_loop now s keys) = filter (\<lambda>e. snd e \<ge> now) s"
  by (induction s arbitrary: keys) (auto simp: Let_def case_prod_beta)

lemma exact_loop_snd:
  "set (snd (exact_loop now s keys)) = set keys \<union> {k. \<exists>e. (k, e) \<in> set s \<and> e \<ge> now}"
proof (induction s arbitrary: keys)
  case Nil
  then show ?case by simp
next
  case (Cons a s)
  then show ?case by (cases a) (auto simp: Let_def case_prod_beta)
qed

definition matcher_hits :: "refs_lib \<Rightarrow> int \<Rightarrow> object \<Rightarrow> matcherKey \<times> matcher \<Rightarrow> bool" where
  "matcher_hits L now obj km \<longleftrightarrow>
     mExpiry (snd km) \<ge> now \<and>
     (mkNamespace (fst km) = [] \<or> mkNamespace (fst km) = objNamespace obj) \<and>
     selMatches L (mSelector (snd km)) (labels obj)"

lemma matcher_loop_fst:
  "fst (matcher_loop L now obj key ms keys) = filter (\<lambda>km. mExpiry (snd km) \<ge> now) ms"
  by (induction ms arbitrary: keys) (auto simp: Let_def case_prod_beta)

lemma matcher_loop_snd:
  "set (snd (matcher_loop L now obj key ms keys)) =
     set keys \<union> {k. k = key \<and> (\<exists>km \<in> set ms. matcher_hits L now obj km)}"
proof (induction ms arbitrary: keys)
  case Nil
  then show ?case by simp
next
  case (Cons a ms)
  obtain k m where a: "a = (k, m)" by (cases a)
  show ?case
  proof (cases "matcher_hits L now obj a")
    case True
    then show ?thesis by (auto simp: a Cons.IH Let_def case_prod_beta matcher_hits_def)
  next
    case False
    then show ?thesis by (auto simp: a Cons.IH Let_def case_prod_beta matcher_hits_def)
  qed
qed

lemma inexact_loop_fst:
  "fst (inexact_loop L now obj is keys) =
     filter (\<lambda>e. snd e \<noteq> [])
       (map (\<lambda>(k, ms). (k, filter (\<lambda>km. mExpiry (snd km) \<ge> now) ms)) is)"
  by (induction "is" arbitrary: keys) (auto simp: Let_def case_prod_beta matcher_loop_fst)

lemma inexact_loop_snd:
  "set (snd (inexact_loop L now obj is keys)) =
     set keys \<union> {k. \<exists>ms. (k, ms) \<in> set is \<and> (\<exists>km \<in> set ms. matcher_hits L now obj km)}"
proof (induction "is" arbitrary: keys)
  case Nil
  then show ?case by simp
next
  case (Cons a "is")
  then show ?case by (cases a) (auto simp: Let_def case_prod_beta matcher_loop_snd)
qed

section \<open>Leases as maps\<close>

definition exact_expiry :: "impl \<Rightarrow> Reference \<Rightarrow> namespaced_name \<Rightarrow> int option" where
  "exact_expiry i ref k = Option.bind (map_of (exact i) ref) (\<lambda>s. map_of s k)"

definition inexact_matcher ::
    "impl \<Rightarrow> Reference \<Rightarrow> namespaced_name \<Rightarrow> matcherKey \<Rightarrow> matcher option" where
  "inexact_matcher i ref k mk =
     Option.bind (map_of (inexact i) ref) (\<lambda>is. Option.bind (map_of is k) (\<lambda>ms. map_of ms mk))"

text \<open>
  The representation invariant: keys are distinct at every level, and a matcher sits under the
  rendering of its own selector.
\<close>

definition level :: "('k \<Rightarrow> 'v \<Rightarrow> bool) \<Rightarrow> ('k \<times> 'v) list \<Rightarrow> bool" where
  "level P xs \<longleftrightarrow> distinct (map fst xs) \<and> (\<forall>e \<in> set xs. P (fst e) (snd e))"

definition wf_matchers :: "refs_lib \<Rightarrow> matchers \<Rightarrow> bool" where
  "wf_matchers L = level (\<lambda>mk m. mkSelector mk = selString L (mSelector m))"

definition tracker_wf :: "refs_lib \<Rightarrow> impl \<Rightarrow> bool" where
  "tracker_wf L i \<longleftrightarrow>
     level (\<lambda>_. level (\<lambda>_ _. True)) (exact i) \<and>
     level (\<lambda>_. level (\<lambda>_. wf_matchers L)) (inexact i)"

lemma level_Nil [simp]: "level P []"
  by (simp add: level_def)

lemma wf_matchers_Nil [simp]: "wf_matchers L []"
  by (simp add: wf_matchers_def)

lemma set_update_cases: "e \<in> set (AList.update k v xs) \<Longrightarrow> e = (k, v) \<or> e \<in> set xs"
  by (induction xs) (auto split: if_splits)

lemma level_update: "level P xs \<Longrightarrow> P k v \<Longrightarrow> level P (AList.update k v xs)"
  by (auto simp: level_def distinct_update dest!: set_update_cases)

lemma level_filter: "level P xs \<Longrightarrow> level P (filter Q xs)"
  by (auto simp: level_def distinct_map_filter)

lemma level_delete: "level P xs \<Longrightarrow> level P (AList.delete k xs)"
  unfolding AList.delete_eq by (rule level_filter)

lemma level_map_snd:
  "level P xs \<Longrightarrow> (\<And>k v. P k v \<Longrightarrow> P k (f v)) \<Longrightarrow> level P (map (\<lambda>(k, v). (k, f v)) xs)"
  by (induction xs) (auto simp: level_def image_iff)

lemma level_lookup: "level P xs \<Longrightarrow> map_of xs k = Some v \<Longrightarrow> P k v"
  by (auto simp: level_def dest: map_of_SomeD)

lemma level_default: "level P xs \<Longrightarrow> P k d \<Longrightarrow> P k (case map_of xs k of None \<Rightarrow> d | Some v \<Rightarrow> v)"
  by (auto split: option.split dest: level_lookup)

lemma level_distinct: "level P xs \<Longrightarrow> distinct (map fst xs)"
  by (simp add: level_def)

lemma map_of_filter_snd:
  "distinct (map fst xs) \<Longrightarrow>
     map_of (filter (\<lambda>e. P (snd e)) xs) k = Option.bind (map_of xs k) (\<lambda>v. if P v then Some v else None)"
proof (induction xs)
  case Nil
  then show ?case by simp
next
  case (Cons a xs)
  have "map_of (filter (\<lambda>e. P (snd e)) xs) (fst a) = None"
    using Cons.prems by (auto simp: map_of_eq_None_iff)
  with Cons show ?case by (cases a) auto
qed

lemma map_of_map_snd: "map_of (map (\<lambda>(k, v). (k, f v)) xs) k = map_option f (map_of xs k)"
  by (induction xs) auto

lemma tracker_wf_TrackReference:
  assumes "tracker_wf L i"
  shows "tracker_wf L (snd (TrackReference L i t ref obj))"
proof (cases "refSelector ref")
  case None
  have e: "level (\<lambda>_. level (\<lambda>_ _. True)) (exact i)" using assms by (simp add: tracker_wf_def)
  have "level (\<lambda>_ _. True) (case map_of (exact i) ref of None \<Rightarrow> [] | Some l \<Rightarrow> l)"
    by (rule level_default [OF e]) simp
  then have "level (\<lambda>_ _. True) (AList.update k v (case map_of (exact i) ref of None \<Rightarrow> [] | Some l \<Rightarrow> l))"
    for k v by (rule level_update) simp
  with level_update [OF e] assms None show ?thesis
    by (simp add: TrackReference_def Let_def tracker_wf_def)
next
  case (Some sel)
  let ?is = "case map_of (inexact i) (partialRef ref) of None \<Rightarrow> [] | Some is \<Rightarrow> is"
  let ?m = "case map_of ?is (observer_key obj) of None \<Rightarrow> [] | Some m \<Rightarrow> m"
  have o: "level (\<lambda>_. level (\<lambda>_. wf_matchers L)) (inexact i)" using assms by (simp add: tracker_wf_def)
  have i: "level (\<lambda>_. wf_matchers L) ?is" by (rule level_default [OF o]) simp
  then have "wf_matchers L ?m" by (rule level_default) simp
  then have "wf_matchers L (AList.update \<lparr>mkSelector = selString L sel, mkNamespace = ns\<rparr>
      \<lparr>mSelector = sel, mExpiry = e\<rparr> ?m)" for ns e
    unfolding wf_matchers_def by (rule level_update) simp
  from level_update [OF i, OF this] level_update [OF o] assms Some show ?thesis
    by (simp add: TrackReference_def Let_def tracker_wf_def)
qed

lemma level_prune:
  "level (\<lambda>_. wf_matchers L) is \<Longrightarrow>
     level (\<lambda>_. wf_matchers L) (fst (inexact_loop L now obj is keys))"
  unfolding inexact_loop_fst
  by (intro level_filter level_map_snd) (auto simp: wf_matchers_def intro: level_filter)

text \<open>The two table lookups \<open>GetObservers\<close> makes, as one description of the object asked about.\<close>

definition object_ref :: "refs_lib \<Rightarrow> object \<Rightarrow> Reference option" where
  "object_ref L obj =
     (case GetReference L obj of
        Inl _ \<Rightarrow> None
      | Inr oref \<Rightarrow>
          (case ParseGroupVersion L (orAPIVersion oref) of
             Inl _ \<Rightarrow> None
           | Inr (grp, version) \<Rightarrow>
               Some \<lparr>refAPIGroup = grp, refKind = orKind oref, refNamespace = orNamespace oref,
                     refName = orName oref, refSelector = None\<rparr>))"

definition pruned_exact :: "int \<Rightarrow> Reference \<Rightarrow> impl \<Rightarrow> (Reference \<times> exactSet) list" where
  "pruned_exact now ref i =
     (case map_of (exact i) ref of
        None \<Rightarrow> exact i
      | Some s \<Rightarrow> let s' = filter (\<lambda>e. snd e \<ge> now) s
                  in if s' = [] then AList.delete ref (exact i) else AList.update ref s' (exact i))"

definition pruned_inexact :: "refs_lib \<Rightarrow> int \<Rightarrow> Reference \<Rightarrow> object \<Rightarrow> impl \<Rightarrow> (Reference \<times> inexactSet) list" where
  "pruned_inexact L now ref obj i =
     (case map_of (inexact i) ref of
        None \<Rightarrow> inexact i
      | Some is \<Rightarrow> let is' = fst (inexact_loop L now obj is [])
                   in if is' = [] then AList.delete ref (inexact i)
                      else AList.update ref is' (inexact i))"

lemma GetObservers_None:
  "object_ref L obj = None \<Longrightarrow> \<exists>e. GetObservers L i now obj = (Inl e, i)"
  by (auto simp: object_ref_def GetObservers_def split: sum.splits prod.splits)

lemma GetObservers_Some:
  assumes "object_ref L obj = Some ref"
  shows "snd (GetObservers L i now obj) =
      i\<lparr>exact := pruned_exact now ref i,
        inexact := pruned_inexact L now (partialRef ref) obj i\<rparr>"
    and "\<exists>ks. fst (GetObservers L i now obj) = Inr ks \<and>
      set ks = {k. (\<exists>s e. map_of (exact i) ref = Some s \<and> (k, e) \<in> set s \<and> now \<le> e) \<or>
        (\<exists>is ms. map_of (inexact i) (partialRef ref) = Some is \<and> (k, ms) \<in> set is \<and>
           (\<exists>km \<in> set ms. matcher_hits L now obj km))}"
proof -
  obtain oref version where 1: "GetReference L obj = Inr oref"
      "ParseGroupVersion L (orAPIVersion oref) = Inr (refAPIGroup ref, version)"
      "\<lparr>refAPIGroup = refAPIGroup ref, refKind = orKind oref, refNamespace = orNamespace oref,
        refName = orName oref, refSelector = None\<rparr> = ref"
      and p: "\<lparr>refAPIGroup = refAPIGroup ref, refKind = orKind oref, refNamespace = [],
        refName = [], refSelector = None\<rparr> = partialRef ref"
        "ref\<lparr>refName := [], refNamespace := []\<rparr> = partialRef ref"
    using assms by (auto simp: partialRef_def object_ref_def split: sum.splits prod.splits)
  show "snd (GetObservers L i now obj) =
      i\<lparr>exact := pruned_exact now ref i,
        inexact := pruned_inexact L now (partialRef ref) obj i\<rparr>"
    by (simp add: GetObservers_def 1 p Let_def case_prod_beta pruned_exact_def pruned_inexact_def
        exact_loop_fst inexact_loop_fst split: option.split)
  show "\<exists>ks. fst (GetObservers L i now obj) = Inr ks \<and>
      set ks = {k. (\<exists>s e. map_of (exact i) ref = Some s \<and> (k, e) \<in> set s \<and> now \<le> e) \<or>
        (\<exists>is ms. map_of (inexact i) (partialRef ref) = Some is \<and> (k, ms) \<in> set is \<and>
           (\<exists>km \<in> set ms. matcher_hits L now obj km))}"
    by (auto simp: GetObservers_def 1 p Let_def case_prod_beta exact_loop_snd inexact_loop_snd
        split: option.split)
qed

lemma tracker_wf_GetObservers:
  assumes "tracker_wf L i"
  shows "tracker_wf L (snd (GetObservers L i now obj))"
proof (cases "object_ref L obj")
  case None
  with GetObservers_None [OF None, of i now] assms show ?thesis by auto
next
  case (Some ref)
  have "level (\<lambda>_. level (\<lambda>_ _. True)) (pruned_exact now ref i)"
    using assms
    by (auto simp: tracker_wf_def pruned_exact_def Let_def split: option.split
        intro!: level_update level_delete level_filter dest: level_lookup)
  moreover have "level (\<lambda>_. level (\<lambda>_. wf_matchers L)) (pruned_inexact L now (partialRef ref) obj i)"
    using assms
    by (auto simp: tracker_wf_def pruned_inexact_def Let_def split: option.split
        intro!: level_update level_delete level_prune dest: level_lookup)
  ultimately show ?thesis
    unfolding GetObservers_Some(1) [OF Some] by (simp add: tracker_wf_def)
qed

lemma tracker_wf_New [simp]: "tracker_wf L (New l)"
  by (simp add: tracker_wf_def New_def)

section \<open>What a table says: watch points\<close>

text \<open>
  A reference asks for one watch point: the named object, or the objects of a kind a selector, known
  by its rendering, selects in a namespace.  \<open>current_lease i p k u\<close>: what the lease of the observer \<open>k\<close> on
  \<open>p\<close> selects by if the table holds one that has not lapsed at time \<open>u\<close>, nothing for a named object.
  Two selectors with one rendering share a watch point, so the lease holds the later of them.
\<close>

datatype watch_point = Exactly Reference | Selecting Reference string string

definition watch_point :: "refs_lib \<Rightarrow> Reference \<Rightarrow> watch_point" where
  "watch_point L ref =
     (case refSelector ref of
        None \<Rightarrow> Exactly ref
      | Some sel \<Rightarrow> Selecting (partialRef ref) (selString L sel) (refNamespace ref))"

fun current_lease :: "impl \<Rightarrow> watch_point \<Rightarrow> namespaced_name \<Rightarrow> int \<Rightarrow> selector option option" where
  "current_lease i (Exactly ref) k u =
     Option.bind (exact_expiry i ref k) (\<lambda>e. if u \<le> e then Some None else None)"
| "current_lease i (Selecting ref s ns) k u =
     Option.bind (inexact_matcher i ref k \<lparr>mkSelector = s, mkNamespace = ns\<rparr>)
       (\<lambda>m. if u \<le> mExpiry m then Some (Some (mSelector m)) else None)"

fun concerns :: "refs_lib \<Rightarrow> object \<Rightarrow> watch_point \<Rightarrow> selector option \<Rightarrow> bool" where
  "concerns L obj (Exactly ref) sel \<longleftrightarrow> object_ref L obj = Some ref"
| "concerns L obj (Selecting ref s ns) sel \<longleftrightarrow>
     map_option partialRef (object_ref L obj) = Some ref \<and>
     (ns = [] \<or> ns = objNamespace obj) \<and>
     (case sel of None \<Rightarrow> False | Some sel \<Rightarrow> selMatches L sel (labels obj))"

lemma TrackReference_error:
  "reference_errors L ref \<noteq> [] \<Longrightarrow>
     \<exists>e. TrackReference L i t ref obj = (Some e, i)"
  by (simp add: TrackReference_def Let_def)

lemma TrackReference_ok:
  "reference_errors L ref = [] \<Longrightarrow> fst (TrackReference L i t ref obj) = None"
  by (simp add: TrackReference_def Let_def split: option.split)

lemma lookup_default:
  "map_of (case m of None \<Rightarrow> [] | Some v \<Rightarrow> v) y = Option.bind m (\<lambda>v. map_of v y)"
  by (cases m) simp_all

lemma exact_expiry_TrackReference:
  assumes "reference_errors L ref = []"
  shows "exact_expiry (snd (TrackReference L i t ref obj)) r k =
    (if refSelector ref = None \<and> r = ref \<and> k = observer_key obj
     then Some (t + leaseDuration i) else exact_expiry i r k)"
  using assms
  by (auto simp: TrackReference_def Let_def exact_expiry_def update_conv' lookup_default
      split: option.split)

lemma inexact_matcher_TrackReference:
  assumes "reference_errors L ref = []"
  shows "inexact_matcher (snd (TrackReference L i t ref obj)) r k mk =
    (case refSelector ref of
       None \<Rightarrow> inexact_matcher i r k mk
     | Some sel \<Rightarrow>
         if r = partialRef ref \<and> k = observer_key obj \<and>
            mk = \<lparr>mkSelector = selString L sel, mkNamespace = refNamespace ref\<rparr>
         then Some \<lparr>mSelector = sel, mExpiry = t + leaseDuration i\<rparr>
         else inexact_matcher i r k mk)"
proof (cases "refSelector ref")
  case None
  with assms show ?thesis
    by (simp add: TrackReference_def Let_def inexact_matcher_def)
next
  case (Some sel)
  with assms show ?thesis
    by (auto simp: TrackReference_def Let_def inexact_matcher_def update_conv' lookup_default
        Option.bind_assoc)
qed

lemma leaseDuration_TrackReference [simp]:
  "leaseDuration (snd (TrackReference L i t ref obj)) = leaseDuration i"
  by (simp add: TrackReference_def Let_def split: option.split)

lemma current_TrackReference:
  assumes "reference_errors L ref = []"
  shows "current_lease (snd (TrackReference L i t ref obj)) p k u =
    (if p = watch_point L ref \<and> k = observer_key obj
     then if u \<le> t + leaseDuration i then Some (refSelector ref) else None
     else current_lease i p k u)"
proof (cases p)
  case (Exactly r)
  then show ?thesis
    by (auto simp: exact_expiry_TrackReference [OF assms(1)] watch_point_def split: option.splits)
next
  case (Selecting r s ns)
  then show ?thesis
    by (auto simp: inexact_matcher_TrackReference [OF assms(1)] watch_point_def split: option.splits)
qed

text \<open>Pruning forgets only what has lapsed.\<close>

lemma Option_bind_if: "(if b then Some v else None) \<bind> f = (if b then f v else None)"
  by simp

lemma pruned_exact_current:
  assumes "tracker_wf L i" and "now \<le> u"
  shows "current_lease (i\<lparr>exact := pruned_exact now ref i, inexact := x\<rparr>) (Exactly r) k u =
    current_lease i (Exactly r) k u"
proof (cases "map_of (exact i) ref")
  case None
  then show ?thesis by (simp add: pruned_exact_def exact_expiry_def)
next
  case (Some s)
  with assms have d: "distinct (map fst s)"
    by (auto simp: tracker_wf_def dest: level_lookup level_distinct)
  note f = map_of_filter_snd [OF d, of "\<lambda>e. now \<le> e"]
  let ?g = "\<lambda>e. if u \<le> e then Some (None :: selector option) else None"
  have "Option.bind (map_of (filter (\<lambda>e. now \<le> snd e) s) k) ?g = Option.bind (map_of s k) ?g"
    using f [of k] assms(2) by (cases "map_of s k") auto
  moreover have "filter (\<lambda>e. now \<le> snd e) s = [] \<Longrightarrow> map_of (filter (\<lambda>e. now \<le> snd e) s) k = None"
    by simp
  ultimately show ?thesis
    using Some
    by (auto simp: pruned_exact_def exact_expiry_def Let_def update_conv' delete_conv')
qed

lemma map_of_pruned_level:
  assumes "distinct (map fst xs)"
  shows "map_of (filter (\<lambda>e. snd e \<noteq> []) (map (\<lambda>(k, ms). (k, g ms)) xs)) k =
    Option.bind (map_of xs k) (\<lambda>ms. if g ms = [] then None else Some (g ms))"
proof -
  have "map fst (map (\<lambda>(k, ms). (k, g ms)) xs) = map fst xs" by (simp add: case_prod_beta)
  then have d: "distinct (map fst (map (\<lambda>(k, ms). (k, g ms)) xs))" using assms by argo
  show ?thesis
    unfolding map_of_filter_snd [OF d, of "\<lambda>v. v \<noteq> []" k] map_of_map_snd
    by (cases "map_of xs k") auto
qed

lemma pruned_inexact_current:
  assumes "tracker_wf L i" and "now \<le> u"
  shows "current_lease (i\<lparr>exact := x, inexact := pruned_inexact L now ref obj i\<rparr>) (Selecting r s ns) k u =
    current_lease i (Selecting r s ns) k u"
proof (cases "map_of (inexact i) ref")
  case None
  then show ?thesis by (simp add: pruned_inexact_def inexact_matcher_def)
next
  case (Some xs)
  let ?mk = "\<lparr>mkSelector = s, mkNamespace = ns\<rparr>"
  let ?live = "filter (\<lambda>km. now \<le> mExpiry (snd km))"
  let ?is = "fst (inexact_loop L now obj xs [])"
  let ?g = "\<lambda>m. if u \<le> mExpiry m then Some (Some (mSelector m)) else None"
  from assms Some have w: "level (\<lambda>_. wf_matchers L) xs"
    by (auto simp: tracker_wf_def dest: level_lookup)
  have k: "map_of ?is k = Option.bind (map_of xs k) (\<lambda>ms. if ?live ms = [] then None else Some (?live ms))"
    unfolding inexact_loop_fst by (rule map_of_pruned_level) (rule level_distinct [OF w])
  have m: "map_of (?live ms) ?mk = Option.bind (map_of ms ?mk) (\<lambda>m. if now \<le> mExpiry m then Some m else None)"
    if "map_of xs k = Some ms" for ms
  proof -
    have "wf_matchers L ms" by (rule level_lookup [OF w that])
    then show ?thesis unfolding wf_matchers_def by (intro map_of_filter_snd) (rule level_distinct)
  qed
  have "Option.bind (Option.bind (map_of ?is k) (\<lambda>ms. map_of ms ?mk)) ?g =
      Option.bind (Option.bind (map_of xs k) (\<lambda>ms. map_of ms ?mk)) ?g"
  proof (cases "map_of xs k")
    case None
    then show ?thesis by (simp add: k)
  next
    case (Some ms)
    have e: "Option.bind (map_of (?live ms) ?mk) ?g = Option.bind (map_of ms ?mk) ?g"
      using m [OF Some] assms(2) by (cases "map_of ms ?mk") auto
    show ?thesis
    proof (cases "?live ms = []")
      case True
      with e have "Option.bind (map_of ms ?mk) ?g = None" by simp
      with True show ?thesis by (simp add: k Some)
    next
      case False
      with e show ?thesis by (simp add: k Some)
    qed
  qed
  with Some show ?thesis
    by (auto simp: pruned_inexact_def inexact_matcher_def Let_def update_conv' delete_conv'
        split: if_splits)
qed

section \<open>The contract of a tracker\<close>

text \<open>
  What the reconcilers rely on: a successful tracking call gives the observer a lease on what it asks
  for, in the place of an earlier one on the same watch point; any other call leaves every lease that
  is still running as it is; and the observers reported are exactly those with a running lease that
  the object falls under.
\<close>

lemma ex_split_Cons:
  "(\<exists>pre t c post. (t0, c0) # xs = pre @ (t, c) # post \<and> P t c post) \<longleftrightarrow>
     P t0 c0 xs \<or> (\<exists>pre t c post. xs = pre @ (t, c) # post \<and> P t c post)" (is "?L \<longleftrightarrow> ?R")
proof
  assume ?L
  then show ?R by (auto simp: Cons_eq_append_conv)
next
  assume ?R
  then show ?L by (metis append_Cons append_Nil)
qed

locale tracker_contract =
  fixes step :: "int \<Rightarrow> 'c \<Rightarrow> 's \<Rightarrow> 's"
    and asks :: "'c \<Rightarrow> ('p \<times> 'k \<times> 'v) option"
    and observers :: "'s \<Rightarrow> int \<Rightarrow> 'x \<Rightarrow> 'k list option"
    and inv :: "'s \<Rightarrow> bool"
    and cur :: "'s \<Rightarrow> 'p \<Rightarrow> 'k \<Rightarrow> int \<Rightarrow> 'v option"
    and lease :: "'s \<Rightarrow> int"
    and is_concerned :: "'x \<Rightarrow> 'p \<Rightarrow> 'v \<Rightarrow> bool"
  assumes step_inv: "inv s \<Longrightarrow> inv (step t c s)"
    and step_lease: "lease (step t c s) = lease s"
    and step_asked: "inv s \<Longrightarrow> asks c = Some (p, k, v) \<Longrightarrow>
      cur (step t c s) p k u = (if u \<le> t + lease s then Some v else None)"
    and step_other: "inv s \<Longrightarrow> t \<le> u \<Longrightarrow> \<forall>v. asks c \<noteq> Some (p, k, v) \<Longrightarrow>
      cur (step t c s) p k u = cur s p k u"
    and observers_exact: "inv s \<Longrightarrow> observers s t x = Some ks \<Longrightarrow>
      set ks = {k. \<exists>p v. cur s p k t = Some v \<and> is_concerned x p v}"
begin

fun run :: "(int \<times> 'c) list \<Rightarrow> 's \<Rightarrow> 's" where
  "run [] s = s"
| "run ((t, c) # cs) s = run cs (step t c s)"

lemma run_inv: "inv s \<Longrightarrow> inv (run cs s)"
  by (induction cs s rule: run.induct) (auto simp: step_inv)

lemma run_lease: "lease (run cs s) = lease s"
  by (induction cs s rule: run.induct) (auto simp: step_lease)

lemma run_append: "run (cs @ ds) s = run ds (run cs s)"
  by (induction cs s rule: run.induct) auto

definition quiet :: "(int \<times> 'c) list \<Rightarrow> 'p \<Rightarrow> 'k \<Rightarrow> bool" where
  "quiet cs p k \<longleftrightarrow> (\<forall>(t, c) \<in> set cs. \<forall>v. asks c \<noteq> Some (p, k, v))"

lemma quiet_simps [simp]:
  "quiet [] p k" "quiet ((t, c) # cs) p k \<longleftrightarrow> (\<forall>v. asks c \<noteq> Some (p, k, v)) \<and> quiet cs p k"
  by (simp_all add: quiet_def)

text \<open>A lease is running exactly when the last call that asked for it was within the lease time.\<close>

lemma run_current:
  assumes "inv s" and "\<forall>c \<in> set cs. fst c \<le> u"
  shows "cur (run cs s) p k u = Some v \<longleftrightarrow>
    (\<exists>pre t c post. cs = pre @ (t, c) # post \<and> asks c = Some (p, k, v) \<and> u \<le> t + lease s \<and>
       quiet post p k) \<or> (quiet cs p k \<and> cur s p k u = Some v)"
  using assms
proof (induction cs arbitrary: s)
  case Nil
  then show ?case by simp
next
  case (Cons a cs)
  obtain t c where a: "a = (t, c)" by (cases a)
  with Cons.prems have tu: "t \<le> u" and *: "inv (step t c s)" "\<forall>c \<in> set cs. fst c \<le> u"
    by (auto simp: step_inv)
  show ?case
    unfolding a ex_split_Cons using Cons.IH [OF *] step_asked [OF Cons.prems(1), of c p k _ t u]
      step_other [OF Cons.prems(1) tu, of c p k]
    by (cases "\<exists>v. asks c = Some (p, k, v)") (auto simp: step_lease split: if_splits)
qed

lemma run_observers_exact:
  assumes "inv s" and "\<forall>c \<in> set cs. fst c \<le> t" and none: "\<And>p k. cur s p k t = None"
    and obs: "observers (run cs s) t x = Some ks"
  shows "k \<in> set ks \<longleftrightarrow>
    (\<exists>pre t' c post p v. cs = pre @ (t', c) # post \<and> asks c = Some (p, k, v) \<and>
       is_concerned x p v \<and> t \<le> t' + lease s \<and> quiet post p k)"
  using observers_exact [OF run_inv [OF assms(1)] obs] run_current [OF assms(1,2)] none by fastforce

lemma run_keeps:
  assumes "inv s" and "cur s p k u \<noteq> None" and "\<forall>(t, c) \<in> set cs. t \<le> u \<and> u \<le> t + lease s"
  shows "cur (run cs s) p k u \<noteq> None"
  using assms
proof (induction cs arbitrary: s)
  case Nil
  then show ?case by simp
next
  case (Cons a cs)
  obtain t c where a: "a = (t, c)" by (cases a)
  with Cons.prems(3) have tu: "t \<le> u" "u \<le> t + lease s" by auto
  have "cur (step t c s) p k u \<noteq> None"
    using step_asked [OF Cons.prems(1), of c p k _ t u] step_other [OF Cons.prems(1) tu(1), of c p k]
      tu(2) Cons.prems(2) by (cases "\<exists>v. asks c = Some (p, k, v)") auto
  with Cons.IH [OF step_inv [OF Cons.prems(1)] this] Cons.prems(3) show ?case by (simp add: a step_lease)
qed

end

section \<open>The tracker keeps the contract\<close>

datatype tracker_call =
    Track_Reference Reference object
  | Track_Object object object
  | Get_Observers object

fun tracker_step :: "refs_lib \<Rightarrow> int \<Rightarrow> tracker_call \<Rightarrow> impl \<Rightarrow> impl" where
  "tracker_step L t (Track_Reference ref obj) i = snd (TrackReference L i t ref obj)"
| "tracker_step L t (Track_Object ref obj) i = snd (TrackObject L i t ref obj)"
| "tracker_step L t (Get_Observers obj) i = snd (GetObservers L i t obj)"

text \<open>The valid reference a call tracks, with the observing object.\<close>

definition object_reference :: "refs_lib \<Rightarrow> object \<Rightarrow> Reference option" where
  "object_reference L ref =
     (case GetReference L ref of
        Inl _ \<Rightarrow> None
      | Inr oref \<Rightarrow>
          (let gvk = FromAPIVersionAndKind L (orAPIVersion oref) (orKind oref)
           in Some \<lparr>refAPIGroup = gvkGroup gvk, refKind = gvkKind gvk, refNamespace = orNamespace oref,
                    refName = orName oref, refSelector = None\<rparr>))"

fun tracked :: "refs_lib \<Rightarrow> tracker_call \<Rightarrow> (Reference \<times> object) option" where
  "tracked L (Track_Reference ref obj) = (if reference_errors L ref = [] then Some (ref, obj) else None)"
| "tracked L (Track_Object ref obj) =
     (case object_reference L ref of
        None \<Rightarrow> None
      | Some r \<Rightarrow> if reference_errors L r = [] then Some (r, obj) else None)"
| "tracked L (Get_Observers obj) = None"

definition asked :: "refs_lib \<Rightarrow> tracker_call \<Rightarrow> (watch_point \<times> namespaced_name \<times> selector option) option" where
  "asked L c =
     map_option (\<lambda>(ref, obj). (watch_point L ref, observer_key obj, refSelector ref)) (tracked L c)"

lemma TrackObject_eq:
  "TrackObject L i t ref obj =
     (case object_reference L ref of
        None \<Rightarrow> (Some (projl (GetReference L ref)), i)
      | Some r \<Rightarrow> TrackReference L i t r obj)"
  by (auto simp: TrackObject_def object_reference_def Let_def split: sum.split)

lemma tracker_step_untracked:
  assumes "tracked L c = None" and "\<forall>obj. c \<noteq> Get_Observers obj"
  shows "tracker_step L t c i = i"
proof (cases c)
  case (Track_Reference ref obj)
  with assms TrackReference_error [of L ref i t obj] show ?thesis by (auto split: if_splits)
next
  case (Track_Object ref obj)
  with assms TrackReference_error [of L _ i t obj] show ?thesis
    by (fastforce simp: TrackObject_eq split: option.splits if_splits)
next
  case (Get_Observers obj)
  with assms show ?thesis by simp
qed

lemma tracker_step_tracked:
  "tracked L c = Some (ref, obj) \<Longrightarrow>
     tracker_step L t c i = snd (TrackReference L i t ref obj) \<and> reference_errors L ref = []"
  by (cases c) (auto simp: TrackObject_eq split: option.splits if_splits)

lemma tracker_step_observe:
  assumes "tracker_wf L i" and "t \<le> u"
  shows "current_lease (tracker_step L t (Get_Observers obj) i) p k u = current_lease i p k u"
proof (cases "object_ref L obj")
  case None
  with GetObservers_None [OF None, of i t] show ?thesis by auto
next
  case (Some ref)
  show ?thesis
    using pruned_exact_current [OF assms] pruned_inexact_current [OF assms]
    by (cases p) (simp_all add: GetObservers_Some(1) [OF Some] del: current_lease.simps)
qed

lemma current_step_asked:
  assumes "asked L c = Some (p, k, sel)"
  shows "current_lease (tracker_step L t c i) p k u = (if u \<le> t + leaseDuration i then Some sel else None)"
proof -
  obtain ref obj where c: "tracked L c = Some (ref, obj)" and p: "p = watch_point L ref"
    "k = observer_key obj" "sel = refSelector ref"
    using assms by (auto simp: asked_def)
  show ?thesis
    using tracker_step_tracked [OF c, of t i] current_TrackReference [of L ref i t obj p k u] p by simp
qed

lemma current_step_other:
  assumes "tracker_wf L i" and "t \<le> u" and "\<forall>sel. asked L c \<noteq> Some (p, k, sel)"
  shows "current_lease (tracker_step L t c i) p k u = current_lease i p k u"
proof (cases "tracked L c")
  case None
  with assms show ?thesis
    using tracker_step_untracked [OF None] tracker_step_observe [of L i t u]
    by (cases "\<exists>obj. c = Get_Observers obj") (auto simp del: current_lease.simps)
next
  case (Some a)
  obtain ref obj where a: "a = (ref, obj)" by (cases a)
  with assms(3) Some have "\<not> (p = watch_point L ref \<and> k = observer_key obj)" by (auto simp: asked_def)
  then show ?thesis
    using tracker_step_tracked [OF Some [unfolded a], of t i] current_TrackReference [of L ref i t obj p k u]
    by (simp only: if_False)
qed

lemma leaseDuration_step: "leaseDuration (tracker_step L t c i) = leaseDuration i"
proof (cases c)
  case (Get_Observers obj)
  then show ?thesis
    using GetObservers_None [of L obj i t] GetObservers_Some(1) [of L obj _ i t]
    by (cases "object_ref L obj") auto
qed (simp_all add: TrackObject_eq split: option.split)

lemma tracker_wf_step: "tracker_wf L i \<Longrightarrow> tracker_wf L (tracker_step L t c i)"
  by (cases c) (simp_all add: tracker_wf_TrackReference tracker_wf_GetObservers TrackObject_eq
      split: option.split)

lemma ex_unit: "(\<exists>u::unit. P u) \<longleftrightarrow> P ()"
  by (metis old.unit.exhaust)

lemma ex_watch_point:
  "(\<exists>p. P p) \<longleftrightarrow> (\<exists>r. P (Exactly r)) \<or> (\<exists>r s ns. P (Selecting r s ns))"
  by (metis watch_point.exhaust)

lemma GetObservers_concerned:
  assumes "tracker_wf L i" and "fst (GetObservers L i t obj) = Inr ks"
  shows "set ks = {k. \<exists>p sel. current_lease i p k t = Some sel \<and> concerns L obj p sel}"
proof (cases "object_ref L obj")
  case None
  with GetObservers_None [OF None, of i t] assms show ?thesis by auto
next
  case (Some ref)
  let ?X = "{k. \<exists>s e. map_of (exact i) ref = Some s \<and> (k, e) \<in> set s \<and> t \<le> e}"
  let ?I = "{k. \<exists>is ms. map_of (inexact i) (partialRef ref) = Some is \<and> (k, ms) \<in> set is \<and>
     (\<exists>km \<in> set ms. matcher_hits L t obj km)}"
  have "set ks = ?X \<union> ?I"
    using GetObservers_Some(2) [OF Some, of i t] assms by auto
  moreover have "?X = {k. current_lease i (Exactly ref) k t \<noteq> None}"
  proof (cases "map_of (exact i) ref")
    case None
    then show ?thesis by (simp add: exact_expiry_def)
  next
    case (Some s)
    with assms(1) have "distinct (map fst s)"
      by (auto simp: tracker_wf_def dest: level_lookup level_distinct)
    then have "(k, e) \<in> set s \<longleftrightarrow> map_of s k = Some e" for k e
      using Some_eq_map_of_iff [of s e k] by auto
    with Some show ?thesis by (auto simp: exact_expiry_def split: Option.bind_splits)
  qed
  moreover have "?I = {k. \<exists>mk m. inexact_matcher i (partialRef ref) k mk = Some m \<and>
      matcher_hits L t obj (mk, m)}"
  proof (cases "map_of (inexact i) (partialRef ref)")
    case None
    then show ?thesis by (simp add: inexact_matcher_def)
  next
    case (Some xs)
    with assms(1) have l: "level (\<lambda>_. wf_matchers L) xs"
      by (auto simp: tracker_wf_def dest: level_lookup)
    have "(\<exists>ms. (k, ms) \<in> set xs \<and> (\<exists>km \<in> set ms. matcher_hits L t obj km)) \<longleftrightarrow>
      (\<exists>mk m. Option.bind (map_of xs k) (\<lambda>ms. map_of ms mk) = Some m \<and> matcher_hits L t obj (mk, m))" for k
    proof (cases "map_of xs k")
      case None
      then show ?thesis using level_distinct [OF l] by auto
    next
      case (Some ms)
      have "wf_matchers L ms" by (rule level_lookup [OF l Some])
      then have "distinct (map fst ms)" unfolding wf_matchers_def by (rule level_distinct)
      then have "(mk, m) \<in> set ms \<longleftrightarrow> map_of ms mk = Some m" for mk m
        using Some_eq_map_of_iff [of ms m mk] by auto
      moreover have "(k, ms') \<in> set xs \<longleftrightarrow> ms' = ms" for ms'
        using Some Some_eq_map_of_iff [OF level_distinct [OF l], of ms' k] by auto
      ultimately show ?thesis using Some by (simp add: Bex_def)
    qed
    then show ?thesis using Some by (auto simp: inexact_matcher_def)
  qed
  moreover have "{k. \<exists>p sel. current_lease i p k t = Some sel \<and> concerns L obj p sel} =
      {k. current_lease i (Exactly ref) k t \<noteq> None} \<union>
      {k. \<exists>mk m. inexact_matcher i (partialRef ref) k mk = Some m \<and> matcher_hits L t obj (mk, m)}"
    unfolding ex_watch_point matcherKey.splits(3) ex_unit
    by (fastforce simp: Some matcher_hits_def split: Option.bind_splits if_splits)
  ultimately show ?thesis by argo
qed

interpretation tr: tracker_contract "tracker_step L" "asked L"
  "\<lambda>i t obj. case fst (GetObservers L i t obj) of Inl _ \<Rightarrow> None | Inr ks \<Rightarrow> Some ks"
  "tracker_wf L" current_lease leaseDuration "concerns L" for L
proof unfold_locales
  fix i :: impl and t u :: int and c p k sel obj ks
  show "tracker_wf L i \<Longrightarrow> tracker_wf L (tracker_step L t c i)" by (rule tracker_wf_step)
  show "leaseDuration (tracker_step L t c i) = leaseDuration i" by (rule leaseDuration_step)
  show "asked L c = Some (p, k, sel) \<Longrightarrow>
      current_lease (tracker_step L t c i) p k u = (if u \<le> t + leaseDuration i then Some sel else None)"
    by (rule current_step_asked)
  show "tracker_wf L i \<Longrightarrow> t \<le> u \<Longrightarrow> \<forall>sel. asked L c \<noteq> Some (p, k, sel) \<Longrightarrow>
      current_lease (tracker_step L t c i) p k u = current_lease i p k u"
    by (rule current_step_other)
  assume "tracker_wf L i" and
    "(case fst (GetObservers L i t obj) of Inl _ \<Rightarrow> None | Inr ks \<Rightarrow> Some ks) = Some ks"
  then show "set ks = {k. \<exists>p sel. current_lease i p k t = Some sel \<and> concerns L obj p sel}"
    by (intro GetObservers_concerned) (auto split: sum.splits)
qed

section \<open>Properties\<close>

definition valid_reference :: "refs_lib \<Rightarrow> Reference \<Rightarrow> bool" where
  "valid_reference L ref \<longleftrightarrow>
     IsCIdentifier L (refKind ref) = [] \<and>
     (refAPIGroup ref = [] \<or> IsDNS1123Subdomain L (refAPIGroup ref) = []) \<and>
     (refNamespace ref = [] \<or> IsDNS1123Label L (refNamespace ref) = []) \<and>
     (if refName ref = [] then refSelector ref \<noteq> None
      else refSelector ref = None \<and> IsDNS1123Subdomain L (refName ref) = [])"

lemma reference_errors_valid: "reference_errors L ref = [] \<longleftrightarrow> valid_reference L ref"
  by (auto simp: reference_errors_def valid_reference_def Let_def)

definition tracker_run :: "refs_lib \<Rightarrow> (int \<times> tracker_call) list \<Rightarrow> impl \<Rightarrow> impl" where
  "tracker_run L calls i = foldl (\<lambda>i (t, c). tracker_step L t c i) i calls"

lemma tracker_run_eq: "tracker_run L calls i = tr.run L calls i"
  by (induction calls arbitrary: i) (auto simp: tracker_run_def)

definition refers :: "refs_lib \<Rightarrow> Reference \<Rightarrow> object \<Rightarrow> bool" where
  "refers L ref obj \<longleftrightarrow>
     (case object_ref L obj of
        None \<Rightarrow> False
      | Some r \<Rightarrow>
          (case refSelector ref of
             None \<Rightarrow> ref = r
           | Some sel \<Rightarrow>
               partialRef ref = partialRef r \<and>
               (refNamespace ref = [] \<or> refNamespace ref = objNamespace obj) \<and>
               selMatches L sel (labels obj)))"

lemma concerns_refers: "concerns L obj (watch_point L ref) (refSelector ref) \<longleftrightarrow> refers L ref obj"
  by (auto simp: refers_def watch_point_def split: option.splits)

lemma current_New: "current_lease (New lease) p k u = None"
  by (cases p) (simp_all add: New_def exact_expiry_def inexact_matcher_def)

text \<open>A call that asks for the watch point of \<open>ref\<close> on behalf of the observer \<open>k\<close>.\<close>

definition asks_for :: "refs_lib \<Rightarrow> Reference \<Rightarrow> namespaced_name \<Rightarrow> tracker_call \<Rightarrow> bool" where
  "asks_for L ref k call \<longleftrightarrow>
     (case tracked L call of
        None \<Rightarrow> False
      | Some (ref', observer) \<Rightarrow> watch_point L ref' = watch_point L ref \<and> observer_key observer = k)"

lemma asks_for_asked: "asks_for L ref k c \<longleftrightarrow> (\<exists>sel. asked L c = Some (watch_point L ref, k, sel))"
  by (auto simp: asks_for_def asked_def split: option.splits)

lemma quiet_asks_for: "tr.quiet L cs (watch_point L ref) k \<longleftrightarrow> (\<forall>(t, c) \<in> set cs. \<not> asks_for L ref k c)"
  by (simp add: tr.quiet_def asks_for_asked)

lemma observers_of_run:
  assumes "\<forall>call \<in> set calls. fst call \<le> now"
    and "fst (GetObservers L (tracker_run L calls (New lease)) now obj) = Inr ks"
  shows "k \<in> set ks \<longleftrightarrow>
    (\<exists>pre t call post ref observer. calls = pre @ (t, call) # post \<and>
       tracked L call = Some (ref, observer) \<and> observer_key observer = k \<and> refers L ref obj \<and>
       now \<le> t + lease \<and> (\<forall>(t', call') \<in> set post. \<not> asks_for L ref k call'))"
proof -
  have "k \<in> set ks \<longleftrightarrow> (\<exists>pre t call post p sel. calls = pre @ (t, call) # post \<and>
      asked L call = Some (p, k, sel) \<and> concerns L obj p sel \<and> now \<le> t + lease \<and> tr.quiet L post p k)"
    using tr.run_observers_exact [where x = obj and k = k and ks = ks and L = L, OF tracker_wf_New assms(1) current_New, of lease]
      assms(2) by (simp add: tracker_run_eq [symmetric] New_def)
  then show ?thesis
    unfolding asked_def concerns_refers [symmetric] quiet_asks_for [symmetric] by fastforce
qed

text \<open>
  TrackReference accepts a reference exactly when it names an object or selects objects, but not
  both, and every part that is given is well formed; a rejected reference is an error and leaves the
  table as it was.
\<close>

theorem TrackReference_validates:
  "if valid_reference L ref
   then fst (TrackReference L i now ref obj) = None
   else (\<exists>e. TrackReference L i now ref obj = (Some e, i))"
  using TrackReference_ok [of L ref i now obj] TrackReference_error [of L ref i now obj]
  by (auto simp: reference_errors_valid)

text \<open>
  C2. Exactness of the tracker: after any calls to a new tracker, none of them later than now, asking
  who observes an object returns exactly the observers that made an accepted tracking call, within
  the last lease, whose reference is the object's or whose selector matches it, unless the observer
  asked again for the same watch point later on.  Nobody else is missed, and nobody is reported after
  the lease.  Nothing is assumed of selectors: two that render alike are one watch point of the
  table, so the later call replaces the earlier one even when they match different objects.
\<close>

theorem GetObservers_exact:
  assumes "\<forall>call \<in> set calls. fst call \<le> now"
    and "fst (GetObservers L (tracker_run L calls (New lease)) now obj) = Inr ks"
  shows "k \<in> set ks \<longleftrightarrow>
    (\<exists>pre t call post ref observer. calls = pre @ (t, call) # post \<and>
       tracked L call = Some (ref, observer) \<and> observer_key observer = k \<and> refers L ref obj \<and>
       now \<le> t + lease \<and> (\<forall>(t', call') \<in> set post. \<not> asks_for L ref k call'))"
  using assms by (rule observers_of_run)

lemma tracker_run_wf [simp]:
  "tracker_wf L (tracker_run L calls (New lease))"
  "leaseDuration (tracker_run L calls (New lease)) = lease"
  by (simp_all add: tracker_run_eq tr.run_inv tr.run_lease)
     (simp add: New_def)


section \<open>A concrete library\<close>

text \<open>A small instance of the library functions, on which the hypotheses above hold.\<close>

definition demo_refs :: refs_lib where
  "demo_refs =
     \<lparr>GetReference = (\<lambda>obj. Inr \<lparr>orAPIVersion = ''v1'', orKind = goType obj,
        orNamespace = objNamespace obj, orName = objName obj\<rparr>),
      FromAPIVersionAndKind = (\<lambda>v k. \<lparr>gvkGroup = [], gvkVersion = v, gvkKind = k\<rparr>),
      ParseGroupVersion = (\<lambda>v. Inr ([], v)),
      IsCIdentifier = (\<lambda>s. if s = [] then [''empty''] else []),
      IsDNS1123Subdomain = (\<lambda>s. if s = [] then [''empty''] else []),
      IsDNS1123Label = (\<lambda>s. if s = [] then [''empty''] else []),
      selString = (\<lambda>s. case s of Selector t \<Rightarrow> t),
      selMatches = (\<lambda>s ls. case s of Selector t \<Rightarrow> t \<in> fst ` set ls)\<rparr>"

definition demo_object :: "string \<Rightarrow> string \<Rightarrow> object" where
  "demo_object kind name = (empty_object kind)\<lparr>objNamespace := ''ns'', objName := name\<rparr>"

text \<open>The same with two selectors, nothing and everything, that render alike.\<close>

definition blank_refs :: refs_lib where
  "blank_refs = demo_refs\<lparr>selString := (\<lambda>_. []),
     selMatches := (\<lambda>s ls. s = Selector ''everything'')\<rparr>"

definition pods_by :: "string \<Rightarrow> Reference" where
  "pods_by s = \<lparr>refAPIGroup = [], refKind = ''Pod'', refNamespace = [], refName = [],
     refSelector = Some (Selector s)\<rparr>"


theorem GetObservers_exact_witness:
  "\<lparr>nnNamespace = ''ns'', nnName = ''parent''\<rparr> \<in>
     set (projr (fst (GetObservers demo_refs
       (tracker_run demo_refs
          [(0, Track_Object (demo_object ''Pod'' ''a'') (demo_object ''Deployment'' ''parent''))]
          (New 10)) 10 (demo_object ''Pod'' ''a''))))"
proof -
  let ?calls = "[(0::int, Track_Object (demo_object ''Pod'' ''a'') (demo_object ''Deployment'' ''parent''))]"
  let ?i = "tracker_run demo_refs ?calls (New 10)"
  obtain ks where ks: "fst (GetObservers demo_refs ?i 10 (demo_object ''Pod'' ''a'')) = Inr ks"
    using GetObservers_Some(2) [of demo_refs "demo_object ''Pod'' ''a''"]
    by (force simp: object_ref_def demo_refs_def)
  have "tracked demo_refs (snd (?calls ! 0)) =
      Some (\<lparr>refAPIGroup = [], refKind = ''Pod'', refNamespace = ''ns'', refName = ''a'',
        refSelector = None\<rparr>, demo_object ''Deployment'' ''parent'')"
    by (simp add: object_reference_def reference_errors_valid valid_reference_def demo_refs_def
        demo_object_def empty_object_def)
  then have "\<lparr>nnNamespace = ''ns'', nnName = ''parent''\<rparr> \<in> set ks"
    by (subst GetObservers_exact [OF _ ks])
      (auto simp: Cons_eq_append_conv refers_def object_ref_def demo_refs_def demo_object_def
        empty_object_def observer_key_def)
  with ks show ?thesis by simp
qed

end
