(* ===== verification/World.thy ===== *)
theory World
  imports Results Tracker
begin

text \<open>
  What the reconcilers act on.  The state of the world is the trace of the calls made so far, the
  heap of stashes (\<^verbatim>\<open>src/reconcilers/stash.go\<close>), the heap of trackers, the mutation caches of the
  resource managers and the heap of admission responses.  Code outside the repository is the record \<open>env\<close>, an argument of every
  definition that calls it: the API server answers a call as a function of everything called before,
  so any server, with any failures and any concurrent writers, is some value of \<open>respond\<close>.
\<close>

section \<open>Values that travel through the world\<close>

record child_set_partial_result =
  csId :: string
  csChild :: "object option"
  csErr :: "err option"

text \<open>The dynamic value of an \<open>interface{}\<close> kept in a stash.\<close>

datatype stash_value =
    ChildSetResultValue "child_set_partial_result list"
  | AnyValue string

text \<open>An admission request and response: the fields the webhook adapter reads and writes.\<close>

record admission_request =
  arUID :: string
  arNamespace :: string
  arName :: string
  arOperation :: string
  arObject :: string
  arOldObject :: string

record admission_response =
  respUID :: string
  respAllowed :: bool
  respResult :: "(int \<times> string) option"
  respPatches :: "string option"
  respPatch :: "string option"
  respPatchType :: "string option"

text \<open>\<open>Patch\<close> of \<^verbatim>\<open>src/reconcilers/resourcemanager.go\<close>.\<close>

record Patch =
  patchGeneration :: int
  patchBytes :: string

datatype list_option = InNamespace string | OtherListOption string

datatype log_value =
    LogObject object
  | LogText string
  | LogError_value err
  | LogName namespaced_name
  | LogDiff log_value log_value
  | LogStatus object_status
  | LogPatch string
  | LogNil

text \<open>A client, reader, recorder or controller builder is known by a name.\<close>

datatype call =
    Get string namespaced_name object
  | List string object_list "list_option list"
  | Create string object
  | Update string object
  | Delete string object
  | PatchCall string object object
  | StatusUpdate string object
  | StatusPatch string object object
  | GroupVersionKindFor string object
  | Event string object string string "log_value list"
  | LogInfo "string list" string "log_value list"
  | LogError "string list" err string "log_value list"
  | TrackObjectCall nat object object
  | TrackReferenceCall nat Reference object
  | GetObserversCall nat object
  | BuilderFor object
  | BuilderOwns object
  | BuilderWatches object
  | BuilderBuild

text \<open>What a call to a client gives back: an error or none, and what it wrote through its pointers.\<close>

record reply =
  replyErr :: "err option"
  replyObject :: object
  replyList :: object_list
  replyKind :: gvk

section \<open>Code outside the repository\<close>

record env =
  respond :: "call list \<Rightarrow> call \<Rightarrow> reply"
  clock :: "call list \<Rightarrow> int"
  refs :: refs_lib
  isNotFound :: "err \<Rightarrow> bool"
  isAlreadyExists :: "err \<Rightarrow> bool"
  isInvalid :: "err \<Rightarrow> bool"
  apiStatusDetailsName :: "err \<Rightarrow> string option"
  newAggregate :: "err list \<Rightarrow> err option"
  errorMessage :: "err \<Rightarrow> string"
  deepEqual :: "object \<Rightarrow> object \<Rightarrow> bool"
  statusDeepEqual :: "object_status \<Rightarrow> object_status \<Rightarrow> bool"
  containsFinalizer :: "object \<Rightarrow> string \<Rightarrow> bool"
  addFinalizer :: "object \<Rightarrow> string \<Rightarrow> object"
  removeFinalizer :: "object \<Rightarrow> string \<Rightarrow> object"
  isControlledBy :: "object \<Rightarrow> object \<Rightarrow> bool"
  getControllerOf :: "object \<Rightarrow> owner_reference option"
  setControllerReference :: "object \<Rightarrow> object \<Rightarrow> err option \<times> object"
  isNotRegistered :: "object \<Rightarrow> bool"
  jsonMarshal :: "object \<Rightarrow> err + string"
  jsonUnmarshal :: "string \<Rightarrow> object \<Rightarrow> err option \<times> object"
  createPatch :: "string \<Rightarrow> string \<Rightarrow> err + string"
  createAdmissionPatch :: "string \<Rightarrow> string \<Rightarrow> err + string"
  decodePatch :: "string \<Rightarrow> err + string"
  applyPatch :: "string \<Rightarrow> string \<Rightarrow> err + string"
  cacheGet :: "(int \<times> string \<times> Patch \<times> int) list \<Rightarrow> int \<Rightarrow> string \<Rightarrow> Patch option"
  applyListOptions :: "list_option list \<Rightarrow> string \<times> selector option"
  everything :: selector
  listReference :: "object_list \<Rightarrow> err + object_reference"
  trimListSuffix :: "string \<Rightarrow> string"
  defaulter :: "object \<Rightarrow> (object \<Rightarrow> object) option"

section \<open>The world\<close>

record world =
  trace :: "call list"
  stashes :: "nat \<Rightarrow> string \<Rightarrow> stash_value option"
  nextStash :: nat
  trackers :: "nat \<Rightarrow> impl"
  nextTracker :: nat
  caches :: "nat \<Rightarrow> (int \<times> string \<times> Patch \<times> int) list option"
  responses :: "nat \<Rightarrow> admission_response"
  nextResponse :: nat

definition empty_response :: admission_response where
  "empty_response =
     \<lparr>respUID = [], respAllowed = False, respResult = None, respPatches = None, respPatch = None,
      respPatchType = None\<rparr>"

definition empty_world :: world where
  "empty_world =
     \<lparr>trace = [], stashes = (\<lambda>_ _. None), nextStash = 0, trackers = (\<lambda>_. New 0), nextTracker = 0,
      caches = (\<lambda>_. None), responses = (\<lambda>_. empty_response), nextResponse = 0\<rparr>"

definition record_call :: "call \<Rightarrow> world \<Rightarrow> world" where
  "record_call c w = w\<lparr>trace := trace w @ [c]\<rparr>"

definition invoke :: "env \<Rightarrow> call \<Rightarrow> world \<Rightarrow> reply \<times> world" where
  "invoke E c w = (respond E (trace w) c, record_call c w)"

section \<open>Configuration and context\<close>

text \<open>
  \<open>Config\<close> of \<^verbatim>\<open>src/reconcilers/config.go\<close>: four interfaces, \<open>None\<close> when nil; a tracker is a
  pointer.
\<close>

record Config =
  Client :: "string option"
  APIReader :: "string option"
  Recorder :: "string option"
  Tracker :: "nat option"

text \<open>A \<open>context.Context\<close>: one field per key the repository looks up.\<close>

record ctx =
  ctxLogger :: "string list"
  ctxStash :: "nat option"
  ctxRequest :: "namespaced_name option"
  ctxConfig :: "Config option"
  ctxOriginalConfig :: "Config option"
  ctxResourceType :: "object option"
  ctxOriginalResourceType :: "object option"
  ctxAdditionalConfigs :: "(string \<rightharpoonup> Config) option"
  ctxIteration :: "int option"
  ctxKnownChildren :: "object list option"
  ctxNow :: "int option"
  ctxAdmissionRequest :: "admission_request option"
  ctxAdmissionResponse :: "nat option"
  ctxHTTPRequest :: "string option"

definition background :: ctx where
  "background =
     \<lparr>ctxLogger = [], ctxStash = None, ctxRequest = None, ctxConfig = None, ctxOriginalConfig = None,
      ctxResourceType = None, ctxOriginalResourceType = None, ctxAdditionalConfigs = None,
      ctxIteration = None, ctxKnownChildren = None, ctxNow = None, ctxAdmissionRequest = None,
      ctxAdmissionResponse = None, ctxHTTPRequest = None\<rparr>"

text \<open>\<open>logr.FromContextOrDiscard(ctx).WithName(name)\<close> stored back in the context.\<close>

definition WithName :: "string \<Rightarrow> ctx \<Rightarrow> ctx" where
  "WithName name c = c\<lparr>ctxLogger := ctxLogger c @ [name]\<rparr>"

section \<open>Calls\<close>

text \<open>
  A call through a nil interface panics.  A client call answers with an error or none, and with the
  object as the call left it.
\<close>

definition client_Get ::
    "env \<Rightarrow> string option \<Rightarrow> namespaced_name \<Rightarrow> object \<Rightarrow> (world, err option \<times> object) go" where
  "client_Get E cl key obj w =
     do { c \<leftarrow> cl;
          let (r, w) = invoke E (Get c key obj) w;
          Some ((replyErr r, replyObject r), w) }"

definition client_List ::
    "env \<Rightarrow> string option \<Rightarrow> object_list \<Rightarrow> list_option list \<Rightarrow> (world, err option \<times> object_list) go" where
  "client_List E cl list opts w =
     do { c \<leftarrow> cl;
          let (r, w) = invoke E (List c list opts) w;
          Some ((replyErr r, replyList r), w) }"

definition client_write ::
    "env \<Rightarrow> (string \<Rightarrow> call) \<Rightarrow> string option \<Rightarrow> (world, err option \<times> object) go" where
  "client_write E mk cl w =
     do { c \<leftarrow> cl;
          let (r, w) = invoke E (mk c) w;
          Some ((replyErr r, replyObject r), w) }"

abbreviation client_Create :: "env \<Rightarrow> string option \<Rightarrow> object \<Rightarrow> (world, err option \<times> object) go" where
  "client_Create E cl obj \<equiv> client_write E (\<lambda>c. Create c obj) cl"

abbreviation client_Update :: "env \<Rightarrow> string option \<Rightarrow> object \<Rightarrow> (world, err option \<times> object) go" where
  "client_Update E cl obj \<equiv> client_write E (\<lambda>c. Update c obj) cl"

abbreviation client_Delete :: "env \<Rightarrow> string option \<Rightarrow> object \<Rightarrow> (world, err option \<times> object) go" where
  "client_Delete E cl obj \<equiv> client_write E (\<lambda>c. Delete c obj) cl"

abbreviation client_Patch ::
    "env \<Rightarrow> string option \<Rightarrow> object \<Rightarrow> object \<Rightarrow> (world, err option \<times> object) go" where
  "client_Patch E cl obj base \<equiv> client_write E (\<lambda>c. PatchCall c obj base) cl"

abbreviation status_Update :: "env \<Rightarrow> string option \<Rightarrow> object \<Rightarrow> (world, err option \<times> object) go" where
  "status_Update E cl obj \<equiv> client_write E (\<lambda>c. StatusUpdate c obj) cl"

abbreviation status_Patch ::
    "env \<Rightarrow> string option \<Rightarrow> object \<Rightarrow> object \<Rightarrow> (world, err option \<times> object) go" where
  "status_Patch E cl obj base \<equiv> client_write E (\<lambda>c. StatusPatch c obj base) cl"

definition client_GroupVersionKindFor ::
    "env \<Rightarrow> string option \<Rightarrow> object \<Rightarrow> (world, err + gvk) go" where
  "client_GroupVersionKindFor E cl obj w =
     do { c \<leftarrow> cl;
          let (r, w) = invoke E (GroupVersionKindFor c obj) w;
          Some ((case replyErr r of Some e \<Rightarrow> Inl e | None \<Rightarrow> Inr (replyKind r)), w) }"

definition Eventf ::
    "string option \<Rightarrow> object \<Rightarrow> string \<Rightarrow> string \<Rightarrow> log_value list \<Rightarrow> (world, unit) go" where
  "Eventf rec obj eventtype reason args w =
     do { r \<leftarrow> rec; Some ((), record_call (Event r obj eventtype reason args) w) }"

definition log_info :: "ctx \<Rightarrow> string \<Rightarrow> log_value list \<Rightarrow> world \<Rightarrow> world" where
  "log_info ctx msg args = record_call (LogInfo (ctxLogger ctx) msg args)"

definition log_error :: "ctx \<Rightarrow> err \<Rightarrow> string \<Rightarrow> log_value list \<Rightarrow> world \<Rightarrow> world" where
  "log_error ctx e msg args = record_call (LogError (ctxLogger ctx) e msg args)"

text \<open>
  The tracker of a configuration is a \<open>tracker.New\<close> of \<^verbatim>\<open>src/tracker/enqueue.go\<close> on the heap; its
  clock is \<open>time.Now\<close>.
\<close>

definition new_tracker :: "int \<Rightarrow> world \<Rightarrow> nat \<times> world" where
  "new_tracker lease w =
     (nextTracker w,
      w\<lparr>trackers := (trackers w)(nextTracker w := New lease), nextTracker := Suc (nextTracker w)\<rparr>)"

definition tracker_TrackObject ::
    "env \<Rightarrow> nat option \<Rightarrow> object \<Rightarrow> object \<Rightarrow> (world, err option) go" where
  "tracker_TrackObject E t ref obj w =
     do { t \<leftarrow> t;
          let (e, i) = TrackObject (refs E) (trackers w t) (clock E (trace w)) ref obj;
          Some (e, record_call (TrackObjectCall t ref obj) (w\<lparr>trackers := (trackers w)(t := i)\<rparr>)) }"

definition tracker_TrackReference ::
    "env \<Rightarrow> nat option \<Rightarrow> Reference \<Rightarrow> object \<Rightarrow> (world, err option) go" where
  "tracker_TrackReference E t ref obj w =
     do { t \<leftarrow> t;
          let (e, i) = TrackReference (refs E) (trackers w t) (clock E (trace w)) ref obj;
          Some (e, record_call (TrackReferenceCall t ref obj) (w\<lparr>trackers := (trackers w)(t := i)\<rparr>)) }"

definition tracker_GetObservers ::
    "env \<Rightarrow> nat option \<Rightarrow> object \<Rightarrow> (world, err + namespaced_name list) go" where
  "tracker_GetObservers E t obj w =
     do { t \<leftarrow> t;
          let (r, i) = GetObservers (refs E) (trackers w t) (clock E (trace w)) obj;
          Some (r, record_call (GetObserversCall t obj) (w\<lparr>trackers := (trackers w)(t := i)\<rparr>)) }"

section \<open>Frames\<close>

text \<open>
  \<open>appends S\<close>: the step only appended calls of \<open>S\<close> to the trace.  It is an instance of the frame
  calculus, so a component makes only calls of \<open>S\<close> as soon as the operations it is built from do.
\<close>

definition appends :: "call set \<Rightarrow> world \<Rightarrow> world \<Rightarrow> bool" where
  "appends S w w' \<longleftrightarrow> (\<exists>cs. trace w' = trace w @ cs \<and> set cs \<subseteq> S)"

lemma appends_refl [simp]: "appends S w w"
  by (simp add: appends_def)

lemma appends_trans: "appends S u v \<Longrightarrow> appends S v w \<Longrightarrow> appends S u w"
  unfolding appends_def by (metis append.assoc set_append Un_least)

lemma appends_record [intro]: "c \<in> S \<Longrightarrow> appends S w (record_call c w)"
  by (auto simp: appends_def record_call_def)

lemma appends_same_trace: "trace w' = trace w \<Longrightarrow> appends S w w'"
  by (simp add: appends_def)

lemma appends_mono: "appends S w w' \<Longrightarrow> S \<subseteq> T \<Longrightarrow> appends T w w'"
  by (auto simp: appends_def)

interpretation frame: world_relation "appends S" for S
  by unfold_locales (auto intro: appends_trans)

lemma keeps_appends_mono: "keeps (appends S) m \<Longrightarrow> S \<subseteq> T \<Longrightarrow> keeps (appends T) m"
  by (auto simp: keeps_def intro: appends_mono)

lemma keeps_client_Get [keeps_rules]:
  "(\<And>c. cl = Some c \<Longrightarrow> Get c key obj \<in> S) \<Longrightarrow> keeps (appends S) (client_Get E cl key obj)"
  by (cases cl) (auto simp: keeps_def client_Get_def invoke_def)

lemma keeps_client_List [keeps_rules]:
  "(\<And>c. cl = Some c \<Longrightarrow> List c list opts \<in> S) \<Longrightarrow> keeps (appends S) (client_List E cl list opts)"
  by (cases cl) (auto simp: keeps_def client_List_def invoke_def)

lemma keeps_client_write [keeps_rules]:
  "(\<And>c. cl = Some c \<Longrightarrow> mk c \<in> S) \<Longrightarrow> keeps (appends S) (client_write E mk cl)"
  by (cases cl) (auto simp: keeps_def client_write_def invoke_def)

lemma keeps_client_GroupVersionKindFor [keeps_rules]:
  "(\<And>c. cl = Some c \<Longrightarrow> GroupVersionKindFor c obj \<in> S) \<Longrightarrow>
    keeps (appends S) (client_GroupVersionKindFor E cl obj)"
  by (cases cl) (auto simp: keeps_def client_GroupVersionKindFor_def invoke_def)

lemma keeps_Eventf [keeps_rules]:
  "(\<And>r. rec = Some r \<Longrightarrow> Event r obj ty reason args \<in> S) \<Longrightarrow>
    keeps (appends S) (Eventf rec obj ty reason args)"
  by (cases rec) (auto simp: keeps_def Eventf_def)

lemma keeps_log_info [keeps_rules]:
  "LogInfo (ctxLogger c) msg args \<in> S \<Longrightarrow> keeps (appends S) m \<Longrightarrow>
    keeps (appends S) (\<lambda>w. let w' = log_info c msg args w in m w')"
  by (rule frame.keeps_let_world) (auto simp: log_info_def)

lemma keeps_log_error [keeps_rules]:
  "LogError (ctxLogger c) e msg args \<in> S \<Longrightarrow> keeps (appends S) m \<Longrightarrow>
    keeps (appends S) (\<lambda>w. let w' = log_error c e msg args w in m w')"
  by (rule frame.keeps_let_world) (auto simp: log_error_def)

lemma keeps_TrackObject [keeps_rules]:
  "(\<And>t. tr = Some t \<Longrightarrow> TrackObjectCall t ref obj \<in> S) \<Longrightarrow>
    keeps (appends S) (tracker_TrackObject E tr ref obj)"
  by (cases tr) (auto simp: keeps_def tracker_TrackObject_def appends_def record_call_def
      split: prod.splits)

lemma keeps_TrackReference [keeps_rules]:
  "(\<And>t. tr = Some t \<Longrightarrow> TrackReferenceCall t ref obj \<in> S) \<Longrightarrow>
    keeps (appends S) (tracker_TrackReference E tr ref obj)"
  by (cases tr) (auto simp: keeps_def tracker_TrackReference_def appends_def record_call_def
      split: prod.splits)

section \<open>A concrete environment\<close>

text \<open>
  A small environment on which the hypotheses of the properties are discharged: a server that accepts
  every write and echoes the object, and library functions that do what their documentation says on
  the fields the model has.
\<close>

definition empty_list :: object_list where
  "empty_list = \<lparr>listType = [], listKind = empty_gvk, listItems = []\<rparr>"

fun call_object :: "call \<Rightarrow> object" where
  "call_object (Get c key obj) = obj\<lparr>objNamespace := nnNamespace key, objName := nnName key\<rparr>"
| "call_object (Create c obj) = obj\<lparr>uid := ''uid'', creationTimestamp := Some 1\<rparr>"
| "call_object (Update c obj) = obj"
| "call_object (Delete c obj) = obj"
| "call_object (PatchCall c obj base) = obj"
| "call_object (StatusUpdate c obj) = obj"
| "call_object (StatusPatch c obj base) = obj"
| "call_object _ = empty_object []"

definition demo_respond :: "call list \<Rightarrow> call \<Rightarrow> reply" where
  "demo_respond h c =
     \<lparr>replyErr = None, replyObject = call_object c, replyList = empty_list, replyKind = empty_gvk\<rparr>"

definition demo_env :: env where
  "demo_env =
     \<lparr>respond = demo_respond,
      clock = (\<lambda>h. int (length h)),
      refs = demo_refs,
      isNotFound = (\<lambda>e. e = Foreign ''NotFound'' []),
      isAlreadyExists = (\<lambda>e. e = Foreign ''AlreadyExists'' []),
      isInvalid = (\<lambda>e. e = Foreign ''Invalid'' []),
      apiStatusDetailsName = (\<lambda>e. if e = Foreign ''AlreadyExists'' [] then Some ''child'' else None),
      newAggregate = (\<lambda>es. if es = [] then None else Some (Foreign ''aggregate'' es)),
      errorMessage = (\<lambda>e. ''error''),
      deepEqual = (=),
      statusDeepEqual = (=),
      containsFinalizer = (\<lambda>x f. f \<in> set (finalizers x)),
      addFinalizer = (\<lambda>x f. if f \<in> set (finalizers x) then x else x\<lparr>finalizers := finalizers x @ [f]\<rparr>),
      removeFinalizer = (\<lambda>x f. x\<lparr>finalizers := filter (\<lambda>g. g \<noteq> f) (finalizers x)\<rparr>),
      isControlledBy = (\<lambda>x owner. \<exists>r \<in> set (ownerReferences x). ownerController r \<and> ownerUID r = uid owner),
      getControllerOf = (\<lambda>x. List.find ownerController (ownerReferences x)),
      setControllerReference = (\<lambda>owner x.
        (None, x\<lparr>ownerReferences := \<lparr>ownerUID = uid owner, ownerController = True\<rparr> # ownerReferences x\<rparr>)),
      isNotRegistered = (\<lambda>x. False),
      jsonMarshal = (\<lambda>x. if x = (empty_object (goType x))\<lparr>body := body x\<rparr> then Inr (body x)
        else Inl (Errorf ''unsupported value'' [])),
      jsonUnmarshal = (\<lambda>s x. (None, x\<lparr>body := s\<rparr>)),
      createPatch = (\<lambda>a b. Inr b),
      createAdmissionPatch = (\<lambda>a b. Inr b),
      decodePatch = Inr,
      applyPatch = (\<lambda>p s. Inr p),
      cacheGet = (\<lambda>sets now u.
        map_option (\<lambda>(t, v, p, ttl). p)
          (List.find (\<lambda>(t, v, p, ttl). v = u \<and> now \<le> t + ttl) (rev sets))),
      applyListOptions = (\<lambda>opts. (case opts of InNamespace ns # _ \<Rightarrow> ns | _ \<Rightarrow> [], None)),
      everything = Selector [],
      listReference = (\<lambda>l. Inr \<lparr>orAPIVersion = ''v1'', orKind = listType l, orNamespace = [], orName = []\<rparr>),
      trimListSuffix = (\<lambda>s. s),
      defaulter = (\<lambda>x. None)\<rparr>"

end
