(* ===== verification/Stash.thy ===== *)
theory Stash
  imports World
begin

text \<open>
  The per-request stash of \<^verbatim>\<open>src/reconcilers/stash.go\<close>: a Go map on the heap, reached through the
  context.  Every use of it panics when the context carries none.
\<close>

definition WithStash :: "ctx \<Rightarrow> world \<Rightarrow> ctx \<times> world" where
  "WithStash c w =
     (c\<lparr>ctxStash := Some (nextStash w)\<rparr>,
      w\<lparr>stashes := (stashes w)(nextStash w := (\<lambda>_. None)), nextStash := Suc (nextStash w)\<rparr>)"

definition retrieveStashMap :: "ctx \<Rightarrow> nat option" where
  "retrieveStashMap c = ctxStash c"

definition StashValue :: "ctx \<Rightarrow> string \<Rightarrow> stash_value \<Rightarrow> (world, unit) go" where
  "StashValue c key value w =
     do { s \<leftarrow> retrieveStashMap c;
          Some ((), w\<lparr>stashes := (stashes w)(s := (stashes w s)(key \<mapsto> value))\<rparr>) }"

definition RetrieveValue :: "ctx \<Rightarrow> string \<Rightarrow> (world, stash_value option) go" where
  "RetrieveValue c key w = do { s \<leftarrow> retrieveStashMap c; Some (stashes w s key, w) }"

definition ClearValue :: "ctx \<Rightarrow> string \<Rightarrow> (world, stash_value option) go" where
  "ClearValue c key w =
     do { s \<leftarrow> retrieveStashMap c;
          Some (stashes w s key, w\<lparr>stashes := (stashes w)(s := (stashes w s)(key := None))\<rparr>) }"

section \<open>The contract of a key-value store\<close>

text \<open>
  What the users of a stash rely on.  The client below accumulates a list under one key, which is
  how the child reconcilers of a \<open>ChildSetReconciler\<close> report to it.
\<close>

locale key_value_store =
  fixes put :: "'k \<Rightarrow> 'v \<Rightarrow> ('w, unit) go"
    and get :: "'k \<Rightarrow> ('w, 'v option) go"
    and clear :: "'k \<Rightarrow> ('w, 'v option) go"
    and lookup :: "'w \<Rightarrow> 'k \<Rightarrow> 'v option"
    and ready :: bool
  assumes put_lookup: "put k v w = Some (u, w') \<Longrightarrow> lookup w' = (lookup w)(k \<mapsto> v)"
    and put_total: "ready \<Longrightarrow> \<exists>w'. put k v w = Some ((), w')"
    and get_eq: "ready \<Longrightarrow> get k w = Some (lookup w k, w)"
    and clear_lookup: "clear k w = Some (r, w') \<Longrightarrow> r = lookup w k \<and> lookup w' = (lookup w)(k := None)"
    and clear_total: "ready \<Longrightarrow> \<exists>r w'. clear k w = Some (r, w')"
begin

lemma put_get: "ready \<Longrightarrow> put k v w = Some (u, w') \<Longrightarrow> get k' w' = Some (if k' = k then Some v else lookup w k', w')"
  by (simp add: get_eq put_lookup)

lemma put_clear_get:
  assumes ready and "put k v w = Some (u, w1)" and "clear k w1 = Some (r, w2)"
  shows "r = Some v \<and> get k w2 = Some (None, w2) \<and>
    (\<forall>k'. k' \<noteq> k \<longrightarrow> get k' w2 = Some (lookup w k', w2))"
  using put_lookup [OF assms(2)] clear_lookup [OF assms(3)] assms(1) by (simp add: get_eq)

text \<open>Appending one item to the list under a key, and appending several in turn.\<close>

fun push :: "('v option \<Rightarrow> 'a list) \<Rightarrow> ('a list \<Rightarrow> 'v) \<Rightarrow> 'k \<Rightarrow> 'a \<Rightarrow> ('w, unit) go" where
  "push out wrap k x w = do { (old, w) \<leftarrow> get k w; put k (wrap (out old @ [x])) w }"

lemma push_lookup:
  assumes ready and "push out wrap k x w = Some (u, w')"
  shows "lookup w' = (lookup w)(k \<mapsto> wrap (out (lookup w k) @ [x]))"
  using assms put_lookup by (simp add: get_eq)

lemma push_total: "ready \<Longrightarrow> \<exists>w'. push out wrap k x w = Some ((), w')"
  using put_total by (simp add: get_eq)

end

interpretation st: key_value_store "StashValue c" "RetrieveValue c" "ClearValue c"
  "\<lambda>w. stashes w (the (ctxStash c))" "ctxStash c \<noteq> None" for c
  by unfold_locales
    (auto simp: StashValue_def RetrieveValue_def ClearValue_def retrieveStashMap_def fun_upd_def)

section \<open>Frames\<close>

lemma keeps_StashValue [keeps_rules]: "keeps (appends S) (StashValue c k v)"
  by (auto simp: keeps_def StashValue_def intro: appends_same_trace)

lemma keeps_RetrieveValue [keeps_rules]: "keeps (appends S) (RetrieveValue c k)"
  by (auto simp: keeps_def RetrieveValue_def)

lemma keeps_ClearValue [keeps_rules]: "keeps (appends S) (ClearValue c k)"
  by (auto simp: keeps_def ClearValue_def intro: appends_same_trace)

section \<open>Interleaved requests\<close>

text \<open>
  Several requests use their stashes at the same time.  Each has a context of its own, known by a
  number, and their operations are interleaved in any order on the one heap.  An operation returns the
  value it reads, or nothing; using a stash before \<open>WithStash\<close> panics.
\<close>

datatype stash_op = Begin | Store string stash_value | Fetch string | Forget string

fun stash_step ::
    "nat \<Rightarrow> stash_op \<Rightarrow> (nat \<Rightarrow> ctx) \<Rightarrow> world \<Rightarrow> (stash_value option \<times> (nat \<Rightarrow> ctx) \<times> world) option" where
  "stash_step i Begin cs w = (let (c, w) = WithStash (cs i) w in Some (None, cs(i := c), w))"
| "stash_step i (Store k v) cs w = do { (_, w) \<leftarrow> StashValue (cs i) k v w; Some (None, cs, w) }"
| "stash_step i (Fetch k) cs w = do { (r, w) \<leftarrow> RetrieveValue (cs i) k w; Some (r, cs, w) }"
| "stash_step i (Forget k) cs w = do { (r, w) \<leftarrow> ClearValue (cs i) k w; Some (r, cs, w) }"

fun stash_run ::
    "(nat \<times> stash_op) list \<Rightarrow> (nat \<Rightarrow> ctx) \<Rightarrow> world \<Rightarrow> (nat \<times> stash_value option) list option" where
  "stash_run [] cs w = Some []"
| "stash_run ((i, op) # ops) cs w =
     do { (r, cs, w) \<leftarrow> stash_step i op cs w; rs \<leftarrow> stash_run ops cs w; Some ((i, r) # rs) }"

text \<open>What one request should see: a map of its own, that nobody else knows of.\<close>

fun private_step ::
    "stash_op \<Rightarrow> (string \<rightharpoonup> stash_value) option \<Rightarrow> (stash_value option \<times> (string \<rightharpoonup> stash_value) option) option" where
  "private_step Begin m = Some (None, Some Map.empty)"
| "private_step (Store k v) m = do { m \<leftarrow> m; Some (None, Some (m(k \<mapsto> v))) }"
| "private_step (Fetch k) m = do { m \<leftarrow> m; Some (m k, Some m) }"
| "private_step (Forget k) m = do { m \<leftarrow> m; Some (m k, Some (m(k := None))) }"

fun private_run ::
    "stash_op list \<Rightarrow> (string \<rightharpoonup> stash_value) option \<Rightarrow> stash_value option list option" where
  "private_run [] m = Some []"
| "private_run (op # ops) m = do { (r, m) \<leftarrow> private_step op m; rs \<leftarrow> private_run ops m; Some (r # rs) }"

text \<open>The part of an interleaving that belongs to one request.\<close>

definition of_request :: "nat \<Rightarrow> (nat \<times> 'a) list \<Rightarrow> 'a list" where
  "of_request i xs = map snd (filter (\<lambda>x. fst x = i) xs)"

lemma of_request_simps [simp]:
  "of_request i [] = []"
  "of_request i ((j, x) # xs) = (if j = i then x # of_request i xs else of_request i xs)"
  by (simp_all add: of_request_def)

text \<open>Every request that has a stash has an address of its own, and its map is what is there.\<close>

definition separate ::
    "(nat \<Rightarrow> ctx) \<Rightarrow> world \<Rightarrow> (nat \<Rightarrow> (string \<rightharpoonup> stash_value) option) \<Rightarrow> bool" where
  "separate cs w ms \<longleftrightarrow>
     (\<forall>i. ms i = map_option (stashes w) (ctxStash (cs i))) \<and>
     (\<forall>i a. ctxStash (cs i) = Some a \<longrightarrow> a < nextStash w) \<and>
     (\<forall>i j a. ctxStash (cs i) = Some a \<and> ctxStash (cs j) = Some a \<longrightarrow> i = j)"

lemma separate_lookup: "separate cs w ms \<Longrightarrow> ms i = map_option (stashes w) (ctxStash (cs i))"
  by (simp add: separate_def)

lemma separate_alloc:
  assumes "separate cs w ms"
  shows "separate (cs(i := fst (WithStash (cs i) w))) (snd (WithStash (cs i) w)) (ms(i := Some Map.empty))"
proof -
  have "map_option (\<lambda>b. if b = nextStash w then Map.empty else stashes w b) (ctxStash (cs j)) =
      map_option (stashes w) (ctxStash (cs j))" for j
    using assms by (cases "ctxStash (cs j)") (auto simp: separate_def)
  then show ?thesis
    using assms by (fastforce simp: separate_def WithStash_def less_Suc_eq fun_upd_def)
qed

lemma separate_write:
  assumes "separate cs w ms" and "ctxStash (cs i) = Some a"
  shows "separate cs (w\<lparr>stashes := (stashes w)(a := m)\<rparr>) (ms(i := Some m))"
proof -
  have "map_option (\<lambda>b. if b = a then m else stashes w b) (ctxStash (cs j)) =
      map_option (stashes w) (ctxStash (cs j))" if "j \<noteq> i" for j
  proof (cases "ctxStash (cs j)")
    case (Some b)
    with assms that have "b \<noteq> a" unfolding separate_def by metis
    with Some show ?thesis by simp
  qed simp
  then show ?thesis using assms by (auto simp: separate_def fun_upd_def)
qed

lemma private_step_sim:
  assumes "separate cs w ms"
  shows "case private_step op (ms i) of
      None \<Rightarrow> stash_step i op cs w = None
    | Some (r, m) \<Rightarrow> \<exists>cs' w'. stash_step i op cs w = Some (r, cs', w') \<and> separate cs' w' (ms(i := m))"
proof (cases op)
  case Begin
  then show ?thesis using separate_alloc [OF assms, of i] by (simp add: case_prod_beta Let_def)
next
  case (Store k v)
  then show ?thesis
    using separate_lookup [OF assms, of i] separate_write [OF assms, of i]
    by (cases "ctxStash (cs i)") (simp_all add: StashValue_def retrieveStashMap_def)
next
  case (Fetch k)
  then show ?thesis
    using separate_lookup [OF assms, of i] assms
    by (cases "ctxStash (cs i)")
      (simp_all add: RetrieveValue_def retrieveStashMap_def fun_upd_idem)
next
  case (Forget k)
  then show ?thesis
    using separate_lookup [OF assms, of i] separate_write [OF assms, of i]
    by (cases "ctxStash (cs i)") (simp_all add: ClearValue_def retrieveStashMap_def)
qed

lemma private_run_sim:
  "separate cs w ms \<Longrightarrow>
     case stash_run ops cs w of
       None \<Rightarrow> \<exists>i. private_run (of_request i ops) (ms i) = None
     | Some rs \<Rightarrow> \<forall>i. private_run (of_request i ops) (ms i) = Some (of_request i rs)"
proof (induction ops arbitrary: cs w ms)
  case Nil
  then show ?case by simp
next
  case (Cons a ops)
  obtain i op where a: "a = (i, op)" by (cases a)
  show ?case
  proof (cases "private_step op (ms i)")
    case None
    with private_step_sim [OF Cons.prems, where i = i and op = op] show ?thesis by (force simp: a)
  next
    case (Some x)
    obtain r m where x: "x = (r, m)" by (cases x)
    with Some private_step_sim [OF Cons.prems, where i = i and op = op] obtain cs' w' where
      s: "stash_step i op cs w = Some (r, cs', w')" and w': "separate cs' w' (ms(i := m))" by auto
    have j: "private_run (of_request j (a # ops)) (ms j) =
        (if j = i then map_option ((#) r) (private_run (of_request j ops) m)
         else private_run (of_request j ops) (ms j))" for j
      using Some by (simp add: a x map_option_case split: option.split)
    show ?thesis
    proof (cases "stash_run ops cs' w'")
      case None
      with Cons.IH [OF w'] obtain j where "private_run (of_request j ops) ((ms(i := m)) j) = None" by auto
      then have "private_run (of_request j (a # ops)) (ms j) = None" unfolding j by (simp split: if_splits)
      moreover have "stash_run (a # ops) cs w = None" using None s by (simp add: a)
      ultimately show ?thesis by auto
    next
      case (Some rs)
      with Cons.IH [OF w'] have "private_run (of_request k ops) ((ms(i := m)) k) = Some (of_request k rs)" for k
        by auto
      then have "private_run (of_request k (a # ops)) (ms k) = Some (of_request k ((i, r) # rs))" for k
        unfolding j by (cases "k = i") (metis fun_upd_apply of_request_simps(2) option.simps(9))+
      with Some s show ?thesis by (simp add: a del: of_request_simps)
    qed
  qed
qed

section \<open>Properties\<close>

text \<open>
  C13. Isolation of the stashes: requests whose contexts start without a stash, interleaved in any
  way on the one heap, each see exactly what they would see with a map of their own: what they stored
  last under a key since their own \<open>WithStash\<close> and did not clear.  The interleaving panics exactly
  when one of them uses its stash before \<open>WithStash\<close>.
\<close>

theorem stash_isolation:
  assumes "\<forall>i. ctxStash (cs i) = None"
  shows "case stash_run ops cs w of
      None \<Rightarrow> \<exists>i. private_run (of_request i ops) None = None
    | Some rs \<Rightarrow> \<forall>i. private_run (of_request i ops) None = Some (of_request i rs)"
  using private_run_sim [of cs w "\<lambda>_. None" ops] assms by (simp add: separate_def)

theorem stash_isolation_witness:
  "\<exists>rs. stash_run [(0, Begin), (1, Begin), (0, Store ''k'' (AnyValue ''a'')), (1, Store ''k'' (AnyValue ''b'')),
       (0, Fetch ''k''), (1, Forget ''k''), (0, Fetch ''k''), (1, Fetch ''k'')] (\<lambda>_. background) empty_world = Some rs \<and>
     of_request 0 rs = [None, None, Some (AnyValue ''a''), Some (AnyValue ''a'')] \<and>
     of_request 1 rs = [None, None, Some (AnyValue ''b''), None]"
proof -
  let ?ops = "[(0, Begin), (1, Begin), (0, Store ''k'' (AnyValue ''a'')), (1, Store ''k'' (AnyValue ''b'')),
       (0, Fetch ''k''), (1, Forget ''k''), (0, Fetch ''k''), (1, Fetch ''k'')]"
  obtain rs where run: "stash_run ?ops (\<lambda>_. background) empty_world = Some rs"
    by (simp add: WithStash_def StashValue_def RetrieveValue_def ClearValue_def retrieveStashMap_def Let_def)
  have "\<forall>i. ctxStash ((\<lambda>_. background) i) = None" by (simp add: background_def)
  from stash_isolation [OF this, of ?ops empty_world] run
  have "private_run (of_request 0 ?ops) None = Some (of_request 0 rs)"
    "private_run (of_request 1 ?ops) None = Some (of_request 1 rs)"
    by (simp_all only: option.case)
  then show ?thesis using run by auto
qed

end
