(* ===== verification/Configs.thy ===== *)
theory Configs
  imports Stash
begin

text \<open>
  The context accessors of \<^verbatim>\<open>src/reconcilers/reconcilers.go\<close> and \<^verbatim>\<open>src/time/now.go\<close>, the configuration
  of \<^verbatim>\<open>src/reconcilers/config.go\<close> with its tracking reads, \<open>EnqueueTracked\<close>, and the shape every
  sub-reconciler has.
\<close>

section \<open>Values on the context\<close>

definition StashRequest :: "ctx \<Rightarrow> namespaced_name \<Rightarrow> ctx" where
  "StashRequest c req = c\<lparr>ctxRequest := Some req\<rparr>"

definition empty_request :: namespaced_name where
  "empty_request = \<lparr>nnNamespace = [], nnName = []\<rparr>"

definition RetrieveRequest :: "ctx \<Rightarrow> namespaced_name" where
  "RetrieveRequest c = (case ctxRequest c of Some req \<Rightarrow> req | None \<Rightarrow> empty_request)"

definition StashConfig :: "ctx \<Rightarrow> Config \<Rightarrow> ctx" where
  "StashConfig c config = c\<lparr>ctxConfig := Some config\<rparr>"

definition RetrieveConfig :: "ctx \<Rightarrow> err + Config" where
  "RetrieveConfig c =
     (case ctxConfig c of
        Some config \<Rightarrow> Inr config
      | None \<Rightarrow> Inl (Errorf ''config must exist on the context. Check that the context is from a ResourceReconciler or WithConfig'' []))"

text \<open>The \<open>OrDie\<close> variants panic on an error.\<close>

definition RetrieveConfigOrDie :: "ctx \<Rightarrow> Config option" where
  "RetrieveConfigOrDie c = (case RetrieveConfig c of Inl e \<Rightarrow> None | Inr config \<Rightarrow> Some config)"

definition StashOriginalConfig :: "ctx \<Rightarrow> Config \<Rightarrow> ctx" where
  "StashOriginalConfig c config = c\<lparr>ctxOriginalConfig := Some config\<rparr>"

definition RetrieveOriginalConfig :: "ctx \<Rightarrow> err + Config" where
  "RetrieveOriginalConfig c =
     (case ctxOriginalConfig c of
        Some config \<Rightarrow> Inr config
      | None \<Rightarrow> Inl (Errorf ''resource config must exist on the context. Check that the context is from a ResourceReconciler'' []))"

definition RetrieveOriginalConfigOrDie :: "ctx \<Rightarrow> Config option" where
  "RetrieveOriginalConfigOrDie c =
     (case RetrieveOriginalConfig c of Inl e \<Rightarrow> None | Inr config \<Rightarrow> Some config)"

definition StashResourceType :: "ctx \<Rightarrow> object \<Rightarrow> ctx" where
  "StashResourceType c t = c\<lparr>ctxResourceType := Some t\<rparr>"

definition RetrieveResourceType :: "ctx \<Rightarrow> object option" where
  "RetrieveResourceType c = ctxResourceType c"

definition StashOriginalResourceType :: "ctx \<Rightarrow> object \<Rightarrow> ctx" where
  "StashOriginalResourceType c t = c\<lparr>ctxOriginalResourceType := Some t\<rparr>"

definition RetrieveOriginalResourceType :: "ctx \<Rightarrow> object option" where
  "RetrieveOriginalResourceType c = ctxOriginalResourceType c"

definition StashAdditionalConfigs :: "ctx \<Rightarrow> (string \<rightharpoonup> Config) \<Rightarrow> ctx" where
  "StashAdditionalConfigs c configs = c\<lparr>ctxAdditionalConfigs := Some configs\<rparr>"

definition RetrieveAdditionalConfigs :: "ctx \<Rightarrow> (string \<rightharpoonup> Config)" where
  "RetrieveAdditionalConfigs c =
     (case ctxAdditionalConfigs c of Some configs \<Rightarrow> configs | None \<Rightarrow> Map.empty)"

text \<open>The first stashed time wins: later calls do not overwrite it.\<close>

definition StashNow :: "ctx \<Rightarrow> int \<Rightarrow> ctx" where
  "StashNow c now = (if ctxNow c \<noteq> None then c else c\<lparr>ctxNow := Some now\<rparr>)"

definition RetrieveNow :: "env \<Rightarrow> ctx \<Rightarrow> world \<Rightarrow> int" where
  "RetrieveNow E c w = (case ctxNow c of Some now \<Rightarrow> now | None \<Rightarrow> clock E (trace w))"

text \<open>\<open>gvk\<close>: the kind a client knows for an object, the empty kind on an error.\<close>

definition client_gvk :: "env \<Rightarrow> string option \<Rightarrow> object \<Rightarrow> (world, gvk) go" where
  "client_gvk E cl obj w =
     do { (k, w) \<leftarrow> client_GroupVersionKindFor E cl obj w;
          Some ((case k of Inl e \<Rightarrow> empty_gvk | Inr k \<Rightarrow> k), w) }"

section \<open>Sub-reconcilers\<close>

text \<open>
  A \<open>SubReconciler\<close>: setting it up with a manager and a builder, and reconciling a resource, which
  it may modify in place.  Either may panic.
\<close>

record sub_reconciler =
  SetupWithManager :: "ctx \<Rightarrow> (world, err option) go"
  Reconcile :: "ctx \<Rightarrow> object \<Rightarrow> (world, result \<times> err option \<times> object) go"

section \<open>Config\<close>

definition empty_config :: Config where
  "empty_config = \<lparr>Client = None, APIReader = None, Recorder = None, Tracker = None\<rparr>"

definition IsEmpty :: "Config \<Rightarrow> bool" where
  "IsEmpty c \<longleftrightarrow> c = empty_config"

text \<open>A cluster, or a manager: the names of what it hands out.\<close>

record cluster =
  GetClient :: string
  GetAPIReader :: string
  GetEventRecorderFor :: "string \<Rightarrow> string"

definition WithCluster :: "(string \<Rightarrow> string) \<Rightarrow> (string \<Rightarrow> string \<Rightarrow> string) \<Rightarrow> Config \<Rightarrow> cluster \<Rightarrow> Config" where
  "WithCluster NewDuckAwareClientWrapper NewDuckAwareAPIReaderWrapper c cl =
     \<lparr>Client = Some (NewDuckAwareClientWrapper (GetClient cl)),
      APIReader = Some (NewDuckAwareAPIReaderWrapper (GetAPIReader cl) (GetClient cl)),
      Recorder = Some (GetEventRecorderFor cl ''controller''),
      Tracker = Tracker c\<rparr>"

definition NewConfig ::
    "(string \<Rightarrow> string) \<Rightarrow> (string \<Rightarrow> string \<Rightarrow> string) \<Rightarrow> cluster \<Rightarrow> int \<Rightarrow> world \<Rightarrow> Config \<times> world" where
  "NewConfig wrapClient wrapReader mgr syncPeriod w =
     (let (t, w) = new_tracker (2 * syncPeriod) w
      in (WithCluster wrapClient wrapReader (empty_config\<lparr>Tracker := Some t\<rparr>) mgr, w))"

text \<open>The synthetic object both tracking reads observe from: the resource type under the request's name.\<close>

definition tracking_resource :: "ctx \<Rightarrow> object option" where
  "tracking_resource ctx =
     (let req = RetrieveRequest ctx
      in do { resource \<leftarrow> RetrieveResourceType ctx;
              Some (resource\<lparr>objNamespace := nnNamespace req, objName := nnName req\<rparr>) })"

text \<open>\<open>TrackAndGet\<close> drops the error of the tracker.\<close>

definition TrackAndGet ::
    "env \<Rightarrow> Config \<Rightarrow> ctx \<Rightarrow> namespaced_name \<Rightarrow> object \<Rightarrow> (world, err option \<times> object) go" where
  "TrackAndGet E c ctx key obj w =
     do { resource \<leftarrow> tracking_resource ctx;
          let ref = obj\<lparr>objNamespace := nnNamespace key, objName := nnName key\<rparr>;
          (ignored, w) \<leftarrow> tracker_TrackObject E (Tracker c) ref resource w;
          client_Get E (Client c) key obj w }"

definition TrackAndList ::
    "env \<Rightarrow> Config \<Rightarrow> ctx \<Rightarrow> object_list \<Rightarrow> list_option list \<Rightarrow> (world, err option \<times> object_list) go" where
  "TrackAndList E c ctx list opts w =
     do { resource \<leftarrow> tracking_resource ctx;
          case listReference E list of
            Inl e \<Rightarrow> Some ((Some e, list), w)
          | Inr oref \<Rightarrow>
              (let gvk = FromAPIVersionAndKind (refs E) (orAPIVersion oref) (orKind oref);
                   (namespace, sel) = applyListOptions E opts;
                   sel = (case sel of None \<Rightarrow> everything E | Some s \<Rightarrow> s);
                   ref = \<lparr>refAPIGroup = gvkGroup gvk, refKind = trimListSuffix E (gvkKind gvk),
                          refNamespace = namespace, refName = [], refSelector = Some sel\<rparr>
               in do { (ignored, w) \<leftarrow> tracker_TrackReference E (Tracker c) ref resource w;
                       client_List E (Client c) list opts w }) }"

section \<open>EnqueueTracked\<close>

text \<open>
  The handler is a function of the configuration and logger of the context it was made with;
  \<open>None\<close> when that context has no configuration.
\<close>

definition EnqueueTracked ::
    "env \<Rightarrow> ctx \<Rightarrow> (object \<Rightarrow> (world, namespaced_name list) go) option" where
  "EnqueueTracked E ctx =
     do { c \<leftarrow> RetrieveConfigOrDie ctx;
          Some (\<lambda>obj w.
            do { (items, w) \<leftarrow> tracker_GetObservers E (Tracker c) obj w;
                 case items of
                   Inl e \<Rightarrow>
                     (let w = (if \<not> is_quiet e
                               then log_error ctx e ''unable to get tracked requests'' [] w else w)
                      in Some ([], w))
                 | Inr items \<Rightarrow> Some (items, w) }) }"

section \<open>WithConfig\<close>

record WithConfig =
  wcName :: string
  wcConfig :: "(ctx \<Rightarrow> Config \<Rightarrow> (world, Config \<times> err option) go) option"
  wcReconciler :: "sub_reconciler option"

definition WithConfig_validate :: "WithConfig \<Rightarrow> err option" where
  "WithConfig_validate r =
     (if wcConfig r = None
      then Some (Errorf ''WithConfig %q must define Config'' [wcName r])
      else if wcReconciler r = None
      then Some (Errorf ''WithConfig %q must define Reconciler'' [wcName r])
      else None)"

definition WithConfig_SetupWithManager :: "WithConfig \<Rightarrow> ctx \<Rightarrow> (world, err option \<times> WithConfig) go" where
  "WithConfig_SetupWithManager r ctx w =
     (let r = (if wcName r = [] then r\<lparr>wcName := ''WithConfig''\<rparr> else r);
          ctx = WithName (wcName r) ctx
      in case WithConfig_validate r of
           Some e \<Rightarrow> Some ((Some e, r), w)
         | None \<Rightarrow>
             do { config \<leftarrow> wcConfig r;
                  old \<leftarrow> RetrieveConfigOrDie ctx;
                  ((c, e), w) \<leftarrow> config ctx old w;
                  case e of
                    Some e \<Rightarrow> Some ((Some e, r), w)
                  | None \<Rightarrow>
                      do { s \<leftarrow> wcReconciler r;
                           (e, w) \<leftarrow> SetupWithManager s (StashConfig ctx c) w;
                           Some ((e, r), w) } })"

definition WithConfig_Reconcile ::
    "WithConfig \<Rightarrow> ctx \<Rightarrow> object \<Rightarrow> (world, result \<times> err option \<times> object) go" where
  "WithConfig_Reconcile r ctx resource w =
     (let ctx = WithName (wcName r) ctx
      in do { config \<leftarrow> wcConfig r;
              old \<leftarrow> RetrieveConfigOrDie ctx;
              ((c, e), w) \<leftarrow> config ctx old w;
              case e of
                Some e \<Rightarrow> Some ((empty_result, Some e, resource), w)
              | None \<Rightarrow>
                  do { s \<leftarrow> wcReconciler r; Reconcile s (StashConfig ctx c) resource w } })"

section \<open>A concrete request\<close>

definition demo_config :: Config where
  "demo_config =
     \<lparr>Client = Some ''client'', APIReader = Some ''reader'', Recorder = Some ''recorder'', Tracker = Some 0\<rparr>"

definition demo_ctx :: ctx where
  "demo_ctx = background\<lparr>ctxConfig := Some demo_config, ctxOriginalConfig := Some demo_config,
     ctxRequest := Some \<lparr>nnNamespace = ''ns'', nnName = ''parent''\<rparr>,
     ctxResourceType := Some (empty_object ''Deployment''), ctxStash := Some 0\<rparr>"

definition demo_world :: world where
  "demo_world = empty_world\<lparr>trackers := (\<lambda>_. New 10), nextTracker := 1, nextStash := 1\<rparr>"

section \<open>Properties\<close>

lemma client_Get_trackers: "client_Get E cl key obj w = Some (x, w') \<Longrightarrow> trackers w' = trackers w"
  by (auto simp: client_Get_def invoke_def record_call_def)

lemma TrackAndGet_tracks:
  assumes "TrackAndGet E c ctx key obj w = Some (x, w')" and "Tracker c = Some t"
  shows "\<exists>observer. observer_key observer = RetrieveRequest ctx \<and>
    trackers w' t =
      tracker_step (refs E) (clock E (trace w))
        (Track_Object (obj\<lparr>objNamespace := nnNamespace key, objName := nnName key\<rparr>) observer)
        (trackers w t)"
proof -
  obtain resource ignored w1 where r: "tracking_resource ctx = Some resource"
    and w1: "tracker_TrackObject E (Some t) (obj\<lparr>objNamespace := nnNamespace key, objName := nnName key\<rparr>)
        resource w = Some (ignored, w1)"
    and w': "client_Get E (Client c) key obj w1 = Some (x, w')"
    using assms by (auto simp: TrackAndGet_def)
  have "observer_key resource = RetrieveRequest ctx"
    using r by (auto simp: tracking_resource_def observer_key_def Let_def)
  moreover have "trackers w' t = trackers w1 t" using client_Get_trackers [OF w'] by simp
  ultimately show ?thesis
    using w1 by (intro exI [of _ resource])
      (auto simp: tracker_TrackObject_def record_call_def split: prod.splits)
qed

lemma EnqueueTracked_observers:
  assumes "EnqueueTracked E ctx = Some handle" and "ctxConfig ctx = Some c" and "Tracker c = Some t"
    and "handle obj w = Some (requests, w')"
    and "object_ref (refs E) obj \<noteq> None"
  shows "fst (GetObservers (refs E) (trackers w t) (clock E (trace w)) obj) = Inr requests"
proof -
  obtain ref where ref: "object_ref (refs E) obj = Some ref" using assms(5) by auto
  obtain ks where "fst (GetObservers (refs E) (trackers w t) (clock E (trace w)) obj) = Inr ks"
    using GetObservers_Some(2) [OF ref] by blast
  then show ?thesis
    using assms(1-4)
    by (auto simp: EnqueueTracked_def RetrieveConfigOrDie_def RetrieveConfig_def
        tracker_GetObservers_def split: prod.splits)
qed

lemma EnqueueTracked_total:
  assumes "EnqueueTracked E ctx = Some handle" and "ctxConfig ctx = Some c" and "Tracker c = Some t"
  shows "\<exists>requests w'. handle obj w = Some (requests, w')"
proof -
  obtain r i where "GetObservers (refs E) (trackers w t) (clock E (trace w)) obj = (r, i)" by fastforce
  with assms show ?thesis
    by (cases r) (auto simp: EnqueueTracked_def RetrieveConfigOrDie_def RetrieveConfig_def
        tracker_GetObservers_def Let_def)
qed



end
