(* ===== verification/Flow.thy ===== *)
theory Flow
  imports Configs
begin

text \<open>
  The sub-reconcilers that only compose others: \<open>Sequence\<close> of \<^verbatim>\<open>src/reconcilers/sequence.go\<close> and
  \<open>IfThen\<close>, \<open>While\<close>, \<open>TryCatch\<close> and \<open>OverrideSetup\<close> of \<^verbatim>\<open>src/reconcilers/flow.go\<close>.  Function and
  interface fields that may be nil are options; using a nil one panics.  The loop of \<open>While\<close> may run
  for ever, so it is a \<open>partial_function\<close>: not returning is \<open>None\<close>.
\<close>

section \<open>Building blocks\<close>

type_synonym setup_fun = "ctx \<Rightarrow> (world, err option) go"

type_synonym reconciled = "result \<times> err option \<times> object"

text \<open>\<open>if err := m; err != nil { return err }\<close> followed by \<open>k\<close>.\<close>

definition on_success :: "(world, err option) go \<Rightarrow> (world, err option) go \<Rightarrow> (world, err option) go" where
  "on_success m k w =
     do { (e, w) \<leftarrow> m w; case e of Some e \<Rightarrow> Some (Some e, w) | None \<Rightarrow> k w }"

text \<open>\<open>if r.Setup != nil { if err := r.Setup(ctx, mgr, bldr); err != nil { return err } }\<close>\<close>

definition optional_setup :: "setup_fun option \<Rightarrow> setup_fun" where
  "optional_setup s ctx w = (case s of None \<Rightarrow> Some (None, w) | Some s \<Rightarrow> s ctx w)"

definition setup_of :: "sub_reconciler option \<Rightarrow> setup_fun" where
  "setup_of s ctx w = do { s \<leftarrow> s; SetupWithManager s ctx w }"

definition optional_setup_of :: "sub_reconciler option \<Rightarrow> setup_fun" where
  "optional_setup_of s ctx w = (case s of None \<Rightarrow> Some (None, w) | Some s \<Rightarrow> SetupWithManager s ctx w)"

section \<open>Sequence\<close>

fun Sequence_setup_loop :: "sub_reconciler list \<Rightarrow> ctx \<Rightarrow> nat \<Rightarrow> (world, err option) go" where
  "Sequence_setup_loop [] c i w = Some (None, w)"
| "Sequence_setup_loop (s # ss) c i w =
     (let c = WithName (decimal i) c
      in do { (e, w) \<leftarrow> SetupWithManager s c w;
              case e of Some e \<Rightarrow> Some (Some e, w) | None \<Rightarrow> Sequence_setup_loop ss c (i + 1) w })"

definition Sequence_SetupWithManager :: "sub_reconciler list \<Rightarrow> setup_fun" where
  "Sequence_SetupWithManager r c w = Sequence_setup_loop r c 0 w"

fun Sequence_loop ::
    "sub_reconciler list \<Rightarrow> ctx \<Rightarrow> nat \<Rightarrow> result \<Rightarrow> object \<Rightarrow> (world, reconciled) go" where
  "Sequence_loop [] c i aggregateResult resource w = Some ((aggregateResult, None, resource), w)"
| "Sequence_loop (s # ss) c i aggregateResult resource w =
     do { ((result, e, resource), w) \<leftarrow> Reconcile s (WithName (decimal i) c) resource w;
          let aggregateResult = AggregateResults [result, aggregateResult];
          case e of
            Some e \<Rightarrow> Some ((result, Some e, resource), w)
          | None \<Rightarrow> Sequence_loop ss c (i + 1) aggregateResult resource w }"

definition Sequence_Reconcile :: "sub_reconciler list \<Rightarrow> ctx \<Rightarrow> object \<Rightarrow> (world, reconciled) go" where
  "Sequence_Reconcile r c resource w = Sequence_loop r c 0 empty_result resource w"

definition Sequence :: "sub_reconciler list \<Rightarrow> sub_reconciler" where
  "Sequence r =
     \<lparr>SetupWithManager = Sequence_SetupWithManager r, Reconcile = Sequence_Reconcile r\<rparr>"

section \<open>IfThen\<close>

record IfThen =
  itName :: string
  itSetup :: "setup_fun option"
  itIf :: "(ctx \<Rightarrow> object \<Rightarrow> (world, bool \<times> object) go) option"
  itThen :: "sub_reconciler option"
  itElse :: "sub_reconciler option"

definition IfThen_init :: "IfThen \<Rightarrow> IfThen" where
  "IfThen_init r = (if itName r = [] then r\<lparr>itName := ''IfThen''\<rparr> else r)"

definition IfThen_validate :: "IfThen \<Rightarrow> err option" where
  "IfThen_validate r =
     (if itIf r = None then Some (Errorf ''IfThen %q must implement If'' [itName r])
      else if itThen r = None then Some (Errorf ''IfThen %q must implement Then'' [itName r])
      else None)"

definition IfThen_SetupWithManager :: "IfThen \<Rightarrow> setup_fun" where
  "IfThen_SetupWithManager r ctx w =
     (let r = IfThen_init r; ctx = WithName (itName r) ctx
      in case IfThen_validate r of
           Some e \<Rightarrow> Some (Some e, w)
         | None \<Rightarrow>
             on_success (optional_setup (itSetup r) ctx)
               (on_success (setup_of (itThen r) ctx) (optional_setup_of (itElse r) ctx)) w)"

definition IfThen_Reconcile :: "IfThen \<Rightarrow> ctx \<Rightarrow> object \<Rightarrow> (world, reconciled) go" where
  "IfThen_Reconcile r ctx resource w =
     (let r = IfThen_init r; ctx = WithName (itName r) ctx
      in do { cond \<leftarrow> itIf r;
              ((b, resource), w) \<leftarrow> cond ctx resource w;
              if b then do { s \<leftarrow> itThen r; Reconcile s ctx resource w }
              else case itElse r of
                     Some s \<Rightarrow> Reconcile s ctx resource w
                   | None \<Rightarrow> Some ((empty_result, None, resource), w) })"

definition IfThen_sub :: "IfThen \<Rightarrow> sub_reconciler" where
  "IfThen_sub r = \<lparr>SetupWithManager = IfThen_SetupWithManager r, Reconcile = IfThen_Reconcile r\<rparr>"

section \<open>While\<close>

definition stashIteration :: "ctx \<Rightarrow> int \<Rightarrow> ctx" where
  "stashIteration c i = c\<lparr>ctxIteration := Some i\<rparr>"

definition RetrieveIteration :: "ctx \<Rightarrow> int" where
  "RetrieveIteration c = (case ctxIteration c of Some i \<Rightarrow> i | None \<Rightarrow> -1)"

record While =
  whName :: string
  whSetup :: "setup_fun option"
  whCondition :: "(ctx \<Rightarrow> object \<Rightarrow> (world, bool \<times> object) go) option"
  whReconciler :: "sub_reconciler option"
  whMaxIterations :: "int option"

definition While_init :: "While \<Rightarrow> While" where
  "While_init r =
     (let r = (if whName r = [] then r\<lparr>whName := ''While''\<rparr> else r)
      in if whMaxIterations r = None then r\<lparr>whMaxIterations := Some 100\<rparr> else r)"

definition While_validate :: "While \<Rightarrow> err option" where
  "While_validate r =
     (if whCondition r = None then Some (Errorf ''While %q must implement Condition'' [whName r])
      else if whReconciler r = None then Some (Errorf ''While %q must implement Reconciler'' [whName r])
      else None)"

definition While_SetupWithManager :: "While \<Rightarrow> setup_fun" where
  "While_SetupWithManager r ctx w =
     (let r = While_init r; ctx = WithName (whName r) ctx
      in case While_validate r of
           Some e \<Rightarrow> Some (Some e, w)
         | None \<Rightarrow> on_success (optional_setup (whSetup r) ctx) (setup_of (whReconciler r) ctx) w)"

text \<open>The context of iteration \<open>i\<close>: the names do not accumulate over the iterations.\<close>

definition iteration_ctx :: "ctx \<Rightarrow> int \<Rightarrow> ctx" where
  "iteration_ctx c i = stashIteration (WithName (decimal (nat i)) c) i"

partial_function (option) While_loop ::
    "While \<Rightarrow> ctx \<Rightarrow> int \<Rightarrow> result \<Rightarrow> object \<Rightarrow> world \<Rightarrow> (reconciled \<times> world) option" where
  "While_loop r c i aggregateResult resource w =
     do { max \<leftarrow> whMaxIterations r;
          if max \<noteq> 0 \<and> i \<ge> max
          then Some ((aggregateResult, Some (ErrMaxIterations i), resource), w)
          else do { condition \<leftarrow> whCondition r;
                    ((b, resource), w) \<leftarrow> condition (iteration_ctx c i) resource w;
                    if \<not> b then Some ((aggregateResult, None, resource), w)
                    else do { s \<leftarrow> whReconciler r;
                              ((result, e, resource), w) \<leftarrow> Reconcile s (iteration_ctx c i) resource w;
                              (case e of
                                 Some e \<Rightarrow>
                                   Some ((AggregateResults [aggregateResult, result], Some e, resource), w)
                               | None \<Rightarrow>
                                   While_loop r c (i + 1) (AggregateResults [aggregateResult, result])
                                     resource w) } } }"

definition While_Reconcile :: "While \<Rightarrow> ctx \<Rightarrow> object \<Rightarrow> (world, reconciled) go" where
  "While_Reconcile r ctx resource w =
     (let r = While_init r; ctx = WithName (whName r) ctx
      in While_loop r ctx 0 empty_result resource w)"

definition While_sub :: "While \<Rightarrow> sub_reconciler" where
  "While_sub r = \<lparr>SetupWithManager = While_SetupWithManager r, Reconcile = While_Reconcile r\<rparr>"

section \<open>TryCatch\<close>

record TryCatch =
  tcName :: string
  tcSetup :: "setup_fun option"
  tcTry :: "sub_reconciler option"
  tcCatch :: "(ctx \<Rightarrow> object \<Rightarrow> result \<Rightarrow> err option \<Rightarrow> (world, reconciled) go) option"
  tcFinally :: "sub_reconciler option"

definition TryCatch_init :: "TryCatch \<Rightarrow> TryCatch" where
  "TryCatch_init r = (if tcName r = [] then r\<lparr>tcName := ''TryCatch''\<rparr> else r)"

definition TryCatch_validate :: "TryCatch \<Rightarrow> err option" where
  "TryCatch_validate r =
     (if tcTry r = None then Some (Errorf ''TryCatch %q must implement Try'' [tcName r]) else None)"

definition TryCatch_SetupWithManager :: "TryCatch \<Rightarrow> setup_fun" where
  "TryCatch_SetupWithManager r ctx w =
     (let r = TryCatch_init r; ctx = WithName (tcName r) ctx
      in case TryCatch_validate r of
           Some e \<Rightarrow> Some (Some e, w)
         | None \<Rightarrow>
             on_success (optional_setup (tcSetup r) ctx)
               (on_success (setup_of (tcTry r) ctx) (optional_setup_of (tcFinally r) ctx)) w)"

definition TryCatch_Reconcile :: "TryCatch \<Rightarrow> ctx \<Rightarrow> object \<Rightarrow> (world, reconciled) go" where
  "TryCatch_Reconcile r ctx resource w =
     (let r = TryCatch_init r; ctx = WithName (tcName r) ctx
      in do { s \<leftarrow> tcTry r;
              ((result, e, resource), w) \<leftarrow> Reconcile s ctx resource w;
              ((result, e, resource), w) \<leftarrow>
                (case tcCatch r of
                   None \<Rightarrow> Some ((result, e, resource), w)
                 | Some catch \<Rightarrow> catch ctx resource result e w);
              case tcFinally r of
                None \<Rightarrow> Some ((result, e, resource), w)
              | Some f \<Rightarrow>
                  do { ((fresult, ferr, resource), w) \<leftarrow> Reconcile f ctx resource w;
                       case ferr of
                         Some ferr \<Rightarrow> Some ((AggregateResults [result, fresult], Some ferr, resource), w)
                       | None \<Rightarrow> Some ((AggregateResults [result, fresult], e, resource), w) } })"

definition TryCatch_sub :: "TryCatch \<Rightarrow> sub_reconciler" where
  "TryCatch_sub r = \<lparr>SetupWithManager = TryCatch_SetupWithManager r, Reconcile = TryCatch_Reconcile r\<rparr>"

section \<open>OverrideSetup\<close>

record OverrideSetup =
  osName :: string
  osSetup :: "setup_fun option"
  osReconciler :: "sub_reconciler option"

definition OverrideSetup_init :: "OverrideSetup \<Rightarrow> OverrideSetup" where
  "OverrideSetup_init r = (if osName r = [] then r\<lparr>osName := ''SkipSetup''\<rparr> else r)"

definition OverrideSetup_validate :: "OverrideSetup \<Rightarrow> err option" where
  "OverrideSetup_validate r =
     (if osSetup r = None \<and> osReconciler r = None
      then Some (Errorf ''OverrideSetup %q must implement at least one of Setup or Reconciler'' [osName r])
      else None)"

definition OverrideSetup_SetupWithManager :: "OverrideSetup \<Rightarrow> setup_fun" where
  "OverrideSetup_SetupWithManager r ctx w =
     (let r = OverrideSetup_init r; ctx = WithName (osName r) ctx
      in case OverrideSetup_validate r of
           Some e \<Rightarrow> Some (Some e, w)
         | None \<Rightarrow> optional_setup (osSetup r) ctx w)"

definition OverrideSetup_Reconcile :: "OverrideSetup \<Rightarrow> ctx \<Rightarrow> object \<Rightarrow> (world, reconciled) go" where
  "OverrideSetup_Reconcile r ctx resource w =
     (let r = OverrideSetup_init r; ctx = WithName (osName r) ctx
      in case osReconciler r of
           None \<Rightarrow> Some ((empty_result, None, resource), w)
         | Some s \<Rightarrow> Reconcile s ctx resource w)"

definition OverrideSetup_sub :: "OverrideSetup \<Rightarrow> sub_reconciler" where
  "OverrideSetup_sub r =
     \<lparr>SetupWithManager = OverrideSetup_SetupWithManager r, Reconcile = OverrideSetup_Reconcile r\<rparr>"

section \<open>What a sequence does, step by step\<close>

text \<open>
  \<open>seq_run ss c i resource w results e resource' w'\<close>: the reconcilers run in order on the resource,
  the \<open>i\<close>-th first, giving \<open>results\<close>; the run ends at the first error or at the end of the list.
\<close>

inductive seq_run ::
    "sub_reconciler list \<Rightarrow> ctx \<Rightarrow> nat \<Rightarrow> object \<Rightarrow> world \<Rightarrow> result list \<Rightarrow> err option \<Rightarrow> object \<Rightarrow> world \<Rightarrow> bool" where
  seq_end: "seq_run [] c i resource w [] None resource w"
| seq_err: "Reconcile s (WithName (decimal i) c) resource w = Some ((result, Some e, resource'), w')
    \<Longrightarrow> seq_run (s # ss) c i resource w [result] (Some e) resource' w'"
| seq_next: "Reconcile s (WithName (decimal i) c) resource w = Some ((result, None, resource1), w1)
    \<Longrightarrow> seq_run ss c (i + 1) resource1 w1 results e resource' w'
    \<Longrightarrow> seq_run (s # ss) c i resource w (result # results) e resource' w'"

inductive_simps seq_run_Nil [simp]: "seq_run [] c i resource w results e resource' w'"
inductive_simps seq_run_Cons: "seq_run (s # ss) c i resource w results e resource' w'"

lemma seq_run_results: "seq_run ss c i resource w results e resource' w' \<Longrightarrow> e \<noteq> None \<Longrightarrow> results \<noteq> []"
  by (induction rule: seq_run.induct) auto

lemma seq_run_append_error:
  assumes "seq_run pre c i resource w results None resource1 w1"
    and "Reconcile s (WithName (decimal (i + length pre)) c) resource1 w1 = Some ((result, Some e, resource'), w')"
  shows "seq_run (pre @ s # post) c i resource w (results @ [result]) (Some e) resource' w'"
  using assms
proof (induction pre c i resource w results "None :: err option" resource1 w1 rule: seq_run.induct)
  case (seq_next s' i c resource w result1 resource1 w1 ss results resource2 w2)
  from seq_next.prems have "seq_run (ss @ s # post) c (i + 1) resource1 w1 (results @ [result]) (Some e) resource' w'"
    by (intro seq_next.hyps(3)) simp
  with seq_next.hyps(1) show ?case by (simp add: seq_run.seq_next)
qed (simp add: seq_run.seq_err)

text \<open>The result a sequence answers with, given the results of the reconcilers that ran.\<close>

definition seq_result :: "result \<Rightarrow> result list \<Rightarrow> err option \<Rightarrow> result" where
  "seq_result a results e =
     (if e = None then aggregate_step a (AggregateResults results) else last results)"

lemma seq_result_Cons:
  "e = None \<or> results \<noteq> [] \<Longrightarrow> seq_result a (r # results) e = seq_result (aggregate_step a r) results e"
  by (auto simp: seq_result_def aggregate.assoc)

lemma Sequence_loop_run:
  "Sequence_loop ss c i a resource w = Some ((result, e, resource'), w') \<longleftrightarrow>
    (\<exists>results. seq_run ss c i resource w results e resource' w' \<and> result = seq_result a results e)"
proof (induction ss arbitrary: i a resource w)
  case Nil
  show ?case by (auto simp: seq_result_def aggregate.comm_neutral)
next
  case (Cons s ss)
  show ?case
  proof (cases "Reconcile s (WithName (decimal i) c) resource w")
    case None
    then show ?thesis by (simp add: seq_run_Cons)
  next
    case (Some x)
    obtain r1 e1 res1 w1 where x: "x = ((r1, e1, res1), w1)" by (metis prod.exhaust)
    show ?thesis
    proof (cases e1)
      case None
      have "Sequence_loop (s # ss) c i a resource w = Sequence_loop ss c (i + 1) (aggregate_step a r1) res1 w1"
        using Some by (simp add: x None Let_def aggregate.comm_neutral aggregate.commute)
      moreover have "(\<exists>results. seq_run (s # ss) c i resource w results e resource' w' \<and>
            result = seq_result a results e) \<longleftrightarrow>
          (\<exists>rs. seq_run ss c (i + 1) res1 w1 rs e resource' w' \<and> result = seq_result a (r1 # rs) e)"
        using Some by (auto simp: seq_run_Cons x None)
      moreover have "seq_result a (r1 # rs) e = seq_result (aggregate_step a r1) rs e"
        if "seq_run ss c (i + 1) res1 w1 rs e resource' w'" for rs
        using seq_run_results [OF that] by (intro seq_result_Cons) auto
      ultimately show ?thesis
        using Cons.IH [of "i + 1" "aggregate_step a r1" res1 w1] by (simp cong: conj_cong)
    next
      case e1: (Some e1')
      show ?thesis
        using Some by (auto simp: x e1 Let_def seq_run_Cons seq_result_def)
    qed
  qed
qed

section \<open>What a loop does, iteration by iteration\<close>

text \<open>
  \<open>while_run r c i resource w results e resource' w'\<close>: from iteration \<open>i\<close> on, the reconciler of the
  loop ran once for each of \<open>results\<close>; the loop ends at the limit, at a false condition or at an error.
\<close>

inductive while_run ::
    "While \<Rightarrow> ctx \<Rightarrow> int \<Rightarrow> object \<Rightarrow> world \<Rightarrow> result list \<Rightarrow> err option \<Rightarrow> object \<Rightarrow> world \<Rightarrow> bool"
  for r c where
  while_limit: "whMaxIterations r = Some m \<Longrightarrow> m \<noteq> 0 \<Longrightarrow> i \<ge> m
    \<Longrightarrow> while_run r c i resource w [] (Some (ErrMaxIterations i)) resource w"
| while_end: "whMaxIterations r = Some m \<Longrightarrow> m = 0 \<or> i < m \<Longrightarrow> whCondition r = Some condition
    \<Longrightarrow> condition (iteration_ctx c i) resource w = Some ((False, resource'), w')
    \<Longrightarrow> while_run r c i resource w [] None resource' w'"
| while_err: "whMaxIterations r = Some m \<Longrightarrow> m = 0 \<or> i < m \<Longrightarrow> whCondition r = Some condition
    \<Longrightarrow> condition (iteration_ctx c i) resource w = Some ((True, resource1), w1)
    \<Longrightarrow> whReconciler r = Some s
    \<Longrightarrow> Reconcile s (iteration_ctx c i) resource1 w1 = Some ((result, Some e, resource'), w')
    \<Longrightarrow> while_run r c i resource w [result] (Some e) resource' w'"
| while_next: "whMaxIterations r = Some m \<Longrightarrow> m = 0 \<or> i < m \<Longrightarrow> whCondition r = Some condition
    \<Longrightarrow> condition (iteration_ctx c i) resource w = Some ((True, resource1), w1)
    \<Longrightarrow> whReconciler r = Some s
    \<Longrightarrow> Reconcile s (iteration_ctx c i) resource1 w1 = Some ((result, None, resource2), w2)
    \<Longrightarrow> while_run r c (i + 1) resource2 w2 results e resource' w'
    \<Longrightarrow> while_run r c i resource w (result # results) e resource' w'"

lemma while_run_loop:
  "while_run r c i resource w results e resource' w' \<Longrightarrow>
    While_loop r c i a resource w = Some ((aggregate_step a (AggregateResults results), e, resource'), w')"
proof (induction arbitrary: a rule: while_run.induct)
  case (while_limit m i resource w)
  then show ?case by (subst While_loop.simps) (simp add: aggregate.comm_neutral)
next
  case (while_end m i condition resource w resource' w')
  then show ?case by (subst While_loop.simps) (auto simp: aggregate.comm_neutral)
next
  case (while_err m i condition resource w resource1 w1 s result e resource' w')
  then show ?case by (subst While_loop.simps) (auto simp: aggregate.comm_neutral)
next
  case (while_next m i condition resource w resource1 w1 s result resource2 w2 results e resource' w')
  then show ?case
    by (subst While_loop.simps) (auto simp: aggregate.comm_neutral aggregate.assoc)
qed

lemma while_loop_run:
  assumes "While_loop r c i a resource w = Some y"
  shows "\<exists>results result e resource' w'. y = ((result, e, resource'), w') \<and>
      while_run r c i resource w results e resource' w' \<and>
      result = aggregate_step a (AggregateResults results)"
proof (rule While_loop.raw_induct [OF _ assms, where P = "\<lambda>r c i a resource w y.
    \<exists>results result e resource' w'. y = ((result, e, resource'), w') \<and>
      while_run r c i resource w results e resource' w' \<and>
      result = aggregate_step a (AggregateResults results)"], goal_cases)
  case (1 loop r c i a resource w y)
  then obtain m where m: "whMaxIterations r = Some m" by auto
  show ?case
  proof (cases "m \<noteq> 0 \<and> i \<ge> m")
    case True
    with 1(2) m have "y = ((a, Some (ErrMaxIterations i), resource), w)" by auto
    moreover have "while_run r c i resource w [] (Some (ErrMaxIterations i)) resource w"
      using True m by (intro while_limit) auto
    ultimately show ?thesis by (auto simp: aggregate.comm_neutral intro!: exI [of _ "[]"])
  next
    case False
    with 1(2) m obtain condition b resource1 w1 where c: "whCondition r = Some condition"
      "condition (iteration_ctx c i) resource w = Some ((b, resource1), w1)"
      and y: "(if \<not> b then Some ((a, None, resource1), w1)
               else do { s \<leftarrow> whReconciler r;
                         ((result, e, resource), w) \<leftarrow> Reconcile s (iteration_ctx c i) resource1 w1;
                         (case e of
                            Some e \<Rightarrow> Some ((AggregateResults [a, result], Some e, resource), w)
                          | None \<Rightarrow> loop r c (i + 1) (AggregateResults [a, result]) resource w) }) = Some y"
      by auto
    have lt: "m = 0 \<or> i < m" using False by auto
    show ?thesis
    proof (cases b)
      case False
      with y have "y = ((a, None, resource1), w1)" by simp
      moreover have "while_run r c i resource w [] None resource1 w1"
        using c(2) False by (intro while_end [OF m lt c(1)]) simp
      ultimately show ?thesis by (auto simp: aggregate.comm_neutral intro!: exI [of _ "[]"])
    next
      case b: True
      with y obtain s result e resource2 w2 where s: "whReconciler r = Some s"
        "Reconcile s (iteration_ctx c i) resource1 w1 = Some ((result, e, resource2), w2)"
        and y': "(case e of
            Some e \<Rightarrow> Some ((AggregateResults [a, result], Some e, resource2), w2)
          | None \<Rightarrow> loop r c (i + 1) (AggregateResults [a, result]) resource2 w2) = Some y"
        by auto
      show ?thesis
      proof (cases e)
        case None
        from y' None have "loop r c (i + 1) (AggregateResults [a, result]) resource2 w2 = Some y" by simp
        from 1(1) [OF this] obtain results e' resource' w' where y: "y = ((aggregate_step (AggregateResults [a, result])
              (AggregateResults results), e', resource'), w')"
          and run: "while_run r c (i + 1) resource2 w2 results e' resource' w'"
          by blast
        have "while_run r c i resource w (result # results) e' resource' w'"
          using c(2) b s(2) run None by (intro while_next [OF m lt c(1) _ s(1)]) simp_all
        with y show ?thesis
          by (auto simp: aggregate.comm_neutral aggregate.assoc intro!: exI [of _ "result # results"])
      next
        case (Some e')
        with y' have "y = ((AggregateResults [a, result], Some e', resource2), w2)" by simp
        moreover have "while_run r c i resource w [result] (Some e') resource2 w2"
          using c(2) b s(2) Some by (intro while_err [OF m lt c(1) _ s(1)]) simp_all
        ultimately show ?thesis
          by (auto simp: aggregate.comm_neutral intro!: exI [of _ "[result]"])
      qed
    qed
  qed
qed

lemma While_loop_iff:
  "While_loop r c i empty_result resource w = Some ((result, e, resource'), w') \<longleftrightarrow>
    (\<exists>results. while_run r c i resource w results e resource' w' \<and> result = AggregateResults results)"
proof
  assume "While_loop r c i empty_result resource w = Some ((result, e, resource'), w')"
  from while_loop_run [OF this] show "\<exists>results. while_run r c i resource w results e resource' w' \<and>
      result = AggregateResults results"
    by (auto simp: aggregate.left_neutral)
next
  assume "\<exists>results. while_run r c i resource w results e resource' w' \<and> result = AggregateResults results"
  then show "While_loop r c i empty_result resource w = Some ((result, e, resource'), w')"
    using while_run_loop [of r c i resource w _ e resource' w' empty_result]
    by (auto simp: aggregate.left_neutral)
qed

lemma while_run_bound:
  "while_run r c i resource w results e resource' w' \<Longrightarrow> whMaxIterations r = Some m \<Longrightarrow> m > 0 \<Longrightarrow> i \<le> m \<Longrightarrow>
    int (length results) \<le> m - i \<and> (int (length results) = m - i \<longrightarrow> e \<noteq> None)"
  by (induction rule: while_run.induct) auto

lemma while_run_total:
  assumes "whMaxIterations r = Some m" and "m > 0"
    and "whCondition r = Some condition" and "\<And>ctx resource w. condition ctx resource w \<noteq> None"
    and "whReconciler r = Some s" and "\<And>ctx resource w. Reconcile s ctx resource w \<noteq> None"
  shows "\<exists>results e resource' w'. while_run r c i resource w results e resource' w'"
proof (induction "nat (m - i)" arbitrary: i resource w rule: less_induct)
  case less
  show ?case
  proof (cases "i \<ge> m")
    case True
    with assms(1,2) while_limit [of r m i c resource w] show ?thesis by fastforce
  next
    case False
    then have lt: "m = 0 \<or> i < m" by simp
    obtain b resource1 w1 where c: "condition (iteration_ctx c i) resource w = Some ((b, resource1), w1)"
      using assms(4) [of "iteration_ctx c i" resource w] by auto
    obtain result e resource2 w2 where s:
      "Reconcile s (iteration_ctx c i) resource1 w1 = Some ((result, e, resource2), w2)"
      using assms(6) [of "iteration_ctx c i" resource1 w1] by auto
    show ?thesis
    proof (cases b)
      case False
      with while_end [OF assms(1) lt assms(3)] c show ?thesis by metis
    next
      case True
      note run = while_err [OF assms(1) lt assms(3) _ assms(5)] while_next [OF assms(1) lt assms(3) _ assms(5)]
      from less [of "i + 1"] False obtain results e' resource' w' where
        "while_run r c (i + 1) resource2 w2 results e' resource' w'" by fastforce
      with True c s run show ?thesis by (cases e) (metis, metis)
    qed
  qed
qed

definition max_iterations :: "While \<Rightarrow> int" where
  "max_iterations r = (case whMaxIterations r of None \<Rightarrow> 100 | Some m \<Rightarrow> m)"

lemma While_init_max [simp]: "whMaxIterations (While_init r) = Some (max_iterations r)"
  by (auto simp: While_init_def max_iterations_def Let_def)

lemma While_init_fields [simp]:
  "whCondition (While_init r) = whCondition r" "whReconciler (While_init r) = whReconciler r"
  by (simp_all add: While_init_def Let_def)

lemma While_Reconcile_iff:
  "While_Reconcile r ctx resource w = Some ((result, e, resource'), w') \<longleftrightarrow>
    (\<exists>results. while_run (While_init r) (WithName (whName (While_init r)) ctx) 0 resource w results e
       resource' w' \<and> result = AggregateResults results)"
  by (simp add: While_Reconcile_def Let_def While_loop_iff)

section \<open>Frames\<close>

text \<open>
  Flow reconcilers make no calls of their own: whatever reflexive and transitive relation between the
  world before and after the reconcilers nested in them keep, they keep.
\<close>

definition sub_keeps :: "(world \<Rightarrow> world \<Rightarrow> bool) \<Rightarrow> sub_reconciler \<Rightarrow> bool" where
  "sub_keeps R s \<longleftrightarrow> (\<forall>ctx resource. keeps R (Reconcile s ctx resource))"

lemma sub_keepsD: "sub_keeps R s \<Longrightarrow> keeps R (Reconcile s ctx resource)"
  by (simp add: sub_keeps_def)

locale world_frame = world_relation R for R :: "world \<Rightarrow> world \<Rightarrow> bool"
begin

lemma seq_run_keeps:
  assumes "seq_run ss c i resource w results e resource' w'"
    and "\<forall>s \<in> set ss. sub_keeps R s"
  shows "R w w'"
  using assms
proof (induction rule: seq_run.induct)
  case (seq_end c i resource w)
  show ?case by (rule R_refl)
next
  case (seq_err s i c resource w result e resource' w' ss)
  then have "sub_keeps R s" by simp
  then show ?case by (rule keepsD [OF sub_keepsD seq_err(1)])
next
  case (seq_next s i c resource w result resource1 w1 ss results e resource' w')
  then have "sub_keeps R s" by simp
  then have "R w w1" by (rule keepsD [OF sub_keepsD seq_next(1)])
  moreover have "R w1 w'" using seq_next by simp
  ultimately show ?case by (rule R_trans)
qed

lemma Sequence_keeps:
  assumes "\<forall>s \<in> set ss. sub_keeps R s"
  shows "keeps R (Sequence_Reconcile ss ctx resource)"
proof
  fix w y w'
  assume run: "Sequence_Reconcile ss ctx resource w = Some (y, w')"
  obtain result e resource' where "y = (result, e, resource')" by (metis prod.exhaust)
  with run obtain results where "seq_run ss ctx 0 resource w results e resource' w'"
    by (auto simp: Sequence_Reconcile_def Sequence_loop_run)
  then show "R w w'" using assms by (rule seq_run_keeps)
qed

lemma while_run_keeps:
  assumes "while_run r c i resource w results e resource' w'"
    and cond: "\<And>condition ctx resource. whCondition r = Some condition \<Longrightarrow> keeps R (condition ctx resource)"
    and sub: "\<And>s. whReconciler r = Some s \<Longrightarrow> sub_keeps R s"
  shows "R w w'"
  using assms(1)
proof (induction rule: while_run.induct)
  case (while_limit m i resource w)
  show ?case by (rule R_refl)
next
  case (while_end m i condition resource w resource' w')
  show ?case by (rule keepsD [OF cond [OF while_end(3)] while_end(4)])
next
  case (while_err m i condition resource w resource1 w1 s result e resource' w')
  have "R w w1" by (rule keepsD [OF cond [OF while_err(3)] while_err(4)])
  moreover have "R w1 w'" by (rule keepsD [OF sub_keepsD [OF sub [OF while_err(5)]] while_err(6)])
  ultimately show ?case by (rule R_trans)
next
  case (while_next m i condition resource w resource1 w1 s result resource2 w2 results e resource' w')
  have "R w w1" by (rule keepsD [OF cond [OF while_next(3)] while_next(4)])
  moreover have "R w1 w2" by (rule keepsD [OF sub_keepsD [OF sub [OF while_next(5)]] while_next(6)])
  ultimately have "R w w2" by (rule R_trans)
  then show ?case using while_next.IH by (rule R_trans)
qed

lemma While_keeps:
  assumes "\<And>condition ctx resource. whCondition r = Some condition \<Longrightarrow> keeps R (condition ctx resource)"
    and "\<And>s. whReconciler r = Some s \<Longrightarrow> sub_keeps R s"
  shows "keeps R (While_Reconcile r ctx resource)"
proof
  fix w y w'
  assume run: "While_Reconcile r ctx resource w = Some (y, w')"
  obtain result e resource' where "y = (result, e, resource')" by (metis prod.exhaust)
  with run obtain c results where "while_run (While_init r) c 0 resource w results e resource' w'"
    by (auto simp: While_Reconcile_iff)
  then show "R w w'" by (rule while_run_keeps) (use assms in \<open>auto simp: While_init_fields\<close>)
qed

lemma IfThen_keeps:
  assumes cond: "\<And>cond ctx resource. itIf r = Some cond \<Longrightarrow> keeps R (cond ctx resource)"
    and sub: "\<And>s. itThen r = Some s \<or> itElse r = Some s \<Longrightarrow> sub_keeps R s"
  shows "keeps R (IfThen_Reconcile r ctx resource)"
proof
  fix w y w'
  assume run: "IfThen_Reconcile r ctx resource w = Some (y, w')"
  have fields: "itIf (IfThen_init r) = itIf r" "itThen (IfThen_init r) = itThen r"
    "itElse (IfThen_init r) = itElse r" by (simp_all add: IfThen_init_def)
  from run [unfolded IfThen_Reconcile_def Let_def fields] obtain f c b resource1 w1 where f: "itIf r = Some f" "f c resource w = Some ((b, resource1), w1)"
    and rest: "(if b then do { s \<leftarrow> itThen r; Reconcile s c resource1 w1 }
      else case itElse r of Some s \<Rightarrow> Reconcile s c resource1 w1
         | None \<Rightarrow> Some ((empty_result, None, resource1), w1)) = Some (y, w')"
    by auto
  have "R w w1" using f by (auto intro: keepsD [OF cond])
  moreover have "R w1 w'"
    using rest by (auto split: if_splits option.splits intro: keepsD [OF sub_keepsD [OF sub]] R_refl)
  ultimately show "R w w'" by (rule R_trans)
qed

lemma TryCatch_keeps:
  assumes catch: "\<And>catch ctx resource result e. tcCatch r = Some catch \<Longrightarrow> keeps R (catch ctx resource result e)"
    and sub: "\<And>s. tcTry r = Some s \<or> tcFinally r = Some s \<Longrightarrow> sub_keeps R s"
  shows "keeps R (TryCatch_Reconcile r ctx resource)"
proof
  fix w y w'
  assume run: "TryCatch_Reconcile r ctx resource w = Some (y, w')"
  have fields: "tcTry (TryCatch_init r) = tcTry r" "tcCatch (TryCatch_init r) = tcCatch r"
    "tcFinally (TryCatch_init r) = tcFinally r" by (simp_all add: TryCatch_init_def)
  from run [unfolded TryCatch_Reconcile_def Let_def fields] obtain s c result e resource1 w1 result' e' resource2 w2 where s: "tcTry r = Some s"
      "Reconcile s c resource w = Some ((result, e, resource1), w1)"
    and h: "(case tcCatch r of None \<Rightarrow> Some ((result, e, resource1), w1)
             | Some catch \<Rightarrow> catch c resource1 result e w1) = Some ((result', e', resource2), w2)"
    and rest: "(case tcFinally r of None \<Rightarrow> Some ((result', e', resource2), w2)
      | Some f \<Rightarrow> do { ((fresult, ferr, resource), w) \<leftarrow> Reconcile f c resource2 w2;
          case ferr of
            Some ferr \<Rightarrow> Some ((AggregateResults [result', fresult], Some ferr, resource), w)
          | None \<Rightarrow> Some ((AggregateResults [result', fresult], e', resource), w) }) = Some (y, w')"
    by auto
  have "R w w1" using s by (auto intro: keepsD [OF sub_keepsD [OF sub]])
  moreover have "R w1 w2"
    using h by (auto split: option.splits intro: keepsD [OF catch] R_refl)
  moreover have "R w2 w'"
    using rest by (auto split: option.splits intro: keepsD [OF sub_keepsD [OF sub]] R_refl)
  ultimately show "R w w'" by (blast intro: R_trans)
qed

lemma OverrideSetup_keeps:
  assumes sub: "\<And>s. osReconciler r = Some s \<Longrightarrow> sub_keeps R s"
  shows "keeps R (OverrideSetup_Reconcile r ctx resource)"
  by (rule keepsI)
    (auto simp: OverrideSetup_Reconcile_def OverrideSetup_init_def Let_def R_refl
      split: option.splits if_splits intro: keepsD [OF sub_keepsD [OF sub]])

lemma WithConfig_keeps:
  assumes config: "\<And>config ctx c. wcConfig r = Some config \<Longrightarrow> keeps R (config ctx c)"
    and sub: "\<And>s. wcReconciler r = Some s \<Longrightarrow> sub_keeps R s"
  shows "keeps R (WithConfig_Reconcile r ctx resource)"
proof
  fix w y w'
  assume run: "WithConfig_Reconcile r ctx resource w = Some (y, w')"
  from run [unfolded WithConfig_Reconcile_def Let_def] obtain f c0 old c e w1 where f: "wcConfig r = Some f" "f c0 old w = Some ((c, e), w1)"
    and rest: "(case e of Some e \<Rightarrow> Some ((empty_result, Some e, resource), w1)
      | None \<Rightarrow> do { s \<leftarrow> wcReconciler r; Reconcile s (StashConfig c0 c) resource w1 }) = Some (y, w')"
    by auto
  have "R w w1" using f by (auto intro: keepsD [OF config])
  moreover have "R w1 w'"
    using rest by (auto split: option.splits intro: keepsD [OF sub_keepsD [OF sub]] R_refl)
  ultimately show "R w w'" by (rule R_trans)
qed

end

interpretation calls: world_frame "appends S" for S
  by unfold_locales

section \<open>Nested flows\<close>

text \<open>Any nesting of flow reconcilers whose leaves and callbacks only make calls of \<open>S\<close>.\<close>

inductive flow_of :: "call set \<Rightarrow> sub_reconciler \<Rightarrow> bool" for S where
  leaf: "sub_keeps (appends S) s \<Longrightarrow> flow_of S s"
| sequence: "\<forall>s \<in> set ss. flow_of S s \<Longrightarrow> flow_of S (Sequence ss)"
| if_then: "\<forall>cond ctx resource. itIf r = Some cond \<longrightarrow> keeps (appends S) (cond ctx resource)
    \<Longrightarrow> \<forall>s. itThen r = Some s \<or> itElse r = Some s \<longrightarrow> flow_of S s \<Longrightarrow> flow_of S (IfThen_sub r)"
| while: "\<forall>cond ctx resource. whCondition r = Some cond \<longrightarrow> keeps (appends S) (cond ctx resource)
    \<Longrightarrow> \<forall>s. whReconciler r = Some s \<longrightarrow> flow_of S s \<Longrightarrow> flow_of S (While_sub r)"
| try_catch: "\<forall>catch ctx resource result e. tcCatch r = Some catch \<longrightarrow>
      keeps (appends S) (catch ctx resource result e)
    \<Longrightarrow> \<forall>s. tcTry r = Some s \<or> tcFinally r = Some s \<longrightarrow> flow_of S s \<Longrightarrow> flow_of S (TryCatch_sub r)"
| override_setup: "\<forall>s. osReconciler r = Some s \<longrightarrow> flow_of S s \<Longrightarrow> flow_of S (OverrideSetup_sub r)"

lemma flow_of_keeps: "flow_of S s \<Longrightarrow> sub_keeps (appends S) s"
proof (induction rule: flow_of.induct)
  case (sequence ss)
  then have "keeps (appends S) (Sequence_Reconcile ss ctx resource)" for ctx resource
    by (intro calls.Sequence_keeps) auto
  then show ?case by (simp add: sub_keeps_def Sequence_def)
next
  case (if_then r)
  then have "keeps (appends S) (IfThen_Reconcile r ctx resource)" for ctx resource
    by (intro calls.IfThen_keeps) auto
  then show ?case by (simp add: sub_keeps_def IfThen_sub_def)
next
  case (while r)
  then have "keeps (appends S) (While_Reconcile r ctx resource)" for ctx resource
    by (intro calls.While_keeps) auto
  then show ?case by (simp add: sub_keeps_def While_sub_def)
next
  case (try_catch r)
  then have "keeps (appends S) (TryCatch_Reconcile r ctx resource)" for ctx resource
    by (intro calls.TryCatch_keeps) auto
  then show ?case by (simp add: sub_keeps_def TryCatch_sub_def)
next
  case (override_setup r)
  then have "keeps (appends S) (OverrideSetup_Reconcile r ctx resource)" for ctx resource
    by (intro calls.OverrideSetup_keeps) auto
  then show ?case by (simp add: sub_keeps_def OverrideSetup_sub_def)
qed

lemma Sequence_setup_loop_snoc:
  "Sequence_setup_loop (ss @ [s]) c i w =
     do { (e, w) \<leftarrow> Sequence_setup_loop ss c i w;
          case e of
            Some e \<Rightarrow> Some (Some e, w)
          | None \<Rightarrow>
              (let c = foldl (\<lambda>c j. WithName (decimal j) c) c [i..<i + length ss + 1]
               in do { (e, w) \<leftarrow> SetupWithManager s c w;
                       case e of Some e \<Rightarrow> Some (Some e, w) | None \<Rightarrow> Some (None, w) }) }"
proof (induction ss arbitrary: c i w)
  case Nil
  show ?case
    by (cases "SetupWithManager s (WithName (decimal i) c) w")
      (auto simp: Let_def split: prod.split option.split)
next
  case (Cons s' ss)
  have u: "[i..<i + length (s' # ss) + 1] = i # [i + 1..<i + 1 + length ss + 1]"
    by (subst upt_conv_Cons) simp_all
  show ?case
    unfolding append_Cons Sequence_setup_loop.simps Let_def Cons.IH u foldl.simps
    by (cases "SetupWithManager s' (WithName (decimal i) c) w") (auto split: prod.split option.split)
qed

section \<open>Small reconcilers\<close>

definition noop :: sub_reconciler where
  "noop = \<lparr>SetupWithManager = (\<lambda>ctx w. Some (None, w)),
     Reconcile = (\<lambda>ctx resource w. Some ((empty_result, None, resource), w))\<rparr>"

definition always :: "ctx \<Rightarrow> object \<Rightarrow> (world, bool \<times> object) go" where
  "always ctx resource w = Some ((True, resource), w)"

lemma noop_simps [simp]:
  "SetupWithManager noop ctx w = Some (None, w)"
  "Reconcile noop ctx resource w = Some ((empty_result, None, resource), w)"
  by (simp_all add: noop_def)

definition busy_loop :: "int option \<Rightarrow> While" where
  "busy_loop limit = \<lparr>whName = [], whSetup = None, whCondition = Some always, whReconciler = Some noop,
     whMaxIterations = limit\<rparr>"

section \<open>Properties\<close>

text \<open>
  C4. A \<open>Sequence\<close> returns exactly what running its reconcilers in order on the resource gives:
  without an error the aggregate of all results; at the first error nothing further runs and the
  error is returned with the result of the reconciler that failed, the earlier results being lost.
\<close>

theorem Sequence_Reconcile_spec:
  "Sequence_Reconcile r ctx resource w = Some ((result, e, resource'), w') \<longleftrightarrow>
    (\<exists>results. seq_run r ctx 0 resource w results e resource' w' \<and>
       result = (if e = None then AggregateResults results else last results))"
  unfolding Sequence_Reconcile_def Sequence_loop_run seq_result_def
  by (metis aggregate.comm_neutral aggregate.commute)

text \<open>
  C6. A \<open>While\<close> returns exactly what running its iterations gives: each iteration tests the condition
  and then runs the reconciler under its own index, until the condition is false, the reconciler errs
  or the limit is reached; the result is the aggregate of the results of all iterations.
\<close>

theorem While_Reconcile_spec:
  "While_Reconcile r ctx resource w = Some ((result, e, resource'), w') \<longleftrightarrow>
    (\<exists>results. while_run (While_init r) (WithName (if whName r = [] then ''While'' else whName r) ctx)
       0 resource w results e resource' w' \<and> result = AggregateResults results)"
  unfolding While_Reconcile_iff by (simp add: While_init_def Let_def)

text \<open>
  C5. With a positive limit (100 when none is given) a \<open>While\<close> always returns, provided its condition
  and its reconciler do; the reconciler runs at most that many times, and when it runs exactly that
  many times an error is returned, even if the condition has just become false.
\<close>

theorem While_terminates:
  assumes "max_iterations r > 0"
    and "whCondition r = Some condition" and "\<And>ctx resource w. condition ctx resource w \<noteq> None"
    and "whReconciler r = Some s" and "\<And>ctx resource w. Reconcile s ctx resource w \<noteq> None"
  shows "\<exists>results e resource' w'.
    While_Reconcile r ctx resource w = Some ((AggregateResults results, e, resource'), w') \<and>
    while_run (While_init r) (WithName (whName (While_init r)) ctx) 0 resource w results e resource' w' \<and>
    int (length results) \<le> max_iterations r \<and>
    (int (length results) = max_iterations r \<longrightarrow> e \<noteq> None)"
proof -
  obtain results e resource' w' where run: "while_run (While_init r)
      (WithName (whName (While_init r)) ctx) 0 resource w results e resource' w'"
    using while_run_total [of "While_init r" "max_iterations r" condition s] assms by fastforce
  then have "While_Reconcile r ctx resource w = Some ((AggregateResults results, e, resource'), w')"
    by (auto simp: While_Reconcile_iff)
  with while_run_bound [OF run While_init_max assms(1)] assms(1) run show ?thesis by auto
qed

theorem While_terminates_witness:
  "\<exists>results e resource' w'. While_Reconcile (busy_loop None) background (empty_object []) empty_world =
      Some ((AggregateResults results, e, resource'), w') \<and> int (length results) \<le> 100"
proof -
  have m: "max_iterations (busy_loop None) > 0" "max_iterations (busy_loop None) = 100"
    by (simp_all add: max_iterations_def busy_loop_def)
  have "whCondition (busy_loop None) = Some always"
    "\<And>ctx resource w. always ctx resource w \<noteq> None" "whReconciler (busy_loop None) = Some noop"
    "\<And>ctx resource w. Reconcile noop ctx resource w \<noteq> None"
    by (simp_all add: busy_loop_def always_def del: not_None_eq)
  from While_terminates [OF m(1) this, of background "empty_object []" empty_world] m(2)
  show ?thesis by metis
qed

text \<open>
  With the limit disabled (\<open>MaxIterations\<close> zero) a \<open>While\<close> whose condition stays true and whose
  reconciler never errs does not return.
\<close>

theorem While_diverges:
  assumes "whMaxIterations r = Some 0" and "whCondition r = Some condition"
    and "\<And>ctx resource w. \<exists>resource' w'. condition ctx resource w = Some ((True, resource'), w')"
    and "whReconciler r = Some s"
    and "\<And>ctx resource w. \<exists>result resource' w'. Reconcile s ctx resource w = Some ((result, None, resource'), w')"
  shows "While_Reconcile r ctx resource w = None"
proof -
  have "while_run r' c i resource w results e resource' w' \<Longrightarrow> whMaxIterations r' = Some 0 \<Longrightarrow>
      whCondition r' = Some condition \<Longrightarrow> whReconciler r' = Some s \<Longrightarrow> False"
    for r' c i resource w results e resource' w'
  proof (induction rule: while_run.induct)
    case (while_end m i condition' resource w resource' w')
    with assms(3) [of "iteration_ctx c i" resource w] show ?case by auto
  next
    case (while_err m i condition' resource w resource1 w1 s' result e resource' w')
    with assms(5) [of "iteration_ctx c i" resource1 w1] show ?case by auto
  qed auto
  moreover have "max_iterations r = 0" using assms(1) by (simp add: max_iterations_def)
  ultimately show ?thesis
    using While_Reconcile_iff [of r ctx resource w] assms(2,4)
    by (cases "While_Reconcile r ctx resource w") (auto, metis While_init_fields While_init_max)
qed


theorem While_diverges_witness:
  "While_Reconcile (busy_loop (Some 0)) background (empty_object []) empty_world = None"
  by (rule While_diverges [of _ always noop]) (simp_all add: busy_loop_def always_def)

text \<open>
  C12. \<open>Finally\<close> of a \<open>TryCatch\<close> runs exactly once, after \<open>Try\<close> and \<open>Catch\<close> and whatever they
  returned; its result is aggregated, its error overrides theirs, and without one their error stands.
\<close>

theorem TryCatch_Finally:
  assumes "TryCatch_Reconcile r ctx resource w = Some ((result, e, resource'), w')"
    and "tcFinally r = Some f"
  shows "\<exists>result1 e1 resource1 w1 fresult ferr.
    TryCatch_Reconcile (r\<lparr>tcFinally := None\<rparr>) ctx resource w = Some ((result1, e1, resource1), w1) \<and>
    Reconcile f (WithName (if tcName r = [] then ''TryCatch'' else tcName r) ctx) resource1 w1 =
      Some ((fresult, ferr, resource'), w') \<and>
    result = AggregateResults [result1, fresult] \<and> e = (if ferr \<noteq> None then ferr else e1)"
proof -
  let ?c = "WithName (tcName (TryCatch_init r)) ctx"
  have fields: "tcTry (TryCatch_init r) = tcTry r" "tcCatch (TryCatch_init r) = tcCatch r"
    "tcFinally (TryCatch_init r) = Some f" using assms(2) by (simp_all add: TryCatch_init_def)
  have fields': "tcTry (TryCatch_init (r\<lparr>tcFinally := None\<rparr>)) = tcTry r"
    "tcCatch (TryCatch_init (r\<lparr>tcFinally := None\<rparr>)) = tcCatch r"
    "tcFinally (TryCatch_init (r\<lparr>tcFinally := None\<rparr>)) = None"
    "tcName (TryCatch_init (r\<lparr>tcFinally := None\<rparr>)) = tcName (TryCatch_init r)"
    by (simp_all add: TryCatch_init_def)
  have name: "tcName (TryCatch_init r) = (if tcName r = [] then ''TryCatch'' else tcName r)"
    by (simp add: TryCatch_init_def)
  from assms(1) [unfolded TryCatch_Reconcile_def Let_def fields option.case] obtain
      s result0 e0 resource0 w0 result1 e1 resource1 w1 fresult ferr resource2 w2
    where s: "tcTry r = Some s" "Reconcile s ?c resource w = Some ((result0, e0, resource0), w0)"
      "(case tcCatch r of None \<Rightarrow> Some ((result0, e0, resource0), w0)
        | Some catch \<Rightarrow> catch ?c resource0 result0 e0 w0) = Some ((result1, e1, resource1), w1)"
      and f: "Reconcile f ?c resource1 w1 = Some ((fresult, ferr, resource2), w2)"
      and rest: "(case ferr of
            Some ferr \<Rightarrow> Some ((AggregateResults [result1, fresult], Some ferr, resource2), w2)
          | None \<Rightarrow> Some ((AggregateResults [result1, fresult], e1, resource2), w2))
        = Some ((result, e, resource'), w')"
    by auto
  have "TryCatch_Reconcile (r\<lparr>tcFinally := None\<rparr>) ctx resource w = Some ((result1, e1, resource1), w1)"
    unfolding TryCatch_Reconcile_def Let_def fields' using s by simp
  moreover have "resource2 = resource'" "w2 = w'" "result = AggregateResults [result1, fresult]"
      "e = (if ferr \<noteq> None then ferr else e1)"
    using rest by (auto split: option.splits)
  ultimately show ?thesis using f unfolding name by blast
qed

definition failing :: "err \<Rightarrow> sub_reconciler" where
  "failing e = \<lparr>SetupWithManager = (\<lambda>ctx w. Some (None, w)),
     Reconcile = (\<lambda>ctx resource w. Some ((empty_result, Some e, resource), w))\<rparr>"

theorem TryCatch_Finally_witness:
  "\<exists>fresult ferr resource1 w1 resource' w'.
     TryCatch_Reconcile \<lparr>tcName = [], tcSetup = None, tcTry = Some (failing ErrQuiet), tcCatch = None,
       tcFinally = Some noop\<rparr> background (empty_object []) empty_world =
       Some ((empty_result, Some ErrQuiet, resource'), w') \<and>
     Reconcile noop (WithName ''TryCatch'' background) resource1 w1 = Some ((fresult, ferr, resource'), w')"
proof -
  let ?r = "\<lparr>tcName = [], tcSetup = None, tcTry = Some (failing ErrQuiet), tcCatch = None,
    tcFinally = Some noop\<rparr>"
  have run: "TryCatch_Reconcile ?r background (empty_object []) empty_world =
      Some ((empty_result, Some ErrQuiet, empty_object []), empty_world)"
    by (simp add: TryCatch_Reconcile_def TryCatch_init_def failing_def aggregate.comm_neutral)
  from TryCatch_Finally [OF run] run show ?thesis by auto
qed

text \<open>
  C36. Flow reconcilers, nested in any way, make no calls to the API server, the tracker, the event
  recorder or the logger of their own: whenever a flow returns, the trace has grown by calls its leaf
  reconcilers and callbacks may make, and by nothing else.
\<close>

theorem flow_makes_no_calls:
  assumes "flow_of S s" and "Reconcile s ctx resource w = Some (y, w')"
  shows "\<exists>cs. trace w' = trace w @ cs \<and> set cs \<subseteq> S"
  using keepsD [OF sub_keepsD [OF flow_of_keeps [OF assms(1)]] assms(2)] by (simp add: appends_def)

theorem flow_makes_no_calls_witness:
  "\<exists>y w'. Reconcile (Sequence [noop, OverrideSetup_sub \<lparr>osName = [], osSetup = None,
      osReconciler = Some noop\<rparr>]) background (empty_object []) empty_world = Some (y, w') \<and>
    (\<exists>cs. trace w' = trace empty_world @ cs \<and> set cs \<subseteq> {})"
proof -
  let ?o = "\<lparr>osName = [], osSetup = None, osReconciler = Some noop\<rparr>"
  have n: "flow_of {} noop" by (rule leaf) (auto simp: sub_keeps_def keeps_def)
  then have "flow_of {} (Sequence [noop, OverrideSetup_sub ?o])"
    by (auto intro!: sequence override_setup)
  moreover have "Reconcile (Sequence [noop, OverrideSetup_sub ?o]) background (empty_object []) empty_world
      = Some ((empty_result, None, empty_object []), empty_world)"
    by (simp add: Sequence_def Sequence_Reconcile_def OverrideSetup_sub_def OverrideSetup_Reconcile_def
        OverrideSetup_init_def Let_def aggregate.comm_neutral)
  ultimately show ?thesis using flow_makes_no_calls by metis
qed

text \<open>
  Contexts in a \<open>Sequence\<close>: during setup the logger names accumulate, so the last reconciler is
  set up under the indices of all reconcilers before it and its own, while it reconciles under its own
  index only.
\<close>

theorem Sequence_contexts:
  "Sequence_SetupWithManager (ss @ [s]) ctx w =
     do { (e, w) \<leftarrow> Sequence_SetupWithManager ss ctx w;
          case e of
            Some e \<Rightarrow> Some (Some e, w)
          | None \<Rightarrow>
              SetupWithManager s
                (ctx\<lparr>ctxLogger := ctxLogger ctx @ map decimal [0..<length ss + 1]\<rparr>) w } \<and>
   (seq_run ss ctx 0 resource w results None resource1 w1 \<longrightarrow>
    Reconcile s (ctx\<lparr>ctxLogger := ctxLogger ctx @ [decimal (length ss)]\<rparr>) resource1 w1 =
      Some ((result, e, resource'), w') \<longrightarrow>
    seq_run (ss @ [s]) ctx 0 resource w (results @ [result]) e resource' w')"
proof
  have names: "foldl (\<lambda>c j. WithName (decimal j) c) c js = c\<lparr>ctxLogger := ctxLogger c @ map decimal js\<rparr>"
    for c js by (induction js arbitrary: c) (simp_all add: WithName_def)
  have o: "do { (e, w) \<leftarrow> m; case e of Some e \<Rightarrow> Some (Some e, w) | None \<Rightarrow> Some (None, w) } = m"
    for m :: "(err option \<times> world) option" by (cases m) (auto split: option.split)
  show "Sequence_SetupWithManager (ss @ [s]) ctx w =
     do { (e, w) \<leftarrow> Sequence_SetupWithManager ss ctx w;
          case e of
            Some e \<Rightarrow> Some (Some e, w)
          | None \<Rightarrow>
              SetupWithManager s
                (ctx\<lparr>ctxLogger := ctxLogger ctx @ map decimal [0..<length ss + 1]\<rparr>) w }"
    unfolding Sequence_SetupWithManager_def Sequence_setup_loop_snoc Let_def names o add_0_left ..
  have "seq_run ss ctx i resource w results e0 resource1 w1 \<Longrightarrow> e0 = None \<Longrightarrow>
    Reconcile s (WithName (decimal (i + length ss)) ctx) resource1 w1 = Some ((result, e, resource'), w') \<Longrightarrow>
    seq_run (ss @ [s]) ctx i resource w (results @ [result]) e resource' w'" for i e0
  proof (induction rule: seq_run.induct)
    case (seq_end c i resource w)
    then show ?case by (cases e) (auto intro: seq_run.intros)
  next
    case (seq_next s' i c resource w result' resource2 w2 ss results e0 resource1 w1)
    then show ?case by (auto intro: seq_run.seq_next)
  qed simp
  from this [of 0] show "seq_run ss ctx 0 resource w results None resource1 w1 \<longrightarrow>
    Reconcile s (ctx\<lparr>ctxLogger := ctxLogger ctx @ [decimal (length ss)]\<rparr>) resource1 w1 =
      Some ((result, e, resource'), w') \<longrightarrow>
    seq_run (ss @ [s]) ctx 0 resource w (results @ [result]) e resource' w'"
    by (simp add: WithName_def)
qed

theorem Sequence_contexts_witness:
  "Reconcile noop (background\<lparr>ctxLogger := [''1'']\<rparr>) (empty_object []) empty_world =
      Some ((empty_result, None, empty_object []), empty_world) \<and>
   seq_run ([noop] @ [noop]) background 0 (empty_object []) empty_world ([empty_result] @ [empty_result]) None
      (empty_object []) empty_world"
proof -
  have run: "seq_run [noop] background 0 (empty_object []) empty_world [empty_result] None
      (empty_object []) empty_world"
    by (simp add: seq_run_Cons)
  have r: "Reconcile noop (background\<lparr>ctxLogger := ctxLogger background @ [decimal (length [noop])]\<rparr>)
      (empty_object []) empty_world = Some ((empty_result, None, empty_object []), empty_world)" by simp
  from Sequence_contexts [THEN conjunct2, rule_format, OF run r] show ?thesis by simp
qed

end
