(* ===== verification/Sync.thy ===== *)
theory Sync
  imports Flow
begin

text \<open>
  \<open>SyncReconciler\<close> of \<^verbatim>\<open>src/reconcilers/sync.go\<close> and \<open>WithFinalizer\<close> with the finalizer operations of
  \<^verbatim>\<open>src/reconcilers/finalizer.go\<close>.
\<close>

section \<open>SyncReconciler\<close>

text \<open>\<open>Sync\<close> and \<open>Finalize\<close> return an error, the variants with a result also a result; both may modify
  the resource.\<close>

record SyncReconciler =
  srName :: string
  srSetup :: "setup_fun option"
  srSyncDuringFinalization :: bool
  srSync :: "(ctx \<Rightarrow> object \<Rightarrow> (world, err option \<times> object) go) option"
  srSyncWithResult :: "(ctx \<Rightarrow> object \<Rightarrow> (world, reconciled) go) option"
  srFinalize :: "(ctx \<Rightarrow> object \<Rightarrow> (world, err option \<times> object) go) option"
  srFinalizeWithResult :: "(ctx \<Rightarrow> object \<Rightarrow> (world, reconciled) go) option"

definition Sync_validate :: "SyncReconciler \<Rightarrow> err option" where
  "Sync_validate r =
     (if srSync r = None \<and> srSyncWithResult r = None
      then Some (Errorf ''SyncReconciler %q must implement Sync or SyncWithResult'' [srName r])
      else if srSync r \<noteq> None \<and> srSyncWithResult r \<noteq> None
      then Some (Errorf ''SyncReconciler %q may not implement both Sync and SyncWithResult'' [srName r])
      else if srFinalize r \<noteq> None \<and> srFinalizeWithResult r \<noteq> None
      then Some (Errorf ''SyncReconciler %q may not implement both Finalize and FinalizeWithResult'' [srName r])
      else None)"

definition Sync_SetupWithManager :: "SyncReconciler \<Rightarrow> ctx \<Rightarrow> (world, err option \<times> SyncReconciler) go" where
  "Sync_SetupWithManager r ctx w =
     (let r = (if srName r = [] then r\<lparr>srName := ''SyncReconciler''\<rparr> else r);
          ctx = WithName (srName r) ctx
      in case srSetup r of
           None \<Rightarrow> Some ((None, r), w)
         | Some setup \<Rightarrow>
             (case Sync_validate r of
                Some e \<Rightarrow> Some ((Some e, r), w)
              | None \<Rightarrow> do { (e, w) \<leftarrow> setup ctx w; Some ((e, r), w) }))"

definition sync :: "SyncReconciler \<Rightarrow> ctx \<Rightarrow> object \<Rightarrow> (world, reconciled) go" where
  "sync r ctx resource w =
     (case srSync r of
        Some f \<Rightarrow> do { ((e, resource), w) \<leftarrow> f ctx resource w; Some ((empty_result, e, resource), w) }
      | None \<Rightarrow> do { f \<leftarrow> srSyncWithResult r; f ctx resource w })"

definition finalize :: "SyncReconciler \<Rightarrow> ctx \<Rightarrow> object \<Rightarrow> (world, reconciled) go" where
  "finalize r ctx resource w =
     (case srFinalize r of
        Some f \<Rightarrow> do { ((e, resource), w) \<leftarrow> f ctx resource w; Some ((empty_result, e, resource), w) }
      | None \<Rightarrow>
          (case srFinalizeWithResult r of
             Some f \<Rightarrow> f ctx resource w
           | None \<Rightarrow> Some ((empty_result, None, resource), w)))"

text \<open>The part of \<open>Reconcile\<close> after the sync: the second \<open>if\<close> looks at the resource as sync left it.\<close>

definition sync_then_finalize :: "SyncReconciler \<Rightarrow> ctx \<Rightarrow> result \<Rightarrow> object \<Rightarrow> (world, reconciled) go" where
  "sync_then_finalize r ctx result resource w =
     (if deletionTimestamp resource \<noteq> None
      then do { ((finalizeResult, e, resource), w) \<leftarrow> finalize r ctx resource w;
                let result = AggregateResults [result, finalizeResult];
                case e of
                  Some e \<Rightarrow>
                    (let w = (if \<not> is_quiet e then log_error ctx e ''unable to finalize'' [] w else w)
                     in Some ((result, Some e, resource), w))
                | None \<Rightarrow> Some ((result, None, resource), w) }
      else Some ((result, None, resource), w))"

definition Sync_Reconcile :: "SyncReconciler \<Rightarrow> ctx \<Rightarrow> object \<Rightarrow> (world, reconciled) go" where
  "Sync_Reconcile r ctx resource w =
     (let ctx = WithName (srName r) ctx;
          result = empty_result
      in if deletionTimestamp resource = None \<or> srSyncDuringFinalization r
         then do { ((syncResult, e, resource), w) \<leftarrow> sync r ctx resource w;
                   let result = AggregateResults [result, syncResult];
                   case e of
                     Some e \<Rightarrow>
                       (let w = (if \<not> is_quiet e then log_error ctx e ''unable to sync'' [] w else w)
                        in Some ((result, Some e, resource), w))
                   | None \<Rightarrow> sync_then_finalize r ctx result resource w }
         else sync_then_finalize r ctx result resource w)"

text \<open>
  A component as a sub-reconciler.  The Go struct keeps the name its \<open>SetupWithManager\<close> defaulted; a
  reconciler is set up before it reconciles, so the closure for \<open>Reconcile\<close> uses that name.
\<close>

definition Sync_sub :: "SyncReconciler \<Rightarrow> sub_reconciler" where
  "Sync_sub r =
     \<lparr>SetupWithManager = (\<lambda>ctx w. do { ((e, r), w) \<leftarrow> Sync_SetupWithManager r ctx w; Some (e, w) }),
      Reconcile = Sync_Reconcile (if srName r = [] then r\<lparr>srName := ''SyncReconciler''\<rparr> else r)\<rparr>"

section \<open>Finalizers\<close>

text \<open>
  \<open>ensureFinalizer\<close> returns the resource as it leaves it.  \<open>MergeFrom(current)\<close> makes a patch from
  \<open>current\<close> to the object sent; both are arguments of the patch call.  \<open>finalizer_patched\<close> is its end,
  once the patch has been answered with the error \<open>e\<close> and the object \<open>desired\<close>.
\<close>

definition finalizer_patched ::
    "ctx \<Rightarrow> Config \<Rightarrow> object \<Rightarrow> string \<Rightarrow> err option \<Rightarrow> object \<Rightarrow> (world, err option \<times> object) go" where
  "finalizer_patched ctx config current finalizer e desired w =
     (case e of
        Some e \<Rightarrow>
          (if \<not> is_quiet e
           then do { let w = log_error ctx e ''unable to patch finalizers'' [LogText finalizer] w;
                     (_, w) \<leftarrow> Eventf (Recorder config) current ''Warning'' ''FinalizerPatchFailed''
                       [LogText finalizer, LogError_value e] w;
                     Some ((Some e, current), w) }
           else Some ((Some e, current), w))
      | None \<Rightarrow>
          do { (_, w) \<leftarrow> Eventf (Recorder config) current ''Normal'' ''FinalizerPatched''
                 [LogText finalizer] w;
               Some ((None, current\<lparr>finalizers := finalizers desired,
                                   resourceVersion := resourceVersion desired,
                                   generation := generation desired\<rparr>), w) })"

definition ensureFinalizer ::
    "env \<Rightarrow> ctx \<Rightarrow> object \<Rightarrow> string \<Rightarrow> bool \<Rightarrow> (world, err option \<times> object) go" where
  "ensureFinalizer E ctx current finalizer add w =
     (if finalizer = [] \<or> containsFinalizer E current finalizer = add
      then Some ((None, current), w)
      else do { config \<leftarrow> RetrieveOriginalConfigOrDie ctx;
                let desired = current;
                let w = log_info ctx (if add then ''adding finalizer'' else ''removing finalizer'')
                  [LogText finalizer] w;
                let desired = (if add then addFinalizer E desired finalizer
                               else removeFinalizer E desired finalizer);
                ((e, desired), w) \<leftarrow> client_Patch E (Client config) desired current w;
                finalizer_patched ctx config current finalizer e desired w })"

definition AddFinalizer :: "env \<Rightarrow> ctx \<Rightarrow> object \<Rightarrow> string \<Rightarrow> (world, err option \<times> object) go" where
  "AddFinalizer E ctx resource finalizer w = ensureFinalizer E ctx resource finalizer True w"

definition ClearFinalizer :: "env \<Rightarrow> ctx \<Rightarrow> object \<Rightarrow> string \<Rightarrow> (world, err option \<times> object) go" where
  "ClearFinalizer E ctx resource finalizer w = ensureFinalizer E ctx resource finalizer False w"

section \<open>WithFinalizer\<close>

record WithFinalizer =
  wfName :: string
  wfFinalizer :: string
  wfReconciler :: "sub_reconciler option"

definition WithFinalizer_validate :: "WithFinalizer \<Rightarrow> err option" where
  "WithFinalizer_validate r =
     (if wfFinalizer r = [] then Some (Errorf ''WithFinalizer %q must define Finalizer'' [wfName r])
      else if wfReconciler r = None
      then Some (Errorf ''WithFinalizer %q must define Reconciler'' [wfName r])
      else None)"

definition WithFinalizer_SetupWithManager ::
    "WithFinalizer \<Rightarrow> ctx \<Rightarrow> (world, err option \<times> WithFinalizer) go" where
  "WithFinalizer_SetupWithManager r ctx w =
     (let r = (if wfName r = [] then r\<lparr>wfName := ''WithFinalizer''\<rparr> else r);
          ctx = WithName (wfName r) ctx
      in case WithFinalizer_validate r of
           Some e \<Rightarrow> Some ((Some e, r), w)
         | None \<Rightarrow> do { (e, w) \<leftarrow> setup_of (wfReconciler r) ctx w; Some ((e, r), w) })"

text \<open>The part of \<open>Reconcile\<close> from the nested reconciler on.\<close>

definition WithFinalizer_nested ::
    "env \<Rightarrow> WithFinalizer \<Rightarrow> ctx \<Rightarrow> object \<Rightarrow> (world, reconciled) go" where
  "WithFinalizer_nested E r ctx resource w =
     do { s \<leftarrow> wfReconciler r;
          ((result, e, resource), w) \<leftarrow> Reconcile s ctx resource w;
          case e of
            Some e \<Rightarrow> Some ((result, Some e, resource), w)
          | None \<Rightarrow>
              (if deletionTimestamp resource \<noteq> None
               then do { ((e, resource), w) \<leftarrow> ClearFinalizer E ctx resource (wfFinalizer r) w;
                         case e of
                           Some e \<Rightarrow> Some ((empty_result, Some e, resource), w)
                         | None \<Rightarrow> Some ((result, None, resource), w) }
               else Some ((result, None, resource), w)) }"

definition WithFinalizer_Reconcile ::
    "env \<Rightarrow> WithFinalizer \<Rightarrow> ctx \<Rightarrow> object \<Rightarrow> (world, reconciled) go" where
  "WithFinalizer_Reconcile E r ctx resource w =
     (let ctx = WithName (wfName r) ctx
      in if deletionTimestamp resource = None
         then do { ((e, resource), w) \<leftarrow> AddFinalizer E ctx resource (wfFinalizer r) w;
                   case e of
                     Some e \<Rightarrow> Some ((empty_result, Some e, resource), w)
                   | None \<Rightarrow> WithFinalizer_nested E r ctx resource w }
         else WithFinalizer_nested E r ctx resource w)"

definition WithFinalizer_sub :: "env \<Rightarrow> WithFinalizer \<Rightarrow> sub_reconciler" where
  "WithFinalizer_sub E r =
     \<lparr>SetupWithManager =
        (\<lambda>ctx w. do { ((e, r), w) \<leftarrow> WithFinalizer_SetupWithManager r ctx w; Some (e, w) }),
      Reconcile = WithFinalizer_Reconcile E
        (if wfName r = [] then r\<lparr>wfName := ''WithFinalizer''\<rparr> else r)\<rparr>"

section \<open>What ensureFinalizer does\<close>

text \<open>The calls \<open>ensureFinalizer\<close> may make: log, patch the object, record an event.\<close>

definition finalizer_calls :: "call set" where
  "finalizer_calls =
     {c. (\<exists>l m a. c = LogInfo l m a) \<or> (\<exists>l e m a. c = LogError l e m a) \<or>
         (\<exists>cl obj base. c = PatchCall cl obj base) \<or> (\<exists>r obj ty reason a. c = Event r obj ty reason a)}"

text \<open>
  The documented behaviour of \<open>controllerutil\<close> and of a successful patch: adding and removing a
  finalizer do what they say, which depends on the list of finalizers only, and the server answers a
  patch of the finalizers with the finalizers sent.
\<close>

definition finalizer_laws :: "env \<Rightarrow> bool" where
  "finalizer_laws E \<longleftrightarrow>
     (\<forall>x f. containsFinalizer E (addFinalizer E x f) f) \<and>
     (\<forall>x f. \<not> containsFinalizer E (removeFinalizer E x f) f) \<and>
     (\<forall>x y f. finalizers x = finalizers y \<longrightarrow> containsFinalizer E x f = containsFinalizer E y f) \<and>
     (\<forall>h c x y. replyErr (respond E h (PatchCall c x y)) = None \<longrightarrow>
        finalizers (replyObject (respond E h (PatchCall c x y))) = finalizers x)"

lemma finalizer_lawsD:
  assumes "finalizer_laws E"
  shows "containsFinalizer E (addFinalizer E x f) f" and "\<not> containsFinalizer E (removeFinalizer E x f) f"
    and "finalizers x = finalizers y \<Longrightarrow> containsFinalizer E x f = containsFinalizer E y f"
    and "replyErr (respond E h (PatchCall c x y)) = None \<Longrightarrow>
      finalizers (replyObject (respond E h (PatchCall c x y))) = finalizers x"
  using assms unfolding finalizer_laws_def by blast+

lemma ensureFinalizer_noop:
  "finalizer = [] \<or> containsFinalizer E current finalizer = add \<Longrightarrow>
    ensureFinalizer E ctx current finalizer add w = Some ((None, current), w)"
  by (simp add: ensureFinalizer_def)

lemma finalizer_patched_value:
  "finalizer_patched ctx config current finalizer e desired w = Some ((e', current'), w') \<Longrightarrow>
    e' = e \<and> current' = (if e = None
      then current\<lparr>finalizers := finalizers desired, resourceVersion := resourceVersion desired,
                   generation := generation desired\<rparr>
      else current)"
  by (cases e) (auto simp: finalizer_patched_def Let_def split: if_splits)

lemma finalizer_patched_calls: "keeps (appends finalizer_calls) (finalizer_patched ctx config current finalizer e desired)"
proof (cases e)
  case None
  show ?thesis
    unfolding finalizer_patched_def [abs_def] None option.case
    by (rule keepsI) (auto simp: Eventf_def finalizer_calls_def intro!: appends_record)
next
  case (Some e')
  have l: "appends finalizer_calls w (log_error ctx e' msg args w)" for msg args w
    by (auto simp: log_error_def finalizer_calls_def intro!: appends_record)
  have v: "appends finalizer_calls w w'" if "Eventf rec obj ty reason args w = Some (u, w')"
    for rec obj ty reason args u w w'
    using that by (auto simp: Eventf_def finalizer_calls_def intro!: appends_record)
  show ?thesis
    unfolding finalizer_patched_def [abs_def] Some option.case
    by (rule keepsI) (auto simp: Let_def split: if_splits intro: appends_trans [OF l v])
qed

lemma ensureFinalizer_patch:
  assumes "ensureFinalizer E ctx current finalizer add w = Some ((e, current'), w')"
    and "finalizer \<noteq> []" and "containsFinalizer E current finalizer \<noteq> add"
  obtains cl h rep where
    "rep = respond E h (PatchCall cl
       (if add then addFinalizer E current finalizer else removeFinalizer E current finalizer) current)"
    and "replyErr rep = e"
    and "current' = (if e = None
      then current\<lparr>finalizers := finalizers (replyObject rep),
                   resourceVersion := resourceVersion (replyObject rep),
                   generation := generation (replyObject rep)\<rparr>
      else current)"
  using assms
  by (auto simp: ensureFinalizer_def Let_def client_write_def invoke_def
      dest!: finalizer_patched_value)

lemma ensureFinalizer_calls: "keeps (appends finalizer_calls) (ensureFinalizer E ctx current finalizer add)"
proof
  fix w x w'
  assume run: "ensureFinalizer E ctx current finalizer add w = Some (x, w')"
  show "appends finalizer_calls w w'"
  proof (cases "finalizer = [] \<or> containsFinalizer E current finalizer = add")
    case True
    with run show ?thesis by (simp add: ensureFinalizer_noop)
  next
    case False
    with run obtain config msg cl desired e desired' w2 where
      "client_Patch E cl desired current (log_info ctx msg [LogText finalizer] w) = Some ((e, desired'), w2)"
      and last: "finalizer_patched ctx config current finalizer e desired' w2 = Some (x, w')"
      by (auto simp: ensureFinalizer_def Let_def)
    then have "appends finalizer_calls (log_info ctx msg [LogText finalizer] w) w2"
      by (auto simp: client_write_def invoke_def finalizer_calls_def intro!: appends_record)
    moreover have "appends finalizer_calls w (log_info ctx msg [LogText finalizer] w)"
      by (auto simp: log_info_def finalizer_calls_def intro!: appends_record)
    moreover have "appends finalizer_calls w2 w'" by (rule keepsD [OF finalizer_patched_calls last])
    ultimately show ?thesis by (blast intro: appends_trans)
  qed
qed

text \<open>The patches among some calls: what was sent, and the object the patch is relative to.\<close>

fun patches :: "call list \<Rightarrow> (object \<times> object) list" where
  "patches [] = []"
| "patches (PatchCall cl obj base # cs) = (obj, base) # patches cs"
| "patches (_ # cs) = patches cs"

lemma patches_append [simp]: "patches (xs @ ys) = patches xs @ patches ys"
  by (induction xs rule: patches.induct) simp_all

lemma ensureFinalizer_trace:
  assumes "ensureFinalizer E ctx current finalizer add w = Some (x, w')"
  shows "\<exists>cs. trace w' = trace w @ cs \<and> set cs \<subseteq> finalizer_calls \<and>
    patches cs = (if finalizer = [] \<or> containsFinalizer E current finalizer = add then []
      else [(if add then addFinalizer E current finalizer else removeFinalizer E current finalizer, current)])"
proof (cases "finalizer = [] \<or> containsFinalizer E current finalizer = add")
  case True
  with assms show ?thesis by (simp add: ensureFinalizer_noop)
next
  case False
  with assms show ?thesis
    by (auto simp: ensureFinalizer_def finalizer_patched_def client_write_def invoke_def Eventf_def
        record_call_def log_info_def log_error_def finalizer_calls_def Let_def
        split: option.splits if_splits)
qed

lemma ensureFinalizer_post:
  assumes "finalizer_laws E"
    and "ensureFinalizer E ctx current finalizer add w = Some ((None, current'), w')"
    and "finalizer \<noteq> []"
  shows "containsFinalizer E current' finalizer = add"
proof (cases "containsFinalizer E current finalizer = add")
  case True
  with assms(2) show ?thesis by (simp add: ensureFinalizer_def)
next
  case False
  obtain cl h where
    "replyErr (respond E h (PatchCall cl
        (if add then addFinalizer E current finalizer else removeFinalizer E current finalizer) current)) = None"
    "finalizers current' = finalizers (replyObject (respond E h (PatchCall cl
        (if add then addFinalizer E current finalizer else removeFinalizer E current finalizer) current)))"
    by (rule ensureFinalizer_patch [OF assms(2,3) False]) simp
  then have "finalizers current' =
      finalizers (if add then addFinalizer E current finalizer else removeFinalizer E current finalizer)"
    using finalizer_lawsD(4) [OF assms(1)] by metis
  then have "containsFinalizer E current' finalizer =
      containsFinalizer E (if add then addFinalizer E current finalizer else removeFinalizer E current finalizer)
        finalizer"
    by (rule finalizer_lawsD(3) [OF assms(1)])
  with finalizer_lawsD(1,2) [OF assms(1)] show ?thesis by (cases add) simp_all
qed

lemma finalizers_self:
  "\<exists>fs rv g. x = x\<lparr>finalizers := fs, resourceVersion := rv, generation := g\<rparr>"
  by (rule exI [of _ "finalizers x"], rule exI [of _ "resourceVersion x"], rule exI [of _ "generation x"]) simp

lemma ensureFinalizer_frame:
  assumes "ensureFinalizer E ctx current finalizer add w = Some ((e, current'), w')"
  shows "\<exists>fs rv g. current' = current\<lparr>finalizers := fs, resourceVersion := rv, generation := g\<rparr>"
proof (cases "finalizer = [] \<or> containsFinalizer E current finalizer = add")
  case True
  with assms have "current' = current" by (auto simp: ensureFinalizer_noop)
  then show ?thesis using finalizers_self by simp
next
  case False
  then have f: "finalizer \<noteq> []" "containsFinalizer E current finalizer \<noteq> add" by auto
  show ?thesis
    by (rule ensureFinalizer_patch [OF assms f], cases "e = None") (use finalizers_self [of current] in auto)
qed

text \<open>
  What clearing a finalizer comes to, in the outcome and in the calls made: one patch that removes it,
  if it is there.
\<close>

definition cleared ::
    "env \<Rightarrow> string \<Rightarrow> object \<Rightarrow> err option \<Rightarrow> object \<Rightarrow> call list \<Rightarrow> bool" where
  "cleared E finalizer resource e resource' cs \<longleftrightarrow>
     set cs \<subseteq> finalizer_calls \<and>
     patches cs = (if containsFinalizer E resource finalizer
       then [(removeFinalizer E resource finalizer, resource)] else []) \<and>
     (if e = None then \<not> containsFinalizer E resource' finalizer
      else resource' = resource \<and> containsFinalizer E resource' finalizer)"

lemma ClearFinalizer_cleared:
  assumes "finalizer_laws E" and "finalizer \<noteq> []"
    and "ClearFinalizer E ctx resource finalizer w = Some ((e, resource'), w')"
  shows "\<exists>cs. trace w' = trace w @ cs \<and> cleared E finalizer resource e resource' cs"
proof -
  note clear = assms(3) [unfolded ClearFinalizer_def]
  have "\<not> containsFinalizer E resource' finalizer" if "e = None"
    using ensureFinalizer_post [OF assms(1) _ assms(2)] clear that by blast
  moreover have "resource' = resource \<and> containsFinalizer E resource finalizer" if "e \<noteq> None"
  proof -
    have "containsFinalizer E resource finalizer \<noteq> False"
      using clear that ensureFinalizer_noop [of finalizer E resource False ctx w] by auto
    moreover from ensureFinalizer_patch [OF clear assms(2) this] that have "resource' = resource" by metis
    ultimately show ?thesis by simp
  qed
  ultimately show ?thesis
    using ensureFinalizer_trace [OF clear] assms(2) by (auto simp: cleared_def)
qed

section \<open>Small instances\<close>

lemma demo_finalizer_laws: "finalizer_laws demo_env"
  by (auto simp: finalizer_laws_def demo_env_def demo_respond_def)

definition demo_sync :: SyncReconciler where
  "demo_sync =
     \<lparr>srName = ''sync'', srSetup = None, srSyncDuringFinalization = True,
      srSync = Some (\<lambda>ctx resource w. Some ((Some (Errorf ''boom'' []), resource), w)),
      srSyncWithResult = None, srFinalize = None, srFinalizeWithResult = None\<rparr>"

definition live :: object where
  "live = (empty_object ''Parent'')\<lparr>objNamespace := ''ns'', objName := ''parent'', uid := ''p''\<rparr>"

definition deleting :: object where
  "deleting = live\<lparr>deletionTimestamp := Some 1, finalizers := [''f'']\<rparr>"

lemma live_simps [simp]: "deletionTimestamp live = None" "finalizers live = []"
  by (simp_all add: live_def empty_object_def)

lemma deleting_simps [simp]: "deletionTimestamp deleting = Some 1" "finalizers deleting = [''f'']"
  by (simp_all add: deleting_def)

section \<open>Properties\<close>

text \<open>
  \<open>SyncReconciler\<close> on a live resource: exactly one of the sync functions runs, its result and
  error are returned, and the error is logged once unless it is quiet; nothing is finalized.
\<close>

theorem Sync_live:
  assumes "deletionTimestamp resource = None"
    and "sync r (WithName (srName r) ctx) resource w = Some ((result, e, resource1), w1)"
    and "deletionTimestamp resource1 = None"
  shows "Sync_Reconcile r ctx resource w = Some ((result, e, resource1),
    case e of
      Some e \<Rightarrow> if is_quiet e then w1
               else record_call (LogError (ctxLogger ctx @ [srName r]) e ''unable to sync'' []) w1
    | None \<Rightarrow> w1)"
  using assms
  by (simp add: Sync_Reconcile_def sync_then_finalize_def Let_def log_error_def WithName_def
      aggregate.comm_neutral split: option.split)

theorem Sync_live_witness:
  "Sync_Reconcile demo_sync demo_ctx live demo_world =
     Some ((empty_result, Some (Errorf ''boom'' []), live),
       record_call (LogError (ctxLogger demo_ctx @ [''sync'']) (Errorf ''boom'' []) ''unable to sync'' []) demo_world)"
proof -
  have s: "sync demo_sync (WithName (srName demo_sync) demo_ctx) live demo_world =
      Some ((empty_result, Some (Errorf ''boom'' []), live), demo_world)"
    by (simp add: sync_def demo_sync_def)
  show ?thesis
    using Sync_live [OF live_simps(1) s live_simps(1)] by (simp add: demo_sync_def)
qed

text \<open>
  \<open>SyncReconciler\<close> on a resource pending deletion: the sync functions run only with
  \<open>SyncDuringFinalization\<close>, the finalize functions run unless sync failed, the results are aggregated
  and the error of the step that failed is returned and, unless quiet, logged once.
\<close>

theorem Sync_deleting:
  assumes "deletionTimestamp resource \<noteq> None"
    and "if srSyncDuringFinalization r
         then sync r (WithName (srName r) ctx) resource w = Some ((result1, e1, resource1), w1)
         else result1 = empty_result \<and> e1 = None \<and> resource1 = resource \<and> w1 = w"
    and "deletionTimestamp resource1 \<noteq> None"
    and "finalize r (WithName (srName r) ctx) resource1 w1 = Some ((result2, e2, resource2), w2)"
  shows "Sync_Reconcile r ctx resource w =
    (case e1 of
       Some e \<Rightarrow> Some ((result1, Some e, resource1),
         if is_quiet e then w1
         else record_call (LogError (ctxLogger ctx @ [srName r]) e ''unable to sync'' []) w1)
     | None \<Rightarrow> Some ((AggregateResults [result1, result2], e2, resource2),
         case e2 of
           Some e \<Rightarrow> if is_quiet e then w2
                    else record_call (LogError (ctxLogger ctx @ [srName r]) e ''unable to finalize'' []) w2
         | None \<Rightarrow> w2))"
  using assms
  by (auto simp: Sync_Reconcile_def sync_then_finalize_def Let_def log_error_def WithName_def
      aggregate.comm_neutral split: option.split if_splits)

theorem Sync_deleting_witness:
  "Sync_Reconcile (demo_sync\<lparr>srSyncDuringFinalization := False\<rparr>) demo_ctx deleting demo_world =
     Some ((AggregateResults [empty_result, empty_result], None, deleting), demo_world)"
proof -
  let ?r = "demo_sync\<lparr>srSyncDuringFinalization := False\<rparr>"
  have d: "deletionTimestamp deleting \<noteq> None" by simp
  have s: "if srSyncDuringFinalization ?r
      then sync ?r (WithName (srName ?r) demo_ctx) deleting demo_world =
        Some ((empty_result, None, deleting), demo_world)
      else empty_result = empty_result \<and> None = (None :: err option) \<and> deleting = deleting \<and>
        demo_world = demo_world"
    by (simp add: demo_sync_def)
  have f: "finalize ?r (WithName (srName ?r) demo_ctx) deleting demo_world =
      Some ((empty_result, None, deleting), demo_world)"
    by (simp add: finalize_def demo_sync_def)
  show ?thesis
    using Sync_deleting [OF d s d f] by simp
qed

text \<open>
  A \<open>SyncReconciler\<close> without \<open>Setup\<close> is never validated: with neither \<open>Sync\<close> nor
  \<open>SyncWithResult\<close> its setup succeeds although \<open>validate\<close> rejects it, and reconciling a live resource
  panics.
\<close>

theorem Sync_unvalidated_panics:
  assumes "srSetup r = None" and "srSync r = None" and "srSyncWithResult r = None"
    and "deletionTimestamp resource = None"
  shows "\<exists>r'. Sync_SetupWithManager r ctx w = Some ((None, r'), w) \<and> Sync_validate r' \<noteq> None \<and>
    Sync_Reconcile r' ctx resource w = None"
  using assms
  by (auto simp: Sync_SetupWithManager_def Sync_validate_def Sync_Reconcile_def sync_def Let_def)

theorem Sync_unvalidated_panics_witness:
  "\<exists>r'. Sync_SetupWithManager (demo_sync\<lparr>srSync := None\<rparr>) demo_ctx demo_world = Some ((None, r'), demo_world) \<and>
     Sync_validate r' \<noteq> None \<and> Sync_Reconcile r' demo_ctx live demo_world = None"
  by (rule Sync_unvalidated_panics) (simp_all add: demo_sync_def)

text \<open>
  C10. \<open>ensureFinalizer\<close>, which \<open>AddFinalizer\<close> and \<open>ClearFinalizer\<close> are: when it succeeds the
  resource carries the finalizer exactly if it was to be added, nothing of the resource but its
  finalizers, version and generation has changed, and doing it again makes no further call.
\<close>

theorem ensureFinalizer_ensures:
  assumes "finalizer_laws E" and "finalizer \<noteq> []"
    and "ensureFinalizer E ctx current finalizer add w = Some ((None, current'), w')"
  shows "containsFinalizer E current' finalizer = add \<and>
    (\<exists>fs rv g. current' = current\<lparr>finalizers := fs, resourceVersion := rv, generation := g\<rparr>) \<and>
    ensureFinalizer E ctx' current' finalizer add w'' = Some ((None, current'), w'')"
  using ensureFinalizer_post [OF assms(1,3,2)] ensureFinalizer_frame [OF assms(3)]
  by (simp add: ensureFinalizer_noop)

theorem ensureFinalizer_ensures_witness:
  "\<exists>current' w'. ensureFinalizer demo_env demo_ctx live ''f'' True demo_world = Some ((None, current'), w') \<and>
     containsFinalizer demo_env current' ''f''"
proof -
  obtain current' w' where run:
    "ensureFinalizer demo_env demo_ctx live ''f'' True demo_world = Some ((None, current'), w')"
    by (simp add: ensureFinalizer_def RetrieveOriginalConfigOrDie_def RetrieveOriginalConfig_def
        demo_ctx_def demo_config_def client_write_def invoke_def finalizer_patched_def Eventf_def
        demo_env_def demo_respond_def Let_def)
  from ensureFinalizer_ensures [OF demo_finalizer_laws _ run] run show ?thesis by auto
qed

text \<open>
  C1. Finalizer before state: under \<open>WithFinalizer\<close> the nested reconciler never sees a live resource
  without the finalizer.  Two nested reconcilers that agree on all resources that carry the finalizer
  or are pending deletion cannot be told apart.
\<close>

theorem WithFinalizer_guards:
  assumes "finalizer_laws E" and "wfFinalizer r \<noteq> []"
    and "\<And>ctx resource w. deletionTimestamp resource \<noteq> None \<or> containsFinalizer E resource (wfFinalizer r)
      \<Longrightarrow> Reconcile s ctx resource w = Reconcile s' ctx resource w"
  shows "WithFinalizer_Reconcile E (r\<lparr>wfReconciler := Some s\<rparr>) ctx resource w =
    WithFinalizer_Reconcile E (r\<lparr>wfReconciler := Some s'\<rparr>) ctx resource w"
proof -
  have nested: "WithFinalizer_nested E (r\<lparr>wfReconciler := Some s\<rparr>) c resource1 w1 =
      WithFinalizer_nested E (r\<lparr>wfReconciler := Some s'\<rparr>) c resource1 w1"
    if "deletionTimestamp resource1 \<noteq> None \<or> containsFinalizer E resource1 (wfFinalizer r)"
    for c resource1 w1
  proof -
    have f: "wfFinalizer (r\<lparr>wfReconciler := x\<rparr>) = wfFinalizer r"
      "wfReconciler (r\<lparr>wfReconciler := x\<rparr>) = x" for x by simp_all
    show ?thesis unfolding WithFinalizer_nested_def f using assms(3) [OF that] by simp
  qed
  have added: "containsFinalizer E resource1 (wfFinalizer r)"
    if "AddFinalizer E c resource (wfFinalizer r) w = Some ((None, resource1), w1)" for c resource1 w1
    using ensureFinalizer_post [OF assms(1) _ assms(2)] that unfolding AddFinalizer_def by blast
  show ?thesis
  proof (cases "deletionTimestamp resource = None")
    case False
    with nested [of resource] show ?thesis by (simp add: WithFinalizer_Reconcile_def Let_def del: not_None_eq)
  next
    case True
    obtain x where x: "x = AddFinalizer E (WithName (wfName r) ctx) resource (wfFinalizer r) w" by simp
    show ?thesis
    proof (cases x)
      case None
      with True x show ?thesis by (simp add: WithFinalizer_Reconcile_def Let_def)
    next
      case (Some a)
      obtain e resource1 w1 where a: "a = ((e, resource1), w1)" by (metis prod.exhaust)
      show ?thesis
      proof (cases e)
        case None
        with Some a x have g: "AddFinalizer E (WithName (wfName r) ctx) resource (wfFinalizer r) w =
            Some ((None, resource1), w1)" by simp
        with added [OF g] nested [of resource1] True show ?thesis by (simp add: WithFinalizer_Reconcile_def Let_def)
      next
        case (Some e')
        with a x \<open>x = Some a\<close> have g: "AddFinalizer E (WithName (wfName r) ctx) resource (wfFinalizer r) w =
            Some ((Some e', resource1), w1)" by simp
        with True show ?thesis by (simp add: WithFinalizer_Reconcile_def Let_def)
      qed
    qed
  qed
qed

theorem WithFinalizer_guards_witness:
  "WithFinalizer_Reconcile demo_env
     (\<lparr>wfName = [], wfFinalizer = ''f'', wfReconciler = None\<rparr>\<lparr>wfReconciler := Some noop\<rparr>) demo_ctx live demo_world =
   WithFinalizer_Reconcile demo_env
     (\<lparr>wfName = [], wfFinalizer = ''f'', wfReconciler = None\<rparr>
       \<lparr>wfReconciler := Some (noop\<lparr>Reconcile := \<lambda>ctx resource w.
          if deletionTimestamp resource = None \<and> finalizers resource = [] then None
          else Some ((empty_result, None, resource), w)\<rparr>)\<rparr>) demo_ctx live demo_world"
  by (rule WithFinalizer_guards [OF demo_finalizer_laws]) (auto simp: demo_env_def)

text \<open>
  C7. Finalizer until state is gone: on a resource pending deletion \<open>WithFinalizer\<close> first runs the
  nested reconciler, having done nothing itself.  After an error of it, or when it leaves a resource
  that is no longer being deleted, its outcome is returned and no call is made.  Otherwise one patch
  is sent if the resource carries the finalizer, and none if it does not: the patch that removes it.
  A success then means that the finalizer is gone, with the nested result; a failed patch means an
  error, no result, and a resource that still carries the finalizer.
\<close>

theorem WithFinalizer_clears_last:
  assumes "finalizer_laws E" and "wfFinalizer r \<noteq> []" and "deletionTimestamp resource \<noteq> None"
    and "WithFinalizer_Reconcile E r ctx resource w = Some ((result', e', resource'), w')"
  shows "\<exists>s result e resource1 w1 cs. wfReconciler r = Some s \<and>
    Reconcile s (WithName (wfName r) ctx) resource w = Some ((result, e, resource1), w1) \<and>
    trace w' = trace w1 @ cs \<and>
    (if e \<noteq> None \<or> deletionTimestamp resource1 = None
     then (result', e', resource') = (result, e, resource1) \<and> w' = w1
     else set cs \<subseteq> finalizer_calls \<and>
       patches cs = (if containsFinalizer E resource1 (wfFinalizer r)
         then [(removeFinalizer E resource1 (wfFinalizer r), resource1)] else []) \<and>
       (if e' = None then result' = result \<and> \<not> containsFinalizer E resource' (wfFinalizer r)
        else result' = empty_result \<and> resource' = resource1 \<and>
          containsFinalizer E resource' (wfFinalizer r)))"
proof -
  let ?c = "WithName (wfName r) ctx" and ?f = "wfFinalizer r"
  obtain s result e resource1 w1 where s: "wfReconciler r = Some s"
    and nested: "Reconcile s ?c resource w = Some ((result, e, resource1), w1)"
    using assms(3,4) by (auto simp: WithFinalizer_Reconcile_def WithFinalizer_nested_def Let_def)
  show ?thesis
  proof (cases "e \<noteq> None \<or> deletionTimestamp resource1 = None")
    case True
    with assms(3,4) s nested have "(result', e', resource') = (result, e, resource1) \<and> w' = w1"
      by (auto simp: WithFinalizer_Reconcile_def WithFinalizer_nested_def Let_def split: option.splits)
    with s nested True show ?thesis by auto
  next
    case False
    with assms(3,4) s nested have clear: "ClearFinalizer E ?c resource1 ?f w1 = Some ((e', resource'), w')"
      and r': "result' = (if e' = None then result else empty_result)"
      by (auto simp: WithFinalizer_Reconcile_def WithFinalizer_nested_def Let_def split: option.splits)
    from ClearFinalizer_cleared [OF assms(1,2) clear] s nested False r' show ?thesis
      unfolding cleared_def by auto
  qed
qed

text \<open>A nested reconciler that does nothing: the finalizer of the resource is removed.\<close>

theorem WithFinalizer_clears_last_witness:
  "\<exists>resource' w'. WithFinalizer_Reconcile demo_env
      \<lparr>wfName = [], wfFinalizer = ''f'', wfReconciler = Some noop\<rparr> demo_ctx deleting demo_world =
        Some ((empty_result, None, resource'), w') \<and>
    \<not> containsFinalizer demo_env resource' ''f'' \<and>
    (\<exists>cs. trace w' = cs \<and> patches cs = [(removeFinalizer demo_env deleting ''f'', deleting)])"
proof -
  let ?r = "\<lparr>wfName = [], wfFinalizer = ''f'', wfReconciler = Some noop\<rparr>"
  have d: "deletionTimestamp deleting \<noteq> None" and f: "wfFinalizer ?r \<noteq> []" by simp_all
  have t0: "trace demo_world = []" by (simp add: demo_world_def empty_world_def)
  obtain resource' w' where run:
    "WithFinalizer_Reconcile demo_env ?r demo_ctx deleting demo_world = Some ((empty_result, None, resource'), w')"
    by (simp add: WithFinalizer_Reconcile_def WithFinalizer_nested_def noop_def ClearFinalizer_def
        ensureFinalizer_def RetrieveOriginalConfigOrDie_def RetrieveOriginalConfig_def demo_ctx_def
        demo_config_def client_write_def invoke_def finalizer_patched_def Eventf_def demo_env_def
        demo_respond_def WithName_def Let_def)
  from WithFinalizer_clears_last [OF demo_finalizer_laws f d run] run t0 show ?thesis
    by (auto simp: noop_def demo_env_def)
qed

end
