(* ===== verification/Manager.thy ===== *)
theory Manager
  imports Sync
begin

text \<open>
  The resource manager of \<^verbatim>\<open>src/reconcilers/resourcemanager.go\<close>, which creates, updates or deletes
  one managed object so that it matches a desired one, and the patches it caches.  \<open>Manage\<close> is
  written as the sections of the Go method: deleting, creating, and updating in two steps.
\<close>

section \<open>Patches\<close>

definition NewPatch :: "env \<Rightarrow> object \<Rightarrow> object \<Rightarrow> err + Patch" where
  "NewPatch E base update =
     (case jsonMarshal E base of
        Inl e \<Rightarrow> Inl e
      | Inr baseBytes \<Rightarrow>
          (case jsonMarshal E update of
             Inl e \<Rightarrow> Inl e
           | Inr updateBytes \<Rightarrow>
               (case createPatch E baseBytes updateBytes of
                  Inl e \<Rightarrow> Inl e
                | Inr bytes \<Rightarrow>
                    Inr \<lparr>patchGeneration = generation base, patchBytes = bytes\<rparr>)))"

definition Patch_Apply :: "env \<Rightarrow> Patch \<Rightarrow> object \<Rightarrow> err option \<times> object" where
  "Patch_Apply E p rebase =
     (if generation rebase \<noteq> patchGeneration p then (Some PatchGenerationMismatch, rebase)
      else
        (case jsonMarshal E rebase of
           Inl e \<Rightarrow> (Some e, rebase)
         | Inr rebaseBytes \<Rightarrow>
             (case decodePatch E (patchBytes p) of
                Inl e \<Rightarrow> (Some e, rebase)
              | Inr merge \<Rightarrow>
                  (case applyPatch E merge rebaseBytes of
                     Inl e \<Rightarrow> (Some e, rebase)
                   | Inr patchedBytes \<Rightarrow> jsonUnmarshal E patchedBytes (replaceWithEmpty rebase)))))"

section \<open>The manager\<close>

text \<open>
  \<open>rmGoType\<close> is the type parameter, \<open>None\<close> when it is an interface; \<open>rmId\<close> is the identity of the
  struct, under which the world keeps its mutation cache.  The two merge functions may modify both
  arguments.
\<close>

record ResourceManager =
  rmId :: nat
  rmGoType :: "string option"
  rmName :: string
  rmType :: "object option"
  rmFinalizer :: string
  rmTrackDesired :: bool
  rmHarmonizeImmutableFields :: "(object \<Rightarrow> object \<Rightarrow> object \<times> object) option"
  rmMergeBeforeUpdate :: "(object \<Rightarrow> object \<Rightarrow> object \<times> object) option"
  rmSanitize :: "(object \<Rightarrow> log_value) option"

definition default_type :: "object option \<Rightarrow> string option \<Rightarrow> object option" where
  "default_type t goT = (case t of Some t \<Rightarrow> Some t | None \<Rightarrow> map_option empty_object goT)"

definition ResourceManager_init :: "ResourceManager \<Rightarrow> world \<Rightarrow> (ResourceManager \<times> world) option" where
  "ResourceManager_init r w =
     do { t \<leftarrow> default_type (rmType r) (rmGoType r);
          let r = r\<lparr>rmType := Some t\<rparr>;
          let r = (if rmName r = [] then r\<lparr>rmName := typeName t @ ''ResourceManager''\<rparr> else r);
          let w = (if caches w (rmId r) = None
                   then w\<lparr>caches := (caches w)(rmId r \<mapsto> [])\<rparr> else w);
          Some (r, w) }"

definition ResourceManager_validate :: "ResourceManager \<Rightarrow> err option" where
  "ResourceManager_validate r =
     (if rmMergeBeforeUpdate r = None
      then Some (Errorf ''ResourceManager %q must define MergeBeforeUpdate'' [rmName r])
      else None)"

definition ResourceManager_Setup :: "ResourceManager \<Rightarrow> (world, err option \<times> ResourceManager) go" where
  "ResourceManager_Setup r w =
     do { (r, w) \<leftarrow> ResourceManager_init r w; Some ((ResourceManager_validate r, r), w) }"

definition sanitize :: "ResourceManager \<Rightarrow> object option \<Rightarrow> log_value" where
  "sanitize r resource =
     (case rmSanitize r of
        None \<Rightarrow> (case resource of None \<Rightarrow> LogNil | Some x \<Rightarrow> LogObject x)
      | Some f \<Rightarrow> (case resource of None \<Rightarrow> LogNil | Some x \<Rightarrow> f x))"

text \<open>The object does not exist: \<open>internal.IsNil(actual) || actual.GetCreationTimestamp().Time.IsZero()\<close>.\<close>

definition missing :: "object option \<Rightarrow> bool" where
  "missing actual \<longleftrightarrow> (case actual of None \<Rightarrow> True | Some x \<Rightarrow> creationTimestamp x = None)"

text \<open>\<open>if !errors.Is(err, ErrQuiet) { log.Error(...); pc.Recorder.Eventf(resource, Warning, ...) }\<close>\<close>

definition record_failure ::
    "ctx \<Rightarrow> Config \<Rightarrow> object \<Rightarrow> err \<Rightarrow> string \<Rightarrow> log_value list \<Rightarrow> string \<Rightarrow> log_value list \<Rightarrow> (world, unit) go" where
  "record_failure ctx pc resource e msg args reason eargs w =
     (if is_quiet e then Some ((), w)
      else (let w = log_error ctx e msg args w
            in Eventf (Recorder pc) resource ''Warning'' reason eargs w))"

definition named :: "object \<Rightarrow> log_value list" where
  "named x = [LogText (typeName x), LogText (objName x)]"

type_synonym managed = "object option \<times> err option \<times> object"

text \<open>
  Each section returns the managed object or nil, the error, and the reconciled resource.  \<open>aliased\<close>
  says that \<open>resource\<close> and \<open>actual\<close> are the same pointer, as they are for the \<open>AggregateReconciler\<close>.
\<close>

definition manage_delete ::
    "env \<Rightarrow> ctx \<Rightarrow> Config \<Rightarrow> Config \<Rightarrow> bool \<Rightarrow> object \<Rightarrow> object \<Rightarrow> (world, managed) go" where
  "manage_delete E ctx pc c aliased resource actual w =
     (if creationTimestamp actual \<noteq> None \<and> deletionTimestamp actual = None
      then do { let w = log_info ctx ''deleting unwanted resource'' [LogName (namespaceName actual)] w;
                ((e, actual), w) \<leftarrow> client_Delete E (Client c) actual w;
                let resource = (if aliased then actual else resource);
                case e of
                  Some e \<Rightarrow>
                    do { (_, w) \<leftarrow> record_failure ctx pc resource e ''unable to delete unwanted resource''
                           [LogName (namespaceName actual)] ''DeleteFailed'' (named actual @ [LogError_value e]) w;
                         Some ((None, Some e, resource), w) }
                | None \<Rightarrow>
                    do { (_, w) \<leftarrow> Eventf (Recorder pc) resource ''Normal'' ''Deleted'' (named actual) w;
                         Some ((None, None, resource), w) } }
      else Some ((None, None, resource), w))"

definition manage_create ::
    "env \<Rightarrow> ResourceManager \<Rightarrow> ctx \<Rightarrow> Config \<Rightarrow> Config \<Rightarrow> object \<Rightarrow> object \<Rightarrow> (world, managed) go" where
  "manage_create E r ctx pc c resource desired w =
     do { let w = log_info ctx ''creating resource'' [sanitize r (Some desired)] w;
          ((e, desired), w) \<leftarrow> client_Create E (Client c) desired w;
          case e of
            Some e \<Rightarrow>
              do { (_, w) \<leftarrow> record_failure ctx pc resource e ''unable to create resource''
                     [LogName (namespaceName desired)] ''CreationFailed'' (named desired @ [LogError_value e]) w;
                   Some ((None, Some e, resource), w) }
          | None \<Rightarrow>
              do { (e, w) \<leftarrow> (if rmTrackDesired r then tracker_TrackObject E (Tracker c) desired resource w
                             else Some (None, w));
                   case e of
                     Some e \<Rightarrow> Some ((None, Some e, resource), w)
                   | None \<Rightarrow>
                       do { (_, w) \<leftarrow> Eventf (Recorder pc) resource ''Normal'' ''Created'' (named desired) w;
                            Some ((Some desired, None, resource), w) } } }"

text \<open>The remote mutations cached for the object, applied to the desired state.\<close>

definition apply_cached ::
    "env \<Rightarrow> ResourceManager \<Rightarrow> ctx \<Rightarrow> string \<Rightarrow> object \<Rightarrow> (world, object) go" where
  "apply_cached E r ctx u desired w =
     do { entries \<leftarrow> caches w (rmId r);
          case cacheGet E entries (clock E (trace w)) u of
            None \<Rightarrow> Some (desired, w)
          | Some patch \<Rightarrow>
              (let (e, desiredPatched) = Patch_Apply E patch desired
               in case e of
                    Some e \<Rightarrow>
                      (let w = log_info ctx ''unable to patch desired child from mutation cache, this error is usually benign''
                         [LogText (errorMessage E e)] w
                       in Some (desiredPatched, w))
                  | None \<Rightarrow> Some (desiredPatched, w)) }"

text \<open>\<open>capture_mutations\<close> caches the patch from what was asked for to what the server made of it.\<close>

definition one_hour :: int where
  "one_hour = 3600000000000"

definition capture_mutations ::
    "env \<Rightarrow> ResourceManager \<Rightarrow> ctx \<Rightarrow> (object \<Rightarrow> object \<Rightarrow> object \<times> object) \<Rightarrow> object \<Rightarrow> object \<Rightarrow> (world, unit) go" where
  "capture_mutations E r ctx merge current desired w =
     (let (base, desired) = merge current desired
      in case NewPatch E base current of
           Inl e \<Rightarrow>
             Some ((), if \<not> is_quiet e
                       then log_info ctx ''unable to generate mutation patch''
                         [sanitize r (Some desired), sanitize r (Some base), LogText (errorMessage E e)] w
                       else w)
         | Inr patch \<Rightarrow>
             do { entries \<leftarrow> caches w (rmId r);
                  Some ((), w\<lparr>caches := (caches w)(rmId r \<mapsto>
                    entries @ [(clock E (trace w), uid current, patch, one_hour)])\<rparr>) })"

definition manage_push ::
    "env \<Rightarrow> ResourceManager \<Rightarrow> ctx \<Rightarrow> Config \<Rightarrow> Config \<Rightarrow> (object \<Rightarrow> object \<Rightarrow> object \<times> object)
      \<Rightarrow> object \<Rightarrow> object \<Rightarrow> object \<Rightarrow> object \<Rightarrow> (world, managed) go" where
  "manage_push E r ctx pc c merge resource actual current desired w =
     do { let w = log_info ctx ''updating resource''
            [LogDiff (sanitize r (Some actual)) (sanitize r (Some current))] w;
          ((e, current), w) \<leftarrow> client_Update E (Client c) current w;
          case e of
            Some e \<Rightarrow>
              do { (_, w) \<leftarrow> record_failure ctx pc resource e ''unable to update resource''
                     [LogName (namespaceName current)] ''UpdateFailed'' (named current @ [LogError_value e]) w;
                   Some ((None, Some e, resource), w) }
          | None \<Rightarrow>
              do { (_, w) \<leftarrow> capture_mutations E r ctx merge current desired w;
                   let w = log_info ctx ''updated resource'' [] w;
                   (_, w) \<leftarrow> Eventf (Recorder pc) resource ''Normal'' ''Updated'' (named current) w;
                   Some ((Some current, None, resource), w) } }"

definition manage_update ::
    "env \<Rightarrow> ResourceManager \<Rightarrow> ctx \<Rightarrow> Config \<Rightarrow> Config \<Rightarrow> bool \<Rightarrow> object \<Rightarrow> object \<Rightarrow> object \<Rightarrow> (world, managed) go" where
  "manage_update E r ctx pc c aliased resource actual desired w =
     (let (actual, desired) =
            (case rmHarmonizeImmutableFields r of None \<Rightarrow> (actual, desired) | Some f \<Rightarrow> f actual desired);
          resource = (if aliased then actual else resource)
      in do { (desiredPatched, w) \<leftarrow> apply_cached E r ctx (uid actual) desired w;
              let current = actual;
              (e, w) \<leftarrow> (if rmTrackDesired r then tracker_TrackObject E (Tracker c) current resource w
                        else Some (None, w));
              case e of
                Some e \<Rightarrow> Some ((None, Some e, resource), w)
              | None \<Rightarrow>
                  do { merge \<leftarrow> rmMergeBeforeUpdate r;
                       let (current, desiredPatched) = merge current desiredPatched;
                       if deepEqual E current actual
                       then let w = log_info ctx ''resource is in sync, no update required'' [] w
                            in Some ((Some actual, None, resource), w)
                       else manage_push E r ctx pc c merge resource actual current desired w } })"

definition Manage ::
    "env \<Rightarrow> ResourceManager \<Rightarrow> ctx \<Rightarrow> bool \<Rightarrow> object \<Rightarrow> object option \<Rightarrow> object option \<Rightarrow> (world, managed) go" where
  "Manage E r ctx aliased resource actual desired w =
     do { (r, w) \<leftarrow> ResourceManager_init r w;
          pc \<leftarrow> RetrieveOriginalConfigOrDie ctx;
          c \<leftarrow> RetrieveConfigOrDie ctx;
          case desired of
            None \<Rightarrow>
              (if missing actual
               then do { ((e, resource), w) \<leftarrow> ClearFinalizer E ctx resource (rmFinalizer r) w;
                         Some ((None, e, resource), w) }
               else do { actual \<leftarrow> actual; manage_delete E ctx pc c aliased resource actual w })
          | Some desired \<Rightarrow>
              do { ((e, resource), w) \<leftarrow> AddFinalizer E ctx resource (rmFinalizer r) w;
                   let actual = (if aliased then Some resource else actual);
                   case e of
                     Some e \<Rightarrow> Some ((None, Some e, resource), w)
                   | None \<Rightarrow>
                       (if missing actual then manage_create E r ctx pc c resource desired w
                        else do { actual \<leftarrow> actual;
                                  manage_update E r ctx pc c aliased resource actual desired w }) } }"

section \<open>The writes of a call\<close>

text \<open>
  \<open>writes w w' ws\<close>: the trace has grown and the creates, updates and deletes among the new calls are
  \<open>ws\<close>, in this order.  Patches of the reconciled resource's finalizers are not among them.
\<close>

fun child_write :: "call \<Rightarrow> bool" where
  "child_write (Create c obj) = True"
| "child_write (Update c obj) = True"
| "child_write (Delete c obj) = True"
| "child_write _ = False"

definition writes :: "world \<Rightarrow> world \<Rightarrow> call list \<Rightarrow> bool" where
  "writes w w' ws \<longleftrightarrow> (\<exists>cs. trace w' = trace w @ cs \<and> filter child_write cs = ws)"

lemma writes_refl [intro]: "writes w w []"
  by (simp add: writes_def)

lemma writes_trans: "writes u v as \<Longrightarrow> writes v w bs \<Longrightarrow> writes u w (as @ bs)"
  by (fastforce simp: writes_def)

lemma writes_none: "writes u v [] \<Longrightarrow> writes v w bs \<Longrightarrow> writes u w bs"
  "writes u v as \<Longrightarrow> writes v w [] \<Longrightarrow> writes u w as"
  using writes_trans [of u v "[]" w bs] writes_trans [of u v as w "[]"] by simp_all

lemma writes_record: "writes w (record_call c w) (if child_write c then [c] else [])"
  by (simp add: writes_def record_call_def)

lemma writes_appends: "appends S w w' \<Longrightarrow> (\<And>c. c \<in> S \<Longrightarrow> \<not> child_write c) \<Longrightarrow> writes w w' []"
  by (auto simp: appends_def writes_def filter_empty_conv)

lemma writes_log: "writes w (log_info ctx msg args w) []" "writes w (log_error ctx e msg args w) []"
  using writes_record [of w "LogInfo (ctxLogger ctx) msg args"]
    writes_record [of w "LogError (ctxLogger ctx) e msg args"]
  by (simp_all add: log_info_def log_error_def)

lemma writes_Eventf: "Eventf rec obj ty reason args w = Some (u, w') \<Longrightarrow> writes w w' []"
  by (auto simp: Eventf_def writes_def record_call_def)

lemma writes_record_failure:
  "record_failure ctx pc resource e msg args reason eargs w = Some (u, w') \<Longrightarrow> writes w w' []"
  by (auto simp: record_failure_def Let_def split: if_splits
      intro: writes_none(1) [OF writes_log(2) writes_Eventf])

lemma writes_TrackObject: "tracker_TrackObject E t ref obj w = Some (e, w') \<Longrightarrow> writes w w' []"
  by (auto simp: tracker_TrackObject_def writes_def record_call_def split: prod.splits)

lemma writes_optional_track:
  "(if b then tracker_TrackObject E t ref obj w else Some (None, w)) = Some (e, w') \<Longrightarrow> writes w w' []"
  by (auto split: if_splits intro: writes_TrackObject)

lemma writes_client_write:
  "client_write E mk cl w = Some ((e, x), w') \<Longrightarrow> (\<And>c. child_write (mk c)) \<Longrightarrow> \<exists>c. writes w w' [mk c]"
  using writes_record [of w] by (auto simp: client_write_def invoke_def) (metis (full_types))

lemma writes_ensureFinalizer:
  "ensureFinalizer E ctx current f add w = Some (x, w') \<Longrightarrow> writes w w' []"
  by (rule writes_appends [OF keepsD [OF ensureFinalizer_calls]]) (auto simp: finalizer_calls_def)

lemma writes_same_trace: "trace w' = trace w \<Longrightarrow> writes w w' []"
  by (simp add: writes_def)

lemma writes_init: "ResourceManager_init r w = Some (r', w') \<Longrightarrow> writes w w' []"
  by (auto simp: ResourceManager_init_def Let_def split: if_splits intro: writes_same_trace)

lemma writes_apply_cached: "apply_cached E r ctx u desired w = Some (x, w') \<Longrightarrow> writes w w' []"
  by (auto simp: apply_cached_def Let_def writes_log split: option.splits prod.splits)

lemma writes_capture: "capture_mutations E r ctx merge current desired w = Some (x, w') \<Longrightarrow> writes w w' []"
  by (auto simp: capture_mutations_def Let_def writes_log
      split: option.splits prod.splits sum.splits if_splits intro: writes_same_trace)

text \<open>The sections: at most one write each, of the kind the section is for.\<close>

lemma manage_delete_writes:
  assumes "manage_delete E ctx pc c aliased resource actual w = Some (x, w')"
  shows "writes w w' [] \<or> (\<exists>cl. writes w w' [Delete cl actual] \<and> deletionTimestamp actual = None)"
proof (cases "creationTimestamp actual \<noteq> None \<and> deletionTimestamp actual = None")
  case False
  with assms show ?thesis by (auto simp: manage_delete_def)
next
  case True
  let ?w = "log_info ctx ''deleting unwanted resource'' [LogName (namespaceName actual)] w"
  from assms True obtain e actual' w1 where d: "client_Delete E (Client c) actual ?w = Some ((e, actual'), w1)"
    and "(case e of
        Some e \<Rightarrow>
          do { (_, w) \<leftarrow> record_failure ctx pc (if aliased then actual' else resource) e
                 ''unable to delete unwanted resource'' [LogName (namespaceName actual')]
                 ''DeleteFailed'' (named actual' @ [LogError_value e]) w1;
               Some ((None, Some e, if aliased then actual' else resource), w) }
      | None \<Rightarrow>
          do { (_, w) \<leftarrow> Eventf (Recorder pc) (if aliased then actual' else resource) ''Normal''
                 ''Deleted'' (named actual') w1;
               Some ((None, None, if aliased then actual' else resource), w) }) = Some (x, w')"
    by (auto simp: manage_delete_def Let_def)
  then have rest: "writes w1 w' []"
    by (auto split: option.splits intro: writes_record_failure writes_Eventf)
  from writes_client_write [OF d] obtain cl where "writes ?w w1 [Delete cl actual]" by auto
  then have "writes w w' [Delete cl actual]"
    using writes_none(1) [OF writes_log(1)] writes_none(2) [OF _ rest] by blast
  with True show ?thesis by blast
qed

lemma manage_create_writes:
  assumes "manage_create E r ctx pc c resource desired w = Some (x, w')"
  shows "\<exists>cl. writes w w' [Create cl desired]"
proof -
  let ?w = "log_info ctx ''creating resource'' [sanitize r (Some desired)] w"
  from assms [unfolded manage_create_def Let_def] obtain e desired' w1 where d: "client_Create E (Client c) desired ?w = Some ((e, desired'), w1)"
    and rest: "(case e of
            Some e \<Rightarrow>
              do { (_, w) \<leftarrow> record_failure ctx pc resource e ''unable to create resource''
                     [LogName (namespaceName desired')] ''CreationFailed'' (named desired' @ [LogError_value e]) w1;
                   Some ((None, Some e, resource), w) }
          | None \<Rightarrow>
              do { (e, w) \<leftarrow> (if rmTrackDesired r then tracker_TrackObject E (Tracker c) desired' resource w1
                             else Some (None, w1));
                   case e of
                     Some e \<Rightarrow> Some ((None, Some e, resource), w)
                   | None \<Rightarrow>
                       do { (_, w) \<leftarrow> Eventf (Recorder pc) resource ''Normal'' ''Created'' (named desired') w;
                            Some ((Some desired', None, resource), w) } }) = Some (x, w')"
    by auto
  have "writes w1 w' []"
  proof (cases e)
    case None
    with rest obtain e' w2 where t: "(if rmTrackDesired r then tracker_TrackObject E (Tracker c) desired' resource w1
         else Some (None, w1)) = Some (e', w2)"
      and "(case e' of
             Some e \<Rightarrow> Some ((None, Some e, resource), w2)
           | None \<Rightarrow>
               do { (_, w) \<leftarrow> Eventf (Recorder pc) resource ''Normal'' ''Created'' (named desired') w2;
                    Some ((Some desired', None, resource), w) }) = Some (x, w')"
      by auto
    then have "writes w2 w' []" by (auto split: option.splits intro: writes_Eventf)
    with writes_none(1) [OF writes_optional_track [OF t]] show ?thesis by blast
  next
    case (Some e')
    with rest show ?thesis by (auto intro: writes_record_failure)
  qed
  moreover from writes_client_write [OF d] obtain cl where "writes ?w w1 [Create cl desired]" by auto
  ultimately show ?thesis
    using writes_none(1) [OF writes_log(1)] writes_none(2) by blast
qed

lemma manage_push_writes:
  assumes "manage_push E r ctx pc c merge resource actual current desired w = Some (x, w')"
  shows "\<exists>cl. writes w w' [Update cl current]"
proof -
  let ?w = "log_info ctx ''updating resource''
    [LogDiff (sanitize r (Some actual)) (sanitize r (Some current))] w"
  from assms [unfolded manage_push_def Let_def] obtain e current' w1 where d: "client_Update E (Client c) current ?w = Some ((e, current'), w1)"
    and rest: "(case e of
            Some e \<Rightarrow>
              do { (_, w) \<leftarrow> record_failure ctx pc resource e ''unable to update resource''
                     [LogName (namespaceName current')] ''UpdateFailed'' (named current' @ [LogError_value e]) w1;
                   Some ((None, Some e, resource), w) }
          | None \<Rightarrow>
              do { (_, w) \<leftarrow> capture_mutations E r ctx merge current' desired w1;
                   (_, w) \<leftarrow> Eventf (Recorder pc) resource ''Normal'' ''Updated'' (named current')
                     (log_info ctx ''updated resource'' [] w);
                   Some ((Some current', None, resource), w) }) = Some (x, w')"
    by auto
  have "writes w1 w' []"
  proof (cases e)
    case None
    with rest obtain u w2 where c: "capture_mutations E r ctx merge current' desired w1 = Some (u, w2)"
      and v: "Eventf (Recorder pc) resource ''Normal'' ''Updated'' (named current')
        (log_info ctx ''updated resource'' [] w2) = Some ((), w')"
      by auto
    from writes_none(1) [OF writes_capture [OF c] writes_none(1) [OF writes_log(1) writes_Eventf [OF v]]]
    show ?thesis .
  next
    case (Some e')
    with rest show ?thesis by (auto intro: writes_record_failure)
  qed
  moreover from writes_client_write [OF d] obtain cl where "writes ?w w1 [Update cl current]" by auto
  ultimately show ?thesis
    using writes_none(1) [OF writes_log(1)] writes_none(2) by blast
qed

lemma manage_update_writes:
  assumes "manage_update E r ctx pc c aliased resource actual desired w = Some (x, w')"
  shows "writes w w' [] \<or> (\<exists>cl cur. writes w w' [Update cl cur])"
proof -
  obtain actual' desired' where h: "(case rmHarmonizeImmutableFields r of None \<Rightarrow> (actual, desired)
      | Some f \<Rightarrow> f actual desired) = (actual', desired')" by fastforce
  let ?res = "if aliased then actual' else resource"
  from assms [unfolded manage_update_def h Let_def] obtain dp w1 e w2 where
    a: "apply_cached E r ctx (uid actual') desired' w = Some (dp, w1)"
    and tr: "(if rmTrackDesired r then tracker_TrackObject E (Tracker c) actual' ?res w1
              else Some (None, w1)) = Some (e, w2)"
    and rest: "(case e of
                Some e \<Rightarrow> Some ((None, Some e, ?res), w2)
              | None \<Rightarrow>
                  do { merge \<leftarrow> rmMergeBeforeUpdate r;
                       case merge actual' dp of (current, desiredPatched) \<Rightarrow>
                       if deepEqual E current actual'
                       then Some ((Some actual', None, ?res),
                         log_info ctx ''resource is in sync, no update required'' [] w2)
                       else manage_push E r ctx pc c merge ?res actual' current desired' w2 }) = Some (x, w')"
    by auto
  have "writes w w2 []"
    using writes_none(1) [OF writes_apply_cached [OF a] writes_optional_track [OF tr]] .
  moreover have "writes w2 w' [] \<or> (\<exists>cl cur. writes w2 w' [Update cl cur])"
  proof (cases e)
    case (Some e')
    with rest have "w2 = w'" by simp
    then show ?thesis by blast
  next
    case None
    with rest obtain merge current dp' where merge: "(if deepEqual E current actual'
        then Some ((Some actual', None, ?res), log_info ctx ''resource is in sync, no update required'' [] w2)
        else manage_push E r ctx pc c merge ?res actual' current desired' w2) = Some (x, w')"
      by (auto split: prod.splits)
    show ?thesis
    proof (cases "deepEqual E current actual'")
      case True
      with merge have "w' = log_info ctx ''resource is in sync, no update required'' [] w2" by simp
      then show ?thesis using writes_log(1) by blast
    next
      case False
      with merge manage_push_writes show ?thesis by (metis (full_types))
    qed
  qed
  ultimately show ?thesis using writes_none(1) by blast
qed

section \<open>Documented behaviour of the libraries\<close>

text \<open>
  JSON patches: a patch made from one text to another, applied to the first, gives a text of the same
  document as the second, where \<open>same\<close> says which texts are one JSON document.  The decoder of a type
  reads the document only.  The expiring cache returns only what was set for the key.
\<close>

definition patch_laws :: "env \<Rightarrow> (string \<Rightarrow> string \<Rightarrow> bool) \<Rightarrow> bool" where
  "patch_laws E same \<longleftrightarrow>
     (\<forall>a b p. createPatch E a b = Inr p \<longrightarrow>
        (\<exists>m b'. decodePatch E p = Inr m \<and> applyPatch E m a = Inr b' \<and> same b' b))"

definition decodes_documents :: "env \<Rightarrow> (string \<Rightarrow> string \<Rightarrow> bool) \<Rightarrow> string \<Rightarrow> bool" where
  "decodes_documents E same ty \<longleftrightarrow>
     (\<forall>s s'. same s s' \<longrightarrow> jsonUnmarshal E s (empty_object ty) = jsonUnmarshal E s' (empty_object ty))"

definition cache_law :: "env \<Rightarrow> bool" where
  "cache_law E \<longleftrightarrow>
     (\<forall>entries now u p. cacheGet E entries now u = Some p \<longrightarrow> (\<exists>t ttl. (t, u, p, ttl) \<in> set entries))"

lemma demo_cache_law: "cache_law demo_env"
proof -
  have "\<exists>t ttl. (t, u, p, ttl) \<in> set entries"
    if "List.find (\<lambda>(t, v, p, ttl). v = u \<and> now \<le> t + ttl) (rev entries) = Some (t', v, p, ttl')"
    for entries :: "(int \<times> string \<times> Patch \<times> int) list" and now u p t' v ttl'
  proof -
    from that obtain i where "i < length entries" "(t', v, p, ttl') = rev entries ! i" "v = u"
      by (auto simp: find_Some_iff)
    then have "(t', u, p, ttl') \<in> set (rev entries)" by (metis length_rev nth_mem)
    then show ?thesis by auto
  qed
  then show ?thesis by (fastforce simp: cache_law_def demo_env_def)
qed

text \<open>A manager whose fields are all set, and a context with all its configuration.\<close>

definition ready_manager :: "ResourceManager \<Rightarrow> world \<Rightarrow> bool" where
  "ready_manager r w \<longleftrightarrow> rmType r \<noteq> None \<and> rmName r \<noteq> [] \<and> caches w (rmId r) \<noteq> None"

lemma ready_manager_init: "ready_manager r w \<Longrightarrow> ResourceManager_init r w = Some (r, w)"
  by (auto simp: ready_manager_def ResourceManager_init_def default_type_def Let_def)

definition demo_manager :: ResourceManager where
  "demo_manager =
     \<lparr>rmId = 0, rmGoType = Some ''Pod'', rmName = ''manager'', rmType = Some (empty_object ''Pod''),
      rmFinalizer = [], rmTrackDesired = False, rmHarmonizeImmutableFields = None,
      rmMergeBeforeUpdate = Some (\<lambda>current desired. (current\<lparr>body := body desired\<rparr>, desired)),
      rmSanitize = None\<rparr>"

definition demo_merge :: "object \<Rightarrow> object \<Rightarrow> object \<times> object" where
  "demo_merge current desired = (current\<lparr>body := body desired\<rparr>, desired)"

lemma demo_manager_simps [simp]:
  "rmId demo_manager = 0" "rmFinalizer demo_manager = []" "\<not> rmTrackDesired demo_manager"
  "rmHarmonizeImmutableFields demo_manager = None" "rmMergeBeforeUpdate demo_manager = Some demo_merge"
  by (simp_all add: demo_manager_def demo_merge_def fun_eq_iff)

definition demo_managed_world :: world where
  "demo_managed_world = demo_world\<lparr>caches := (\<lambda>_. Some [])\<rparr>"

lemma demo_ready: "ready_manager demo_manager demo_managed_world"
  by (simp add: ready_manager_def demo_manager_def demo_managed_world_def)

lemma demo_ctx_config [simp]:
  "ctxConfig demo_ctx = Some demo_config" "ctxOriginalConfig demo_ctx = Some demo_config"
  by (simp_all add: demo_ctx_def)

definition demo_child :: object where
  "demo_child = (demo_object ''Pod'' ''child'')\<lparr>uid := ''u'', creationTimestamp := Some 1, body := ''spec''\<rparr>"

lemma Manage_writes_cases:
  assumes "Manage E r ctx aliased resource actual desired w = Some (x, w')"
    and "aliased \<Longrightarrow> actual = Some resource"
  shows "writes w w' [] \<or>
    (\<exists>cl obj. writes w w' [Create cl obj] \<and> missing actual \<and> desired = Some obj) \<or>
    (\<exists>cl obj. writes w w' [Update cl obj] \<and> \<not> missing actual \<and> desired \<noteq> None) \<or>
    (\<exists>cl obj. writes w w' [Delete cl obj] \<and> \<not> missing actual \<and> actual = Some obj \<and>
       deletionTimestamp obj = None \<and> desired = None)"
proof -
  from assms(1) [unfolded Manage_def] obtain r' w1 pc c where i: "ResourceManager_init r w = Some (r', w1)"
    and rest: "(case desired of
          None \<Rightarrow>
            (if missing actual
             then do { ((e, resource), w) \<leftarrow> ClearFinalizer E ctx resource (rmFinalizer r') w1;
                       Some ((None, e, resource), w) }
             else do { actual \<leftarrow> actual; manage_delete E ctx pc c aliased resource actual w1 })
        | Some desired \<Rightarrow>
            do { ((e, resource), w) \<leftarrow> AddFinalizer E ctx resource (rmFinalizer r') w1;
                 let actual = (if aliased then Some resource else actual);
                 case e of
                   Some e \<Rightarrow> Some ((None, Some e, resource), w)
                 | None \<Rightarrow>
                     (if missing actual then manage_create E r' ctx pc c resource desired w
                      else do { actual \<leftarrow> actual;
                                manage_update E r' ctx pc c aliased resource actual desired w }) })
      = Some (x, w')"
    by auto
  note first = writes_none(1) [OF writes_init [OF i]]
  show ?thesis
  proof (cases desired)
    case None
    show ?thesis
    proof (cases "missing actual")
      case True
      with rest None have "writes w1 w' []"
        by (auto simp: ClearFinalizer_def dest: writes_ensureFinalizer)
      then show ?thesis using first by blast
    next
      case False
      with rest None obtain a where a: "actual = Some a" "manage_delete E ctx pc c aliased resource a w1 = Some (x, w')"
        by auto
      from manage_delete_writes [OF a(2)] show ?thesis using first a(1) None False by blast
    qed
  next
    case (Some d)
    with rest obtain e resource1 w2 where f: "AddFinalizer E ctx resource (rmFinalizer r') w1
        = Some ((e, resource1), w2)"
      and rest': "(case e of
                   Some e \<Rightarrow> Some ((None, Some e, resource1), w2)
                 | None \<Rightarrow>
                     (if missing (if aliased then Some resource1 else actual) then manage_create E r' ctx pc c resource1 d w2
                      else do { actual \<leftarrow> (if aliased then Some resource1 else actual);
                                manage_update E r' ctx pc c aliased resource1 actual d w2 })) = Some (x, w')"
      by (auto simp: Let_def)
    have m: "missing (if aliased then Some resource1 else actual) = missing actual"
      using ensureFinalizer_frame [OF f [unfolded AddFinalizer_def]] assms(2) by (auto simp: missing_def)
    note rest' = rest' [unfolded m]
    have two: "writes w w2 []"
      using first f writes_ensureFinalizer unfolding AddFinalizer_def by blast
    show ?thesis
    proof (cases "e = None \<and> \<not> missing actual")
      case True
      with rest' obtain a where "manage_update E r' ctx pc c aliased resource1 a d w2 = Some (x, w')"
        by (auto split: if_splits)
      from manage_update_writes [OF this] show ?thesis
        using writes_none(1) [OF two] True Some by blast
    next
      case False
      then consider "e \<noteq> None" | "e = None" "missing actual" by (cases e) auto
      then show ?thesis
      proof cases
        case 1
        with rest' two show ?thesis by auto
      next
        case 2
        with rest' have "manage_create E r' ctx pc c resource1 d w2 = Some (x, w')" by simp
        from manage_create_writes [OF this] show ?thesis
          using writes_none(1) [OF two] 2 Some by blast
      qed
    qed
  qed
qed

section \<open>Properties\<close>

text \<open>
  C15. Write discipline of the resource manager: a call of \<open>Manage\<close> makes at most one create, update
  or delete; it creates only when an object is desired and none exists, updates only when one is
  desired and exists, and deletes exactly the existing object, only when none is desired and it is not
  already being deleted.
\<close>

theorem Manage_writes:
  assumes "Manage E r ctx aliased resource actual desired w = Some (x, w')"
    and "aliased \<Longrightarrow> actual = Some resource"
  shows "\<exists>cs. trace w' = trace w @ cs \<and>
    (case filter child_write cs of
       [] \<Rightarrow> True
     | [Create cl obj] \<Rightarrow> missing actual \<and> desired = Some obj
     | [Update cl obj] \<Rightarrow> \<not> missing actual \<and> desired \<noteq> None
     | [Delete cl obj] \<Rightarrow> \<not> missing actual \<and> actual = Some obj \<and> deletionTimestamp obj = None \<and> desired = None
     | _ \<Rightarrow> False)"
  using Manage_writes_cases [OF assms] unfolding writes_def by fastforce

theorem Manage_writes_witness:
  "\<exists>x w' cs. Manage demo_env demo_manager demo_ctx False live None None demo_managed_world = Some (x, w') \<and>
     trace w' = trace demo_managed_world @ cs"
proof -
  have run: "Manage demo_env demo_manager demo_ctx False live None None demo_managed_world =
      Some ((None, None, live), demo_managed_world)"
    by (simp add: Manage_def ready_manager_init [OF demo_ready] RetrieveOriginalConfigOrDie_def
        RetrieveOriginalConfig_def RetrieveConfigOrDie_def RetrieveConfig_def missing_def
        ClearFinalizer_def ensureFinalizer_def)
  from Manage_writes [OF run] run show ?thesis by blast
qed

text \<open>
  A managed object that is in sync is left alone: when merging the desired state into the existing
  object changes nothing and no cached mutation applies, \<open>Manage\<close> returns the existing object and only
  logs.
\<close>

theorem Manage_in_sync:
  assumes "ready_manager r w" and "ctxOriginalConfig ctx = Some pc" and "ctxConfig ctx = Some c"
    and "rmFinalizer r = [] \<or> containsFinalizer E resource (rmFinalizer r)"
    and "\<not> rmTrackDesired r" and "rmHarmonizeImmutableFields r = None"
    and "caches w (rmId r) = Some entries"
    and "cacheGet E entries (clock E (trace w)) (uid actual) = None"
    and "rmMergeBeforeUpdate r = Some merge" and "deepEqual E (fst (merge actual desired)) actual"
    and "creationTimestamp actual \<noteq> None"
  shows "Manage E r ctx False resource (Some actual) (Some desired) w =
    Some ((Some actual, None, resource),
      record_call (LogInfo (ctxLogger ctx) ''resource is in sync, no update required'' []) w)"
  using assms
  by (simp add: Manage_def ready_manager_init RetrieveOriginalConfigOrDie_def RetrieveOriginalConfig_def
      RetrieveConfigOrDie_def RetrieveConfig_def missing_def AddFinalizer_def ensureFinalizer_noop
      manage_update_def apply_cached_def log_info_def case_prod_beta Let_def del: not_None_eq)

theorem Manage_in_sync_witness:
  "Manage demo_env demo_manager demo_ctx False live (Some demo_child) (Some demo_child) demo_managed_world =
    Some ((Some demo_child, None, live),
      record_call (LogInfo (ctxLogger demo_ctx) ''resource is in sync, no update required'' []) demo_managed_world)"
  by (rule Manage_in_sync [OF demo_ready demo_ctx_config(2,1), where entries = "[]" and merge = demo_merge])
    (simp_all add: demo_managed_world_def demo_env_def demo_child_def demo_merge_def)

text \<open>
  Creating a managed object: the desired object is created once; on success the object the server
  returned is returned and a Created event recorded; on failure nothing is returned but the error, and
  the failure is logged and recorded unless the error is quiet.
\<close>

theorem Manage_create_outcome:
  assumes "ready_manager r w" and "ctxOriginalConfig ctx = Some pc" and "ctxConfig ctx = Some c"
    and "Client c = Some cl" and "Recorder pc = Some recorder"
    and "rmFinalizer r = []" and "\<not> rmTrackDesired r" and "missing actual"
    and "rep = respond E (trace w @ [LogInfo (ctxLogger ctx) ''creating resource'' [sanitize r (Some desired)]])
      (Create cl desired)"
  shows "\<exists>w'. Manage E r ctx False resource actual (Some desired) w =
      Some ((if replyErr rep = None then Some (replyObject rep) else None, replyErr rep, resource), w') \<and>
    trace w' = trace w @
      [LogInfo (ctxLogger ctx) ''creating resource'' [sanitize r (Some desired)], Create cl desired] @
      (case replyErr rep of
         None \<Rightarrow> [Event recorder resource ''Normal'' ''Created'' (named (replyObject rep))]
       | Some e \<Rightarrow>
           if is_quiet e then []
           else [LogError (ctxLogger ctx) e ''unable to create resource'' [LogName (namespaceName (replyObject rep))],
                 Event recorder resource ''Warning'' ''CreationFailed''
                   (named (replyObject rep) @ [LogError_value e])])"
proof (cases "replyErr rep")
  case None
  with assms show ?thesis
    by (simp add: Manage_def ready_manager_init RetrieveOriginalConfigOrDie_def RetrieveOriginalConfig_def
        RetrieveConfigOrDie_def RetrieveConfig_def AddFinalizer_def ensureFinalizer_noop manage_create_def
        client_write_def invoke_def log_info_def record_call_def Eventf_def Let_def)
next
  case (Some e)
  with assms show ?thesis
    by (cases "is_quiet e") (simp_all add: Manage_def ready_manager_init RetrieveOriginalConfigOrDie_def
        RetrieveOriginalConfig_def RetrieveConfigOrDie_def RetrieveConfig_def AddFinalizer_def
        ensureFinalizer_noop manage_create_def client_write_def invoke_def log_info_def log_error_def
        record_call_def Eventf_def record_failure_def Let_def)
qed

theorem Manage_create_outcome_witness:
  "\<exists>w' child. Manage demo_env demo_manager demo_ctx False live None (Some demo_child) demo_managed_world =
      Some ((Some child, None, live), w')"
proof -
  let ?rep = "respond demo_env (trace demo_managed_world @
    [LogInfo (ctxLogger demo_ctx) ''creating resource'' [sanitize demo_manager (Some demo_child)]])
    (Create ''client'' demo_child)"
  have e: "replyErr ?rep = None" by (simp add: demo_env_def demo_respond_def)
  have "Client demo_config = Some ''client''" "Recorder demo_config = Some ''recorder''" "missing None"
    by (simp_all add: demo_config_def missing_def)
  from Manage_create_outcome [OF demo_ready demo_ctx_config(2,1) this(1,2) demo_manager_simps(2,3) this(3) refl,
      of demo_env live demo_child]
  have "\<exists>w'. Manage demo_env demo_manager demo_ctx False live None (Some demo_child) demo_managed_world =
      Some ((if replyErr ?rep = None then Some (replyObject ?rep) else None, replyErr ?rep, live), w')"
    by blast
  then show ?thesis unfolding e by auto
qed

text \<open>
  C20. Round trip of patches: the patch made from one object to another of its type, applied to the
  first, leaves exactly what decoding the JSON of the second into an empty object gives, with the
  error of that decoding if it has one; nothing of the first object is left over.  Applied to an object
  of another generation it is refused and changes nothing.
\<close>

theorem NewPatch_roundtrip:
  assumes "patch_laws E same" and "decodes_documents E same (goType update)"
    and "NewPatch E base update = Inr p" and "goType base = goType update"
  shows "(\<exists>text. jsonMarshal E update = Inr text \<and>
      Patch_Apply E p base = jsonUnmarshal E text (empty_object (goType update))) \<and>
    (\<forall>other. generation other \<noteq> generation base \<longrightarrow>
       Patch_Apply E p other = (Some PatchGenerationMismatch, other))"
proof -
  obtain a b bytes where ab: "jsonMarshal E base = Inr a" "jsonMarshal E update = Inr b"
      "createPatch E a b = Inr bytes" and p: "p = \<lparr>patchGeneration = generation base, patchBytes = bytes\<rparr>"
    using assms(3) by (auto simp: NewPatch_def split: sum.splits)
  obtain merge b' where "decodePatch E bytes = Inr merge" "applyPatch E merge a = Inr b'" and "same b' b"
    using assms(1) ab(3) unfolding patch_laws_def by blast
  moreover have "jsonUnmarshal E b' (empty_object (goType update)) =
      jsonUnmarshal E b (empty_object (goType update))"
    using assms(2) \<open>same b' b\<close> unfolding decodes_documents_def by blast
  ultimately show ?thesis
    using ab p assms(4) by (simp add: Patch_Apply_def replaceWithEmpty_def)
qed

theorem NewPatch_roundtrip_witness:
  "\<exists>p. NewPatch demo_env (empty_object ''Pod'') ((empty_object ''Pod'')\<lparr>body := ''spec''\<rparr>) = Inr p \<and>
     Patch_Apply demo_env p (empty_object ''Pod'') = (None, (empty_object ''Pod'')\<lparr>body := ''spec''\<rparr>)"
proof -
  let ?update = "(empty_object ''Pod'')\<lparr>body := ''spec''\<rparr>"
  have laws: "patch_laws demo_env (=)" "decodes_documents demo_env (=) (goType ?update)"
    by (simp_all add: patch_laws_def decodes_documents_def demo_env_def)
  obtain p where p: "NewPatch demo_env (empty_object ''Pod'') ?update = Inr p"
    by (simp add: NewPatch_def demo_env_def empty_object_def)
  have g: "goType (empty_object ''Pod'') = goType ?update" by (simp add: empty_object_def)
  from NewPatch_roundtrip [OF laws p g] p show ?thesis by (auto simp: demo_env_def empty_object_def)
qed

section \<open>The mutation cache over many calls\<close>

lemma same_caches:
  "Eventf rec x ty reason args w = Some (u, w') \<Longrightarrow> caches w' = caches w"
  "caches (log_info ctx msg args w) = caches w" "caches (log_error ctx er msg args w) = caches w"
  "client_write E mk cl w = Some (y, w') \<Longrightarrow> caches w' = caches w"
  "tracker_TrackObject E t ref x w = Some (er', w') \<Longrightarrow> caches w' = caches w"
  by (auto simp: Eventf_def log_info_def log_error_def client_write_def invoke_def record_call_def
      tracker_TrackObject_def split: prod.splits)

lemma record_failure_caches:
  "record_failure ctx pc x e msg args reason eargs w = Some (u, w') \<Longrightarrow> caches w' = caches w"
  by (auto simp: record_failure_def Let_def same_caches(2,3) split: if_splits dest: same_caches(1))

lemma ensureFinalizer_caches:
  "ensureFinalizer E ctx current f add w = Some (x, w') \<Longrightarrow> caches w' = caches w"
  by (auto simp: ensureFinalizer_def finalizer_patched_def Let_def same_caches(2,3)
      split: if_splits option.splits dest!: same_caches(1,4))

lemma manage_delete_caches:
  "manage_delete E ctx pc c aliased resource actual w = Some (x, w') \<Longrightarrow> caches w' = caches w"
  by (auto simp: manage_delete_def Let_def same_caches(2,3) split: if_splits option.splits
      dest!: same_caches(1,4) record_failure_caches)

lemma optional_track_caches:
  "(if b then tracker_TrackObject E t ref x w else Some (None, w)) = Some (e, w') \<Longrightarrow> caches w' = caches w"
  by (auto split: if_splits dest: same_caches(5))

lemma manage_create_caches:
  "manage_create E r ctx pc c resource desired w = Some (x, w') \<Longrightarrow> caches w' = caches w"
  unfolding manage_create_def Let_def
  by (auto simp: same_caches(2,3) split: option.splits
      dest!: same_caches(1,4) record_failure_caches optional_track_caches)

lemma apply_cached_caches: "apply_cached E r ctx u desired w = Some (x, w') \<Longrightarrow> caches w' = caches w"
  by (auto simp: apply_cached_def Let_def same_caches(2) split: option.splits prod.splits)

text \<open>No patch among the entries of a cache carries the generation \<open>g\<close>.\<close>

definition no_patch_of :: "int \<Rightarrow> (int \<times> string \<times> Patch \<times> int) list option \<Rightarrow> bool" where
  "no_patch_of g cache \<longleftrightarrow>
     (\<forall>entries. cache = Some entries \<longrightarrow> (\<forall>entry \<in> set entries. patchGeneration (fst (snd (snd entry))) \<noteq> g))"

lemma no_patch_of_capture:
  assumes "capture_mutations E r ctx merge current desired w = Some (x, w')"
    and "no_patch_of g (caches w (rmId r))" and "generation (fst (merge current desired)) \<noteq> g"
  shows "no_patch_of g (caches w' (rmId r))"
proof -
  obtain base desired' where m: "merge current desired = (base, desired')" by fastforce
  have "patchGeneration p \<noteq> g" if "NewPatch E base current = Inr p" for p
    using that assms(3) m by (auto simp: NewPatch_def split: sum.splits)
  moreover have "caches w' = caches w \<or> (\<exists>entries p t. caches w (rmId r) = Some entries \<and>
      NewPatch E base current = Inr p \<and> caches w' (rmId r) = Some (entries @ [(t, uid current, p, one_hour)]))"
    using assms(1) m
    by (auto simp: capture_mutations_def same_caches(2) split: sum.splits if_splits)
  ultimately show ?thesis using assms(2) by (elim disjE exE) (simp_all add: no_patch_of_def)
qed

text \<open>
  The server answers an accepted update with an object of another generation than \<open>g\<close>, and merging
  keeps the generation of the object that is merged into.
\<close>

definition server_generations :: "env \<Rightarrow> ResourceManager \<Rightarrow> int \<Rightarrow> bool" where
  "server_generations E r g \<longleftrightarrow>
     (\<forall>h cl x. replyErr (respond E h (Update cl x)) = None \<longrightarrow>
        generation (replyObject (respond E h (Update cl x))) \<noteq> g) \<and>
     (\<forall>merge current desired. rmMergeBeforeUpdate r = Some merge \<longrightarrow>
        generation (fst (merge current desired)) = generation current)"

lemma manage_push_no_patch:
  assumes "manage_push E r ctx pc c merge resource actual current desired w = Some (x, w')"
    and "no_patch_of g (caches w (rmId r))" and "server_generations E r g"
    and "rmMergeBeforeUpdate r = Some merge"
  shows "no_patch_of g (caches w' (rmId r))"
proof -
  let ?w = "log_info ctx ''updating resource'' [LogDiff (sanitize r (Some actual)) (sanitize r (Some current))] w"
  from assms(1) [unfolded manage_push_def client_write_def invoke_def Let_def]
  obtain cl e current' where cl: "Client c = Some cl"
    and rep: "e = replyErr (respond E (trace ?w) (Update cl current))"
      "current' = replyObject (respond E (trace ?w) (Update cl current))"
    and rest: "(case e of
            Some e \<Rightarrow>
              do { (_, w) \<leftarrow> record_failure ctx pc resource e ''unable to update resource''
                     [LogName (namespaceName current')] ''UpdateFailed'' (named current' @ [LogError_value e])
                     (record_call (Update cl current) ?w);
                   Some ((None, Some e, resource), w) }
          | None \<Rightarrow>
              do { (_, w) \<leftarrow> capture_mutations E r ctx merge current' desired (record_call (Update cl current) ?w);
                   (_, w) \<leftarrow> Eventf (Recorder pc) resource ''Normal'' ''Updated'' (named current')
                     (log_info ctx ''updated resource'' [] w);
                   Some ((Some current', None, resource), w) }) = Some (x, w')"
    by auto
  have w1: "caches (record_call (Update cl current) ?w) = caches w"
    by (simp add: record_call_def log_info_def)
  show ?thesis
  proof (cases e)
    case (Some er)
    with rest obtain u where "record_failure ctx pc resource er ''unable to update resource''
        [LogName (namespaceName current')] ''UpdateFailed'' (named current' @ [LogError_value er])
        (record_call (Update cl current) ?w) = Some (u, w')" by auto
    from record_failure_caches [OF this] assms(2) w1 show ?thesis by simp
  next
    case None
    with rest obtain u w2 u' where k: "capture_mutations E r ctx merge current' desired
        (record_call (Update cl current) ?w) = Some (u, w2)"
      and v: "Eventf (Recorder pc) resource ''Normal'' ''Updated'' (named current')
        (log_info ctx ''updated resource'' [] w2) = Some (u', w')" by auto
    have "generation (fst (merge current' desired)) \<noteq> g"
      using assms(3,4) rep None unfolding server_generations_def by metis
    with no_patch_of_capture [OF k, of g] same_caches(1) [OF v] assms(2) w1 show ?thesis
      by (simp add: same_caches(2))
  qed
qed

lemma manage_update_no_patch:
  assumes "manage_update E r ctx pc c aliased resource actual desired w = Some (x, w')"
    and "no_patch_of g (caches w (rmId r))" and "server_generations E r g"
  shows "no_patch_of g (caches w' (rmId r))"
proof -
  obtain actual' desired' where h: "(case rmHarmonizeImmutableFields r of None \<Rightarrow> (actual, desired)
      | Some f \<Rightarrow> f actual desired) = (actual', desired')" by fastforce
  let ?resource = "if aliased then actual' else resource"
  from assms(1) [unfolded manage_update_def h Let_def prod.case]
  obtain patched w1 e w2 where a: "apply_cached E r ctx (uid actual') desired' w = Some (patched, w1)"
    and tr: "(if rmTrackDesired r then tracker_TrackObject E (Tracker c) actual' ?resource w1
        else Some (None, w1)) = Some (e, w2)"
    and rest: "(case e of
                Some e \<Rightarrow> Some ((None, Some e, ?resource), w2)
              | None \<Rightarrow>
                  do { merge \<leftarrow> rmMergeBeforeUpdate r;
                       case merge actual' patched of (current, desiredPatched) \<Rightarrow>
                       if deepEqual E current actual'
                       then Some ((Some actual', None, ?resource),
                         log_info ctx ''resource is in sync, no update required'' [] w2)
                       else manage_push E r ctx pc c merge ?resource actual' current desired' w2 }) = Some (x, w')"
    by auto
  have w2: "no_patch_of g (caches w2 (rmId r))"
    using assms(2) apply_cached_caches [OF a] optional_track_caches [OF tr] by simp
  show ?thesis
  proof (cases e)
    case (Some er)
    with rest w2 show ?thesis by simp
  next
    case None
    with rest obtain merge where m: "rmMergeBeforeUpdate r = Some merge" by auto
    obtain current patched' where p: "merge actual' patched = (current, patched')" by fastforce
    show ?thesis
    proof (cases "deepEqual E current actual'")
      case True
      with None rest m p have "w' = log_info ctx ''resource is in sync, no update required'' [] w2" by simp
      with w2 show ?thesis by (simp add: same_caches(2))
    next
      case False
      with None rest m p have "manage_push E r ctx pc c merge ?resource actual' current desired' w2 = Some (x, w')"
        by simp
      then show ?thesis by (rule manage_push_no_patch [OF _ w2 assms(3) m])
    qed
  qed
qed

lemma Manage_no_patch:
  assumes "Manage E r ctx aliased resource actual desired w = Some (x, w')"
    and "no_patch_of g (caches w (rmId r))" and "server_generations E r g"
  shows "no_patch_of g (caches w' (rmId r))"
proof -
  from assms(1) [unfolded Manage_def] obtain r1 w1 pc c where i: "ResourceManager_init r w = Some (r1, w1)"
    and rest: "(case desired of
            None \<Rightarrow>
              (if missing actual
               then do { ((e, resource), w) \<leftarrow> ClearFinalizer E ctx resource (rmFinalizer r1) w1;
                         Some ((None, e, resource), w) }
               else do { actual \<leftarrow> actual; manage_delete E ctx pc c aliased resource actual w1 })
          | Some desired \<Rightarrow>
              do { ((e, resource), w) \<leftarrow> AddFinalizer E ctx resource (rmFinalizer r1) w1;
                   let actual = (if aliased then Some resource else actual);
                   case e of
                     Some e \<Rightarrow> Some ((None, Some e, resource), w)
                   | None \<Rightarrow>
                       (if missing actual then manage_create E r1 ctx pc c resource desired w
                        else do { actual \<leftarrow> actual;
                                  manage_update E r1 ctx pc c aliased resource actual desired w }) }) = Some (x, w')"
    by auto
  have r1: "rmId r1 = rmId r" "rmMergeBeforeUpdate r1 = rmMergeBeforeUpdate r"
    using i by (auto simp: ResourceManager_init_def Let_def)
  have w1: "no_patch_of g (caches w1 (rmId r))"
    using i assms(2) by (auto simp: ResourceManager_init_def no_patch_of_def Let_def split: if_splits)
  have sg: "server_generations E r1 g" using assms(3) by (simp add: server_generations_def r1)
  show ?thesis
  proof (cases desired)
    case None
    with rest w1 show ?thesis
      by (auto simp: ClearFinalizer_def split: if_splits dest!: manage_delete_caches ensureFinalizer_caches)
  next
    case (Some d)
    with rest obtain e resource1 w2 where
      a: "AddFinalizer E ctx resource (rmFinalizer r1) w1 = Some ((e, resource1), w2)"
      and rest2: "(case e of
                     Some e \<Rightarrow> Some ((None, Some e, resource1), w2)
                   | None \<Rightarrow>
                       (if missing (if aliased then Some resource1 else actual)
                        then manage_create E r1 ctx pc c resource1 d w2
                        else do { actual \<leftarrow> (if aliased then Some resource1 else actual);
                                  manage_update E r1 ctx pc c aliased resource1 actual d w2 })) = Some (x, w')"
      by (auto simp: Let_def)
    have w2: "no_patch_of g (caches w2 (rmId r))"
      using ensureFinalizer_caches [OF a [unfolded AddFinalizer_def]] w1 by simp
    show ?thesis
    proof (cases e)
      case (Some er)
      with rest2 w2 show ?thesis by simp
    next
      case None
      show ?thesis
      proof (cases "missing (if aliased then Some resource1 else actual)")
        case True
        with None rest2 have "manage_create E r1 ctx pc c resource1 d w2 = Some (x, w')" by simp
        with w2 manage_create_caches show ?thesis by metis
      next
        case False
        with None rest2 obtain a where "manage_update E r1 ctx pc c aliased resource1 a d w2 = Some (x, w')" by auto
        from manage_update_no_patch [OF this _ sg] w2 show ?thesis by (simp add: r1)
      qed
    qed
  qed
qed

text \<open>
  The worlds a manager gets to see: its cache starts out absent or empty, the manager is used any
  number of times, and between its calls anything may happen that leaves its cache alone.
\<close>

inductive managed_world :: "env \<Rightarrow> ResourceManager \<Rightarrow> world \<Rightarrow> bool" for E r where
  start: "caches w (rmId r) = None \<or> caches w (rmId r) = Some [] \<Longrightarrow> managed_world E r w"
| manage: "managed_world E r w \<Longrightarrow> Manage E r ctx aliased resource actual desired w = Some (x, w')
    \<Longrightarrow> managed_world E r w'"
| other: "managed_world E r w \<Longrightarrow> caches w' (rmId r) = caches w (rmId r) \<Longrightarrow> managed_world E r w'"

lemma managed_world_no_patch:
  "managed_world E r w \<Longrightarrow> server_generations E r g \<Longrightarrow> no_patch_of g (caches w (rmId r))"
proof (induction rule: managed_world.induct)
  case (start w)
  then show ?case by (auto simp: no_patch_of_def)
next
  case (manage w ctx aliased resource actual desired x w')
  then show ?case by (blast intro: Manage_no_patch)
next
  case (other w w')
  then show ?case by (simp add: no_patch_of_def)
qed

text \<open>
  C21. The mutation cache does not help across generations.  After any number of calls of a manager, a
  cached patch carries the generation of an object the server returned from an update (merging is
  assumed to keep the generation of the object that is merged into); so a desired state whose
  generation no update was answered with, such as zero for one that was built afresh when the server
  numbers generations from one, is used as it is for every object, without the cached mutations.
\<close>

theorem mutation_cache_generation:
  assumes "cache_law E" and "managed_world E r w" and "server_generations E r (generation fresh)"
    and "caches w (rmId r) \<noteq> None"
  shows "\<exists>w'. apply_cached E r ctx u fresh w = Some (fresh, w')"
proof -
  obtain entries where e: "caches w (rmId r) = Some entries" using assms(4) by blast
  have g: "\<forall>entry \<in> set entries. patchGeneration (fst (snd (snd entry))) \<noteq> generation fresh"
    using managed_world_no_patch [OF assms(2,3)] e by (simp add: no_patch_of_def)
  show ?thesis
  proof (cases "cacheGet E entries (clock E (trace w)) u")
    case None
    with e show ?thesis by (simp add: apply_cached_def)
  next
    case (Some p)
    with assms(1) obtain t ttl where "(t, u, p, ttl) \<in> set entries"
      unfolding cache_law_def by blast
    with g have "patchGeneration p \<noteq> generation fresh" by auto
    with e Some show ?thesis by (simp add: apply_cached_def Patch_Apply_def Let_def)
  qed
qed

text \<open>A server that answers every update with generation 2, and one update of a child.\<close>

definition numbering_env :: env where
  "numbering_env = demo_env\<lparr>respond := (\<lambda>h c. (demo_respond h c)
     \<lparr>replyObject := (call_object c)\<lparr>generation := 2\<rparr>\<rparr>), jsonMarshal := (\<lambda>x. Inr (body x))\<rparr>"

theorem mutation_cache_generation_witness:
  "\<exists>x w1 w2 entry. Manage numbering_env demo_manager demo_ctx False live (Some (demo_child\<lparr>body := ''old''\<rparr>))
      (Some demo_child) demo_managed_world = Some (x, w1) \<and>
    caches w1 0 = Some [entry] \<and>
    apply_cached numbering_env demo_manager demo_ctx ''u'' demo_child w1 = Some (demo_child, w2)"
proof -
  let ?actual = "demo_child\<lparr>body := ''old''\<rparr>"
  let ?push = "log_info demo_ctx ''updating resource''
    [LogDiff (sanitize demo_manager (Some ?actual)) (sanitize demo_manager (Some demo_child))] demo_managed_world"
  let ?current = "demo_child\<lparr>generation := 2\<rparr>"
  have child: "creationTimestamp ?actual = Some 1" "body demo_child = ''spec''" "body ?actual = ''old''"
    by (simp_all add: demo_child_def)
  have "demo_child \<noteq> ?actual"
  proof
    assume "demo_child = ?actual"
    then have "body demo_child = body ?actual" by (rule arg_cong)
    with child show False by simp
  qed
  have merged: "?actual\<lparr>body := body demo_child\<rparr> = demo_child" by simp
  have caches: "caches demo_managed_world 0 = Some []" by (simp add: demo_managed_world_def)
  obtain p where p: "NewPatch numbering_env ?current ?current = Inr p"
    by (simp add: NewPatch_def numbering_env_def demo_env_def)
  have "client_Update numbering_env (Some ''client'') demo_child ?push =
      Some ((None, ?current), record_call (Update ''client'' demo_child) ?push)"
    by (simp add: client_write_def invoke_def numbering_env_def demo_respond_def)
  moreover have "demo_merge ?current demo_child = (?current, demo_child)" by (simp add: demo_merge_def)
  ultimately obtain x w1 entry where
    push: "manage_push numbering_env demo_manager demo_ctx demo_config demo_config demo_merge live ?actual
      demo_child demo_child demo_managed_world = Some (x, w1)" and w1: "caches w1 0 = Some [entry]"
    using p caches
    by (simp add: manage_push_def capture_mutations_def demo_config_def Eventf_def Let_def log_info_def
        record_call_def)
  have run: "Manage numbering_env demo_manager demo_ctx False live (Some ?actual) (Some demo_child)
      demo_managed_world = Some (x, w1)"
    using push \<open>demo_child \<noteq> ?actual\<close> caches child(1)
    by (simp add: Manage_def ready_manager_init [OF demo_ready] RetrieveOriginalConfigOrDie_def
        RetrieveOriginalConfig_def RetrieveConfigOrDie_def RetrieveConfig_def missing_def AddFinalizer_def
        ensureFinalizer_noop manage_update_def apply_cached_def demo_merge_def merged numbering_env_def demo_env_def)
  have g: "server_generations numbering_env demo_manager (generation demo_child)"
    by (simp add: server_generations_def numbering_env_def demo_merge_def demo_child_def demo_object_def
        empty_object_def)
  have "cache_law numbering_env" using demo_cache_law by (simp add: cache_law_def numbering_env_def)
  moreover have "managed_world numbering_env demo_manager w1"
    by (rule managed_world.manage [OF managed_world.start run]) (simp add: demo_managed_world_def)
  ultimately show ?thesis
    using mutation_cache_generation [OF _ _ g, of w1 demo_ctx "''u''"] run w1 by fastforce
qed

end
