(* ===== verification/Child.thy ===== *)
theory Child
  imports Manager
begin

text \<open>
  \<open>ChildReconciler\<close> of \<^verbatim>\<open>src/reconcilers/child.go\<close>: finding the children of a resource, reducing them
  to at most one, and handing the actual and the desired child to a resource manager.
\<close>

section \<open>The reconciler\<close>

text \<open>
  \<open>crChildGoType\<close> and \<open>crListGoType\<close> are the type parameters (\<open>None\<close> for an interface); \<open>crStampId\<close>
  is the identity of the manager \<open>init\<close> allocates.  Setup changes the struct, so it returns it.
\<close>

record ChildReconciler =
  crChildGoType :: "string option"
  crListGoType :: "string option"
  crStampId :: nat
  crName :: string
  crChildType :: "object option"
  crChildListType :: "object_list option"
  crFinalizer :: string
  crSkipOwnerReference :: bool
  crSetup :: "setup_fun option"
  crDesiredChild :: "(ctx \<Rightarrow> object \<Rightarrow> (world, object option \<times> err option \<times> object) go) option"
  crReflectChildStatusOnParent :: "(ctx \<Rightarrow> object \<Rightarrow> object option \<Rightarrow> err option \<Rightarrow> (world, object) go) option"
  crHarmonizeImmutableFields :: "(object \<Rightarrow> object \<Rightarrow> object \<times> object) option"
  crMergeBeforeUpdate :: "(object \<Rightarrow> object \<Rightarrow> object \<times> object) option"
  crListOptions :: "(ctx \<Rightarrow> object \<Rightarrow> list_option list) option"
  crOurChild :: "(object \<Rightarrow> object \<Rightarrow> bool) option"
  crSanitize :: "(object \<Rightarrow> log_value) option"
  crStamp :: "ResourceManager option"
  crLazyInit :: bool

definition default_list_type :: "object_list option \<Rightarrow> string option \<Rightarrow> object_list option" where
  "default_list_type t goT =
     (case t of Some t \<Rightarrow> Some t
      | None \<Rightarrow> map_option (\<lambda>n. \<lparr>listType = n, listKind = empty_gvk, listItems = []\<rparr>) goT)"

definition Child_init :: "ChildReconciler \<Rightarrow> ChildReconciler option" where
  "Child_init r =
     (if crLazyInit r then Some r
      else do { t \<leftarrow> default_type (crChildType r) (crChildGoType r);
                lt \<leftarrow> default_list_type (crChildListType r) (crListGoType r);
                let r = r\<lparr>crChildType := Some t, crChildListType := Some lt\<rparr>;
                let r = (if crName r = [] then r\<lparr>crName := typeName t @ ''ChildReconciler''\<rparr> else r);
                let r = (if crSanitize r = None then r\<lparr>crSanitize := Some LogObject\<rparr> else r);
                let r = (if crStamp r = None
                         then r\<lparr>crStamp := Some
                           \<lparr>rmId = crStampId r, rmGoType = crChildGoType r, rmName = crName r,
                            rmType = crChildType r, rmFinalizer = crFinalizer r,
                            rmTrackDesired = crSkipOwnerReference r,
                            rmHarmonizeImmutableFields = crHarmonizeImmutableFields r,
                            rmMergeBeforeUpdate = crMergeBeforeUpdate r, rmSanitize = crSanitize r\<rparr>\<rparr>
                         else r);
                Some (r\<lparr>crLazyInit := True\<rparr>) })"

definition Child_validate :: "ChildReconciler \<Rightarrow> err option \<times> ChildReconciler" where
  "Child_validate r =
     (let r = (if crFinalizer r \<noteq> [] then r\<lparr>crSkipOwnerReference := True\<rparr> else r)
      in (if crDesiredChild r = None
          then Some (Errorf ''ChildReconciler %q must implement DesiredChild'' [crName r])
          else if crReflectChildStatusOnParent r = None
          then Some (Errorf ''ChildReconciler %q must implement ReflectChildStatusOnParent'' [crName r])
          else if crOurChild r = None \<and> crSkipOwnerReference r
          then Some (Errorf ''ChildReconciler %q must implement OurChild since owner references are not used'' [crName r])
          else if crListOptions r = None \<and> crSkipOwnerReference r
          then Some (Errorf ''ChildReconciler %q must implement ListOptions since owner references are not used'' [crName r])
          else if crMergeBeforeUpdate r = None
          then Some (Errorf ''ChildReconciler %q must implement MergeBeforeUpdate'' [crName r])
          else None, r))"

definition Child_SetupWithManager ::
    "env \<Rightarrow> ChildReconciler \<Rightarrow> ctx \<Rightarrow> (world, err option \<times> ChildReconciler) go" where
  "Child_SetupWithManager E r ctx w =
     do { r \<leftarrow> Child_init r;
          c \<leftarrow> RetrieveConfigOrDie ctx;
          childType \<leftarrow> crChildType r;
          (k, w) \<leftarrow> client_gvk E (Client c) childType w;
          let ctx = WithName (crName r) ctx;
          let (e, r) = Child_validate r;
          case e of
            Some e \<Rightarrow> Some ((Some e, r), w)
          | None \<Rightarrow>
              do { w \<leftarrow> (if crSkipOwnerReference r
                         then do { handler \<leftarrow> EnqueueTracked E ctx;
                                   Some (record_call (BuilderWatches childType) w) }
                         else Some (record_call (BuilderOwns childType) w));
                   (e, w) \<leftarrow> optional_setup (crSetup r) ctx w;
                   Some ((e, r), w) } }"

text \<open>\<open>SetResourceManager\<close> panics once a manager is defined.\<close>

definition SetResourceManager :: "ChildReconciler \<Rightarrow> ResourceManager \<Rightarrow> ChildReconciler option" where
  "SetResourceManager r rm = (if crStamp r \<noteq> None then None else Some (r\<lparr>crStamp := Some rm\<rparr>))"

definition ourChild :: "env \<Rightarrow> ChildReconciler \<Rightarrow> object \<Rightarrow> object \<Rightarrow> bool" where
  "ourChild E r resource obj =
     (if \<not> crSkipOwnerReference r \<and> \<not> isControlledBy E obj resource then False
      else case crOurChild r of None \<Rightarrow> True | Some f \<Rightarrow> f resource obj)"

definition filterChildren :: "env \<Rightarrow> ChildReconciler \<Rightarrow> object \<Rightarrow> object list \<Rightarrow> object list" where
  "filterChildren E r resource children = filter (ourChild E r resource) children"

definition listOptions :: "ChildReconciler \<Rightarrow> ctx \<Rightarrow> object \<Rightarrow> list_option list" where
  "listOptions r ctx resource =
     (case crListOptions r of
        None \<Rightarrow> [InNamespace (objNamespace resource)]
      | Some f \<Rightarrow> f ctx resource)"

definition desiredChild ::
    "ChildReconciler \<Rightarrow> ctx \<Rightarrow> object \<Rightarrow> (world, object option \<times> err option \<times> object) go" where
  "desiredChild r ctx resource w =
     (if deletionTimestamp resource \<noteq> None then Some ((None, None, resource), w)
      else do { f \<leftarrow> crDesiredChild r; f ctx resource w })"

section \<open>Reconciling the child\<close>

text \<open>The loop over the children when there are several: an error or none.\<close>

fun delete_extras ::
    "env \<Rightarrow> object \<Rightarrow> ctx \<Rightarrow> Config \<Rightarrow> Config \<Rightarrow> object \<Rightarrow> object list \<Rightarrow> (world, err option) go" where
  "delete_extras E childType ctx pc c resource [] w = Some (None, w)"
| "delete_extras E childType ctx pc c resource (extra # extras) w =
     do { let w = log_info ctx ''deleting extra child'' [LogName (namespaceName extra)] w;
          ((e, extra), w) \<leftarrow> client_Delete E (Client c) extra w;
          case e of
            Some e \<Rightarrow>
              (if \<not> is_quiet e
               then do { (_, w) \<leftarrow> Eventf (Recorder pc) resource ''Warning'' ''DeleteFailed''
                           [LogText (typeName childType), LogText (objName extra), LogError_value e] w;
                         Some (Some e, w) }
               else Some (Some e, w))
          | None \<Rightarrow>
              do { (_, w) \<leftarrow> Eventf (Recorder pc) resource ''Normal'' ''Deleted''
                     [LogText (typeName childType), LogText (objName extra)] w;
                   delete_extras E childType ctx pc c resource extras w } }"

definition RetrieveKnownChildren :: "ctx \<Rightarrow> object list option" where
  "RetrieveKnownChildren ctx = ctxKnownChildren ctx"

declare RetrieveKnownChildren_def [simp]

text \<open>The children to choose from: those a \<open>ChildSetReconciler\<close> stashed, else a listing.\<close>

definition lookup_children ::
    "env \<Rightarrow> ChildReconciler \<Rightarrow> ctx \<Rightarrow> Config \<Rightarrow> object \<Rightarrow> (world, err + object list) go" where
  "lookup_children E r ctx c resource w =
     (case RetrieveKnownChildren ctx of
        Some children \<Rightarrow> Some (Inr children, w)
      | None \<Rightarrow>
          do { listType \<leftarrow> crChildListType r;
               ((e, list), w) \<leftarrow> client_List E (Client c) listType (listOptions r ctx resource) w;
               case e of
                 Some e \<Rightarrow> Some (Inl e, w)
               | None \<Rightarrow> do { items \<leftarrow> extractItems list; Some (Inr items, w) } })"

text \<open>
  \<open>reconcile\<close> from the desired child on.  \<open>Manage\<close> gets the actual child, which is the empty child
  type when there is none or there were several.
\<close>

definition child_manage_desired ::
    "env \<Rightarrow> ChildReconciler \<Rightarrow> ctx \<Rightarrow> object \<Rightarrow> object \<Rightarrow> object option \<Rightarrow> (world, managed) go" where
  "child_manage_desired E r ctx resource actual desired w =
     do { stamp \<leftarrow> crStamp r;
          case desired of
            None \<Rightarrow> Manage E stamp ctx False resource (Some actual) None w
          | Some desired \<Rightarrow>
              (let (e, desired) =
                     (if \<not> crSkipOwnerReference r \<and> getControllerOf E desired = None
                      then setControllerReference E resource desired else (None, desired))
               in case e of
                    Some e \<Rightarrow> Some ((None, Some e, resource), w)
                  | None \<Rightarrow>
                      (let w = (if \<not> ourChild E r resource desired
                                then log_info ctx ''object returned from DesiredChild does not match OurChild, this can result in orphaned children''
                                  [LogName (namespaceName desired)] w
                                else w)
                       in Manage E stamp ctx False resource (Some actual) (Some desired) w)) }"

definition child_desired ::
    "env \<Rightarrow> ChildReconciler \<Rightarrow> ctx \<Rightarrow> object \<Rightarrow> object \<Rightarrow> (world, managed) go" where
  "child_desired E r ctx resource actual w =
     do { ((desired, e, resource), w) \<leftarrow> desiredChild r ctx resource w;
          case e of
            Some e \<Rightarrow>
              (if errors_is e OnlyReconcileChildStatus then Some ((Some actual, None, resource), w)
               else Some ((None, Some e, resource), w))
          | None \<Rightarrow> child_manage_desired E r ctx resource actual desired w }"

definition child_reconcile :: "env \<Rightarrow> ChildReconciler \<Rightarrow> ctx \<Rightarrow> object \<Rightarrow> (world, managed) go" where
  "child_reconcile E r ctx resource w =
     do { pc \<leftarrow> RetrieveOriginalConfigOrDie ctx;
          c \<leftarrow> RetrieveConfigOrDie ctx;
          childType \<leftarrow> crChildType r;
          (children, w) \<leftarrow> lookup_children E r ctx c resource w;
          case children of
            Inl e \<Rightarrow> Some ((None, Some e, resource), w)
          | Inr children \<Rightarrow>
              (let children = filterChildren E r resource children
               in if length children = 1 then child_desired E r ctx resource (hd children) w
                  else if length children > 1
                  then do { (e, w) \<leftarrow> delete_extras E childType ctx pc c resource children w;
                            case e of
                              Some e \<Rightarrow> Some ((None, Some e, resource), w)
                            | None \<Rightarrow> child_desired E r ctx resource childType w }
                  else child_desired E r ctx resource childType w) }"

section \<open>Reconcile\<close>

definition reflect_child ::
    "ChildReconciler \<Rightarrow> ctx \<Rightarrow> object \<Rightarrow> object option \<Rightarrow> err option \<Rightarrow> (world, object) go" where
  "reflect_child r ctx resource child e w =
     do { f \<leftarrow> crReflectChildStatusOnParent r; f ctx resource child e w }"

text \<open>What is done with the outcome of \<open>reconcile\<close> on a resource that is not being deleted.\<close>

definition child_outcome ::
    "env \<Rightarrow> ChildReconciler \<Rightarrow> ctx \<Rightarrow> Config \<Rightarrow> object \<Rightarrow> object option \<Rightarrow> err option \<Rightarrow> (world, reconciled) go" where
  "child_outcome E r ctx c resource child e w =
     (case e of
        None \<Rightarrow>
          do { (resource, w) \<leftarrow> reflect_child r ctx resource child None w;
               Some ((empty_result, None, resource), w) }
      | Some er \<Rightarrow>
          (if isAlreadyExists E er
           then do { name \<leftarrow> apiStatusDetailsName E er;
                     childType \<leftarrow> crChildType r;
                     ((ignored, conflicted), w) \<leftarrow> client_Get E (APIReader c)
                       \<lparr>nnNamespace = objNamespace resource, nnName = name\<rparr> childType w;
                     if ourChild E r resource conflicted
                     then Some ((empty_result, Some er, resource), w)
                     else do { let w = log_info ctx ''unable to reconcile child, not owned''
                                 [LogName (namespaceName conflicted)] w;
                               (resource, w) \<leftarrow> reflect_child r ctx resource child (Some er) w;
                               Some ((empty_result, None, resource), w) } }
           else if isInvalid E er
           then do { (resource, w) \<leftarrow> reflect_child r ctx resource child (Some er) w;
                     Some ((empty_result, None, resource), w) }
           else (let w = (if \<not> is_quiet er then log_error ctx er ''unable to reconcile child'' [] w else w)
                 in Some ((empty_result, Some er, resource), w))))"

definition Child_Reconcile ::
    "env \<Rightarrow> ChildReconciler \<Rightarrow> ctx \<Rightarrow> object \<Rightarrow> (world, reconciled) go" where
  "Child_Reconcile E r ctx resource w =
     do { r \<leftarrow> Child_init r;
          c \<leftarrow> RetrieveConfigOrDie ctx;
          childType \<leftarrow> crChildType r;
          (k, w) \<leftarrow> client_gvk E (Client c) childType w;
          let ctx = WithName (crName r) ctx;
          ((child, e, resource), w) \<leftarrow> child_reconcile E r ctx resource w;
          if deletionTimestamp resource \<noteq> None then Some ((empty_result, e, resource), w)
          else child_outcome E r ctx c resource child e w }"

text \<open>
  As a sub-reconciler: setup validates the struct, which may set \<open>SkipOwnerReference\<close>, before it ever
  reconciles.
\<close>

definition Child_after_setup :: "ChildReconciler \<Rightarrow> ChildReconciler" where
  "Child_after_setup r = (case Child_init r of None \<Rightarrow> r | Some r \<Rightarrow> snd (Child_validate r))"

definition Child_sub :: "env \<Rightarrow> ChildReconciler \<Rightarrow> sub_reconciler" where
  "Child_sub E r =
     \<lparr>SetupWithManager = (\<lambda>ctx w. do { ((e, r), w) \<leftarrow> Child_SetupWithManager E r ctx w; Some (e, w) }),
      Reconcile = Child_Reconcile E (Child_after_setup r)\<rparr>"

section \<open>Which objects are deleted\<close>

text \<open>The calls among which every delete is of an object satisfying \<open>P\<close>.\<close>

definition deletes_only :: "(object \<Rightarrow> bool) \<Rightarrow> call set" where
  "deletes_only P = {c. \<forall>cl obj. c = Delete cl obj \<longrightarrow> P obj}"

lemma deletes_only_simps [simp]:
  "Get c k x \<in> deletes_only P" "List c l os \<in> deletes_only P" "Create c x \<in> deletes_only P"
  "Update c x \<in> deletes_only P" "Delete c x \<in> deletes_only P \<longleftrightarrow> P x" "PatchCall c x b \<in> deletes_only P"
  "GroupVersionKindFor c x \<in> deletes_only P" "Event r x ty reason args \<in> deletes_only P"
  "LogInfo ls m args \<in> deletes_only P" "LogError ls e m args \<in> deletes_only P"
  by (auto simp: deletes_only_def)

abbreviation deleted :: "(object \<Rightarrow> bool) \<Rightarrow> world \<Rightarrow> world \<Rightarrow> bool" where
  "deleted P \<equiv> appends (deletes_only P)"

lemma deleted_log [simp]: "deleted P w (log_info ctx msg args w)" "deleted P w (log_error ctx e msg args w)"
  by (auto simp: log_info_def log_error_def intro!: appends_record)

lemma deleted_Eventf: "Eventf rec x ty reason args w = Some (u, w') \<Longrightarrow> deleted P w w'"
  by (auto simp: Eventf_def intro!: appends_record)

lemma deleted_Get: "client_Get E cl key x w = Some (y, w') \<Longrightarrow> deleted P w w'"
  by (auto simp: client_Get_def invoke_def intro!: appends_record)

lemma deleted_List: "client_List E cl l opts w = Some (y, w') \<Longrightarrow> deleted P w w'"
  by (auto simp: client_List_def invoke_def intro!: appends_record)

lemma deleted_Delete: "client_Delete E cl x w = Some (y, w') \<Longrightarrow> P x \<Longrightarrow> deleted P w w'"
  by (auto simp: client_write_def invoke_def intro!: appends_record)

lemma deleted_gvk: "client_gvk E cl x w = Some (k, w') \<Longrightarrow> deleted P w w'"
  by (auto simp: client_gvk_def client_GroupVersionKindFor_def invoke_def intro!: appends_record)

lemma deleted_writes: "writes w w' ws \<Longrightarrow> (\<And>cl x. Delete cl x \<in> set ws \<Longrightarrow> P x) \<Longrightarrow> deleted P w w'"
  by (force simp: writes_def appends_def deletes_only_def)

lemma deleted_Manage:
  assumes "Manage E r ctx False resource actual desired w = Some (x, w')"
    and "\<And>obj. actual = Some obj \<Longrightarrow> \<not> missing actual \<Longrightarrow> P obj"
  shows "deleted P w w'"
  using Manage_writes_cases [OF assms(1)] assms(2) by (auto intro: deleted_writes)

lemmas deleted_calls = deleted_Eventf deleted_Get deleted_List deleted_gvk

lemma deleted_extras:
  "delete_extras E ct ctx pc c resource extras w = Some (e, w') \<Longrightarrow> \<forall>x \<in> set extras. P x \<Longrightarrow> deleted P w w'"
proof (induction extras arbitrary: w)
  case Nil
  then show ?case by simp
next
  case (Cons extra extras)
  let ?w = "log_info ctx ''deleting extra child'' [LogName (namespaceName extra)] w"
  from Cons.prems(1) [unfolded delete_extras.simps Let_def] obtain e1 extra' w1 where
    d: "client_Delete E (Client c) extra ?w = Some ((e1, extra'), w1)"
    and rest: "(case e1 of
            Some e \<Rightarrow>
              (if \<not> is_quiet e
               then do { (_, w) \<leftarrow> Eventf (Recorder pc) resource ''Warning'' ''DeleteFailed''
                           [LogText (typeName ct), LogText (objName extra'), LogError_value e] w1;
                         Some (Some e, w) }
               else Some (Some e, w1))
          | None \<Rightarrow>
              do { (_, w) \<leftarrow> Eventf (Recorder pc) resource ''Normal'' ''Deleted''
                     [LogText (typeName ct), LogText (objName extra')] w1;
                   delete_extras E ct ctx pc c resource extras w }) = Some (e, w')"
    by auto
  have "deleted P w w1"
    using deleted_Delete [OF d] Cons.prems(2) by (auto intro: appends_trans [OF deleted_log(1)])
  moreover have "deleted P w1 w'"
  proof (cases e1)
    case (Some e')
    with rest show ?thesis by (auto split: if_splits intro: deleted_Eventf)
  next
    case None
    with rest obtain u w2 where v: "Eventf (Recorder pc) resource ''Normal'' ''Deleted''
        [LogText (typeName ct), LogText (objName extra')] w1 = Some (u, w2)"
      and "delete_extras E ct ctx pc c resource extras w2 = Some (e, w')" by auto
    with Cons.IH Cons.prems(2) deleted_Eventf [OF v] show ?thesis by (auto intro: appends_trans)
  qed
  ultimately show ?case by (rule appends_trans)
qed

text \<open>Callbacks that make no delete of their own.\<close>

definition callbacks_delete :: "(object \<Rightarrow> bool) \<Rightarrow> ChildReconciler \<Rightarrow> bool" where
  "callbacks_delete P r \<longleftrightarrow>
     (\<forall>f ctx resource. crDesiredChild r = Some f \<longrightarrow> keeps (deleted P) (f ctx resource)) \<and>
     (\<forall>f ctx resource child e. crReflectChildStatusOnParent r = Some f \<longrightarrow>
        keeps (deleted P) (f ctx resource child e))"

lemma deleted_desired_child:
  assumes "desiredChild r ctx resource w = Some (x, w')" and "callbacks_delete P r"
  shows "deleted P w w'"
proof (cases "deletionTimestamp resource = None")
  case True
  with assms(1) obtain f where "crDesiredChild r = Some f" and f: "f ctx resource w = Some (x, w')"
    by (auto simp: desiredChild_def)
  with assms(2) have "keeps (deleted P) (f ctx resource)" by (simp add: callbacks_delete_def)
  then show ?thesis using f by (rule keepsD)
next
  case False
  with assms(1) show ?thesis by (auto simp: desiredChild_def simp del: not_None_eq)
qed

lemma deleted_reflect:
  assumes "reflect_child r ctx resource child e w = Some (x, w')" and "callbacks_delete P r"
  shows "deleted P w w'"
  using assms(2) assms(1) by (auto simp: reflect_child_def callbacks_delete_def keeps_def)

lemma deleted_manage_desired:
  assumes "child_manage_desired E r ctx resource actual desired w = Some (x, w')"
    and "\<not> missing (Some actual) \<Longrightarrow> P actual"
  shows "deleted P w w'"
proof -
  have m: "deleted P w w'" if "Manage E stamp ctx False resource (Some actual) d w = Some (x, w')" for stamp d w
    by (rule deleted_Manage [OF that]) (use assms(2) in auto)
  from assms(1) obtain stamp where s: "crStamp r = Some stamp" by (auto simp: child_manage_desired_def)
  show ?thesis
  proof (cases desired)
    case None
    with assms(1) s show ?thesis by (auto simp: child_manage_desired_def intro: m)
  next
    case (Some d)
    obtain e d' where ed: "(if \<not> crSkipOwnerReference r \<and> getControllerOf E d = None
                      then setControllerReference E resource d else (None, d)) = (e, d')" by fastforce
    show ?thesis
    proof (cases e)
      case None
      with assms(1) s Some ed obtain w1 where
        "Manage E stamp ctx False resource (Some actual) (Some d') w1 = Some (x, w')" "deleted P w w1"
        by (cases "ourChild E r resource d'") (auto simp: child_manage_desired_def)
      with m show ?thesis by (auto intro: appends_trans)
    next
      case (Some e')
      with assms(1) s \<open>desired = Some d\<close> ed show ?thesis by (auto simp: child_manage_desired_def)
    qed
  qed
qed

lemma deleted_child_desired:
  assumes "child_desired E r ctx resource actual w = Some (x, w')"
    and "callbacks_delete P r" and "\<not> missing (Some actual) \<Longrightarrow> P actual"
  shows "deleted P w w'"
proof -
  from assms(1) [unfolded child_desired_def] obtain desired e resource1 w1 where
    d: "desiredChild r ctx resource w = Some ((desired, e, resource1), w1)"
    and rest: "(case e of
            Some e \<Rightarrow>
              (if errors_is e OnlyReconcileChildStatus then Some ((Some actual, None, resource1), w1)
               else Some ((None, Some e, resource1), w1))
          | None \<Rightarrow> child_manage_desired E r ctx resource1 actual desired w1) = Some (x, w')"
    by auto
  have "deleted P w1 w'"
    using rest assms(3) by (auto split: option.splits if_splits intro: deleted_manage_desired)
  with deleted_desired_child [OF d assms(2)] show ?thesis by (rule appends_trans)
qed

lemma deleted_lookup:
  "lookup_children E r ctx c resource w = Some (x, w') \<Longrightarrow> deleted P w w'"
  by (auto simp: lookup_children_def split: option.splits intro: deleted_List)

lemma deleted_child_reconcile:
  assumes "child_reconcile E r ctx resource w = Some (x, w')" and "callbacks_delete P r"
    and ours: "\<And>obj. ourChild E r resource obj \<Longrightarrow> P obj"
    and empty: "\<And>t. crChildType r = Some t \<Longrightarrow> creationTimestamp t = None"
  shows "deleted P w w'"
proof -
  from assms(1) [unfolded child_reconcile_def] obtain pc c ct children w1 where
    ct: "crChildType r = Some ct"
    and l: "lookup_children E r ctx c resource w = Some (children, w1)"
    and rest: "(case children of
            Inl e \<Rightarrow> Some ((None, Some e, resource), w1)
          | Inr children \<Rightarrow>
              (let children = filterChildren E r resource children
               in if length children = 1 then child_desired E r ctx resource (hd children) w1
                  else if length children > 1
                  then do { (e, w) \<leftarrow> delete_extras E ct ctx pc c resource children w1;
                            case e of
                              Some e \<Rightarrow> Some ((None, Some e, resource), w)
                            | None \<Rightarrow> child_desired E r ctx resource ct w }
                  else child_desired E r ctx resource ct w1)) = Some (x, w')"
    by auto
  have none: "deleted P v w'" if "child_desired E r ctx resource ct v = Some (x, w')" for v
    using empty [OF ct] by (intro deleted_child_desired [OF that assms(2)]) (simp add: missing_def)
  have "deleted P w1 w'"
  proof (cases children)
    case (Inl e)
    with rest show ?thesis by simp
  next
    case (Inr cs)
    let ?cs = "filterChildren E r resource cs"
    have all: "\<forall>obj \<in> set ?cs. P obj" by (auto simp: filterChildren_def ours)
    consider "length ?cs = 1" | "length ?cs > 1" | "length ?cs = 0" by linarith
    then show ?thesis
    proof cases
      case 1
      with all have "P (hd ?cs)" by (cases ?cs) auto
      with 1 rest Inr show ?thesis by (auto intro: deleted_child_desired [OF _ assms(2)])
    next
      case 2
      with rest Inr obtain e w2 where e: "delete_extras E ct ctx pc c resource ?cs w1 = Some (e, w2)"
        and "(case e of Some e \<Rightarrow> Some ((None, Some e, resource), w2)
              | None \<Rightarrow> child_desired E r ctx resource ct w2) = Some (x, w')"
        by (auto simp: Let_def)
      then have "deleted P w2 w'" by (auto split: option.splits intro: none)
      with deleted_extras [OF e all] show ?thesis by (rule appends_trans)
    next
      case 3
      with rest Inr show ?thesis by (auto intro: none)
    qed
  qed
  with deleted_lookup [OF l] show ?thesis by (rule appends_trans)
qed

lemma deleted_child_outcome:
  assumes "child_outcome E r ctx c resource child e w = Some (x, w')" and "callbacks_delete P r"
  shows "deleted P w w'"
proof (cases e)
  case None
  with assms(1) show ?thesis by (auto simp: child_outcome_def intro: deleted_reflect [OF _ assms(2)])
next
  case (Some er)
  show ?thesis
  proof (cases "isAlreadyExists E er")
    case True
    from assms(1) [unfolded child_outcome_def Some option.case if_P [OF True] Let_def]
    obtain key ct i conflicted w1 where
      g: "client_Get E (APIReader c) key ct w = Some ((i, conflicted), w1)"
      and "(if ourChild E r resource conflicted
            then Some ((empty_result, Some er, resource), w1)
            else do { (resource, w) \<leftarrow> reflect_child r ctx resource child (Some er)
                        (log_info ctx ''unable to reconcile child, not owned''
                          [LogName (namespaceName conflicted)] w1);
                      Some ((empty_result, None, resource), w) }) = Some (x, w')"
      by auto
    then have "deleted P w1 w'"
      by (auto split: if_splits intro: appends_trans [OF deleted_log(1) deleted_reflect [OF _ assms(2)]])
    with deleted_Get [OF g] show ?thesis by (rule appends_trans)
  next
    case False
    with assms(1) Some show ?thesis
      by (auto simp: child_outcome_def Let_def split: if_splits intro: deleted_reflect [OF _ assms(2)])
  qed
qed

section \<open>A small instance\<close>

definition demo_child_reconciler :: ChildReconciler where
  "demo_child_reconciler =
     \<lparr>crChildGoType = Some ''Pod'', crListGoType = Some ''PodList'', crStampId = 0, crName = ''child'',
      crChildType = None, crChildListType = None, crFinalizer = [], crSkipOwnerReference = False,
      crSetup = None, crDesiredChild = Some (\<lambda>ctx resource w. Some ((None, None, resource), w)),
      crReflectChildStatusOnParent = Some (\<lambda>ctx resource child e w. Some (resource, w)),
      crHarmonizeImmutableFields = None,
      crMergeBeforeUpdate = Some demo_merge, crListOptions = None, crOurChild = None,
      crSanitize = None, crStamp = None, crLazyInit = False\<rparr>"

definition demo_initialized :: ChildReconciler where
  "demo_initialized = the (Child_init demo_child_reconciler)"

lemma demo_child_init: "Child_init demo_child_reconciler = Some demo_initialized"
  by (simp add: demo_initialized_def Child_init_def demo_child_reconciler_def default_type_def
      default_list_type_def Let_def)

lemma demo_initialized_simps [simp]:
  "crChildType demo_initialized = Some (empty_object ''Pod'')" "crName demo_initialized = ''child''"
  "\<not> crSkipOwnerReference demo_initialized" "crOurChild demo_initialized = None"
  "crDesiredChild demo_initialized = Some (\<lambda>ctx resource w. Some ((None, None, resource), w))"
  "crReflectChildStatusOnParent demo_initialized = Some (\<lambda>ctx resource child e w. Some (resource, w))"
  by (simp_all add: demo_initialized_def Child_init_def demo_child_reconciler_def default_type_def
      default_list_type_def Let_def)

text \<open>Two children of the parent, both controlled by it.\<close>

definition owned :: "string \<Rightarrow> object" where
  "owned n = (empty_object ''Pod'')\<lparr>objNamespace := ''ns'', objName := n, creationTimestamp := Some 1,
     ownerReferences := [\<lparr>ownerUID = ''p'', ownerController = True\<rparr>]\<rparr>"

definition two_children_ctx :: ctx where
  "two_children_ctx = demo_ctx\<lparr>ctxKnownChildren := Some [owned ''a'', owned ''b'']\<rparr>"

lemma owned_ours: "ourChild demo_env demo_initialized live (owned n)"
  by (simp add: ourChild_def demo_env_def owned_def live_def)

lemma retrieve_config:
  "ctxConfig ctx = Some c \<Longrightarrow> RetrieveConfigOrDie ctx = Some c"
  "ctxOriginalConfig ctx = Some c \<Longrightarrow> RetrieveOriginalConfigOrDie ctx = Some c"
  by (simp_all add: RetrieveConfigOrDie_def RetrieveConfig_def RetrieveOriginalConfigOrDie_def
      RetrieveOriginalConfig_def)

lemma client_gvk_total: "cl = Some c \<Longrightarrow> \<exists>k. client_gvk E cl x w = Some (k, record_call (GroupVersionKindFor c x) w)"
  by (auto simp: client_gvk_def client_GroupVersionKindFor_def invoke_def)

lemma delete_extras_accepted:
  assumes "Client c = Some cl" and "Recorder pc = Some recorder"
    and "\<And>h x. replyErr (respond E h (Delete cl x)) = None"
  shows "\<exists>w'. delete_extras E t ctx pc c resource extras w = Some (None, w') \<and> writes w w' (map (Delete cl) extras)"
proof (induction extras arbitrary: w)
  case Nil
  then show ?case by auto
next
  case (Cons x xs)
  let ?w1 = "log_info ctx ''deleting extra child'' [LogName (namespaceName x)] w"
  let ?x = "replyObject (respond E (trace ?w1) (Delete cl x))"
  let ?w2 = "record_call (Delete cl x) ?w1"
  let ?w3 = "record_call (Event recorder resource ''Normal'' ''Deleted'' [LogText (typeName t), LogText (objName ?x)]) ?w2"
  obtain w' where run: "delete_extras E t ctx pc c resource xs ?w3 = Some (None, w')"
    and ws: "writes ?w3 w' (map (Delete cl) xs)"
    using Cons.IH by blast
  have "delete_extras E t ctx pc c resource (x # xs) w = Some (None, w')"
    using assms run by (simp add: client_write_def invoke_def Eventf_def Let_def)
  moreover have "writes w ?w3 [Delete cl x]"
    by (simp add: writes_def log_info_def record_call_def)
  ultimately show ?case using writes_trans [OF _ ws] by fastforce
qed

lemma empty_object_created: "creationTimestamp (empty_object t) = None"
  by (simp add: empty_object_def)

lemma manage_delete_trace:
  assumes "manage_delete E ctx pc c False resource actual w = Some ((child, e, resource'), w')"
    and "Client c = Some cl" and "creationTimestamp actual \<noteq> None"
  shows "resource' = resource \<and> (\<exists>cs. trace w' = trace w @ cs \<and> patches cs = [] \<and>
    filter child_write cs = (if deletionTimestamp actual = None then [Delete cl actual] else []))"
  using assms
  by (auto simp: manage_delete_def record_failure_def client_write_def invoke_def Eventf_def
      record_call_def log_info_def log_error_def Let_def split: if_splits option.splits)

text \<open>
  The loop over several children stops at the first delete that is refused; it touches nothing but the
  trace.
\<close>

definition extras_deleted :: "string \<Rightarrow> object list \<Rightarrow> err option \<Rightarrow> call list \<Rightarrow> bool" where
  "extras_deleted cl extras e cs \<longleftrightarrow>
     patches cs = [] \<and>
     (\<exists>k \<le> length extras. filter child_write cs = map (Delete cl) (take k extras) \<and>
        (if e = None then k = length extras else 0 < k))"

lemma extras_deleted_Nil: "extras_deleted cl [] None []"
  by (simp add: extras_deleted_def)

lemma extras_deleted_Cons:
  "extras_deleted cl extras e cs \<Longrightarrow> patches ds = [] \<Longrightarrow> filter child_write ds = [Delete cl extra] \<Longrightarrow>
    extras_deleted cl (extra # extras) e (ds @ cs)"
  by (auto simp: extras_deleted_def intro: exI [of _ "Suc k" for k])

lemma delete_extras_trace:
  assumes "delete_extras E t ctx pc c resource extras w = Some (e, w')" and "Client c = Some cl"
  shows "\<exists>cs. w' = w\<lparr>trace := trace w @ cs\<rparr> \<and> extras_deleted cl extras e cs"
  using assms(1)
proof (induction extras arbitrary: w)
  case Nil
  then show ?case by (auto simp: extras_deleted_Nil intro!: exI [of _ "[]"])
next
  case (Cons x xs)
  let ?w1 = "log_info ctx ''deleting extra child'' [LogName (namespaceName x)] w"
  let ?r = "respond E (trace ?w1) (Delete cl x)"
  let ?ds = "[LogInfo (ctxLogger ctx) ''deleting extra child'' [LogName (namespaceName x)], Delete cl x]"
  show ?case
  proof (cases "replyErr ?r")
    case None
    with Cons.prems assms(2) obtain rec where
      rest: "delete_extras E t ctx pc c resource xs (w\<lparr>trace := trace w @ ?ds @
        [Event rec resource ''Normal'' ''Deleted'' [LogText (typeName t), LogText (objName (replyObject ?r))]]\<rparr>)
        = Some (e, w')"
      by (auto simp: client_write_def invoke_def Eventf_def record_call_def log_info_def Let_def)
    from Cons.IH [OF this] obtain cs where w': "w' = w\<lparr>trace := trace w @ (?ds @
        [Event rec resource ''Normal'' ''Deleted'' [LogText (typeName t), LogText (objName (replyObject ?r))]]) @ cs\<rparr>"
      and "extras_deleted cl xs e cs" by auto
    then have "extras_deleted cl (x # xs) e ((?ds @
        [Event rec resource ''Normal'' ''Deleted'' [LogText (typeName t), LogText (objName (replyObject ?r))]]) @ cs)"
      by (intro extras_deleted_Cons) simp_all
    with w' show ?thesis by blast
  next
    case (Some er)
    with Cons.prems assms(2) have "e = Some er" and
      "\<exists>es. w' = w\<lparr>trace := trace w @ ?ds @ es\<rparr> \<and> patches es = [] \<and> filter child_write es = []"
      by (auto simp: client_write_def invoke_def Eventf_def record_call_def log_info_def Let_def
          split: if_splits intro: exI [of _ "[]"])
    then obtain es where w': "w' = w\<lparr>trace := trace w @ (?ds @ es)\<rparr>" and "patches es = []"
      "filter child_write es = []" by auto
    then have "extras_deleted cl (x # xs) e (?ds @ es)"
      using \<open>e = Some er\<close> by (auto simp: extras_deleted_def intro: exI [of _ "1"])
    with w' show ?thesis by blast
  qed
qed

lemma demo_accepts: "replyErr (respond demo_env h c) = None"
  by (simp add: demo_env_def demo_respond_def)

lemma demo_child_run:
  "\<exists>k w1 w2.
     client_gvk demo_env (Client demo_config) (empty_object ''Pod'') demo_managed_world = Some (k, w1) \<and>
     child_reconcile demo_env demo_initialized (WithName (crName demo_initialized) two_children_ctx) live w1
       = Some ((None, None, live), w2) \<and>
     Child_Reconcile demo_env demo_child_reconciler two_children_ctx live demo_managed_world
       = Some ((empty_result, None, live), w2)"
proof -
  let ?c = "WithName ''child'' two_children_ctx"
  have cfg: "ctxConfig ?c = Some demo_config" "ctxOriginalConfig ?c = Some demo_config"
    "ctxConfig two_children_ctx = Some demo_config" "Client demo_config = Some ''client''" "Recorder demo_config = Some ''recorder''"
    "ctxKnownChildren ?c = Some [owned ''a'', owned ''b'']"
    by (simp_all add: two_children_ctx_def WithName_def demo_config_def)
  let ?w1 = "record_call (GroupVersionKindFor ''client'' (empty_object ''Pod'')) demo_managed_world"
  obtain k where k: "client_gvk demo_env (Client demo_config) (empty_object ''Pod'') demo_managed_world = Some (k, ?w1)"
    using client_gvk_total [OF cfg(4)] by blast
  obtain w2 where d: "delete_extras demo_env (empty_object ''Pod'') ?c demo_config demo_config live
      [owned ''a'', owned ''b''] ?w1 = Some (None, w2)"
    using delete_extras_accepted [OF cfg(4,5) demo_accepts] by blast
  obtain s w3 where s: "crStamp demo_initialized = Some s" "rmFinalizer s = []"
    "ResourceManager_init s w2 = Some (s, w3)"
    by (simp add: demo_initialized_def Child_init_def demo_child_reconciler_def default_type_def
        default_list_type_def ResourceManager_init_def Let_def)
  have r: "child_reconcile demo_env demo_initialized ?c live ?w1 = Some ((None, None, live), w3)"
    using cfg d s
    by (simp add: child_reconcile_def retrieve_config lookup_children_def filterChildren_def owned_ours
        child_desired_def desiredChild_def child_manage_desired_def Manage_def missing_def empty_object_created
        ClearFinalizer_def ensureFinalizer_noop Let_def del: delete_extras.simps)
  then have "Child_Reconcile demo_env demo_child_reconciler two_children_ctx live demo_managed_world
      = Some ((empty_result, None, live), w3)"
    using cfg k
    by (simp add: Child_Reconcile_def demo_child_init retrieve_config child_outcome_def reflect_child_def Let_def)
  with r k show ?thesis by auto
qed

section \<open>Properties\<close>

text \<open>
  C14. A \<open>ChildReconciler\<close> deletes only its own children: every delete it makes is of an object that is
  controlled by the reconciled resource (unless owner references are skipped) and passes \<open>OurChild\<close>.
\<close>

theorem Child_deletes_only_ours:
  assumes "Child_init r = Some r'" and "crChildType r' = Some t" and "creationTimestamp t = None"
    and "callbacks_delete (ourChild E r' resource) r'"
    and "Child_Reconcile E r ctx resource w = Some (x, w')"
  shows "\<exists>cs. trace w' = trace w @ cs \<and>
    (\<forall>cl obj. Delete cl obj \<in> set cs \<longrightarrow>
       (crSkipOwnerReference r' \<or> isControlledBy E obj resource) \<and>
       (case crOurChild r' of None \<Rightarrow> True | Some f \<Rightarrow> f resource obj))"
proof -
  let ?P = "ourChild E r' resource"
  from assms(5) [unfolded Child_Reconcile_def] assms(1,2) obtain c k w1 child e resource1 w2 where
    g: "client_gvk E (Client c) t w = Some (k, w1)"
    and rec: "child_reconcile E r' (WithName (crName r') ctx) resource w1 = Some ((child, e, resource1), w2)"
    and rest: "(if deletionTimestamp resource1 \<noteq> None then Some ((empty_result, e, resource1), w2)
      else child_outcome E r' (WithName (crName r') ctx) c resource1 child e w2) = Some (x, w')"
    by (auto simp: Let_def)
  have "deleted ?P w1 w2"
    using assms(2,3) by (intro deleted_child_reconcile [OF rec assms(4)]) auto
  moreover have "deleted ?P w2 w'"
    using rest by (auto split: if_splits intro: deleted_child_outcome [OF _ assms(4)])
  ultimately have "deleted ?P w w'"
    using deleted_gvk [OF g] by (blast intro: appends_trans)
  then show ?thesis
    by (fastforce simp: appends_def deletes_only_def ourChild_def split: if_splits)
qed

theorem Child_deletes_only_ours_witness:
  "\<exists>x w' cs. Child_Reconcile demo_env demo_child_reconciler two_children_ctx live demo_managed_world = Some (x, w') \<and>
     trace w' = trace demo_managed_world @ cs \<and>
     (\<forall>cl obj. Delete cl obj \<in> set cs \<longrightarrow> isControlledBy demo_env obj live)"
proof -
  have cb: "callbacks_delete (ourChild demo_env demo_initialized live) demo_initialized"
    by (simp add: callbacks_delete_def keeps_def)
  obtain x w' where run:
    "Child_Reconcile demo_env demo_child_reconciler two_children_ctx live demo_managed_world = Some (x, w')"
    using demo_child_run by metis
  from Child_deletes_only_ours [OF demo_child_init demo_initialized_simps(1) empty_object_created cb run] run
  show ?thesis by (metis demo_initialized_simps(3))
qed

text \<open>
  Clean slate: when more than one child is found and the server accepts the deletes, exactly these
  children are deleted, each once and in order, and the reconciliation goes on as if none had been
  found.
\<close>

theorem Child_clean_slate:
  assumes "ctxOriginalConfig ctx = Some pc" and "ctxConfig ctx = Some c" and "crChildType r = Some t"
    and "lookup_children E r ctx c resource w = Some (Inr children, w1)"
    and "length (filterChildren E r resource children) > 1"
    and "Client c = Some cl" and "Recorder pc = Some recorder"
    and "\<And>h x. replyErr (respond E h (Delete cl x)) = None"
  shows "\<exists>w2. child_reconcile E r ctx resource w = child_desired E r ctx resource t w2 \<and>
    writes w1 w2 (map (Delete cl) (filterChildren E r resource children))"
proof -
  obtain w2 where "delete_extras E t ctx pc c resource (filterChildren E r resource children) w1 = Some (None, w2)"
    and "writes w1 w2 (map (Delete cl) (filterChildren E r resource children))"
    using delete_extras_accepted [OF assms(6,7,8)] by blast
  with assms(1-5) show ?thesis
    by (auto simp: child_reconcile_def retrieve_config Let_def)
qed

theorem Child_clean_slate_witness:
  "\<exists>w2. child_reconcile demo_env demo_initialized two_children_ctx live demo_managed_world =
      child_desired demo_env demo_initialized two_children_ctx live (empty_object ''Pod'') w2 \<and>
    writes demo_managed_world w2 [Delete ''client'' (owned ''a''), Delete ''client'' (owned ''b'')]"
proof -
  have l: "lookup_children demo_env demo_initialized two_children_ctx demo_config live demo_managed_world =
      Some (Inr [owned ''a'', owned ''b''], demo_managed_world)"
    by (simp add: lookup_children_def two_children_ctx_def)
  have c: "ctxOriginalConfig two_children_ctx = Some demo_config" "ctxConfig two_children_ctx = Some demo_config"
    "Client demo_config = Some ''client''" "Recorder demo_config = Some ''recorder''"
    by (simp_all add: two_children_ctx_def demo_config_def)
  have ok: "replyErr (respond demo_env h (Delete ''client'' x)) = None" for h x
    by (simp add: demo_env_def demo_respond_def)
  have f: "filterChildren demo_env demo_initialized live [owned ''a'', owned ''b''] = [owned ''a'', owned ''b'']"
    by (simp add: filterChildren_def owned_ours)
  show ?thesis
    using Child_clean_slate [OF c(1,2) demo_initialized_simps(1) l _ c(3,4) ok] unfolding f by simp
qed

text \<open>
  C19. Reflected or returned: on a live resource the outcome of reconciling the child is either reported
  to the resource through \<open>ReflectChildStatusOnParent\<close>, once and with that outcome, or its error is
  returned and the resource is left as it was; it is never lost and never both.
\<close>

theorem Child_reports_or_returns:
  assumes "Child_init r = Some r'" and "ctxConfig ctx = Some c" and "crChildType r' = Some t"
    and "client_gvk E (Client c) t w = Some (k, w1)"
    and "child_reconcile E r' (WithName (crName r') ctx) resource w1 = Some ((child, e, resource1), w2)"
    and "deletionTimestamp resource1 = None"
    and "Child_Reconcile E r ctx resource w = Some ((result, e', resource2), w')"
  shows "result = empty_result \<and>
    (if e' = None
     then (\<exists>w3. reflect_child r' (WithName (crName r') ctx) resource1 child e w3 = Some (resource2, w')) \<and>
       (\<forall>er. e = Some er \<longrightarrow> isAlreadyExists E er \<or> isInvalid E er)
     else e' = e \<and> resource2 = resource1 \<and> (isInvalid E (the e) \<longrightarrow> isAlreadyExists E (the e)))"
proof -
  have o: "child_outcome E r' (WithName (crName r') ctx) c resource1 child e w2
      = Some ((result, e', resource2), w')"
    using assms by (simp add: Child_Reconcile_def retrieve_config Let_def)
  show ?thesis
  proof (cases e)
    case None
    with o show ?thesis by (auto simp: child_outcome_def)
  next
    case (Some er)
    show ?thesis
    proof (cases "isAlreadyExists E er")
      case True
      from o [unfolded child_outcome_def Some option.case if_P [OF True] Let_def]
      obtain conflicted w3 where
        "(if ourChild E r' resource1 conflicted
          then Some ((empty_result, Some er, resource1), w3)
          else do { (resource, w) \<leftarrow> reflect_child r' (WithName (crName r') ctx) resource1 child (Some er)
                      (log_info (WithName (crName r') ctx) ''unable to reconcile child, not owned''
                        [LogName (namespaceName conflicted)] w3);
                    Some ((empty_result, None, resource), w) }) = Some ((result, e', resource2), w')"
        by auto
      with Some True show ?thesis by (auto split: if_splits)
    next
      case False
      with o Some show ?thesis by (auto simp: child_outcome_def Let_def split: if_splits)
    qed
  qed
qed

theorem Child_reports_or_returns_witness:
  "\<exists>w2 w3. Child_Reconcile demo_env demo_child_reconciler two_children_ctx live demo_managed_world
       = Some ((empty_result, None, live), w2) \<and>
     reflect_child demo_initialized (WithName ''child'' two_children_ctx) live None None w3 = Some (live, w2)"
proof -
  obtain k w1 w2 where k: "client_gvk demo_env (Client demo_config) (empty_object ''Pod'') demo_managed_world
      = Some (k, w1)"
    and rec: "child_reconcile demo_env demo_initialized (WithName (crName demo_initialized) two_children_ctx)
      live w1 = Some ((None, None, live), w2)"
    and run: "Child_Reconcile demo_env demo_child_reconciler two_children_ctx live demo_managed_world
      = Some ((empty_result, None, live), w2)"
    using demo_child_run by blast
  have c: "ctxConfig two_children_ctx = Some demo_config" by (simp add: two_children_ctx_def)
  from Child_reports_or_returns [OF demo_child_init c demo_initialized_simps(1) k rec live_simps(1) run] run
  show ?thesis by auto
qed



text \<open>
  C22. A finalizer does not turn tracking on: \<open>init\<close> builds the resource manager before \<open>validate\<close>
  makes the finalizer imply \<open>SkipOwnerReference\<close>.  After a successful setup the reconciler relies on
  tracked watches, while its manager tracks nothing.
\<close>

theorem Child_finalizer_untracked:
  assumes "crFinalizer r \<noteq> []" and "\<not> crSkipOwnerReference r"
    and "\<not> crLazyInit r" and "crStamp r = None" and "crSetup r = None"
    and "Child_SetupWithManager E r ctx w = Some ((None, r'), w')"
  shows "crSkipOwnerReference r' \<and>
    (\<exists>t. crChildType r' = Some t \<and> last (trace w') = BuilderWatches t) \<and>
    (\<exists>stamp. crStamp r' = Some stamp \<and> \<not> rmTrackDesired stamp)"
proof -
  from assms(6) [unfolded Child_SetupWithManager_def Let_def] obtain r1 c t k w1 where
    i: "Child_init r = Some r1" and t: "crChildType r1 = Some t"
    and rest: "(case Child_validate r1 of (e, r) \<Rightarrow>
       (case e of
          Some e \<Rightarrow> Some ((Some e, r), w1)
        | None \<Rightarrow>
            do { w \<leftarrow> (if crSkipOwnerReference r
                       then do { handler \<leftarrow> EnqueueTracked E (WithName (crName r1) ctx);
                                 Some (record_call (BuilderWatches t) w1) }
                       else Some (record_call (BuilderOwns t) w1));
                 (e, w) \<leftarrow> optional_setup (crSetup r) (WithName (crName r1) ctx) w;
                 Some ((e, r), w) })) = Some ((None, r'), w')"
    by auto
  have r1: "crFinalizer r1 = crFinalizer r" "crSetup r1 = crSetup r"
    "\<exists>stamp. crStamp r1 = Some stamp \<and> \<not> rmTrackDesired stamp"
    using i assms(2,3,4) by (auto simp: Child_init_def Let_def split: if_splits)
  obtain e where v: "Child_validate r1 = (e, r1\<lparr>crSkipOwnerReference := True\<rparr>)"
    using assms(1) r1(1) by (auto simp: Child_validate_def Let_def)
  from rest v have "e = None" by (cases e) auto
  with rest v have "r' = r1\<lparr>crSkipOwnerReference := True\<rparr>" and "w' = record_call (BuilderWatches t) w1"
    using assms(5) r1(2) by (auto simp: optional_setup_def)
  with r1(3) t show ?thesis by (auto simp: record_call_def)
qed

theorem Child_finalizer_untracked_witness:
  "\<exists>r' w' stamp. Child_SetupWithManager demo_env
      (demo_child_reconciler\<lparr>crFinalizer := ''f'', crOurChild := Some (\<lambda>_ _. True), crListOptions := Some (\<lambda>_ _. [])\<rparr>)
      demo_ctx demo_managed_world = Some ((None, r'), w') \<and>
    crSkipOwnerReference r' \<and> crStamp r' = Some stamp \<and> \<not> rmTrackDesired stamp"
proof -
  let ?r = "demo_child_reconciler\<lparr>crFinalizer := ''f'', crOurChild := Some (\<lambda>_ _. True),
    crListOptions := Some (\<lambda>_ _. [])\<rparr>"
  obtain r' w' where run: "Child_SetupWithManager demo_env ?r demo_ctx demo_managed_world = Some ((None, r'), w')"
    by (simp add: Child_SetupWithManager_def Child_init_def demo_child_reconciler_def default_type_def
        default_list_type_def Child_validate_def retrieve_config client_gvk_def client_GroupVersionKindFor_def
        demo_config_def invoke_def EnqueueTracked_def optional_setup_def WithName_def Let_def)
  have "crFinalizer ?r \<noteq> []" "\<not> crSkipOwnerReference ?r" "\<not> crLazyInit ?r" "crStamp ?r = None" "crSetup ?r = None"
    by (simp_all add: demo_child_reconciler_def)
  from Child_finalizer_untracked [OF this run] run show ?thesis by blast
qed

end
