(* ===== verification/ChildSet.thy ===== *)
theory ChildSet
  imports Child
begin

text \<open>
  \<open>ChildSetReconciler\<close> of \<^verbatim>\<open>src/reconcilers/childset.go\<close>: a child reconciler per identifier, composed
  anew on every request from the desired and the known children, and the results they report through
  the stash.
\<close>

section \<open>Results of the children\<close>

definition childSetResultStashKey :: string where
  "childSetResultStashKey = ''reconciler-runtime:childSetResult''"

fun childSetResult_of :: "stash_value option \<Rightarrow> child_set_partial_result list" where
  "childSetResult_of (Some (ChildSetResultValue result)) = result"
| "childSetResult_of _ = []"

definition retrieveChildSetResult :: "ctx \<Rightarrow> (world, child_set_partial_result list) go" where
  "retrieveChildSetResult ctx w =
     do { (value, w) \<leftarrow> RetrieveValue ctx childSetResultStashKey w; Some (childSetResult_of value, w) }"

definition stashChildSetResult :: "ctx \<Rightarrow> child_set_partial_result list \<Rightarrow> (world, unit) go" where
  "stashChildSetResult ctx result w = StashValue ctx childSetResultStashKey (ChildSetResultValue result) w"

definition clearChildSetResult :: "ctx \<Rightarrow> (world, child_set_partial_result list) go" where
  "clearChildSetResult ctx w =
     do { (value, w) \<leftarrow> ClearValue ctx childSetResultStashKey w; Some (childSetResult_of value, w) }"

text \<open>\<open>NewAggregate\<close> drops nil errors.\<close>

definition AggregateError :: "env \<Rightarrow> child_set_partial_result list \<Rightarrow> err option" where
  "AggregateError E children = newAggregate E (List.map_filter csErr children)"

definition stashKnownChildren :: "ctx \<Rightarrow> object list \<Rightarrow> ctx" where
  "stashKnownChildren ctx children = ctx\<lparr>ctxKnownChildren := Some children\<rparr>"

section \<open>The reconciler\<close>

record ChildSetReconciler =
  csrChildGoType :: "string option"
  csrListGoType :: "string option"
  csrStampId :: nat
  csrName :: string
  csrChildType :: "object option"
  csrChildListType :: "object_list option"
  csrFinalizer :: string
  csrSkipOwnerReference :: bool
  csrSetup :: "setup_fun option"
  csrDesiredChildren :: "(ctx \<Rightarrow> object \<Rightarrow> (world, object list \<times> err option \<times> object) go) option"
  csrReflectChildrenStatusOnParent ::
    "(ctx \<Rightarrow> object \<Rightarrow> child_set_partial_result list \<Rightarrow> (world, object) go) option"
  csrHarmonizeImmutableFields :: "(object \<Rightarrow> object \<Rightarrow> object \<times> object) option"
  csrMergeBeforeUpdate :: "(object \<Rightarrow> object \<Rightarrow> object \<times> object) option"
  csrListOptions :: "(ctx \<Rightarrow> object \<Rightarrow> list_option list) option"
  csrOurChild :: "(object \<Rightarrow> object \<Rightarrow> bool) option"
  csrIdentifyChild :: "(object \<Rightarrow> string) option"
  csrSanitize :: "(object \<Rightarrow> log_value) option"
  csrStamp :: "ResourceManager option"
  csrVoidReconciler :: "ChildReconciler option"
  csrLazyInit :: bool

text \<open>The report of a child reconciler: one more partial result in the stash.\<close>

definition report_child ::
    "string \<Rightarrow> ctx \<Rightarrow> object \<Rightarrow> object option \<Rightarrow> err option \<Rightarrow> (world, object) go" where
  "report_child i ctx parent child e w =
     do { (result, w) \<leftarrow> retrieveChildSetResult ctx w;
          (_, w) \<leftarrow> stashChildSetResult ctx
            (result @ [\<lparr>csId = i, csChild = child, csErr = e\<rparr>]) w;
          Some (parent, w) }"

text \<open>
  \<open>childReconcilerFor\<close>.  \<open>IdentifyChild\<close> is set whenever a reconciler with \<open>void = False\<close> exists,
  because its identifier came from it.
\<close>

definition childReconcilerFor ::
    "ChildSetReconciler \<Rightarrow> object option \<Rightarrow> err option \<Rightarrow> string \<Rightarrow> bool \<Rightarrow> ChildReconciler" where
  "childReconcilerFor r desired desiredErr i void =
     \<lparr>crChildGoType = csrChildGoType r, crListGoType = csrListGoType r, crStampId = csrStampId r,
      crName = i, crChildType = csrChildType r, crChildListType = csrChildListType r, crFinalizer = [],
      crSkipOwnerReference = csrSkipOwnerReference r, crSetup = None,
      crDesiredChild = Some (\<lambda>ctx resource w. Some ((desired, desiredErr, resource), w)),
      crReflectChildStatusOnParent = Some (report_child i),
      crHarmonizeImmutableFields = csrHarmonizeImmutableFields r,
      crMergeBeforeUpdate = csrMergeBeforeUpdate r, crListOptions = csrListOptions r,
      crOurChild = Some (\<lambda>resource child.
        if (case csrOurChild r of None \<Rightarrow> False | Some f \<Rightarrow> \<not> f resource child) then False
        else void \<or> (case csrIdentifyChild r of None \<Rightarrow> False | Some f \<Rightarrow> i = f child)),
      crSanitize = csrSanitize r, crStamp = None, crLazyInit = False\<rparr>"

definition ChildSet_init :: "ChildSetReconciler \<Rightarrow> ChildSetReconciler option" where
  "ChildSet_init r =
     (if csrLazyInit r then Some r
      else do { t \<leftarrow> default_type (csrChildType r) (csrChildGoType r);
                lt \<leftarrow> default_list_type (csrChildListType r) (csrListGoType r);
                let r = r\<lparr>csrChildType := Some t, csrChildListType := Some lt\<rparr>;
                let r = (if csrName r = [] then r\<lparr>csrName := typeName t @ ''ChildSetReconciler''\<rparr> else r);
                let r = r\<lparr>csrStamp := Some
                  \<lparr>rmId = csrStampId r, rmGoType = csrChildGoType r, rmName = csrName r,
                   rmType = csrChildType r, rmFinalizer = [], rmTrackDesired = csrSkipOwnerReference r,
                   rmHarmonizeImmutableFields = csrHarmonizeImmutableFields r,
                   rmMergeBeforeUpdate = csrMergeBeforeUpdate r, rmSanitize = csrSanitize r\<rparr>\<rparr>;
                let r = r\<lparr>csrVoidReconciler := Some (childReconcilerFor r None None [] True)\<rparr>;
                Some (r\<lparr>csrLazyInit := True\<rparr>) })"

definition ChildSet_validate :: "ChildSetReconciler \<Rightarrow> err option \<times> ChildSetReconciler" where
  "ChildSet_validate r =
     (let r = (if csrFinalizer r \<noteq> [] then r\<lparr>csrSkipOwnerReference := True\<rparr> else r)
      in (if csrDesiredChildren r = None
          then Some (Errorf ''ChildSetReconciler %q must implement DesiredChildren'' [csrName r])
          else if csrReflectChildrenStatusOnParent r = None
          then Some (Errorf ''ChildSetReconciler %q must implement ReflectChildrenStatusOnParent'' [csrName r])
          else if csrOurChild r = None \<and> csrSkipOwnerReference r
          then Some (Errorf ''ChildSetReconciler %q must implement OurChild since owner references are not used'' [csrName r])
          else if csrListOptions r = None \<and> csrSkipOwnerReference r
          then Some (Errorf ''ChildSetReconciler %q must implement ListOptions since owner references are not used'' [csrName r])
          else if csrIdentifyChild r = None
          then Some (Errorf ''ChildSetReconciler %q must implement IdentifyChild'' [csrName r])
          else None, r))"

definition ChildSet_SetupWithManager ::
    "env \<Rightarrow> ChildSetReconciler \<Rightarrow> ctx \<Rightarrow> (world, err option \<times> ChildSetReconciler) go" where
  "ChildSet_SetupWithManager E r ctx w =
     do { r \<leftarrow> ChildSet_init r;
          c \<leftarrow> RetrieveConfigOrDie ctx;
          childType \<leftarrow> csrChildType r;
          (k, w) \<leftarrow> client_gvk E (Client c) childType w;
          let ctx = WithName (csrName r) ctx;
          let (e, r) = ChildSet_validate r;
          case e of
            Some e \<Rightarrow> Some ((Some e, r), w)
          | None \<Rightarrow>
              do { void \<leftarrow> csrVoidReconciler r;
                   ((e, void), w) \<leftarrow> Child_SetupWithManager E void ctx w;
                   let r = r\<lparr>csrVoidReconciler := Some void\<rparr>;
                   case e of
                     Some e \<Rightarrow> Some ((Some e, r), w)
                   | None \<Rightarrow> do { (e, w) \<leftarrow> optional_setup (csrSetup r) ctx w; Some ((e, r), w) } } }"

section \<open>Composition\<close>

definition knownChildren ::
    "env \<Rightarrow> ChildSetReconciler \<Rightarrow> ctx \<Rightarrow> object \<Rightarrow> (world, err + object list) go" where
  "knownChildren E r ctx resource w =
     do { c \<leftarrow> RetrieveConfigOrDie ctx;
          listType \<leftarrow> csrChildListType r;
          void \<leftarrow> csrVoidReconciler r;
          ((e, children), w) \<leftarrow> client_List E (Client c) listType (listOptions void ctx resource) w;
          case e of
            Some e \<Rightarrow> Some (Inl e, w)
          | None \<Rightarrow> do { items \<leftarrow> extractItems children;
                      Some (Inr (filter (ourChild E void resource) items), w) } }"

text \<open>A call of \<open>IdentifyChild\<close>, which panics when it is nil.\<close>

definition identify :: "ChildSetReconciler \<Rightarrow> object \<Rightarrow> string option" where
  "identify r child = do { f \<leftarrow> csrIdentifyChild r; Some (f child) }"

text \<open>The two loops that collect identifiers, and the sorted union of what they collect.\<close>

fun collect_desired ::
    "(object \<Rightarrow> string option) \<Rightarrow> string list \<Rightarrow> (string \<rightharpoonup> object) \<Rightarrow> object list
      \<Rightarrow> (err + string list \<times> (string \<rightharpoonup> object)) option" where
  "collect_desired ident childIDs byID [] = Some (Inr (childIDs, byID))"
| "collect_desired ident childIDs byID (child # children) =
     do { i \<leftarrow> ident child;
          if i = [] then Some (Inl (Errorf ''desired child id may not be empty'' []))
          else if i \<in> set childIDs then Some (Inl (Errorf ''duplicate child id found: %s'' [i]))
          else collect_desired ident (childIDs @ [i]) (byID(i \<mapsto> child)) children }"

fun insert_known :: "(object \<Rightarrow> string option) \<Rightarrow> string list \<Rightarrow> object list \<Rightarrow> string list option" where
  "insert_known ident childIDs [] = Some childIDs"
| "insert_known ident childIDs (child # children) =
     do { i \<leftarrow> ident child;
          insert_known ident (if i \<in> set childIDs then childIDs else childIDs @ [i]) children }"

definition child_plan ::
    "ChildSetReconciler \<Rightarrow> object list \<Rightarrow> object list \<Rightarrow> (err + (string \<times> object option) list) option" where
  "child_plan r desiredChildren known =
     do { collected \<leftarrow> collect_desired (identify r) [] Map.empty desiredChildren;
          case collected of
            Inl e \<Rightarrow> Some (Inl e)
          | Inr (childIDs, byID) \<Rightarrow>
              do { childIDs \<leftarrow> insert_known (identify r) childIDs known;
                   Some (Inr (map (\<lambda>i. (i, byID i)) (sort childIDs))) } }"

text \<open>
  The composed reconcilers are never set up.  \<open>SetResourceManager\<close> gives each the manager of the set.
\<close>

definition child_for ::
    "env \<Rightarrow> ChildSetReconciler \<Rightarrow> err option \<Rightarrow> string \<times> object option \<Rightarrow> sub_reconciler option" where
  "child_for E r desiredErr p =
     do { stamp \<leftarrow> csrStamp r;
          cr \<leftarrow> SetResourceManager (childReconcilerFor r (snd p) desiredErr (fst p) False) stamp;
          Some \<lparr>SetupWithManager =
                  (\<lambda>ctx w. do { ((e, cr), w) \<leftarrow> Child_SetupWithManager E cr ctx w; Some (e, w) }),
                Reconcile = Child_Reconcile E cr\<rparr> }"

definition composed :: "env \<Rightarrow> ChildSetReconciler \<Rightarrow> sub_reconciler list \<Rightarrow> sub_reconciler" where
  "composed E r sequence =
     (if csrFinalizer r \<noteq> []
      then (let f = \<lparr>wfName = [], wfFinalizer = csrFinalizer r, wfReconciler = Some (Sequence sequence)\<rparr>
            in \<lparr>SetupWithManager =
                  (\<lambda>ctx w. do { ((e, f), w) \<leftarrow> WithFinalizer_SetupWithManager f ctx w; Some (e, w) }),
                Reconcile = WithFinalizer_Reconcile E f\<rparr>)
      else Sequence sequence)"

definition composeChildReconcilers ::
    "env \<Rightarrow> ChildSetReconciler \<Rightarrow> ctx \<Rightarrow> object \<Rightarrow> object list \<Rightarrow> (world, (err + sub_reconciler) \<times> object) go" where
  "composeChildReconcilers E r ctx resource known w =
     do { f \<leftarrow> csrDesiredChildren r;
          ((desiredChildren, desiredErr, resource), w) \<leftarrow> f ctx resource w;
          if (case desiredErr of None \<Rightarrow> False | Some e \<Rightarrow> \<not> errors_is e OnlyReconcileChildStatus)
          then Some ((Inl (the desiredErr), resource), w)
          else do { plan \<leftarrow> child_plan r desiredChildren known;
                    case plan of
                      Inl e \<Rightarrow> Some ((Inl e, resource), w)
                    | Inr plan \<Rightarrow>
                        do { sequence \<leftarrow> those (map (child_for E r desiredErr) plan);
                             Some ((Inr (composed E r sequence), resource), w) } } }"

definition reflectStatus :: "ChildSetReconciler \<Rightarrow> ctx \<Rightarrow> object \<Rightarrow> (world, object) go" where
  "reflectStatus r ctx parent w =
     do { (result, w) \<leftarrow> clearChildSetResult ctx w;
          f \<leftarrow> csrReflectChildrenStatusOnParent r;
          f ctx parent result w }"

definition ChildSet_Reconcile ::
    "env \<Rightarrow> ChildSetReconciler \<Rightarrow> ctx \<Rightarrow> object \<Rightarrow> (world, reconciled) go" where
  "ChildSet_Reconcile E r ctx resource w =
     do { r \<leftarrow> ChildSet_init r;
          let ctx = WithName (csrName r) ctx;
          (known, w) \<leftarrow> knownChildren E r ctx resource w;
          case known of
            Inl e \<Rightarrow> Some ((empty_result, Some e, resource), w)
          | Inr known \<Rightarrow>
              (let ctx = stashKnownChildren ctx known
               in do { ((cr, resource), w) \<leftarrow> composeChildReconcilers E r ctx resource known w;
                       case cr of
                         Inl e \<Rightarrow> Some ((empty_result, Some e, resource), w)
                       | Inr cr \<Rightarrow>
                           do { ((result, e, resource), w) \<leftarrow> Reconcile cr ctx resource w;
                                (resource, w) \<leftarrow> reflectStatus r ctx resource w;
                                Some ((result, e, resource), w) } }) }"

section \<open>The plan\<close>

lemma collect_desired_eq:
  assumes "ident = (\<lambda>x. Some (f x))" and "distinct childIDs"
  shows "\<exists>e. collect_desired ident childIDs byID children =
    Some (if [] \<in> f ` set children \<or> \<not> distinct (childIDs @ map f children) then Inl e
          else Inr (childIDs @ map f children, byID ++ (\<lambda>i. find (\<lambda>x. f x = i) children)))"
  using assms(2)
proof (induction children arbitrary: childIDs byID)
  case Nil
  then show ?case by (simp add: map_add_def)
next
  case (Cons x xs)
  show ?case
  proof (cases "f x = [] \<or> f x \<in> set childIDs")
    case True
    with assms(1) show ?thesis by auto
  next
    case False
    have m: "byID(f x \<mapsto> x) ++ (\<lambda>i. find (\<lambda>x. f x = i) xs) = byID ++ (\<lambda>i. find (\<lambda>x. f x = i) (x # xs))"
      if "f x \<notin> f ` set xs"
    proof -
      from that have "find (\<lambda>y. f y = f x) xs = None" unfolding find_None_iff by (metis imageI)
      then show ?thesis by (auto simp: map_add_def fun_eq_iff split: option.split)
    qed
    from False Cons.prems have d: "distinct (childIDs @ [f x])" by simp
    from Cons.IH [OF d, of "byID(f x \<mapsto> x)"] obtain e where
      "collect_desired ident (childIDs @ [f x]) (byID(f x \<mapsto> x)) xs =
        Some (if [] \<in> f ` set xs \<or> \<not> distinct ((childIDs @ [f x]) @ map f xs) then Inl e
          else Inr ((childIDs @ [f x]) @ map f xs,
            byID(f x \<mapsto> x) ++ (\<lambda>i. find (\<lambda>x. f x = i) xs)))"
      by blast
    with False assms(1) m show ?thesis by auto
  qed
qed

lemma insert_known_eq:
  assumes "ident = (\<lambda>x. Some (f x))" and "distinct childIDs"
  shows "\<exists>ids. insert_known ident childIDs children = Some ids \<and> distinct ids \<and>
    set ids = set childIDs \<union> f ` set children"
  using assms(2)
proof (induction children arbitrary: childIDs)
  case Nil
  then show ?case by simp
next
  case (Cons x xs)
  let ?ids = "if f x \<in> set childIDs then childIDs else childIDs @ [f x]"
  have "distinct ?ids" using Cons.prems by simp
  from Cons.IH [OF this] assms(1) show ?case by auto
qed

lemma sort_distinct: "distinct xs \<Longrightarrow> sort xs = sorted_list_of_set (set xs)"
  by (simp add: sorted_list_of_set_sort_remdups distinct_remdups_id)

lemma child_plan_eq:
  assumes "csrIdentifyChild r = Some f"
  shows "\<exists>e. child_plan r desired known =
    Some (if [] \<in> f ` set desired \<or> \<not> distinct (map f desired) then Inl e
          else Inr (map (\<lambda>i. (i, find (\<lambda>x. f x = i) desired))
            (sorted_list_of_set (f ` (set desired \<union> set known)))))"
proof -
  have i: "identify r = (\<lambda>x. Some (f x))" by (simp add: identify_def [abs_def] assms)
  obtain e where c: "collect_desired (identify r) [] Map.empty desired =
    Some (if [] \<in> f ` set desired \<or> \<not> distinct (map f desired) then Inl e
          else Inr (map f desired, \<lambda>i. find (\<lambda>x. f x = i) desired))"
    using collect_desired_eq [of "identify r" f "[]" Map.empty desired, OF i distinct.simps(1) [THEN iffD2, OF TrueI]]
    unfolding append_Nil empty_map_add by blast
  show ?thesis
  proof (cases "[] \<in> f ` set desired \<or> \<not> distinct (map f desired)")
    case True
    with c show ?thesis by (auto simp: child_plan_def)
  next
    case False
    then obtain ids where "insert_known (identify r) (map f desired) known = Some ids" "distinct ids"
      "set ids = f ` (set desired \<union> set known)"
      using insert_known_eq [of "identify r" f "map f desired" known, OF i] by (auto simp: image_Un)
    with False c show ?thesis by (auto simp: child_plan_def sort_distinct)
  qed
qed

section \<open>What a child reconciler leaves alone\<close>

lemma stashes_calls [simp]:
  "stashes (record_call call w) = stashes w" "stashes (log_info ctx msg args w) = stashes w"
  "stashes (log_error ctx e msg args w) = stashes w"
  by (simp_all add: record_call_def log_info_def log_error_def)

lemma stashes_client:
  "client_Get E cl key x w = Some (y, w') \<Longrightarrow> stashes w' = stashes w"
  "client_List E cl l opts w = Some (z, w') \<Longrightarrow> stashes w' = stashes w"
  "client_write E mk cl w = Some (y, w') \<Longrightarrow> stashes w' = stashes w"
  "client_gvk E cl x w = Some (k, w') \<Longrightarrow> stashes w' = stashes w"
  "Eventf rec x ty reason args w = Some (u, w') \<Longrightarrow> stashes w' = stashes w"
  "record_failure ctx pc x er msg args reason eargs w = Some (u, w') \<Longrightarrow> stashes w' = stashes w"
  "tracker_TrackObject E t ref x w = Some (e, w') \<Longrightarrow> stashes w' = stashes w"
  by (auto simp: client_Get_def client_List_def client_write_def client_gvk_def invoke_def
      client_GroupVersionKindFor_def Eventf_def record_failure_def tracker_TrackObject_def Let_def
      split: if_splits prod.splits)

lemma stashes_finalizer:
  "ensureFinalizer E ctx current f add w = Some (x, w') \<Longrightarrow> stashes w' = stashes w"
  by (auto simp: ensureFinalizer_def finalizer_patched_def Let_def stashes_client
      split: if_splits option.splits dest!: stashes_client)


lemma ResourceManager_init_frame:
  "ResourceManager_init r w = Some (r', w') \<Longrightarrow> stashes w' = stashes w \<and> rmFinalizer r' = rmFinalizer r"
  by (auto simp: ResourceManager_init_def Let_def split: if_splits)

lemma stashes_apply_cached: "apply_cached E r ctx u desired w = Some (x, w') \<Longrightarrow> stashes w' = stashes w"
  by (auto simp: apply_cached_def Let_def split: option.splits prod.splits)

lemma stashes_capture: "capture_mutations E r ctx merge current desired w = Some (x, w') \<Longrightarrow> stashes w' = stashes w"
  by (auto simp: capture_mutations_def Let_def split: option.splits prod.splits sum.splits if_splits)

text \<open>The sections of \<open>Manage\<close> keep the stashes and, not aliased, the resource.\<close>

lemma manage_delete_frame:
  "manage_delete E ctx pc c False resource actual w = Some ((child, e, resource'), w') \<Longrightarrow>
    stashes w' = stashes w \<and> resource' = resource"
  by (auto simp: manage_delete_def Let_def split: if_splits option.splits dest!: stashes_client)

lemma manage_create_frame:
  "manage_create E r ctx pc c resource desired w = Some ((child, e, resource'), w') \<Longrightarrow>
    stashes w' = stashes w \<and> resource' = resource"
  by (auto simp: manage_create_def Let_def split: if_splits option.splits dest!: stashes_client)

lemma manage_push_frame:
  "manage_push E r ctx pc c merge resource actual current desired w = Some ((child, e, resource'), w') \<Longrightarrow>
    stashes w' = stashes w \<and> resource' = resource"
  by (auto simp: manage_push_def Let_def split: if_splits option.splits dest!: stashes_client stashes_capture)

lemma manage_update_frame:
  "manage_update E r ctx pc c False resource actual desired w = Some ((child, e, resource'), w') \<Longrightarrow>
    stashes w' = stashes w \<and> resource' = resource"
  by (auto simp: manage_update_def Let_def split: if_splits option.splits prod.splits
      dest!: stashes_client stashes_apply_cached manage_push_frame)

lemma Manage_frame:
  assumes "Manage E r ctx False resource actual desired w = Some ((child, e, resource'), w')"
    and "rmFinalizer r = []"
  shows "stashes w' = stashes w \<and> resource' = resource"
  using assms
  by (auto simp: Manage_def Let_def ClearFinalizer_def AddFinalizer_def ensureFinalizer_noop
      split: option.splits if_splits
      dest!: ResourceManager_init_frame manage_delete_frame manage_create_frame manage_update_frame)

text \<open>A child reconciler of the set: the manager of the set, no finalizer, no own callbacks.\<close>

definition set_child :: "ChildReconciler \<Rightarrow> string \<Rightarrow> bool" where
  "set_child r i \<longleftrightarrow>
     (\<exists>desired err. crDesiredChild r = Some (\<lambda>ctx resource w. Some ((desired, err, resource), w))) \<and>
     crReflectChildStatusOnParent r = Some (report_child i) \<and>
     (\<exists>stamp. crStamp r = Some stamp \<and> rmFinalizer stamp = [])"

lemma child_manage_desired_frame:
  assumes "child_manage_desired E r ctx resource actual desired w = Some ((child, e, resource'), w')"
    and "set_child r i"
  shows "stashes w' = stashes w \<and> resource' = resource"
proof -
  obtain stamp where s: "crStamp r = Some stamp" "rmFinalizer stamp = []" using assms(2) by (auto simp: set_child_def)
  show ?thesis
  proof (cases desired)
    case None
    with assms(1) s show ?thesis by (auto simp: child_manage_desired_def dest: Manage_frame)
  next
    case (Some d)
    obtain e1 d1 where ed: "(if \<not> crSkipOwnerReference r \<and> getControllerOf E d = None
                      then setControllerReference E resource d else (None, d)) = (e1, d1)" by fastforce
    show ?thesis
    proof (cases e1)
      case None
      with assms(1) s Some ed show ?thesis
        by (cases "ourChild E r resource d1") (auto simp: child_manage_desired_def dest!: Manage_frame)
    next
      case (Some e')
      with assms(1) s \<open>desired = Some d\<close> ed show ?thesis by (auto simp: child_manage_desired_def)
    qed
  qed
qed

lemma delete_extras_stashes:
  "delete_extras E t ctx pc c resource extras w = Some (e, w') \<Longrightarrow> stashes w' = stashes w"
  by (induction extras arbitrary: w)
    (auto simp: Let_def split: option.splits if_splits dest!: stashes_client)

lemma child_desired_frame:
  assumes "child_desired E r ctx resource actual w = Some ((child, e, resource'), w')"
    and "set_child r i"
  shows "stashes w' = stashes w \<and> resource' = resource"
proof (cases "deletionTimestamp resource = None")
  case True
  from assms True obtain desired e1 where
    "(case e1 of
            Some e \<Rightarrow>
              (if errors_is e OnlyReconcileChildStatus then Some ((Some actual, None, resource), w)
               else Some ((None, Some e, resource), w))
          | None \<Rightarrow> child_manage_desired E r ctx resource actual desired w) = Some ((child, e, resource'), w')"
    by (auto simp: child_desired_def set_child_def desiredChild_def)
  then show ?thesis
    using child_manage_desired_frame [OF _ assms(2)] by (auto split: option.splits if_splits)
next
  case False
  with assms(1) have "child_manage_desired E r ctx resource actual None w = Some ((child, e, resource'), w')"
    by (auto simp: child_desired_def desiredChild_def)
  then show ?thesis by (rule child_manage_desired_frame [OF _ assms(2)])
qed

lemma child_reconcile_frame:
  assumes "child_reconcile E r ctx resource w = Some ((child, e, resource'), w')"
    and "set_child r i"
  shows "stashes w' = stashes w \<and> resource' = resource"
  using assms(1) child_desired_frame [OF _ assms(2)]
  by (auto simp: child_reconcile_def lookup_children_def Let_def split: option.splits sum.splits if_splits
      dest!: delete_extras_stashes stashes_client)

lemma Child_init_frame:
  "Child_init r = Some r' \<Longrightarrow> crStamp r = Some stamp \<Longrightarrow>
    crDesiredChild r' = crDesiredChild r \<and> crStamp r' = Some stamp \<and>
    crReflectChildStatusOnParent r' = crReflectChildStatusOnParent r"
  by (auto simp: Child_init_def Let_def split: if_splits)

lemma set_child_init:
  assumes "set_child r i" and "Child_init r = Some r'"
  shows "set_child r' i"
proof -
  obtain stamp where "crStamp r = Some stamp" using assms(1) by (auto simp: set_child_def)
  from Child_init_frame [OF assms(2) this] this assms(1) show ?thesis
    unfolding set_child_def by simp
qed

text \<open>What a child reconciler adds to the stash: its report, or nothing when it returns an error.\<close>

definition results_in :: "nat \<Rightarrow> world \<Rightarrow> child_set_partial_result list" where
  "results_in s w = childSetResult_of (stashes w s childSetResultStashKey)"

lemma report_child_result:
  assumes "report_child i ctx parent child e w = Some (parent', w')" and "ctxStash ctx = Some s"
  shows "parent' = parent \<and> results_in s w' = results_in s w @ [\<lparr>csId = i, csChild = child, csErr = e\<rparr>]"
  using assms
  by (auto simp: report_child_def retrieveChildSetResult_def stashChildSetResult_def RetrieveValue_def
      StashValue_def retrieveStashMap_def results_in_def)

lemma reflect_set_child:
  assumes "reflect_child r ctx resource child e w = Some (resource', w')" and "set_child r i"
    and "ctxStash ctx = Some s"
  shows "resource' = resource \<and> (\<exists>x. results_in s w' = results_in s w @ [x] \<and> csId x = i)"
proof -
  from assms(1,2) have "report_child i ctx resource child e w = Some (resource', w')"
    by (auto simp: reflect_child_def set_child_def)
  from report_child_result [OF this assms(3)] show ?thesis by simp
qed

lemma child_outcome_result:
  assumes "child_outcome E r ctx c resource child e w = Some ((result, e', resource'), w')"
    and "set_child r i" and "ctxStash ctx = Some s"
  shows "resource' = resource \<and>
    (if e' = None then \<exists>x. results_in s w' = results_in s w @ [x] \<and> csId x = i
     else results_in s w' = results_in s w)"
proof (cases e)
  case None
  with assms(1) show ?thesis
    using reflect_set_child [OF _ assms(2,3)] by (fastforce simp: child_outcome_def)
next
  case (Some er)
  show ?thesis
  proof (cases "isAlreadyExists E er")
    case True
    from assms(1) [unfolded child_outcome_def Some option.case if_P [OF True] Let_def]
    obtain key ct ig conflicted w1 where
      g: "client_Get E (APIReader c) key ct w = Some ((ig, conflicted), w1)"
      and rest: "(if ourChild E r resource conflicted
            then Some ((empty_result, Some er, resource), w1)
            else do { (resource, w) \<leftarrow> reflect_child r ctx resource child (Some er)
                        (log_info ctx ''unable to reconcile child, not owned''
                          [LogName (namespaceName conflicted)] w1);
                      Some ((empty_result, None, resource), w) }) = Some ((result, e', resource'), w')"
      by auto
    have "results_in s w1 = results_in s w" using stashes_client(1) [OF g] by (simp add: results_in_def)
    moreover have "results_in s (log_info ctx msg args w1) = results_in s w1" for msg args
      by (simp add: results_in_def)
    ultimately show ?thesis
      using rest reflect_set_child [OF _ assms(2,3)] by (fastforce split: if_splits)
  next
    case False
    have l: "results_in s (log_error ctx er msg args w) = results_in s w" for msg args
      by (simp add: results_in_def)
    from assms(1) [unfolded child_outcome_def Some option.case if_not_P [OF False] Let_def] show ?thesis
      using reflect_set_child [OF _ assms(2,3)] l by (fastforce split: if_splits)
  qed
qed

lemma Child_Reconcile_result:
  assumes "Child_Reconcile E r ctx resource w = Some ((result, e, resource'), w')"
    and "set_child r i" and "ctxStash ctx = Some s" and "deletionTimestamp resource = None"
  shows "resource' = resource \<and>
    (if e = None then \<exists>x. results_in s w' = results_in s w @ [x] \<and> csId x = i
     else results_in s w' = results_in s w)"
proof -
  from assms(1) [unfolded Child_Reconcile_def Let_def] obtain r1 c t k w1 child e1 resource1 w2 where
    i: "Child_init r = Some r1"
    and g: "client_gvk E (Client c) t w = Some (k, w1)"
    and rec: "child_reconcile E r1 (WithName (crName r1) ctx) resource w1 = Some ((child, e1, resource1), w2)"
    and rest: "(if deletionTimestamp resource1 \<noteq> None then Some ((empty_result, e1, resource1), w2)
      else child_outcome E r1 (WithName (crName r1) ctx) c resource1 child e1 w2) = Some ((result, e, resource'), w')"
    by auto
  note s1 = set_child_init [OF assms(2) i]
  from child_reconcile_frame [OF rec s1] have f: "stashes w2 = stashes w" "resource1 = resource"
    using stashes_client(4) [OF g] by simp_all
  then have "results_in s w2 = results_in s w" by (simp add: results_in_def)
  moreover have "ctxStash (WithName (crName r1) ctx) = Some s" using assms(3) by (simp add: WithName_def)
  moreover have "child_outcome E r1 (WithName (crName r1) ctx) c resource child e1 w2 = Some ((result, e, resource'), w')"
    using rest f(2) assms(4) by simp
  ultimately show ?thesis using child_outcome_result [OF _ s1] by metis
qed

text \<open>A sequence of them reports in order, and a sequence without an error reports them all.\<close>

lemma child_for_Reconcile:
  assumes "child_for E r err p = Some s" and "csrStamp r = Some stamp" and "rmFinalizer stamp = []"
  shows "\<exists>cr. Reconcile s = Child_Reconcile E cr \<and> set_child cr (fst p)"
proof (intro exI conjI)
  let ?cr = "(childReconcilerFor r (snd p) err (fst p) False)\<lparr>crStamp := Some stamp\<rparr>"
  show "Reconcile s = Child_Reconcile E ?cr"
    using assms by (auto simp: child_for_def SetResourceManager_def split: if_splits)
  show "set_child ?cr (fst p)"
    unfolding set_child_def childReconcilerFor_def by (simp add: assms(3)) blast
qed

lemma Sequence_reports:
  assumes "those (map (child_for E r err) plan) = Some ss"
    and "csrStamp r = Some stamp" and "rmFinalizer stamp = []"
    and "Sequence_loop ss ctx n a resource w = Some ((result, None, resource'), w')"
    and "ctxStash ctx = Some s" and "deletionTimestamp resource = None"
  shows "resource' = resource \<and> map csId (results_in s w') = map csId (results_in s w) @ map fst plan"
  using assms(1,4)
proof (induction plan arbitrary: ss n a w)
  case Nil
  then show ?case by simp
next
  case (Cons p plan)
  from Cons.prems(1) obtain s1 ss' where s1: "child_for E r err p = Some s1" and ss: "ss = s1 # ss'"
    and ss': "those (map (child_for E r err) plan) = Some ss'"
    by (auto split: option.splits)
  obtain cr where cr: "Reconcile s1 = Child_Reconcile E cr" "set_child cr (fst p)"
    using child_for_Reconcile [OF s1 assms(2,3)] by blast
  from Cons.prems(2) [unfolded ss Sequence_loop.simps Let_def cr(1)] obtain r1 e1 res1 w1 where
    run: "Child_Reconcile E cr (WithName (decimal n) ctx) resource w = Some ((r1, e1, res1), w1)"
    and rest: "(case e1 of
            Some e \<Rightarrow> Some ((r1, Some e, res1), w1)
          | None \<Rightarrow> Sequence_loop ss' ctx (n + 1) (AggregateResults [r1, a]) res1 w1) =
      Some ((result, None, resource'), w')"
    by auto
  have "ctxStash (WithName (decimal n) ctx) = Some s" using assms(5) by (simp add: WithName_def)
  from Child_Reconcile_result [OF run cr(2) this assms(6)] rest
  have "res1 = resource" and "map csId (results_in s w1) = map csId (results_in s w) @ [fst p]"
    and "Sequence_loop ss' ctx (n + 1) (AggregateResults [r1, a]) resource w1 = Some ((result, None, resource'), w')"
    by (auto split: option.splits)
  with Cons.IH [OF ss'] show ?case by force
qed


text \<open>With a finalizer the sequence is wrapped, which adds the finalizer first.\<close>

lemma composed_reports:
  assumes "those (map (child_for E r err) plan) = Some ss"
    and "csrStamp r = Some stamp" and "rmFinalizer stamp = []"
    and "Reconcile (composed E r ss) ctx resource w = Some ((result, None, resource'), w')"
    and "ctxStash ctx = Some s" and "deletionTimestamp resource = None"
  shows "map csId (results_in s w') = map csId (results_in s w) @ map fst plan"
proof (cases "csrFinalizer r = []")
  case True
  with assms(4) have "Sequence_loop ss ctx 0 empty_result resource w = Some ((result, None, resource'), w')"
    by (simp add: composed_def Sequence_def Sequence_Reconcile_def)
  from Sequence_reports [OF assms(1-3) this assms(5,6)] show ?thesis ..
next
  case False
  let ?c = "WithName [] ctx"
  let ?f = "\<lparr>wfName = [], wfFinalizer = csrFinalizer r, wfReconciler = Some (Sequence ss)\<rparr>"
  from False assms(4) have "WithFinalizer_Reconcile E ?f ctx resource w = Some ((result, None, resource'), w')"
    by (simp add: composed_def Let_def)
  then obtain resource1 w1 where
    add: "AddFinalizer E ?c resource (csrFinalizer r) w = Some ((None, resource1), w1)"
    and nested: "WithFinalizer_nested E ?f ?c resource1 w1 = Some ((result, None, resource'), w')"
    using assms(6) by (auto simp: WithFinalizer_Reconcile_def Let_def split: option.splits)
  have live: "deletionTimestamp resource1 = None"
    using ensureFinalizer_frame [of E ?c resource "csrFinalizer r" True w None resource1 w1] add assms(6)
    by (auto simp: AddFinalizer_def)
  have st: "results_in s w1 = results_in s w"
    using stashes_finalizer add by (simp add: AddFinalizer_def results_in_def)
  obtain e2 r2 res2 w2 where run: "Sequence_loop ss ?c 0 empty_result resource1 w1 = Some ((r2, e2, res2), w2)"
    and rest: "(case e2 of
            Some e \<Rightarrow> Some ((r2, Some e, res2), w2)
          | None \<Rightarrow>
              (if deletionTimestamp res2 \<noteq> None
               then do { ((e, resource), w) \<leftarrow> ClearFinalizer E ?c res2 (csrFinalizer r) w2;
                         case e of
                           Some e \<Rightarrow> Some ((empty_result, Some e, resource), w)
                         | None \<Rightarrow> Some ((r2, None, resource), w) }
               else Some ((r2, None, res2), w2))) = Some ((result, None, resource'), w')"
    using nested [unfolded WithFinalizer_nested_def WithFinalizer.select_convs Sequence_def
        sub_reconciler.select_convs Sequence_Reconcile_def] by auto
  from rest have "e2 = None" by (auto split: option.splits)
  with run have run': "Sequence_loop ss ?c 0 empty_result resource1 w1 = Some ((r2, None, res2), w2)" by simp
  have "ctxStash ?c = Some s" using assms(5) by (simp add: WithName_def)
  from Sequence_reports [OF assms(1-3) run' this live]
  have "res2 = resource1" "map csId (results_in s w2) = map csId (results_in s w1) @ map fst plan" by auto
  moreover from this rest live \<open>e2 = None\<close> have "w' = w2" by simp
  ultimately show ?thesis using st by simp
qed


lemma ChildSet_init_stamp:
  "ChildSet_init r = Some r' \<Longrightarrow> \<not> csrLazyInit r \<Longrightarrow> \<exists>stamp. csrStamp r' = Some stamp \<and> rmFinalizer stamp = []"
  by (auto simp: ChildSet_init_def Let_def split: if_splits)

lemma Child_SetupWithManager_skip:
  assumes "Child_SetupWithManager E r ctx w = Some ((e, r'), w')" and "crFinalizer r = []"
  shows "crSkipOwnerReference r' = crSkipOwnerReference r"
proof -
  have i: "crFinalizer r1 = crFinalizer r \<and> crSkipOwnerReference r1 = crSkipOwnerReference r"
    if "Child_init r = Some r1" for r1
    using that by (auto simp: Child_init_def Let_def split: if_splits)
  have v: "snd (Child_validate r1) = r1" if "crFinalizer r1 = []" for r1
    using that by (simp add: Child_validate_def Let_def)
  from assms(1) obtain r1 where "Child_init r = Some r1" "r' = snd (Child_validate r1)"
    by (auto simp: Child_SetupWithManager_def Let_def split: option.splits prod.splits if_splits)
  with i v assms(2) show ?thesis by simp
qed

section \<open>A small instance\<close>

definition demo_child_set :: ChildSetReconciler where
  "demo_child_set =
     \<lparr>csrChildGoType = Some ''Pod'', csrListGoType = Some ''PodList'', csrStampId = 0,
      csrName = ''children'', csrChildType = None, csrChildListType = None, csrFinalizer = [],
      csrSkipOwnerReference = False, csrSetup = None,
      csrDesiredChildren = Some (\<lambda>ctx resource w. Some (([], None, resource), w)),
      csrReflectChildrenStatusOnParent = Some (\<lambda>ctx resource results w. Some (resource, w)),
      csrHarmonizeImmutableFields = None, csrMergeBeforeUpdate = Some demo_merge,
      csrListOptions = None, csrOurChild = None, csrIdentifyChild = Some objName, csrSanitize = None,
      csrStamp = None, csrVoidReconciler = None, csrLazyInit = False\<rparr>"

section \<open>Properties\<close>

text \<open>
  C17. The plan of a child set: a desired child with an empty identifier or one used twice is an error;
  otherwise there is exactly one entry per identifier of a desired or known child, sorted by identifier,
  and it asks for the desired child with that identifier, or for none, which deletes the known one.
\<close>

theorem child_plan_spec:
  assumes "csrIdentifyChild r = Some f"
  shows "\<exists>result. child_plan r desired known = Some result \<and>
    ((\<exists>e. result = Inl e) \<longleftrightarrow> [] \<in> f ` set desired \<or> \<not> distinct (map f desired)) \<and>
    (\<forall>plan. result = Inr plan \<longrightarrow>
       sorted (map fst plan) \<and> distinct (map fst plan) \<and>
       set (map fst plan) = f ` (set desired \<union> set known) \<and>
       (\<forall>i child. (i, Some child) \<in> set plan \<longleftrightarrow> child \<in> set desired \<and> f child = i))"
proof -
  let ?bad = "[] \<in> f ` set desired \<or> \<not> distinct (map f desired)"
  let ?ids = "sorted_list_of_set (f ` (set desired \<union> set known))"
  obtain e where p: "child_plan r desired known = Some (if ?bad then Inl e
      else Inr (map (\<lambda>i. (i, find (\<lambda>x. f x = i) desired)) ?ids))"
    using child_plan_eq [OF assms] by blast
  have ids: "map fst (map (\<lambda>i. (i, find (\<lambda>x. f x = i) desired)) ?ids) = ?ids" by (simp add: comp_def)
  have found: "(i, Some child) \<in> set (map (\<lambda>i. (i, find (\<lambda>x. f x = i) desired)) ?ids) \<longleftrightarrow>
      child \<in> set desired \<and> f child = i" if "distinct (map f desired)" for i child
    using find_by_key [OF that, of i child] by auto
  show ?thesis
  proof (cases ?bad)
    case True
    with p show ?thesis by auto
  next
    case False
    with found have "\<forall>i child. (i, Some child) \<in> set (map (\<lambda>i. (i, find (\<lambda>x. f x = i) desired)) ?ids) \<longleftrightarrow>
      child \<in> set desired \<and> f child = i" by blast
    with False p ids show ?thesis by (auto simp del: set_map map_map)
  qed
qed

theorem child_plan_spec_witness:
  "\<exists>plan. child_plan demo_child_set [owned ''b'', owned ''a''] [owned ''c''] = Some (Inr plan) \<and>
     set (map fst plan) = {''a'', ''b'', ''c''} \<and> sorted (map fst plan)"
proof -
  have f: "csrIdentifyChild demo_child_set = Some objName" by (simp add: demo_child_set_def)
  from child_plan_spec [OF f, of "[owned ''b'', owned ''a'']" "[owned ''c'']"]
  obtain result where r: "child_plan demo_child_set [owned ''b'', owned ''a''] [owned ''c''] = Some result"
    and e: "\<not> (\<exists>e. result = Inl e)"
    and p: "\<forall>plan. result = Inr plan \<longrightarrow> sorted (map fst plan) \<and>
       set (map fst plan) = objName ` (set [owned ''b'', owned ''a''] \<union> set [owned ''c''])"
    by (auto simp: owned_def)
  from e obtain plan where "result = Inr plan" by (cases result) auto
  with r p show ?thesis by (auto simp: owned_def)
qed

text \<open>
  C16. Reports in order: when a child set reconciles a live resource without an error,
  \<open>ReflectChildrenStatusOnParent\<close> is called once, with one result for each identifier of a desired or
  known child, in the order of the identifiers, and the results are gone from the stash.
\<close>

theorem ChildSet_reports_in_order:
  assumes "ChildSet_init r = Some r'" and "\<not> csrLazyInit r" and "csrIdentifyChild r' = Some f"
    and "knownChildren E r' (WithName (csrName r') ctx) resource w = Some (Inr known, w1)"
    and "csrDesiredChildren r' = Some d"
    and "d (stashKnownChildren (WithName (csrName r') ctx) known) resource w1 = Some ((desired, None, resource1), w2)"
    and "deletionTimestamp resource1 = None"
    and "ctxStash ctx = Some s" and "stashes w2 s childSetResultStashKey = None"
    and "csrReflectChildrenStatusOnParent r' = Some g"
    and "ChildSet_Reconcile E r ctx resource w = Some ((result, None, resource'), w')"
  shows "\<exists>results resource2 w3.
    g (stashKnownChildren (WithName (csrName r') ctx) known) resource2 results w3 = Some (resource', w') \<and>
    map csId results = sorted_list_of_set (f ` (set desired \<union> set known)) \<and>
    stashes w3 s childSetResultStashKey = None"
proof -
  let ?c = "stashKnownChildren (WithName (csrName r') ctx) known"
  have s: "ctxStash ?c = Some s" using assms(8) by (simp add: stashKnownChildren_def WithName_def)
  from assms(11) [unfolded ChildSet_Reconcile_def Let_def] assms(1,4) obtain cr resource2 w3 where
    c: "composeChildReconcilers E r' ?c resource known w1 = Some ((cr, resource2), w3)"
    and rest: "(case cr of
          Inl e \<Rightarrow> Some ((empty_result, Some e, resource2), w3)
        | Inr cr \<Rightarrow>
            do { ((result, e, resource), w) \<leftarrow> Reconcile cr ?c resource2 w3;
                 (resource, w) \<leftarrow> reflectStatus r' ?c resource w;
                 Some ((result, e, resource), w) }) = Some ((result, None, resource'), w')"
    by auto
  from rest obtain cr' where cr: "cr = Inr cr'" by (auto split: sum.splits)
  from child_plan_eq [OF assms(3)] c assms(5,6) obtain plan ss where
    plan: "child_plan r' desired known = Some (Inr plan)"
    and ss: "those (map (child_for E r' None) plan) = Some ss"
    and cr': "cr' = composed E r' ss" and res2: "resource2 = resource1" and w3: "w3 = w2"
    unfolding cr by (auto simp: composeChildReconcilers_def split: sum.splits)
  from plan child_plan_eq [OF assms(3), of desired known]
  have ids: "map fst plan = sorted_list_of_set (f ` (set desired \<union> set known))"
    by (auto simp: comp_def split: if_splits)
  obtain stamp where stamp: "csrStamp r' = Some stamp" "rmFinalizer stamp = []"
    using ChildSet_init_stamp [OF assms(1,2)] by blast
  from rest [unfolded cr cr' res2 w3] obtain resource3 w4 where
    run: "Reconcile (composed E r' ss) ?c resource1 w2 = Some ((result, None, resource3), w4)"
    and refl: "reflectStatus r' ?c resource3 w4 = Some (resource', w')"
    by auto
  from composed_reports [OF ss stamp run s assms(7)] assms(9)
  have "map csId (results_in s w4) = map fst plan" by (simp add: results_in_def)
  moreover from refl s assms(10) obtain w5 where
    "g ?c resource3 (results_in s w4) w5 = Some (resource', w')" "stashes w5 s childSetResultStashKey = None"
    by (auto simp: reflectStatus_def clearChildSetResult_def ClearValue_def retrieveStashMap_def results_in_def)
  ultimately show ?thesis using ids by metis
qed

theorem ChildSet_reports_in_order_witness:
  "\<exists>w' w3. ChildSet_Reconcile demo_env demo_child_set demo_ctx live demo_managed_world
      = Some ((empty_result, None, live), w') \<and>
     stashes w3 0 childSetResultStashKey = None \<and> w' = w3"
proof -
  obtain r' where i: "ChildSet_init demo_child_set = Some r'"
    and r': "csrName r' = ''children''" "csrIdentifyChild r' = Some objName"
      "csrDesiredChildren r' = Some (\<lambda>ctx resource w. Some (([], None, resource), w))"
      "csrReflectChildrenStatusOnParent r' = Some (\<lambda>ctx resource results w. Some (resource, w))"
      "csrFinalizer r' = []" "csrChildListType r' = Some \<lparr>listType = ''PodList'', listKind = empty_gvk, listItems = []\<rparr>"
      "csrVoidReconciler r' \<noteq> None" "csrListOptions r' = None"
    by (simp add: ChildSet_init_def demo_child_set_def default_type_def default_list_type_def Let_def)
  obtain w1 where k: "knownChildren demo_env r' (WithName (csrName r') demo_ctx) live demo_managed_world = Some (Inr [], w1)"
    and st: "stashes w1 = stashes demo_managed_world"
    using r'(6,7)
    by (auto simp: knownChildren_def retrieve_config WithName_def client_List_def invoke_def demo_config_def
        demo_env_def demo_respond_def extractItems_def empty_list_def)
  have s: "ctxStash demo_ctx = Some 0" "stashes w1 0 childSetResultStashKey = None" "\<not> csrLazyInit demo_child_set"
    by (simp_all add: st demo_ctx_def demo_managed_world_def demo_world_def empty_world_def demo_child_set_def)
  have plan: "child_plan r' [] [] = Some (Inr [])" by (simp add: child_plan_def)
  obtain w' where run: "ChildSet_Reconcile demo_env demo_child_set demo_ctx live demo_managed_world
      = Some ((empty_result, None, live), w')"
    using i k r' plan s
    by (simp add: ChildSet_Reconcile_def composeChildReconcilers_def composed_def Sequence_def
        Sequence_Reconcile_def reflectStatus_def clearChildSetResult_def ClearValue_def retrieveStashMap_def
        stashKnownChildren_def WithName_def Let_def)
  show ?thesis
    using ChildSet_reports_in_order [OF i s(3) r'(2) k r'(3) refl live_simps(1) s(1,2) r'(4) run] run by auto
qed

text \<open>
  C23. A finalizer makes a child set lose its children: \<open>init\<close> builds the reconciler that recognises
  known children before \<open>validate\<close> makes the finalizer imply \<open>SkipOwnerReference\<close>.  After a successful
  setup only children controlled by the resource are known, while desired children are handed to the
  manager without an owner reference.
\<close>

theorem ChildSet_finalizer_orphans:
  assumes "csrFinalizer r \<noteq> []" and "\<not> csrSkipOwnerReference r" and "\<not> csrLazyInit r"
    and "ChildSet_SetupWithManager E r ctx w = Some ((None, r'), w')"
  shows "(\<forall>ctx resource w1 known w2. knownChildren E r' ctx resource w1 = Some (Inr known, w2) \<longrightarrow>
      (\<forall>child \<in> set known. isControlledBy E child resource)) \<and>
    (\<forall>desired err i stamp ctx resource actual child w1.
      ourChild E (childReconcilerFor r' desired err i False) resource child \<longrightarrow>
      child_manage_desired E ((childReconcilerFor r' desired err i False)\<lparr>crStamp := Some stamp\<rparr>)
        ctx resource actual (Some child) w1 = Manage E stamp ctx False resource (Some actual) (Some child) w1)"
proof -
  from assms(4) [unfolded ChildSet_SetupWithManager_def Let_def] obtain r1 c t k w1 where
    i: "ChildSet_init r = Some r1"
    and rest: "(case ChildSet_validate r1 of (e, r) \<Rightarrow>
       (case e of
          Some e \<Rightarrow> Some ((Some e, r), w1)
        | None \<Rightarrow>
            do { void \<leftarrow> csrVoidReconciler r;
                 ((e, void), w) \<leftarrow> Child_SetupWithManager E void (WithName (csrName r1) ctx) w1;
                 (case e of
                   Some e \<Rightarrow> Some ((Some e, r\<lparr>csrVoidReconciler := Some void\<rparr>), w)
                 | None \<Rightarrow> do { (e, w) \<leftarrow> optional_setup (csrSetup (r\<lparr>csrVoidReconciler := Some void\<rparr>))
                                (WithName (csrName r1) ctx) w;
                             Some ((e, r\<lparr>csrVoidReconciler := Some void\<rparr>), w) }) })) = Some ((None, r'), w')"
    by auto
  have r1: "csrFinalizer r1 = csrFinalizer r"
    "\<exists>void. csrVoidReconciler r1 = Some void \<and> \<not> crSkipOwnerReference void \<and> crFinalizer void = []"
    using i assms(2,3) by (auto simp: ChildSet_init_def childReconcilerFor_def Let_def split: if_splits)
  then obtain void where void: "csrVoidReconciler r1 = Some void" "\<not> crSkipOwnerReference void" "crFinalizer void = []"
    by blast
  obtain e where v: "ChildSet_validate r1 = (e, r1\<lparr>csrSkipOwnerReference := True\<rparr>)"
    using assms(1) r1(1) by (auto simp: ChildSet_validate_def Let_def)
  from rest v void(1) obtain void' w2 w3 where
    sv: "Child_SetupWithManager E void (WithName (csrName r1) ctx) w1 = Some ((None, void'), w2)"
    and r': "r' = r1\<lparr>csrSkipOwnerReference := True, csrVoidReconciler := Some void'\<rparr>"
    by (auto split: option.splits)
  have "\<not> crSkipOwnerReference void'"
    using Child_SetupWithManager_skip [OF sv void(3)] void(2) by simp
  then have known: "isControlledBy E child resource" if "knownChildren E r' ctx resource w1 = Some (Inr known, w2)"
    and "child \<in> set known" for ctx resource w1 known w2 child
    using that by (auto simp: knownChildren_def r' ourChild_def split: option.splits if_splits)
  have skip: "crSkipOwnerReference (childReconcilerFor r' desired err i False)" for desired err i
    by (simp add: childReconcilerFor_def r')
  have "ourChild E (cr\<lparr>crStamp := s\<rparr>) = ourChild E cr" for cr s
    by (simp add: ourChild_def [abs_def])
  with skip known show ?thesis by (auto simp: child_manage_desired_def)
qed

theorem ChildSet_finalizer_orphans_witness:
  "\<exists>r' w'. ChildSet_SetupWithManager demo_env
      (demo_child_set\<lparr>csrFinalizer := ''f'', csrOurChild := Some (\<lambda>_ _. True), csrListOptions := Some (\<lambda>_ _. [])\<rparr>)
      demo_ctx demo_managed_world = Some ((None, r'), w') \<and>
    knownChildren demo_env r' demo_ctx live demo_managed_world \<noteq>
      Some (Inr [empty_object ''Pod''], demo_managed_world)"
proof -
  let ?r = "demo_child_set\<lparr>csrFinalizer := ''f'', csrOurChild := Some (\<lambda>_ _. True), csrListOptions := Some (\<lambda>_ _. [])\<rparr>"
  obtain r' w' where run: "ChildSet_SetupWithManager demo_env ?r demo_ctx demo_managed_world = Some ((None, r'), w')"
    by (simp add: ChildSet_SetupWithManager_def ChildSet_init_def ChildSet_validate_def demo_child_set_def
        childReconcilerFor_def Child_SetupWithManager_def Child_init_def default_type_def
        default_list_type_def Child_validate_def retrieve_config client_gvk_def client_GroupVersionKindFor_def
        demo_config_def invoke_def EnqueueTracked_def optional_setup_def WithName_def Let_def)
  have "csrFinalizer ?r \<noteq> []" "\<not> csrSkipOwnerReference ?r" "\<not> csrLazyInit ?r"
    by (simp_all add: demo_child_set_def)
  moreover have "\<not> isControlledBy demo_env (empty_object ''Pod'') live"
    by (simp add: demo_env_def empty_object_def)
  ultimately show ?thesis
    using ChildSet_finalizer_orphans [OF _ _ _ run] run by fastforce
qed

end
