(* ===== verification/Duck.thy ===== *)
theory Duck
  imports Configs
begin

text \<open>
  The duck aware client of \<^verbatim>\<open>src/duck/client.go\<close>, as a function from clients to clients, and the nil
  tests of \<^verbatim>\<open>src/internal/util.go\<close>.  A client is the record of its methods, which are computations on a
  world of any type; options are passed through.
\<close>

section \<open>Nil tests\<close>

datatype reflect_kind =
    Invalid | Chan | Func | Interface | MapKind | Ptr | Slice | OtherKind

fun IsNilable :: "reflect_kind \<Rightarrow> bool" where
  "IsNilable Chan = True"
| "IsNilable Func = True"
| "IsNilable Interface = True"
| "IsNilable MapKind = True"
| "IsNilable Ptr = True"
| "IsNilable Slice = True"
| "IsNilable _ = False"

text \<open>
  A Go value as \<open>reflect.ValueOf\<close> sees it: its kind, and whether \<open>Value.IsNil\<close> holds.  The nil
  interface value has kind \<open>Invalid\<close>.
\<close>

definition IsNil :: "reflect_kind \<times> bool \<Rightarrow> bool" where
  "IsNil val = (if \<not> IsNilable (fst val) then False else snd val)"

section \<open>Clients\<close>

type_synonym 'w object_op = "object \<Rightarrow> string list \<Rightarrow> ('w, err option \<times> object) go"

record 'w reader_ops =
  opGet :: "namespaced_name \<Rightarrow> 'w object_op"
  opList :: "object_list \<Rightarrow> string list \<Rightarrow> ('w, err option \<times> object_list) go"

record 'w writer_ops =
  swCreate :: "object \<Rightarrow> 'w object_op"
  swUpdate :: "'w object_op"
  swPatch :: "string \<Rightarrow> 'w object_op"

record 'w sub_resource_ops =
  srGet :: "object \<Rightarrow> 'w object_op"
  srWriter :: "'w writer_ops"

text \<open>\<open>opWatch\<close> is \<open>None\<close> for a client that does not implement \<open>client.WithWatch\<close>.\<close>

record 'w client_ops =
  opReader :: "'w reader_ops"
  opWatch :: "(object_list \<Rightarrow> string list \<Rightarrow> ('w, (err + string) \<times> object_list) go) option"
  opCreate :: "'w object_op"
  opUpdate :: "'w object_op"
  opPatch :: "string \<Rightarrow> 'w object_op"
  opDelete :: "'w object_op"
  opDeleteAllOf :: "'w object_op"
  opStatus :: "'w writer_ops"
  opSubResource :: "string \<Rightarrow> 'w sub_resource_ops"
  opGroupVersionKindFor :: "object \<Rightarrow> ('w, err + gvk) go"
  opIsObjectNamespaced :: "object \<Rightarrow> ('w, err + bool) go"

text \<open>The scheme, which tells unregistered types, and the unstructured converter of apimachinery.\<close>

record duck_lib =
  notRegistered :: "object \<Rightarrow> bool"
  listNotRegistered :: "object_list \<Rightarrow> bool"
  toUnstructured :: "object \<Rightarrow> err + object"
  fromUnstructured :: "object \<Rightarrow> object \<Rightarrow> err option \<times> object"
  listToUnstructured :: "object_list \<Rightarrow> err + object_list"
  listFromUnstructured :: "object_list \<Rightarrow> object_list \<Rightarrow> err option \<times> object_list"

definition IsDuck :: "('a \<Rightarrow> bool) \<Rightarrow> ('a \<Rightarrow> gvk) \<Rightarrow> 'a \<Rightarrow> bool" where
  "IsDuck unregistered kind obj = (if unregistered obj then \<not> gvk_Empty (kind obj) else False)"

abbreviation is_duck :: "duck_lib \<Rightarrow> object \<Rightarrow> bool" where
  "is_duck L \<equiv> IsDuck (notRegistered L) objectKind"

abbreviation is_duck_list :: "duck_lib \<Rightarrow> object_list \<Rightarrow> bool" where
  "is_duck_list L \<equiv> IsDuck (listNotRegistered L) listKind"

text \<open>The body most methods share: convert, call, convert back.\<close>

definition converted ::
    "('a \<Rightarrow> err + 'a) \<Rightarrow> ('a \<Rightarrow> 'a \<Rightarrow> err option \<times> 'a) \<Rightarrow> ('a \<Rightarrow> ('w, err option \<times> 'a) go)
      \<Rightarrow> 'a \<Rightarrow> ('w, err option \<times> 'a) go" where
  "converted convert back call obj w =
     (case convert obj of
        Inl e \<Rightarrow> Some ((Some e, obj), w)
      | Inr u \<Rightarrow>
          do { ((e, u), w) \<leftarrow> call u w;
               case e of
                 Some e \<Rightarrow> Some ((Some e, obj), w)
               | None \<Rightarrow> Some (back u obj, w) })"

definition duck_object_op :: "duck_lib \<Rightarrow> 'w object_op \<Rightarrow> 'w object_op" where
  "duck_object_op L call obj opts w =
     (if \<not> is_duck L obj then call obj opts w
      else converted (toUnstructured L) (fromUnstructured L) (\<lambda>u. call u opts) obj w)"

definition unsupported :: "duck_lib \<Rightarrow> string \<Rightarrow> 'w object_op \<Rightarrow> 'w object_op" where
  "unsupported L message call obj opts w =
     (if \<not> is_duck L obj then call obj opts w else Some ((Some (Errorf message []), obj), w))"

definition createUnsupported :: string where
  "createUnsupported = ''Create is not supported for the duck typed objects''"

definition updateUnsupported :: string where
  "updateUnsupported = ''Update is not supported for the duck typed objects, use Patch instead''"

definition NewDuckAwareAPIReaderWrapper :: "duck_lib \<Rightarrow> 'w reader_ops \<Rightarrow> 'w reader_ops" where
  "NewDuckAwareAPIReaderWrapper L reader =
     \<lparr>opGet = (\<lambda>key. duck_object_op L (opGet reader key)),
      opList = (\<lambda>list opts w.
        if \<not> is_duck_list L list then opList reader list opts w
        else converted (listToUnstructured L) (listFromUnstructured L) (\<lambda>u. opList reader u opts) list w)\<rparr>"

definition duck_Watch ::
    "duck_lib \<Rightarrow> 'w client_ops \<Rightarrow> object_list \<Rightarrow> string list \<Rightarrow> ('w, (err + string) \<times> object_list) go" where
  "duck_Watch L c list opts w =
     do { watch \<leftarrow> opWatch c;
          if \<not> is_duck_list L list then watch list opts w
          else case listToUnstructured L list of
                 Inl e \<Rightarrow> Some ((Inl e, list), w)
               | Inr u \<Rightarrow>
                   do { ((r, u), w) \<leftarrow> watch u opts w;
                        case r of
                          Inl e \<Rightarrow> Some ((Inl e, list), w)
                        | Inr interface \<Rightarrow>
                            (let (e, list) = listFromUnstructured L u list
                             in Some ((case e of Some e \<Rightarrow> Inl e | None \<Rightarrow> Inr interface, list), w)) } }"

definition duck_GroupVersionKindFor :: "duck_lib \<Rightarrow> 'w client_ops \<Rightarrow> object \<Rightarrow> ('w, err + gvk) go" where
  "duck_GroupVersionKindFor L c obj w =
     (if \<not> is_duck L obj then opGroupVersionKindFor c obj w
      else if gvk_Empty (objectKind obj)
      then Some (Inl (Errorf ''object must directly define APIVersion and Kind'' []), w)
      else Some (Inr (objectKind obj), w))"

definition duck_IsObjectNamespaced :: "duck_lib \<Rightarrow> 'w client_ops \<Rightarrow> object \<Rightarrow> ('w, err + bool) go" where
  "duck_IsObjectNamespaced L c obj w =
     (if \<not> is_duck L obj then opIsObjectNamespaced c obj w
      else case toUnstructured L obj of
             Inl e \<Rightarrow> Some (Inl e, w)
           | Inr u \<Rightarrow> opIsObjectNamespaced c u w)"

definition duck_writer :: "duck_lib \<Rightarrow> 'w writer_ops \<Rightarrow> 'w writer_ops" where
  "duck_writer L s =
     \<lparr>swCreate = (\<lambda>subResource. unsupported L createUnsupported (swCreate s subResource)),
      swUpdate = unsupported L updateUnsupported (swUpdate s),
      swPatch = (\<lambda>patch. duck_object_op L (swPatch s patch))\<rparr>"

definition duck_sub_resource :: "duck_lib \<Rightarrow> 'w sub_resource_ops \<Rightarrow> 'w sub_resource_ops" where
  "duck_sub_resource L s =
     \<lparr>srGet = (\<lambda>subResource. duck_object_op L (srGet s subResource)),
      srWriter = duck_writer L (srWriter s)\<rparr>"

definition NewDuckAwareClientWrapper :: "duck_lib \<Rightarrow> 'w client_ops \<Rightarrow> 'w client_ops" where
  "NewDuckAwareClientWrapper L c =
     \<lparr>opReader = NewDuckAwareAPIReaderWrapper L (opReader c),
      opWatch = Some (duck_Watch L c),
      opCreate = unsupported L createUnsupported (opCreate c),
      opUpdate = unsupported L updateUnsupported (opUpdate c),
      opPatch = (\<lambda>patch. duck_object_op L (opPatch c patch)),
      opDelete = duck_object_op L (opDelete c),
      opDeleteAllOf = duck_object_op L (opDeleteAllOf c),
      opStatus = duck_writer L (opStatus c),
      opSubResource = (\<lambda>name. duck_sub_resource L (opSubResource c name)),
      opGroupVersionKindFor = duck_GroupVersionKindFor L c,
      opIsObjectNamespaced = duck_IsObjectNamespaced L c\<rparr>"

section \<open>What the wrapped client gets to see\<close>

text \<open>
  Documented behaviour of apimachinery: unstructured values are never reported as not registered.
\<close>

definition unstructured_law :: "duck_lib \<Rightarrow> bool" where
  "unstructured_law L \<longleftrightarrow>
     (\<forall>obj u. toUnstructured L obj = Inr u \<longrightarrow> \<not> notRegistered L u) \<and>
     (\<forall>list u. listToUnstructured L list = Inr u \<longrightarrow> \<not> listNotRegistered L u)"

lemma unstructured_not_duck:
  "unstructured_law L \<Longrightarrow> toUnstructured L obj = Inr u \<Longrightarrow> \<not> is_duck L u"
  "unstructured_law L \<Longrightarrow> listToUnstructured L list = Inr u' \<Longrightarrow> \<not> is_duck_list L u'"
  by (auto simp: unstructured_law_def IsDuck_def)

text \<open>
  Two clients are the same for registered types: each pair of methods agrees on all objects and lists
  that are not duck typed.  Watching panics for a client that cannot watch.
\<close>

definition same_op :: "duck_lib \<Rightarrow> 'w object_op \<Rightarrow> 'w object_op \<Rightarrow> bool" where
  "same_op L f g \<longleftrightarrow> (\<forall>obj. \<not> is_duck L obj \<longrightarrow> f obj = g obj)"

definition watch_of ::
    "'w client_ops \<Rightarrow> object_list \<Rightarrow> string list \<Rightarrow> ('w, (err + string) \<times> object_list) go" where
  "watch_of c list opts w = do { watch \<leftarrow> opWatch c; watch list opts w }"

definition same_writer :: "duck_lib \<Rightarrow> 'w writer_ops \<Rightarrow> 'w writer_ops \<Rightarrow> bool" where
  "same_writer L s s' \<longleftrightarrow>
     (\<forall>sub. same_op L (swCreate s sub) (swCreate s' sub)) \<and> same_op L (swUpdate s) (swUpdate s') \<and>
     (\<forall>patch. same_op L (swPatch s patch) (swPatch s' patch))"

definition same_client :: "duck_lib \<Rightarrow> 'w client_ops \<Rightarrow> 'w client_ops \<Rightarrow> bool" where
  "same_client L c c' \<longleftrightarrow>
     (\<forall>key. same_op L (opGet (opReader c) key) (opGet (opReader c') key)) \<and>
     (\<forall>list. \<not> is_duck_list L list \<longrightarrow>
        opList (opReader c) list = opList (opReader c') list \<and> watch_of c list = watch_of c' list) \<and>
     same_op L (opCreate c) (opCreate c') \<and> same_op L (opUpdate c) (opUpdate c') \<and>
     (\<forall>patch. same_op L (opPatch c patch) (opPatch c' patch)) \<and>
     same_op L (opDelete c) (opDelete c') \<and> same_op L (opDeleteAllOf c) (opDeleteAllOf c') \<and>
     same_writer L (opStatus c) (opStatus c') \<and>
     (\<forall>name. (\<forall>sub. same_op L (srGet (opSubResource c name) sub) (srGet (opSubResource c' name) sub)) \<and>
        same_writer L (srWriter (opSubResource c name)) (srWriter (opSubResource c' name))) \<and>
     (\<forall>obj. \<not> is_duck L obj \<longrightarrow> opGroupVersionKindFor c obj = opGroupVersionKindFor c' obj \<and>
        opIsObjectNamespaced c obj = opIsObjectNamespaced c' obj)"

lemma duck_object_op_plain: "\<not> is_duck L obj \<Longrightarrow> duck_object_op L call obj = call obj"
  by (simp add: duck_object_op_def fun_eq_iff)

lemma unsupported_plain: "\<not> is_duck L obj \<Longrightarrow> unsupported L message call obj = call obj"
  by (simp add: unsupported_def fun_eq_iff)

lemma duck_Watch_watch_of:
  "duck_Watch L c list opts w =
     (if \<not> is_duck_list L list then watch_of c list opts w
      else case listToUnstructured L list of
             Inl e \<Rightarrow> do { watch \<leftarrow> opWatch c; Some ((Inl e, list), w) }
           | Inr u \<Rightarrow>
               do { ((r, u), w) \<leftarrow> watch_of c u opts w;
                    case r of
                      Inl e \<Rightarrow> Some ((Inl e, list), w)
                    | Inr interface \<Rightarrow>
                        (let (e, list) = listFromUnstructured L u list
                         in Some ((case e of Some e \<Rightarrow> Inl e | None \<Rightarrow> Inr interface, list), w)) })"
  by (cases "opWatch c") (simp_all add: duck_Watch_def watch_of_def split: sum.split)

lemma converted_cong:
  "(\<And>u. convert obj = Inr u \<Longrightarrow> f u = g u) \<Longrightarrow> converted convert back f obj = converted convert back g obj"
  by (simp add: converted_def fun_eq_iff split: sum.split)

lemma duck_object_op_same:
  assumes "unstructured_law L" and "same_op L f g"
  shows "duck_object_op L f = duck_object_op L g"
proof (intro ext)
  fix obj opts w
  have "converted (toUnstructured L) (fromUnstructured L) (\<lambda>u. f u opts) obj =
      converted (toUnstructured L) (fromUnstructured L) (\<lambda>u. g u opts) obj"
    using assms by (intro converted_cong) (auto simp: same_op_def dest: unstructured_not_duck)
  with assms(2) show "duck_object_op L f obj opts w = duck_object_op L g obj opts w"
    by (simp add: duck_object_op_def same_op_def)
qed

lemma unsupported_same: "same_op L f g \<Longrightarrow> unsupported L message f = unsupported L message g"
  by (auto simp: unsupported_def same_op_def fun_eq_iff)

lemma duck_writer_same: "unstructured_law L \<Longrightarrow> same_writer L s s' \<Longrightarrow> duck_writer L s = duck_writer L s'"
proof -
  assume u: "unstructured_law L" and "same_writer L s s'"
  then have "same_op L (swCreate s sub) (swCreate s' sub)" "same_op L (swUpdate s) (swUpdate s')"
    "same_op L (swPatch s patch) (swPatch s' patch)" for sub patch
    by (simp_all add: same_writer_def)
  note this [THEN unsupported_same] this(3) [THEN duck_object_op_same [OF u]]
  then show ?thesis by (simp add: duck_writer_def)
qed

lemma duck_reader_same:
  assumes "unstructured_law L"
    and "\<forall>key. same_op L (opGet c key) (opGet c' key)"
    and "\<forall>list. \<not> is_duck_list L list \<longrightarrow> opList c list = opList c' list"
  shows "NewDuckAwareAPIReaderWrapper L c = NewDuckAwareAPIReaderWrapper L c'"
proof -
  have "converted (listToUnstructured L) (listFromUnstructured L) (\<lambda>u. opList c u opts) list =
      converted (listToUnstructured L) (listFromUnstructured L) (\<lambda>u. opList c' u opts) list" for opts list
    using assms(1,3) by (intro converted_cong) (auto dest: unstructured_not_duck)
  moreover have "duck_object_op L (opGet c key) = duck_object_op L (opGet c' key)" for key
    using assms(2) by (intro duck_object_op_same [OF assms(1)]) blast
  ultimately show ?thesis
    using assms(3) by (simp add: NewDuckAwareAPIReaderWrapper_def fun_eq_iff)
qed

lemma duck_Watch_same:
  assumes "unstructured_law L" and "\<forall>list. \<not> is_duck_list L list \<longrightarrow> watch_of c list = watch_of c' list"
    and "opWatch c = None \<longleftrightarrow> opWatch c' = None"
  shows "duck_Watch L c = duck_Watch L c'"
proof (intro ext)
  fix list opts w
  have "watch_of c u = watch_of c' u" if "listToUnstructured L list = Inr u" for u
    using assms(1,2) that by (auto dest: unstructured_not_duck)
  with assms(2,3) show "duck_Watch L c list opts w = duck_Watch L c' list opts w"
    unfolding duck_Watch_watch_of by (cases "opWatch c"; cases "opWatch c'") (auto split: sum.split)
qed

lemma duck_kind_same:
  assumes "unstructured_law L" and "same_client L c c'"
  shows "duck_GroupVersionKindFor L c = duck_GroupVersionKindFor L c'"
    and "duck_IsObjectNamespaced L c = duck_IsObjectNamespaced L c'"
proof -
  have s: "opGroupVersionKindFor c obj = opGroupVersionKindFor c' obj" "opIsObjectNamespaced c obj = opIsObjectNamespaced c' obj"
    if "\<not> is_duck L obj" for obj
    using assms(2) that unfolding same_client_def by blast+
  show "duck_GroupVersionKindFor L c = duck_GroupVersionKindFor L c'"
    by (intro ext) (simp add: duck_GroupVersionKindFor_def s(1))
  have "opIsObjectNamespaced c u = opIsObjectNamespaced c' u" if "toUnstructured L obj = Inr u" for obj u
    using s(2) unstructured_not_duck(1) [OF assms(1) that] .
  then show "duck_IsObjectNamespaced L c = duck_IsObjectNamespaced L c'"
    by (intro ext) (simp add: duck_IsObjectNamespaced_def s(2) split: sum.split)
qed

lemma wrapper_same:
  assumes "unstructured_law L" and "same_client L c c'" and "opWatch c = None \<longleftrightarrow> opWatch c' = None"
  shows "NewDuckAwareClientWrapper L c = NewDuckAwareClientWrapper L c'"
proof -
  have "NewDuckAwareAPIReaderWrapper L (opReader c) = NewDuckAwareAPIReaderWrapper L (opReader c')"
    "duck_Watch L c = duck_Watch L c'"
    using assms by (auto simp: same_client_def intro!: duck_reader_same duck_Watch_same)
  moreover have "duck_sub_resource L (opSubResource c name) = duck_sub_resource L (opSubResource c' name)" for name
  proof -
    have g: "same_op L (srGet (opSubResource c name) sub) (srGet (opSubResource c' name) sub)" for sub
      using assms(2) unfolding same_client_def by blast
    have "same_writer L (srWriter (opSubResource c name)) (srWriter (opSubResource c' name))"
      using assms(2) unfolding same_client_def by blast
    with duck_writer_same [OF assms(1)] duck_object_op_same [OF assms(1) g] show ?thesis
      by (simp add: duck_sub_resource_def)
  qed
  moreover have "duck_writer L (opStatus c) = duck_writer L (opStatus c')"
    using assms(2) by (auto simp: same_client_def intro: duck_writer_same [OF assms(1)])
  moreover have "duck_object_op L (opPatch c patch) = duck_object_op L (opPatch c' patch)"
    "duck_object_op L (opDelete c) = duck_object_op L (opDelete c')"
    "duck_object_op L (opDeleteAllOf c) = duck_object_op L (opDeleteAllOf c')" for patch
    using assms(2) by (auto simp: same_client_def intro!: duck_object_op_same [OF assms(1)])
  moreover have "unsupported L m (opCreate c) = unsupported L m (opCreate c')"
    "unsupported L m (opUpdate c) = unsupported L m (opUpdate c')" for m
    using assms(2) by (auto simp: same_client_def intro!: unsupported_same)
  ultimately show ?thesis
    unfolding NewDuckAwareClientWrapper_def using duck_kind_same [OF assms(1,2)] by simp
qed

lemma wrapper_plain: "same_client L (NewDuckAwareClientWrapper L c) c"
  by (simp add: same_client_def same_op_def same_writer_def NewDuckAwareClientWrapper_def
      NewDuckAwareAPIReaderWrapper_def duck_writer_def duck_sub_resource_def duck_object_op_plain
      unsupported_plain duck_Watch_watch_of watch_of_def duck_GroupVersionKindFor_def
      duck_IsObjectNamespaced_def fun_eq_iff)

section \<open>Properties\<close>

text \<open>A method that refuses duck typed objects without a call, and one that works on their conversion.\<close>

definition refuses :: "duck_lib \<Rightarrow> 'w object_op \<Rightarrow> bool" where
  "refuses L f \<longleftrightarrow> (\<forall>obj opts w. is_duck L obj \<longrightarrow> (\<exists>e. f obj opts w = Some ((Some e, obj), w)))"

definition works_on_conversion :: "duck_lib \<Rightarrow> 'w object_op \<Rightarrow> 'w object_op \<Rightarrow> bool" where
  "works_on_conversion L call f \<longleftrightarrow>
     (\<forall>obj opts w e obj' w'. is_duck L obj \<and> f obj opts w = Some ((e, obj'), w') \<longrightarrow>
        (case toUnstructured L obj of
           Inl er \<Rightarrow> e = Some er \<and> obj' = obj \<and> w' = w
         | Inr u \<Rightarrow> \<exists>e1 u'. call u opts w = Some ((e1, u'), w') \<and>
             (if e1 \<noteq> None then e = e1 \<and> obj' = obj else (e, obj') = fromUnstructured L u' obj)))"

lemma refuses_unsupported: "refuses L (unsupported L message call)"
  by (auto simp: refuses_def unsupported_def)

lemma works_duck_object_op: "works_on_conversion L call (duck_object_op L call)"
  unfolding works_on_conversion_def
proof (intro allI impI)
  fix obj opts w e obj' w'
  assume run: "is_duck L obj \<and> duck_object_op L call obj opts w = Some ((e, obj'), w')"
  show "case toUnstructured L obj of
       Inl er \<Rightarrow> e = Some er \<and> obj' = obj \<and> w' = w
     | Inr u \<Rightarrow> \<exists>e1 u'. call u opts w = Some ((e1, u'), w') \<and>
         (if e1 \<noteq> None then e = e1 \<and> obj' = obj else (e, obj') = fromUnstructured L u' obj)"
  proof (cases "toUnstructured L obj")
    case (Inl er)
    with run show ?thesis by (auto simp: duck_object_op_def converted_def)
  next
    case (Inr u)
    with run obtain e1 u' w1 where "call u opts w = Some ((e1, u'), w1)"
      by (auto simp: duck_object_op_def converted_def)
    with run Inr show ?thesis by (cases e1) (auto simp: duck_object_op_def converted_def)
  qed
qed

text \<open>
  C32. What the duck aware wrapper does to a client.  Objects of registered types, unstructured ones
  among them, are passed on by every method.  The wrapped client never gets to see a duck typed object:
  two clients that are the same for registered types cannot be told apart once they are wrapped.
  Creating and updating a duck typed object, its status or a sub-resource is refused with an error and
  no call; getting, patching and deleting work on the unstructured form, so that a failed conversion
  makes no call, an error of the call leaves the object as it was, and otherwise the answer is
  converted back into the object.
\<close>

theorem duck_wrapper_shields:
  assumes "unstructured_law L" and "same_client L c c'" and "opWatch c = None \<longleftrightarrow> opWatch c' = None"
    and "d = NewDuckAwareClientWrapper L c"
  shows "d = NewDuckAwareClientWrapper L c' \<and> same_client L d c \<and>
    refuses L (opCreate d) \<and> refuses L (opUpdate d) \<and>
    refuses L (swCreate (opStatus d) sub) \<and> refuses L (swUpdate (opStatus d)) \<and>
    refuses L (swCreate (srWriter (opSubResource d name)) sub) \<and>
    refuses L (swUpdate (srWriter (opSubResource d name))) \<and>
    works_on_conversion L (opGet (opReader c) key) (opGet (opReader d) key) \<and>
    works_on_conversion L (opPatch c patch) (opPatch d patch) \<and>
    works_on_conversion L (opDelete c) (opDelete d) \<and>
    works_on_conversion L (opDeleteAllOf c) (opDeleteAllOf d) \<and>
    works_on_conversion L (swPatch (opStatus c) patch) (swPatch (opStatus d) patch) \<and>
    works_on_conversion L (srGet (opSubResource c name) sub) (srGet (opSubResource d name) sub) \<and>
    works_on_conversion L (swPatch (srWriter (opSubResource c name)) patch)
      (swPatch (srWriter (opSubResource d name)) patch)"
  unfolding assms(4)
  by (intro conjI wrapper_same [OF assms(1-3)] wrapper_plain)
    (simp_all add: NewDuckAwareClientWrapper_def NewDuckAwareAPIReaderWrapper_def duck_writer_def
      duck_sub_resource_def refuses_unsupported works_duck_object_op)

text \<open>Wrapping twice is wrapping once: the wrapper is the same as its client for registered types.\<close>

theorem duck_wrapper_idempotent:
  assumes "unstructured_law L" and "opWatch c \<noteq> None"
  shows "NewDuckAwareClientWrapper L (NewDuckAwareClientWrapper L c) = NewDuckAwareClientWrapper L c"
  using assms(2) by (intro wrapper_same [OF assms(1) wrapper_plain]) (simp add: NewDuckAwareClientWrapper_def)

definition demo_client :: "nat client_ops" where
  "demo_client =
     \<lparr>opReader = \<lparr>opGet = (\<lambda>key obj opts w. Some ((None, obj), Suc w)), opList = (\<lambda>l opts w. Some ((None, l), Suc w))\<rparr>,
      opWatch = Some (\<lambda>l opts w. Some ((Inr ''events'', l), Suc w)),
      opCreate = (\<lambda>obj opts w. Some ((None, obj), Suc w)), opUpdate = (\<lambda>obj opts w. Some ((None, obj), Suc w)),
      opPatch = (\<lambda>patch obj opts w. Some ((None, obj), Suc w)), opDelete = (\<lambda>obj opts w. Some ((None, obj), Suc w)),
      opDeleteAllOf = (\<lambda>obj opts w. Some ((None, obj), Suc w)),
      opStatus = \<lparr>swCreate = (\<lambda>s obj opts w. Some ((None, obj), Suc w)),
        swUpdate = (\<lambda>obj opts w. Some ((None, obj), Suc w)), swPatch = (\<lambda>patch obj opts w. Some ((None, obj), Suc w))\<rparr>,
      opSubResource = (\<lambda>name. \<lparr>srGet = (\<lambda>s obj opts w. Some ((None, obj), Suc w)),
        srWriter = \<lparr>swCreate = (\<lambda>s obj opts w. Some ((None, obj), Suc w)),
          swUpdate = (\<lambda>obj opts w. Some ((None, obj), Suc w)), swPatch = (\<lambda>patch obj opts w. Some ((None, obj), Suc w))\<rparr>\<rparr>),
      opGroupVersionKindFor = (\<lambda>obj w. Some (Inr (objectKind obj), Suc w)),
      opIsObjectNamespaced = (\<lambda>obj w. Some (Inr True, Suc w))\<rparr>"

definition demo_duck_lib :: duck_lib where
  "demo_duck_lib =
     \<lparr>notRegistered = (\<lambda>obj. goType obj = ''Duck''), listNotRegistered = (\<lambda>l. listType l = ''DuckList''),
      toUnstructured = (\<lambda>obj. Inr (obj\<lparr>goType := ''Unstructured''\<rparr>)),
      fromUnstructured = (\<lambda>u obj. (None, u\<lparr>goType := goType obj\<rparr>)),
      listToUnstructured = (\<lambda>l. Inr (l\<lparr>listType := ''UnstructuredList''\<rparr>)),
      listFromUnstructured = (\<lambda>u l. (None, u\<lparr>listType := listType l\<rparr>))\<rparr>"

lemma demo_unstructured_law: "unstructured_law demo_duck_lib"
  by (auto simp: unstructured_law_def demo_duck_lib_def)

theorem duck_wrapper_idempotent_witness:
  "NewDuckAwareClientWrapper demo_duck_lib (NewDuckAwareClientWrapper demo_duck_lib demo_client) =
     NewDuckAwareClientWrapper demo_duck_lib demo_client"
  by (rule duck_wrapper_idempotent [OF demo_unstructured_law]) (simp add: demo_client_def)

text \<open>
  A client that would panic on a create of a duck typed object is, wrapped, the same client, and
  refuses the create.
\<close>

definition picky_client :: "nat client_ops" where
  "picky_client = demo_client\<lparr>opCreate := (\<lambda>obj opts w.
     if is_duck demo_duck_lib obj then None else opCreate demo_client obj opts w)\<rparr>"

definition demo_duck :: object where
  "demo_duck = (empty_object ''Duck'')\<lparr>objectKind := \<lparr>gvkGroup = [], gvkVersion = ''v1'', gvkKind = ''Duck''\<rparr>\<rparr>"

theorem duck_wrapper_shields_witness:
  "NewDuckAwareClientWrapper demo_duck_lib picky_client = NewDuckAwareClientWrapper demo_duck_lib demo_client \<and>
   (\<exists>e. opCreate (NewDuckAwareClientWrapper demo_duck_lib picky_client) demo_duck [] 0 = Some ((Some e, demo_duck), 0))"
proof -
  have "same_client demo_duck_lib picky_client demo_client" "opWatch picky_client = None \<longleftrightarrow> opWatch demo_client = None"
    by (simp_all add: same_client_def same_op_def same_writer_def picky_client_def watch_of_def fun_eq_iff)
  note s = duck_wrapper_shields [OF demo_unstructured_law this refl]
  have "is_duck demo_duck_lib demo_duck"
    by (simp add: IsDuck_def demo_duck_lib_def demo_duck_def empty_object_def gvk_Empty_def)
  moreover from s have "refuses demo_duck_lib (opCreate (NewDuckAwareClientWrapper demo_duck_lib picky_client))" by blast
  ultimately show ?thesis using s unfolding refuses_def by blast
qed

end
