(* ===== verification/Resource.thy ===== *)
theory Resource
  imports Manager Duck
begin

text \<open>
  \<open>ResourceReconciler\<close> of \<^verbatim>\<open>src/reconcilers/resource.go\<close>: fetching the resource of a request, running the
  sub-reconciler and writing the status back when it changed.
\<close>

section \<open>The reconciler\<close>

text \<open>
  What reflection finds out about the status type of the resource type: \<open>stStruct\<close> is false when there
  is a status that is neither a struct nor a pointer to one.
\<close>

record status_type =
  stHas :: bool
  stPointer :: bool
  stStruct :: bool
  stObservedGeneration :: bool
  stConditions :: bool

text \<open>
  The \<open>InitializeConditions\<close> method of the status type by its signature: it takes a context, or nothing,
  or it has another number of arguments (the receiver not counted) and results.
\<close>

datatype init_method =
    NoInit
  | InitContext "ctx \<Rightarrow> status_struct \<Rightarrow> (world, status_struct) go"
  | InitPlain "status_struct \<Rightarrow> (world, status_struct) go"
  | InitOther nat nat

record ResourceReconciler =
  rrGoType :: "string option"
  rrStatusType :: status_type
  rrInitializeConditions :: init_method
  rrName :: string
  rrSetup :: "setup_fun option"
  rrType :: "object option"
  rrSkipStatusUpdate :: bool
  rrReconciler :: "sub_reconciler option"
  rrConfig :: Config

definition Resource_init :: "ResourceReconciler \<Rightarrow> ResourceReconciler option" where
  "Resource_init r =
     do { t \<leftarrow> default_type (rrType r) (rrGoType r);
          let r = r\<lparr>rrType := Some t\<rparr>;
          Some (if rrName r = [] then r\<lparr>rrName := typeName t @ ''ResourceReconciler''\<rparr> else r) }"

definition init_arity :: "init_method \<Rightarrow> (nat \<times> nat) option" where
  "init_arity m =
     (case m of NoInit \<Rightarrow> None | InitContext f \<Rightarrow> Some (2, 0) | InitPlain f \<Rightarrow> Some (1, 0)
      | InitOther i n \<Rightarrow> Some (Suc i, n))"

definition Resource_warnings :: "ctx \<Rightarrow> ResourceReconciler \<Rightarrow> world \<Rightarrow> world option" where
  "Resource_warnings ctx r w =
     (let t = rrStatusType r
      in if \<not> stHas t
         then Some (log_info ctx ''resource missing status field, operations related to status will be skipped'' [] w)
         else
           (let w = (if stPointer t
                     then log_info ctx ''resource status is nilable, status is typically a struct'' [] w else w)
            in if \<not> stStruct t then None
               else
                 (let w = (if \<not> stObservedGeneration t
                           then log_info ctx ''resource status missing ObservedGeneration field of type int64, generation will not be managed'' [] w
                           else w);
                      w = (case init_arity (rrInitializeConditions r) of
                             None \<Rightarrow> log_info ctx ''resource status missing InitializeConditions(context.Context) method, conditions will not be auto-initialized'' [] w
                           | Some (i, n) \<Rightarrow>
                               if i > 2 \<or> n \<noteq> 0
                               then log_info ctx ''resource status missing InitializeConditions(context.Context) method, conditions will not be auto-initialized'' [] w
                               else if i = 1
                               then log_info ctx ''resource status InitializeConditions() method is deprecated, use InitializeConditions(context.Context)'' [] w
                               else w);
                      w = (if \<not> stConditions t
                           then log_info ctx ''resource status is missing field Conditions of type []metav1.Condition, condition timestamps will not be managed'' [] w
                           else w)
                  in Some w)))"

definition Resource_validate :: "ctx \<Rightarrow> ResourceReconciler \<Rightarrow> (world, err option) go" where
  "Resource_validate ctx r w =
     (if rrReconciler r = None
      then Some (Some (Errorf ''ResourceReconciler %q must define Reconciler'' [rrName r]), w)
      else do { w \<leftarrow> Resource_warnings ctx r w; Some (None, w) })"

text \<open>The context both reconcilers of a single resource set up: configuration and resource type.\<close>

definition stash_types :: "ctx \<Rightarrow> Config \<Rightarrow> object \<Rightarrow> ctx" where
  "stash_types ctx c t =
     (let ctx = StashConfig ctx c;
          ctx = StashOriginalConfig ctx c;
          ctx = StashResourceType ctx t
      in StashOriginalResourceType ctx t)"

text \<open>What is watched: the type itself, or an unstructured object of the kind of a duck type.\<close>

definition build_for :: "env \<Rightarrow> Config \<Rightarrow> object \<Rightarrow> (world, err option) go" where
  "build_for E c t w =
     (if \<not> IsDuck (isNotRegistered E) objectKind t then Some (None, record_call (BuilderFor t) w)
      else do { (k, w) \<leftarrow> client_GroupVersionKindFor E (Client c) t w;
                case k of
                  Inl e \<Rightarrow> Some (Some e, w)
                | Inr k \<Rightarrow> Some (None, record_call (BuilderFor ((empty_object ''Unstructured'')\<lparr>objectKind := k\<rparr>)) w) })"

definition build :: "env \<Rightarrow> (world, err option) go" where
  "build E w = (let (r, w) = invoke E BuilderBuild w in Some (replyErr r, w))"

definition Resource_SetupWithManagerYieldingController ::
    "env \<Rightarrow> ResourceReconciler \<Rightarrow> ctx \<Rightarrow> (world, err option) go" where
  "Resource_SetupWithManagerYieldingController E r ctx w =
     do { r \<leftarrow> Resource_init r;
          t \<leftarrow> rrType r;
          (k, w) \<leftarrow> client_gvk E (Client (rrConfig r)) t w;
          let ctx = stash_types (WithName (rrName r) ctx) (rrConfig r) t;
          on_success (Resource_validate ctx r)
            (on_success (build_for E (rrConfig r) t)
              (on_success (optional_setup (rrSetup r) ctx)
                (on_success (setup_of (rrReconciler r) ctx) (build E)))) w }"

definition Resource_SetupWithManager :: "env \<Rightarrow> ResourceReconciler \<Rightarrow> ctx \<Rightarrow> (world, err option) go" where
  "Resource_SetupWithManager E r ctx w = Resource_SetupWithManagerYieldingController E r ctx w"

section \<open>The status\<close>

text \<open>
  \<open>initializeConditions\<close>, \<open>conditions\<close> and \<open>copyGeneration\<close> look the status up by reflection.  A map
  (an unstructured status) is left alone; \<open>Elem\<close> of any other value panics.
\<close>

definition initializeConditions :: "ResourceReconciler \<Rightarrow> ctx \<Rightarrow> object \<Rightarrow> (world, object) go" where
  "initializeConditions r ctx obj w =
     (case status obj of
        StructStatus s \<Rightarrow>
          (case rrInitializeConditions r of
             InitContext f \<Rightarrow> do { (s, w) \<leftarrow> f ctx s w; Some (obj\<lparr>status := StructStatus s\<rparr>, w) }
           | InitPlain f \<Rightarrow> do { (s, w) \<leftarrow> f s w; Some (obj\<lparr>status := StructStatus s\<rparr>, w) }
           | _ \<Rightarrow> Some (obj, w))
      | _ \<Rightarrow> Some (obj, w))"

definition resource_conditions :: "object \<Rightarrow> condition list option" where
  "resource_conditions obj =
     (case status obj of
        NoStatus \<Rightarrow> Some []
      | MapStatus m \<Rightarrow> Some []
      | OtherStatus v \<Rightarrow> None
      | StructStatus s \<Rightarrow> Some (case conditions s of None \<Rightarrow> [] | Some cs \<Rightarrow> cs))"

definition copyGeneration :: "object \<Rightarrow> object option" where
  "copyGeneration obj =
     (case status obj of
        NoStatus \<Rightarrow> Some obj
      | MapStatus m \<Rightarrow> Some obj
      | OtherStatus v \<Rightarrow> None
      | StructStatus s \<Rightarrow>
          Some (case observedGeneration s of
                  None \<Rightarrow> obj
                | Some g \<Rightarrow> obj\<lparr>status := StructStatus (s\<lparr>observedGeneration := Some (generation obj)\<rparr>)\<rparr>))"

text \<open>
  The inner loop of \<open>syncLastTransitionTime\<close> stops at the first proposed condition of the type.
\<close>

fun sync_one :: "condition \<Rightarrow> condition list \<Rightarrow> condition list" where
  "sync_one original [] = []"
| "sync_one original (p # ps) =
     (if condType original = condType p
      then (if condStatus original = condStatus p \<and> condReason original = condReason p \<and>
               condMessage original = condMessage p \<and>
               condObservedGeneration original = condObservedGeneration p
            then p\<lparr>condLastTransitionTime := condLastTransitionTime original\<rparr> else p) # ps
      else p # sync_one original ps)"

fun syncLastTransitionTime :: "condition list \<Rightarrow> condition list \<Rightarrow> condition list" where
  "syncLastTransitionTime proposed [] = proposed"
| "syncLastTransitionTime proposed (original # originals) =
     syncLastTransitionTime (sync_one original proposed) originals"

text \<open>The conditions are a slice of the status, so they change in place.\<close>

definition put_conditions :: "condition list \<Rightarrow> object \<Rightarrow> object" where
  "put_conditions cs obj =
     (case status obj of
        StructStatus s \<Rightarrow>
          (if conditions s = None then obj else obj\<lparr>status := StructStatus (s\<lparr>conditions := Some cs\<rparr>)\<rparr>)
      | _ \<Rightarrow> obj)"

section \<open>Reconcile\<close>

definition resource_reconcile :: "ResourceReconciler \<Rightarrow> ctx \<Rightarrow> object \<Rightarrow> (world, reconciled) go" where
  "resource_reconcile r ctx resource w =
     (if deletionTimestamp resource \<noteq> None \<and> finalizers resource = []
      then Some ((empty_result, None, resource), w)
      else do { s \<leftarrow> rrReconciler r;
                ((result, e, resource), w) \<leftarrow> Reconcile s ctx resource w;
                if (case e of None \<Rightarrow> False | Some e \<Rightarrow> \<not> is_halt e)
                then Some ((empty_result, e, resource), w)
                else do { resource \<leftarrow> copyGeneration resource;
                          Some ((result, None, resource), w) } })"

text \<open>The write of a changed status: an error replaces the outcome of the sub-reconciler.\<close>

definition write_failed :: "ctx \<Rightarrow> Config \<Rightarrow> object \<Rightarrow> err \<Rightarrow> string \<Rightarrow> string \<Rightarrow> (world, result \<times> err option) go" where
  "write_failed ctx c resource e msg reason w =
     (if \<not> is_quiet e
      then do { let w = log_error ctx e msg [] w;
                (_, w) \<leftarrow> Eventf (Recorder c) resource ''Warning'' reason [LogError_value e] w;
                Some ((empty_result, Some e), w) }
      else Some ((empty_result, Some e), w))"

definition write_status ::
    "env \<Rightarrow> ctx \<Rightarrow> Config \<Rightarrow> object \<Rightarrow> object \<Rightarrow> result \<times> err option \<Rightarrow> (world, result \<times> err option) go" where
  "write_status E ctx c resource original outcome w =
     (let diff = LogDiff (LogStatus (status original)) (LogStatus (status resource))
      in if IsDuck (isNotRegistered E) objectKind resource
         then do { let w = log_info ctx ''patching status'' [diff] w;
                   ((e, resource), w) \<leftarrow> status_Patch E (Client c) resource original w;
                   case e of
                     Some e \<Rightarrow> write_failed ctx c resource e ''unable to patch status'' ''StatusPatchFailed'' w
                   | None \<Rightarrow> do { (_, w) \<leftarrow> Eventf (Recorder c) resource ''Normal'' ''StatusPatched'' [] w;
                               Some (outcome, w) } }
         else do { let w = log_info ctx ''updating status'' [diff] w;
                   ((e, resource), w) \<leftarrow> status_Update E (Client c) resource w;
                   case e of
                     Some e \<Rightarrow> write_failed ctx c resource e ''unable to update status'' ''StatusUpdateFailed'' w
                   | None \<Rightarrow> do { (_, w) \<leftarrow> Eventf (Recorder c) resource ''Normal'' ''StatusUpdated'' [] w;
                               Some (outcome, w) } })"

definition finish_status ::
    "env \<Rightarrow> ctx \<Rightarrow> Config \<Rightarrow> object \<Rightarrow> object \<Rightarrow> result \<times> err option \<Rightarrow> (world, result \<times> err option) go" where
  "finish_status E ctx c resource original outcome w =
     do { proposed \<leftarrow> resource_conditions resource;
          originals \<leftarrow> resource_conditions original;
          let resource = put_conditions (syncLastTransitionTime proposed originals) resource;
          if \<not> statusDeepEqual E (status resource) (status original) \<and> deletionTimestamp resource = None
          then write_status E ctx c resource original outcome w
          else Some (outcome, w) }"

text \<open>The context of a request.\<close>

definition request_ctx :: "env \<Rightarrow> string \<Rightarrow> Config \<Rightarrow> object \<Rightarrow> namespaced_name \<Rightarrow> ctx \<Rightarrow> world \<Rightarrow> ctx" where
  "request_ctx E name c t req ctx w =
     (let ctx = WithName name ctx;
          ctx = StashNow ctx (clock E (trace w));
          ctx = StashRequest ctx req
      in stash_types ctx c t)"

definition Resource_Reconcile ::
    "env \<Rightarrow> ResourceReconciler \<Rightarrow> ctx \<Rightarrow> namespaced_name \<Rightarrow> (world, result \<times> err option) go" where
  "Resource_Reconcile E r ctx req w =
     do { r \<leftarrow> Resource_init r;
          t \<leftarrow> rrType r;
          let (ctx, w) = WithStash ctx w;
          let c = rrConfig r;
          (k, w) \<leftarrow> client_gvk E (Client c) t w;
          let ctx = request_ctx E (rrName r) c t req ctx w;
          ((e, originalResource), w) \<leftarrow> client_Get E (Client c) req t w;
          case e of
            Some e \<Rightarrow>
              (if isNotFound E e then Some ((empty_result, None), w)
               else (let w = (if \<not> is_quiet e then log_error ctx e ''unable to fetch resource'' [] w else w)
                     in Some ((empty_result, Some e), w)))
          | None \<Rightarrow>
              do { let resource = (case defaulter E originalResource of
                                     None \<Rightarrow> originalResource | Some f \<Rightarrow> f originalResource);
                   (resource, w) \<leftarrow> initializeConditions r ctx resource w;
                   ((result, e, resource), w) \<leftarrow> resource_reconcile r ctx resource w;
                   if rrSkipStatusUpdate r then Some ((result, e), w)
                   else finish_status E ctx c resource originalResource (result, e) w } }"

section \<open>Transition times\<close>

text \<open>Two conditions that differ at most in when they last changed.\<close>

definition same_condition :: "condition \<Rightarrow> condition \<Rightarrow> bool" where
  "same_condition p q \<longleftrightarrow>
     condType p = condType q \<and> condStatus p = condStatus q \<and> condReason p = condReason q \<and>
     condMessage p = condMessage q \<and> condObservedGeneration p = condObservedGeneration q"

lemma same_condition_refl [simp]: "same_condition p p"
  by (simp add: same_condition_def)

lemma same_condition_time [simp]:
  "same_condition p (q\<lparr>condLastTransitionTime := t\<rparr>) \<longleftrightarrow> same_condition p q"
  "same_condition (p\<lparr>condLastTransitionTime := t\<rparr>) q \<longleftrightarrow> same_condition p q"
  by (simp_all add: same_condition_def)

definition restored :: "condition list \<Rightarrow> condition \<Rightarrow> condition" where
  "restored originals p =
     (case find (\<lambda>q. condType q = condType p) originals of
        None \<Rightarrow> p
      | Some q \<Rightarrow> if same_condition q p then p\<lparr>condLastTransitionTime := condLastTransitionTime q\<rparr> else p)"

lemma restored_one:
  "restored [q] p = (if same_condition q p then p\<lparr>condLastTransitionTime := condLastTransitionTime q\<rparr> else p)"
  by (auto simp: restored_def same_condition_def)

lemma restored_other:
  assumes "condType p \<notin> condType ` set qs"
  shows "restored qs p = p"
proof -
  have "find (\<lambda>q. condType q = condType p) qs = None"
    using assms unfolding find_None_iff by (metis imageI)
  then show ?thesis by (simp add: restored_def)
qed

lemma sync_one_eq:
  "distinct (map condType ps) \<Longrightarrow> sync_one q ps = map (restored [q]) ps"
proof (induction ps)
  case Nil
  then show ?case by simp
next
  case (Cons p ps)
  have "map (restored [q]) ps = ps" if "condType q = condType p"
    using Cons.prems that by (intro map_idI restored_other) (auto simp: image_iff)
  with Cons show ?case
    by (cases "condType q = condType p") (simp_all add: restored_one [of q p] same_condition_def)
qed

lemma restored_type [simp]: "condType (restored qs p) = condType p"
  by (simp add: restored_def split: option.split)

lemma restored_same: "same_condition (restored qs p) p"
  by (simp add: restored_def split: option.split)

lemma restored_Cons:
  assumes "condType q \<notin> condType ` set qs"
  shows "restored qs (restored [q] p) = restored (q # qs) p"
proof (cases "condType q = condType p")
  case True
  then have "restored qs (restored [q] p) = restored [q] p"
    using assms by (intro restored_other) simp
  with True show ?thesis by (simp add: restored_def)
next
  case False
  then have "restored [q] p = p" by (simp add: restored_one same_condition_def)
  with False show ?thesis by (simp add: restored_def)
qed

lemma syncLastTransitionTime_eq:
  assumes "distinct (map condType proposed)" and "distinct (map condType originals)"
  shows "syncLastTransitionTime proposed originals = map (restored originals) proposed"
  using assms
proof (induction originals arbitrary: proposed)
  case Nil
  then show ?case by (simp add: restored_def [abs_def])
next
  case (Cons q qs)
  from Cons.prems(1) have d: "distinct (map condType (map (restored [q]) proposed))" by (simp add: comp_def)
  from Cons show ?case
    using Cons.IH [OF d] by (simp add: sync_one_eq restored_Cons comp_def)
qed

lemma restored_time:
  assumes "distinct (map condType originals)" and "q \<in> set originals" and "same_condition q p"
  shows "condLastTransitionTime (restored originals p) = condLastTransitionTime q"
proof -
  have "find (\<lambda>q. condType q = condType p) originals = Some q"
    using assms(2,3) by (simp add: find_by_key [OF assms(1)] same_condition_def)
  with assms(3) show ?thesis by (simp add: restored_def)
qed

lemma restored_none: "\<forall>q \<in> set originals. \<not> same_condition q p \<Longrightarrow> restored originals p = p"
  by (auto simp: restored_def find_Some_iff split: option.split)

lemma same_condition_eq:
  "same_condition p q \<Longrightarrow> condLastTransitionTime p = condLastTransitionTime q \<Longrightarrow> p = (q :: condition)"
  by (simp add: same_condition_def)

lemma restored_all:
  assumes "distinct (map condType originals)" and "list_all2 same_condition proposed originals"
  shows "map (restored originals) proposed = originals"
proof (rule nth_equalityI)
  show "length (map (restored originals) proposed) = length originals"
    using assms(2) by (simp add: list_all2_lengthD)
  fix i assume i: "i < length (map (restored originals) proposed)"
  let ?p = "proposed ! i" and ?q = "originals ! i"
  have s: "same_condition ?p ?q" and q: "?q \<in> set originals"
    using assms(2) i by (auto simp: list_all2_conv_all_nth)
  then have "same_condition ?q ?p" by (simp add: same_condition_def)
  from restored_time [OF assms(1) q this] restored_same [of originals ?p] s
  have "restored originals ?p = ?q" by (intro same_condition_eq) (simp_all add: same_condition_def)
  with i show "map (restored originals) proposed ! i = ?q" by simp
qed

section \<open>Runs\<close>

text \<open>The calls that write the status of a resource.\<close>

fun status_write :: "call \<Rightarrow> bool" where
  "status_write (StatusUpdate c obj) = True"
| "status_write (StatusPatch c obj base) = True"
| "status_write _ = False"

text \<open>The state of a request once the resource has been fetched and prepared.\<close>

definition fetched :: "env \<Rightarrow> ResourceReconciler \<Rightarrow> ctx \<Rightarrow> namespaced_name \<Rightarrow> world
    \<Rightarrow> ctx \<times> (err option \<times> object) \<times> world \<Rightarrow> bool" where
  "fetched E r ctx req w out \<longleftrightarrow>
     (\<exists>t ctx1 w1 k w2 reply w3.
        rrType r = Some t \<and> WithStash ctx w = (ctx1, w1) \<and>
        client_gvk E (Client (rrConfig r)) t w1 = Some (k, w2) \<and>
        client_Get E (Client (rrConfig r)) req t w2 = Some (reply, w3) \<and>
        out = (request_ctx E (rrName r) (rrConfig r) t req ctx1 w2, reply, w3))"

lemma Resource_Reconcile_fetched:
  assumes "Resource_init r = Some r'" and "fetched E r' ctx req w (ctx', (e, original), w1)"
  shows "Resource_Reconcile E r ctx req w =
    (case e of
       Some e \<Rightarrow>
         (if isNotFound E e then Some ((empty_result, None), w1)
          else Some ((empty_result, Some e),
            if \<not> is_quiet e then log_error ctx' e ''unable to fetch resource'' [] w1 else w1))
     | None \<Rightarrow>
         do { (resource, w) \<leftarrow> initializeConditions r' ctx'
                (case defaulter E original of None \<Rightarrow> original | Some f \<Rightarrow> f original) w1;
              ((result, e, resource), w) \<leftarrow> resource_reconcile r' ctx' resource w;
              if rrSkipStatusUpdate r' then Some ((result, e), w)
              else finish_status E ctx' (rrConfig r') resource original (result, e) w })"
  using assms by (auto simp: Resource_Reconcile_def fetched_def Let_def split: option.split)

lemma Resource_init_reconciler:
  "Resource_init (r\<lparr>rrReconciler := a\<rparr>) = map_option (\<lambda>r. r\<lparr>rrReconciler := a\<rparr>) (Resource_init r)"
  by (cases "default_type (rrType r) (rrGoType r)") (simp_all add: Resource_init_def Let_def)

lemma fetched_reconciler: "fetched E (r\<lparr>rrReconciler := a\<rparr>) = fetched E r"
  by (simp add: fetched_def fun_eq_iff)

lemma initializeConditions_reconciler: "initializeConditions (r\<lparr>rrReconciler := a\<rparr>) = initializeConditions r"
  by (simp add: initializeConditions_def fun_eq_iff split: object_status.split init_method.split)

lemma Resource_Reconcile_stuck:
  assumes "Resource_init r = Some r'" and "\<nexists>out. fetched E r' ctx req w out"
  shows "Resource_Reconcile E r ctx req w = None"
proof (rule ccontr)
  assume "Resource_Reconcile E r ctx req w \<noteq> None"
  then obtain t k w2 reply w3 where "rrType r' = Some t"
    "client_gvk E (Client (rrConfig r')) t (snd (WithStash ctx w)) = Some (k, w2)"
    "client_Get E (Client (rrConfig r')) req t w2 = Some (reply, w3)"
    using assms(1) by (auto simp: Resource_Reconcile_def Let_def split: prod.splits)
  with assms(2) show False unfolding fetched_def by (metis prod.collapse)
qed

text \<open>The reconciler is only run in the context that was set up.\<close>

lemma Resource_Reconcile_cong:
  assumes "\<And>r1 ctx' reply w1 resource w'. Resource_init r = Some r1 \<Longrightarrow>
    fetched E r1 ctx req w (ctx', reply, w1) \<Longrightarrow>
    resource_reconcile (r1\<lparr>rrReconciler := a\<rparr>) ctx' resource w' =
    resource_reconcile (r1\<lparr>rrReconciler := b\<rparr>) ctx' resource w'"
  shows "Resource_Reconcile E (r\<lparr>rrReconciler := a\<rparr>) ctx req w =
    Resource_Reconcile E (r\<lparr>rrReconciler := b\<rparr>) ctx req w"
proof (cases "Resource_init r")
  case None
  then have "Resource_init (r\<lparr>rrReconciler := c\<rparr>) = None" for c by (simp add: Resource_init_reconciler)
  then show ?thesis by (simp add: Resource_Reconcile_def)
next
  case (Some r1)
  then have i: "Resource_init (r\<lparr>rrReconciler := c\<rparr>) = Some (r1\<lparr>rrReconciler := c\<rparr>)" for c
    by (simp add: Resource_init_reconciler)
  show ?thesis
  proof (cases "\<exists>out. fetched E r1 ctx req w out")
    case False
    then have "\<nexists>out. fetched E (r1\<lparr>rrReconciler := c\<rparr>) ctx req w out" for c by (simp add: fetched_reconciler)
    from Resource_Reconcile_stuck [OF i this] show ?thesis by simp
  next
    case True
    then obtain ctx' e original w1 where f: "fetched E r1 ctx req w (ctx', (e, original), w1)" by auto
    then have f': "fetched E (r1\<lparr>rrReconciler := c\<rparr>) ctx req w (ctx', (e, original), w1)" for c
      by (simp add: fetched_reconciler)
    show ?thesis
      by (cases e) (simp_all add: Resource_Reconcile_fetched [OF i f'] initializeConditions_reconciler assms [OF Some f]
        cong: if_cong)
  qed
qed

lemma fetched_exists:
  assumes "rrType r = Some t" and "Client (rrConfig r) = Some cl"
  shows "\<exists>ctx' w1. fetched E r ctx req w (ctx', (replyErr (respond E (trace w @ [GroupVersionKindFor cl t]) (Get cl req t)),
      replyObject (respond E (trace w @ [GroupVersionKindFor cl t]) (Get cl req t))), w1) \<and>
    trace w1 = trace w @ [GroupVersionKindFor cl t, Get cl req t]"
  using assms
  by (auto simp: fetched_def WithStash_def client_gvk_def client_GroupVersionKindFor_def client_Get_def invoke_def
      record_call_def)

lemma fetched_context:
  assumes "fetched E r ctx req w (ctx', reply, w1)"
  shows "RetrieveRequest ctx' = req" and "RetrieveConfig ctx' = Inr (rrConfig r)"
    and "RetrieveOriginalConfig ctx' = Inr (rrConfig r)" and "RetrieveResourceType ctx' = rrType r"
    and "ctxStash ctx' = Some (nextStash w)" and "stashes w1 (nextStash w) = (\<lambda>_. None)"
  using assms
  by (auto simp: fetched_def request_ctx_def stash_types_def Let_def RetrieveRequest_def StashRequest_def
      StashConfig_def StashOriginalConfig_def StashResourceType_def StashOriginalResourceType_def StashNow_def
      RetrieveConfig_def RetrieveOriginalConfig_def RetrieveResourceType_def WithName_def WithStash_def
      client_Get_def client_gvk_def client_GroupVersionKindFor_def invoke_def record_call_def)

lemma trace_calls [simp]:
  "trace (record_call c w) = trace w @ [c]"
  "trace (log_info ctx msg args w) = trace w @ [LogInfo (ctxLogger ctx) msg args]"
  "trace (log_error ctx e msg args w) = trace w @ [LogError (ctxLogger ctx) e msg args]"
  by (simp_all add: record_call_def log_info_def log_error_def)

lemma Eventf_trace:
  "Eventf rec x ty reason args w = Some (u, w') \<Longrightarrow> \<exists>r. trace w' = trace w @ [Event r x ty reason args]"
  by (auto simp: Eventf_def)

lemma write_failed_run:
  assumes "write_failed ctx c resource e msg reason w = Some (out, w')"
  shows "out = (empty_result, Some e) \<and> (\<exists>cs. trace w' = trace w @ cs \<and> filter status_write cs = [])"
  using assms by (auto simp: write_failed_def Let_def split: if_splits dest!: Eventf_trace)

lemma client_write_run:
  assumes "client_write E mk cl w = Some ((e, x), w')"
  shows "\<exists>c. trace w' = trace w @ [mk c] \<and> e = replyErr (respond E (trace w) (mk c))"
  using assms by (auto simp: client_write_def invoke_def)

definition written :: "env \<Rightarrow> object \<Rightarrow> object \<Rightarrow> result \<times> err option \<Rightarrow> call list \<Rightarrow> result \<times> err option \<Rightarrow> bool" where
  "written E resource original outcome cs out \<longleftrightarrow>
     (\<exists>c. filter status_write cs = [c] \<and>
       (\<exists>cl. c = StatusUpdate cl resource \<or> c = StatusPatch cl resource original) \<and>
       (\<exists>h. out = (case replyErr (respond E h c) of None \<Rightarrow> outcome | Some e \<Rightarrow> (empty_result, Some e))))"

lemma written_step:
  assumes "trace w2 = trace w @ [LogInfo ls msg args] @ [c]"
    and "\<exists>cl. c = StatusUpdate cl resource \<or> c = StatusPatch cl resource original"
    and "e = replyErr (respond E h c)"
    and "(case e of
            Some e \<Rightarrow> write_failed ctx cfg x e emsg reason w2
          | None \<Rightarrow> do { (_, w) \<leftarrow> Eventf (Recorder cfg) x ''Normal'' ok [] w2; Some (outcome, w) }) = Some (out, w')"
  shows "\<exists>cs. trace w' = trace w @ cs \<and> written E resource original outcome cs out"
proof (cases e)
  case None
  with assms(4) obtain u where v: "Eventf (Recorder cfg) x ''Normal'' ok [] w2 = Some (u, w')" and o: "out = outcome"
    by auto
  from Eventf_trace [OF v] assms(1) obtain r where
    t: "trace w' = trace w @ [LogInfo ls msg args, c, Event r x ''Normal'' ok []]" by auto
  have "filter status_write [LogInfo ls msg args, c, Event r x ''Normal'' ok []] = [c]"
    using assms(2) by auto
  with t assms(2,3) None o show ?thesis unfolding written_def by (metis option.simps(4))
next
  case (Some er)
  with assms(4) have "write_failed ctx cfg x er emsg reason w2 = Some (out, w')" by simp
  from write_failed_run [OF this] assms(1) obtain cs where
    t: "trace w' = trace w @ ([LogInfo ls msg args, c] @ cs)" and f: "filter status_write cs = []"
    and o: "out = (empty_result, Some er)" by auto
  have "filter status_write ([LogInfo ls msg args, c] @ cs) = [c]"
    using assms(2) f by auto
  with t assms(2,3) Some o show ?thesis unfolding written_def by (metis option.simps(5))
qed

lemma write_status_run:
  assumes "write_status E ctx c resource original outcome w = Some (out, w')"
  shows "\<exists>cs. trace w' = trace w @ cs \<and> written E resource original outcome cs out"
proof (cases "IsDuck (isNotRegistered E) objectKind resource")
  case True
  from assms [unfolded write_status_def Let_def if_P [OF True]] obtain msg args e x w2 where
    d: "status_Patch E (Client c) resource original (log_info ctx msg args w) = Some ((e, x), w2)"
    and rest: "(case e of
                Some e \<Rightarrow> write_failed ctx c x e ''unable to patch status'' ''StatusPatchFailed'' w2
              | None \<Rightarrow> do { (_, w) \<leftarrow> Eventf (Recorder c) x ''Normal'' ''StatusPatched'' [] w2;
                          Some (outcome, w) }) = Some (out, w')"
    by auto
  from client_write_run [OF d] obtain cl where
    "trace w2 = trace w @ [LogInfo (ctxLogger ctx) msg args] @ [StatusPatch cl resource original]"
    "e = replyErr (respond E (trace (log_info ctx msg args w)) (StatusPatch cl resource original))" by auto
  from written_step [OF this(1) _ this(2) rest] show ?thesis by blast
next
  case False
  from assms [unfolded write_status_def Let_def if_not_P [OF False]] obtain msg args e x w2 where
    d: "status_Update E (Client c) resource (log_info ctx msg args w) = Some ((e, x), w2)"
    and rest: "(case e of
                Some e \<Rightarrow> write_failed ctx c x e ''unable to update status'' ''StatusUpdateFailed'' w2
              | None \<Rightarrow> do { (_, w) \<leftarrow> Eventf (Recorder c) x ''Normal'' ''StatusUpdated'' [] w2;
                          Some (outcome, w) }) = Some (out, w')"
    by auto
  from client_write_run [OF d] obtain cl where
    "trace w2 = trace w @ [LogInfo (ctxLogger ctx) msg args] @ [StatusUpdate cl resource]"
    "e = replyErr (respond E (trace (log_info ctx msg args w)) (StatusUpdate cl resource))" by auto
  from written_step [OF this(1) _ this(2) rest] show ?thesis by blast
qed

text \<open>The resource whose status is compared and written: transition times restored.\<close>

definition synced :: "object \<Rightarrow> object \<Rightarrow> object" where
  "synced original resource =
     (case resource_conditions resource of
        None \<Rightarrow> resource
      | Some proposed \<Rightarrow>
          (case resource_conditions original of
             None \<Rightarrow> resource
           | Some originals \<Rightarrow> put_conditions (syncLastTransitionTime proposed originals) resource))"

lemma deletionTimestamp_put [simp]: "deletionTimestamp (put_conditions cs obj) = deletionTimestamp obj"
  by (simp add: put_conditions_def split: object_status.split)

lemma finish_status_run:
  assumes "finish_status E ctx c resource original outcome w = Some (out, w')"
  shows "if deletionTimestamp resource \<noteq> None \<or> statusDeepEqual E (status (synced original resource)) (status original)
    then out = outcome \<and> w' = w
    else \<exists>cs. trace w' = trace w @ cs \<and> written E (synced original resource) original outcome cs out"
proof -
  from assms obtain proposed originals where
    p: "resource_conditions resource = Some proposed" "resource_conditions original = Some originals"
    by (auto simp: finish_status_def)
  then have s: "synced original resource = put_conditions (syncLastTransitionTime proposed originals) resource"
    by (simp add: synced_def)
  show ?thesis
    using assms p
    by (auto simp: finish_status_def s [symmetric] Let_def split: if_splits intro!: write_status_run)
qed

section \<open>Small instances\<close>

definition demo_struct :: status_struct where
  "demo_struct = \<lparr>observedGeneration = Some 2,
     conditions = Some [\<lparr>condType = ''Ready'', condStatus = ''True'', condObservedGeneration = 1,
       condLastTransitionTime = 5, condReason = ''Ready'', condMessage = []\<rparr>], statusRest = []\<rparr>"

definition fetched_parent :: object where
  "fetched_parent = (empty_object ''Parent'')\<lparr>objNamespace := ''ns'', objName := ''parent'', generation := 2,
     status := StructStatus demo_struct\<rparr>"

text \<open>An API server that has the parent, or answers a read with an error.\<close>

definition serving :: "err option \<Rightarrow> env" where
  "serving e = demo_env\<lparr>respond := (\<lambda>h c.
     \<lparr>replyErr = (case c of Get cl key x \<Rightarrow> e | _ \<Rightarrow> None),
      replyObject = (case c of Get cl key x \<Rightarrow> fetched_parent | _ \<Rightarrow> call_object c),
      replyList = empty_list, replyKind = empty_gvk\<rparr>)\<rparr>"

text \<open>A sub-reconciler that sets the transition time of every condition, and one that halts.\<close>

definition touching :: "int \<Rightarrow> sub_reconciler" where
  "touching time =
     \<lparr>SetupWithManager = (\<lambda>ctx w. Some (None, w)),
      Reconcile = (\<lambda>ctx resource w. Some ((empty_result, None,
        resource\<lparr>status := (case status resource of
          StructStatus s \<Rightarrow> StructStatus (s\<lparr>conditions :=
            map_option (map (\<lambda>c. c\<lparr>condLastTransitionTime := time\<rparr>)) (conditions s)\<rparr>)
        | x \<Rightarrow> x)\<rparr>), w))\<rparr>"

definition demo_resource_reconciler :: "sub_reconciler \<Rightarrow> ResourceReconciler" where
  "demo_resource_reconciler s =
     \<lparr>rrGoType = Some ''Parent'',
      rrStatusType = \<lparr>stHas = True, stPointer = False, stStruct = True, stObservedGeneration = True, stConditions = True\<rparr>,
      rrInitializeConditions = NoInit, rrName = ''parent'', rrSetup = None,
      rrType = Some (empty_object ''Parent''), rrSkipStatusUpdate = False, rrReconciler = Some s,
      rrConfig = demo_config\<rparr>"

definition clearing :: sub_reconciler where
  "clearing =
     \<lparr>SetupWithManager = (\<lambda>ctx w. Some (None, w)),
      Reconcile = (\<lambda>ctx resource w. Some ((empty_result, None,
        resource\<lparr>status := StructStatus (demo_struct\<lparr>conditions := Some []\<rparr>)\<rparr>), w))\<rparr>"

definition demo_request :: namespaced_name where
  "demo_request = \<lparr>nnNamespace = ''ns'', nnName = ''parent''\<rparr>"

lemma demo_fetched:
  "\<exists>ctx' w1. fetched (serving None) (demo_resource_reconciler s) background demo_request demo_world
      (ctx', (None, fetched_parent), w1) \<and>
    trace w1 = trace demo_world @ [GroupVersionKindFor ''client'' (empty_object ''Parent''),
      Get ''client'' demo_request (empty_object ''Parent'')]"
proof -
  have "rrType (demo_resource_reconciler s) = Some (empty_object ''Parent'')"
    "Client (rrConfig (demo_resource_reconciler s)) = Some ''client''"
    by (simp_all add: demo_resource_reconciler_def demo_config_def)
  from fetched_exists [OF this, of "serving None" background demo_request demo_world] show ?thesis
    by (simp add: serving_def)
qed

lemma demo_initialize:
  "initializeConditions (demo_resource_reconciler s) ctx (case defaulter (serving None) x of None \<Rightarrow> x | Some f \<Rightarrow> f x) w
    = Some (x, w)"
  by (simp add: initializeConditions_def demo_resource_reconciler_def serving_def demo_env_def
      split: object_status.split)

lemma demo_resource_init: "Resource_init (demo_resource_reconciler s) = Some (demo_resource_reconciler s)"
  by (simp add: Resource_init_def demo_resource_reconciler_def default_type_def)

lemma demo_finishes:
  "\<exists>w'. finish_status (serving None) ctx demo_config
      (fetched_parent\<lparr>status := StructStatus (demo_struct\<lparr>conditions := Some []\<rparr>)\<rparr>) fetched_parent (empty_result, None) w
      = Some ((empty_result, None), w')"
proof -
  let ?x = "fetched_parent\<lparr>status := StructStatus (demo_struct\<lparr>conditions := Some []\<rparr>)\<rparr>"
  have differ: "\<not> statusDeepEqual (serving None) (status ?x) (status fetched_parent)"
    by (simp add: serving_def demo_env_def fetched_parent_def demo_struct_def)
  have live: "deletionTimestamp ?x = None" by (simp add: fetched_parent_def empty_object_def)
  have plain: "\<not> IsDuck (isNotRegistered (serving None)) objectKind x" for x
    by (simp add: IsDuck_def serving_def demo_env_def)
  show ?thesis
    using differ live plain
    by (simp add: finish_status_def resource_conditions_def put_conditions_def fetched_parent_def demo_struct_def
        write_status_def client_write_def invoke_def demo_config_def Eventf_def Let_def)
      (simp add: serving_def demo_env_def demo_respond_def Eventf_def)
qed

lemma demo_resource_reconciler_sel [simp]:
  "rrSkipStatusUpdate (demo_resource_reconciler s) \<longleftrightarrow> False" "rrConfig (demo_resource_reconciler s) = demo_config"
  "rrReconciler (demo_resource_reconciler s) = Some s"
  by (simp_all add: demo_resource_reconciler_def)

lemma demo_returns:
  assumes "fetched (serving None) (demo_resource_reconciler s) background demo_request demo_world
      (ctx', (None, fetched_parent), w1)"
    and "resource_reconcile (demo_resource_reconciler s) ctx' fetched_parent w1 = Some ((empty_result, None,
      fetched_parent\<lparr>status := StructStatus (demo_struct\<lparr>conditions := Some []\<rparr>)\<rparr>), w1)"
  shows "\<exists>w'. Resource_Reconcile (serving None) (demo_resource_reconciler s) background demo_request demo_world
    = Some ((empty_result, None), w')"
  using demo_finishes [of ctx' w1] assms(2)
  by (simp add: Resource_Reconcile_fetched [OF demo_resource_init assms(1)] demo_initialize)

section \<open>Properties\<close>

text \<open>
  A request for a resource that does not exist does nothing: after looking up the kind and reading
  the resource it returns the empty result without an error, and makes no other call.
\<close>

theorem Resource_not_found:
  assumes "Resource_init r = Some r'" and "rrType r' = Some t" and "Client (rrConfig r') = Some cl"
    and "replyErr (respond E (trace w @ [GroupVersionKindFor cl t]) (Get cl req t)) = Some e"
    and "isNotFound E e"
  shows "\<exists>w'. Resource_Reconcile E r ctx req w = Some ((empty_result, None), w') \<and>
    trace w' = trace w @ [GroupVersionKindFor cl t, Get cl req t]"
proof -
  obtain ctx' x w1 where f: "fetched E r' ctx req w (ctx', (Some e, x), w1)"
    and "trace w1 = trace w @ [GroupVersionKindFor cl t, Get cl req t]"
    using fetched_exists [OF assms(2,3)] assms(4) by metis
  with assms(5) show ?thesis by (simp add: Resource_Reconcile_fetched [OF assms(1) f])
qed

theorem Resource_not_found_witness:
  "\<exists>w'. Resource_Reconcile (serving (Some (Foreign ''NotFound'' []))) (demo_resource_reconciler (touching 9)) background
      \<lparr>nnNamespace = ''ns'', nnName = ''parent''\<rparr> demo_world = Some ((empty_result, None), w') \<and>
     length (trace w') = 2"
proof -
  have "rrType (demo_resource_reconciler (touching 9)) = Some (empty_object ''Parent'')"
    "Client (rrConfig (demo_resource_reconciler (touching 9))) = Some ''client''"
    by (simp_all add: demo_resource_reconciler_def demo_config_def)
  from Resource_not_found [OF demo_resource_init this, of "serving (Some (Foreign ''NotFound'' []))" demo_world
      "\<lparr>nnNamespace = ''ns'', nnName = ''parent''\<rparr>" "Foreign ''NotFound'' []" background]
  show ?thesis by (auto simp: serving_def demo_env_def demo_world_def empty_world_def)
qed

text \<open>
  C25. The status is written once or not at all: after the sub-reconciler, the calls contain one status
  write, of the resource with its transition times restored, exactly if status updates are not skipped,
  the status differs from the one fetched and the resource is not being deleted; the outcome of the
  sub-reconciler is returned unless that write failed, and then its error.
\<close>

theorem Resource_status_written:
  assumes "Resource_init r = Some r'" and "fetched E r' ctx req w (ctx', (None, original), w1)"
    and "initializeConditions r' ctx' (case defaulter E original of None \<Rightarrow> original | Some f \<Rightarrow> f original) w1
      = Some (prepared, w2)"
    and "resource_reconcile r' ctx' prepared w2 = Some ((result, e, resource), w3)"
    and "Resource_Reconcile E r ctx req w = Some (outcome, w')"
  shows "\<exists>cs. trace w' = trace w3 @ cs \<and>
    (if rrSkipStatusUpdate r' \<or> deletionTimestamp resource \<noteq> None \<or>
        statusDeepEqual E (status (synced original resource)) (status original)
     then filter status_write cs = [] \<and> outcome = (result, e)
     else \<exists>c. filter status_write cs = [c] \<and>
       (\<exists>cl. c = StatusUpdate cl (synced original resource) \<or>
             c = StatusPatch cl (synced original resource) original) \<and>
       (\<exists>h. outcome = (case replyErr (respond E h c) of None \<Rightarrow> (result, e) | Some e \<Rightarrow> (empty_result, Some e))))"
proof -
  from assms(5) have run: "(if rrSkipStatusUpdate r' then Some ((result, e), w3)
      else finish_status E ctx' (rrConfig r') resource original (result, e) w3) = Some (outcome, w')"
    by (simp add: Resource_Reconcile_fetched [OF assms(1,2)] assms(3,4))
  show ?thesis
  proof (cases "rrSkipStatusUpdate r'")
    case True
    with run show ?thesis by auto
  next
    case False
    with run have "finish_status E ctx' (rrConfig r') resource original (result, e) w3 = Some (outcome, w')" by simp
    from finish_status_run [OF this] False show ?thesis
      unfolding written_def by (auto split: if_splits)
  qed
qed

theorem Resource_status_written_witness:
  "\<exists>w' c. Resource_Reconcile (serving None) (demo_resource_reconciler clearing) background demo_request demo_world
      = Some ((empty_result, None), w') \<and> filter status_write (trace w') = [c]"
proof -
  let ?r = "demo_resource_reconciler clearing"
  let ?x = "fetched_parent\<lparr>status := StructStatus (demo_struct\<lparr>conditions := Some []\<rparr>)\<rparr>"
  obtain ctx' w1 where f: "fetched (serving None) ?r background demo_request demo_world (ctx', (None, fetched_parent), w1)"
    and t1: "trace w1 = trace demo_world @ [GroupVersionKindFor ''client'' (empty_object ''Parent''),
      Get ''client'' demo_request (empty_object ''Parent'')]"
    using demo_fetched by blast
  have i: "initializeConditions ?r ctx' (case defaulter (serving None) fetched_parent of None \<Rightarrow> fetched_parent
      | Some f \<Rightarrow> f fetched_parent) w1 = Some (fetched_parent, w1)"
    by (rule demo_initialize)
  have rec: "resource_reconcile ?r ctx' fetched_parent w1 = Some ((empty_result, None, ?x), w1)"
    by (simp add: resource_reconcile_def demo_resource_reconciler_def clearing_def copyGeneration_def
        fetched_parent_def demo_struct_def empty_object_def)
  have syn: "synced fetched_parent ?x = ?x"
    by (simp add: synced_def resource_conditions_def put_conditions_def fetched_parent_def demo_struct_def)
  have differ: "\<not> statusDeepEqual (serving None) (status ?x) (status fetched_parent)"
    by (simp add: serving_def demo_env_def fetched_parent_def demo_struct_def)
  have live: "deletionTimestamp ?x = None" by (simp add: fetched_parent_def empty_object_def)
  from demo_returns [OF f rec] obtain w' where run: "Resource_Reconcile (serving None) ?r background demo_request demo_world
      = Some ((empty_result, None), w')" by blast
  from Resource_status_written [OF demo_resource_init f i rec run] live differ obtain cs c where
    "trace w' = trace w1 @ cs" "filter status_write cs = [c]"
    unfolding syn by (auto simp del: not_None_eq)
  moreover have "trace demo_world = []" by (simp add: demo_world_def empty_world_def)
  ultimately have "filter status_write (trace w') = [c]" using t1 by simp
  with run show ?thesis by blast
qed

text \<open>
  Transition times: with distinct condition types, \<open>syncLastTransitionTime\<close> keeps the proposed
  conditions and their order and gives each the transition time of the original condition it equals in
  everything else, if there is one.
\<close>

theorem syncLastTransitionTime_spec:
  assumes "distinct (map condType proposed)" and "distinct (map condType originals)"
  shows "list_all2 (\<lambda>p p'. same_condition p' p \<and>
      (\<forall>q \<in> set originals. same_condition q p \<longrightarrow> condLastTransitionTime p' = condLastTransitionTime q) \<and>
      ((\<forall>q \<in> set originals. \<not> same_condition q p) \<longrightarrow> p' = p))
    proposed (syncLastTransitionTime proposed originals)"
  unfolding syncLastTransitionTime_eq [OF assms]
  by (auto simp: list_all2_map2 restored_same restored_time [OF assms(2)] restored_none intro!: list.rel_refl_strong)

theorem syncLastTransitionTime_spec_witness:
  "\<exists>p. syncLastTransitionTime
      [\<lparr>condType = ''Ready'', condStatus = ''True'', condObservedGeneration = 1, condLastTransitionTime = 9,
        condReason = ''Ready'', condMessage = []\<rparr>]
      [\<lparr>condType = ''Ready'', condStatus = ''True'', condObservedGeneration = 1, condLastTransitionTime = 5,
        condReason = ''Ready'', condMessage = []\<rparr>] = [p] \<and> condLastTransitionTime p = 5"
proof -
  let ?p = "\<lparr>condType = ''Ready'', condStatus = ''True'', condObservedGeneration = 1, condLastTransitionTime = 9,
    condReason = ''Ready'', condMessage = []\<rparr>"
  have d: "distinct (map condType [?p])" "distinct (map condType [?p\<lparr>condLastTransitionTime := 5\<rparr>])" by simp_all
  from syncLastTransitionTime_spec [OF d] show ?thesis
    by (auto simp: list_all2_Cons1 same_condition_def)
qed

text \<open>
  C26. No spurious writes: when the sub-reconciler leaves the status as it was fetched but for the
  transition times of its conditions, the request ends without a write and returns its outcome.
\<close>

theorem Resource_no_spurious_write:
  assumes "Resource_init r = Some r'" and "fetched E r' ctx req w (ctx', (None, original), w1)"
    and "initializeConditions r' ctx' (case defaulter E original of None \<Rightarrow> original | Some f \<Rightarrow> f original) w1
      = Some (prepared, w2)"
    and "resource_reconcile r' ctx' prepared w2 = Some ((result, e, resource), w3)"
    and "status original = StructStatus s" and "conditions s = Some originals" and "distinct (map condType originals)"
    and "status resource = StructStatus (s\<lparr>conditions := Some proposed\<rparr>)"
    and "list_all2 same_condition proposed originals"
    and "\<And>x. statusDeepEqual E x x"
  shows "Resource_Reconcile E r ctx req w = Some ((result, e), w3)"
proof -
  have "map condType proposed = map condType originals"
    using assms(9) by (induction rule: list_all2_induct) (auto simp: same_condition_def)
  then have d: "distinct (map condType proposed)" using assms(7) by simp
  have "map (restored originals) proposed = originals"
    using assms(7,9) by (rule restored_all)
  then have "syncLastTransitionTime proposed originals = originals"
    using syncLastTransitionTime_eq [OF d assms(7)] by simp
  moreover have same: "s\<lparr>conditions := Some originals\<rparr> = s" using assms(6) by (cases s) simp
  ultimately have "finish_status E ctx' (rrConfig r') resource original (result, e) w3 = Some ((result, e), w3)"
    using assms(5,6,8,10)
    by (simp add: finish_status_def resource_conditions_def put_conditions_def same)
  then show ?thesis
    by (simp add: Resource_Reconcile_fetched [OF assms(1,2)] assms(3,4))
qed

theorem Resource_no_spurious_write_witness:
  "\<exists>w'. Resource_Reconcile (serving None) (demo_resource_reconciler (touching 9)) background demo_request demo_world
      = Some ((empty_result, None), w') \<and> filter status_write (trace w') = []"
proof -
  let ?r = "demo_resource_reconciler (touching 9)"
  let ?cs = "[\<lparr>condType = ''Ready'', condStatus = ''True'', condObservedGeneration = 1,
       condLastTransitionTime = 9, condReason = ''Ready'', condMessage = []\<rparr>]"
  let ?os = "[\<lparr>condType = ''Ready'', condStatus = ''True'', condObservedGeneration = 1,
       condLastTransitionTime = 5, condReason = ''Ready'', condMessage = []\<rparr>]"
  let ?x = "fetched_parent\<lparr>status := StructStatus (demo_struct\<lparr>conditions := Some ?cs\<rparr>)\<rparr>"
  obtain ctx' w1 where f: "fetched (serving None) ?r background demo_request demo_world (ctx', (None, fetched_parent), w1)"
    and t1: "trace w1 = trace demo_world @ [GroupVersionKindFor ''client'' (empty_object ''Parent''),
      Get ''client'' demo_request (empty_object ''Parent'')]"
    using demo_fetched by blast
  have rec: "resource_reconcile ?r ctx' fetched_parent w1 = Some ((empty_result, None, ?x), w1)"
    by (simp add: resource_reconcile_def demo_resource_reconciler_def touching_def copyGeneration_def
        fetched_parent_def demo_struct_def empty_object_def)
  have "Resource_Reconcile (serving None) ?r background demo_request demo_world = Some ((empty_result, None), w1)"
    by (rule Resource_no_spurious_write [OF demo_resource_init f demo_initialize rec, where originals = ?os and proposed = ?cs and s = demo_struct])
      (simp_all add: fetched_parent_def demo_struct_def same_condition_def serving_def demo_env_def)
  moreover have "filter status_write (trace w1) = []"
    using t1 by (simp add: demo_world_def empty_world_def)
  ultimately show ?thesis by blast
qed

text \<open>
  C27. Halting is success: a sub-reconciler that returns \<open>ErrHaltSubReconcilers\<close>, however wrapped, cannot
  be told from one that returns the same result without an error.
\<close>

definition swallow_halt :: "sub_reconciler \<Rightarrow> sub_reconciler" where
  "swallow_halt s = s\<lparr>Reconcile := \<lambda>ctx resource w.
     map_option (\<lambda>((result, e, resource), w).
        ((result, (case e of None \<Rightarrow> None | Some e \<Rightarrow> if is_halt e then None else Some e), resource), w))
       (Reconcile s ctx resource w)\<rparr>"

theorem Resource_halt_is_success:
  "Resource_Reconcile E (r\<lparr>rrReconciler := Some s\<rparr>) ctx req w =
     Resource_Reconcile E (r\<lparr>rrReconciler := Some (swallow_halt s)\<rparr>) ctx req w"
proof (rule Resource_Reconcile_cong)
  fix r1 ctx' reply w1 resource w'
  have "resource_reconcile (r1\<lparr>rrReconciler := Some s\<rparr>) ctx' resource w' =
      resource_reconcile (r1\<lparr>rrReconciler := Some (swallow_halt s)\<rparr>) ctx' resource w'" for ctx' resource w'
  proof (cases "Reconcile s ctx' resource w'")
    case None
    then show ?thesis by (simp add: resource_reconcile_def swallow_halt_def)
  next
    case (Some out)
    obtain result e resource1 w1 where o: "out = ((result, e, resource1), w1)" by (metis prod.exhaust)
    with Some show ?thesis
      by (cases e) (auto simp: resource_reconcile_def swallow_halt_def)
  qed
  then show "resource_reconcile (r1\<lparr>rrReconciler := Some s\<rparr>) ctx' resource w' =
      resource_reconcile (r1\<lparr>rrReconciler := Some (swallow_halt s)\<rparr>) ctx' resource w'" .
qed

text \<open>
  C28. What sub-reconcilers see: sub-reconcilers that agree on contexts carrying the request, the
  configuration and a stash, and on resources that are live or have a finalizer, cannot be told apart.
\<close>

theorem Resource_context:
  assumes "\<And>ctx' resource w'. RetrieveRequest ctx' = req \<Longrightarrow> RetrieveConfig ctx' = Inr (rrConfig r) \<Longrightarrow>
      RetrieveOriginalConfig ctx' = Inr (rrConfig r) \<Longrightarrow> ctxStash ctx' = Some (nextStash w) \<Longrightarrow>
      deletionTimestamp resource = None \<or> finalizers resource \<noteq> [] \<Longrightarrow>
      Reconcile s ctx' resource w' = Reconcile s' ctx' resource w'"
  shows "Resource_Reconcile E (r\<lparr>rrReconciler := Some s\<rparr>) ctx req w =
    Resource_Reconcile E (r\<lparr>rrReconciler := Some s'\<rparr>) ctx req w"
proof (rule Resource_Reconcile_cong)
  fix r1 ctx' reply w1 resource w'
  assume "Resource_init r = Some r1" and f: "fetched E r1 ctx req w (ctx', reply, w1)"
  then have c: "rrConfig r1 = rrConfig r" by (auto simp: Resource_init_def Let_def split: if_splits)
  show "resource_reconcile (r1\<lparr>rrReconciler := Some s\<rparr>) ctx' resource w' =
      resource_reconcile (r1\<lparr>rrReconciler := Some s'\<rparr>) ctx' resource w'"
  proof (cases "deletionTimestamp resource = None \<or> finalizers resource \<noteq> []")
    case True
    from assms [OF fetched_context(1) [OF f] _ _ fetched_context(5) [OF f] True]
      fetched_context(2,3) [OF f] c
    have "Reconcile s ctx' resource w' = Reconcile s' ctx' resource w'" by simp
    then show ?thesis by (simp add: resource_reconcile_def)
  next
    case False
    then show ?thesis by (simp add: resource_reconcile_def)
  qed
qed


theorem Resource_context_witness:
  "Resource_Reconcile (serving None) ((demo_resource_reconciler noop)\<lparr>rrReconciler := Some noop\<rparr>) background
      \<lparr>nnNamespace = ''ns'', nnName = ''parent''\<rparr> demo_world =
   Resource_Reconcile (serving None) ((demo_resource_reconciler noop)\<lparr>rrReconciler := Some
      (noop\<lparr>Reconcile := \<lambda>ctx resource w. if ctxStash ctx = None then None
        else Some ((empty_result, None, resource), w)\<rparr>)\<rparr>) background
      \<lparr>nnNamespace = ''ns'', nnName = ''parent''\<rparr> demo_world"
  by (rule Resource_context) (simp add: noop_def)

end
