(* ===== verification/Aggregate.thy ===== *)
theory Aggregate
  imports Resource
begin

text \<open>
  \<open>AggregateReconciler\<close> of \<^verbatim>\<open>src/reconcilers/aggregate.go\<close>: a single resource, identified by its request,
  that is brought to a desired state.  The resource is its own parent, so the manager is called with
  \<open>resource\<close> and \<open>actual\<close> being the same pointer.
\<close>

section \<open>The reconciler\<close>

text \<open>\<open>DesiredResource\<close> gets a copy of the resource, so it cannot change the resource.\<close>

record AggregateReconciler =
  agGoType :: "string option"
  agStampId :: nat
  agName :: string
  agSetup :: "setup_fun option"
  agType :: "object option"
  agRequest :: namespaced_name
  agReconciler :: "sub_reconciler option"
  agDesiredResource :: "(ctx \<Rightarrow> object \<Rightarrow> (world, object option \<times> err option) go) option"
  agHarmonizeImmutableFields :: "(object \<Rightarrow> object \<Rightarrow> object \<times> object) option"
  agMergeBeforeUpdate :: "(object \<Rightarrow> object \<Rightarrow> object \<times> object) option"
  agSanitize :: "(object \<Rightarrow> log_value) option"
  agConfig :: Config
  agStamp :: "ResourceManager option"

definition Aggregate_init :: "AggregateReconciler \<Rightarrow> AggregateReconciler option" where
  "Aggregate_init r =
     do { t \<leftarrow> default_type (agType r) (agGoType r);
          let r = r\<lparr>agType := Some t\<rparr>;
          let r = (if agName r = [] then r\<lparr>agName := typeName t @ ''AggregateReconciler''\<rparr> else r);
          let r = (if agReconciler r = None then r\<lparr>agReconciler := Some (Sequence [])\<rparr> else r);
          let r = (if agDesiredResource r = None
                   then r\<lparr>agDesiredResource := Some (\<lambda>ctx resource w. Some ((Some resource, None), w))\<rparr> else r);
          Some (r\<lparr>agStamp := Some
            \<lparr>rmId = agStampId r, rmGoType = agGoType r, rmName = agName r, rmType = agType r,
             rmFinalizer = [], rmTrackDesired = False,
             rmHarmonizeImmutableFields = agHarmonizeImmutableFields r,
             rmMergeBeforeUpdate = agMergeBeforeUpdate r, rmSanitize = agSanitize r\<rparr>\<rparr>) }"

definition Aggregate_validate :: "AggregateReconciler \<Rightarrow> err option" where
  "Aggregate_validate r =
     (if nnName (agRequest r) = []
      then Some (Errorf ''AggregateReconciler %q must define Request'' [agName r])
      else if agReconciler r = None \<and> agDesiredResource r = None
      then Some (Errorf ''AggregateReconciler %q must define Reconciler and/or DesiredResource'' [agName r])
      else None)"

definition setup_stamp :: "ResourceManager option \<Rightarrow> (world, err option) go" where
  "setup_stamp s w = do { s \<leftarrow> s; ((e, s), w) \<leftarrow> ResourceManager_Setup s w; Some (e, w) }"

definition Aggregate_SetupWithManagerYieldingController ::
    "env \<Rightarrow> AggregateReconciler \<Rightarrow> ctx \<Rightarrow> (world, err option) go" where
  "Aggregate_SetupWithManagerYieldingController E r ctx w =
     do { r \<leftarrow> Aggregate_init r;
          t \<leftarrow> agType r;
          (k, w) \<leftarrow> client_gvk E (Client (agConfig r)) t w;
          let ctx = stash_types (WithName (agName r) ctx) (agConfig r) t;
          case Aggregate_validate r of
            Some e \<Rightarrow> Some (Some e, w)
          | None \<Rightarrow>
              on_success (build_for E (agConfig r) t)
                (on_success (optional_setup (agSetup r) ctx)
                  (on_success (setup_of (agReconciler r) ctx)
                    (on_success (setup_stamp (agStamp r)) (build E)))) w }"

definition Aggregate_SetupWithManager :: "env \<Rightarrow> AggregateReconciler \<Rightarrow> ctx \<Rightarrow> (world, err option) go" where
  "Aggregate_SetupWithManager E r ctx w = Aggregate_SetupWithManagerYieldingController E r ctx w"

definition desiredResource ::
    "AggregateReconciler \<Rightarrow> ctx \<Rightarrow> object \<Rightarrow> (world, object option \<times> err option) go" where
  "desiredResource r ctx resource w =
     (if deletionTimestamp resource \<noteq> None then Some ((None, None), w)
      else do { f \<leftarrow> agDesiredResource r; f ctx resource w })"

section \<open>Reconcile\<close>

text \<open>From the sub-reconciler on.  The second tracker makes tracking by the desired resource pointless.\<close>

definition aggregate_manage ::
    "env \<Rightarrow> AggregateReconciler \<Rightarrow> ctx \<Rightarrow> Config \<Rightarrow> object \<Rightarrow> result \<Rightarrow> (world, result \<times> err option) go" where
  "aggregate_manage E r ctx c resource result w =
     (let (t, w) = new_tracker 0 w;
          ctx = StashConfig ctx \<lparr>Client = Client c, APIReader = APIReader c, Recorder = Recorder c, Tracker = Some t\<rparr>
      in do { ((desired, e), w) \<leftarrow> desiredResource r ctx resource w;
              case e of
                Some e \<Rightarrow> Some ((empty_result, Some e), w)
              | None \<Rightarrow>
                  do { stamp \<leftarrow> agStamp r;
                       ((child, e, resource), w) \<leftarrow> Manage E stamp ctx True resource (Some resource) desired w;
                       case e of
                         Some e \<Rightarrow> Some ((empty_result, Some e), w)
                       | None \<Rightarrow> Some ((result, None), w) } })"

definition aggregate_reconcile ::
    "env \<Rightarrow> AggregateReconciler \<Rightarrow> ctx \<Rightarrow> Config \<Rightarrow> object \<Rightarrow> (world, result \<times> err option) go" where
  "aggregate_reconcile E r ctx c resource w =
     (if deletionTimestamp resource \<noteq> None then Some ((empty_result, None), w)
      else do { s \<leftarrow> agReconciler r;
                ((result, e, resource), w) \<leftarrow> Reconcile s ctx resource w;
                if (case e of None \<Rightarrow> False | Some e \<Rightarrow> \<not> is_halt e)
                then Some ((result, e), w)
                else aggregate_manage E r ctx c resource result w })"

definition Aggregate_Reconcile ::
    "env \<Rightarrow> AggregateReconciler \<Rightarrow> ctx \<Rightarrow> namespaced_name \<Rightarrow> (world, result \<times> err option) go" where
  "Aggregate_Reconcile E r ctx req w =
     do { r \<leftarrow> Aggregate_init r;
          if nnNamespace req \<noteq> nnNamespace (agRequest r) \<or> nnName req \<noteq> nnName (agRequest r)
          then Some ((empty_result, None), w)
          else do { t \<leftarrow> agType r;
                    let (ctx, w) = WithStash ctx w;
                    let c = agConfig r;
                    (k, w) \<leftarrow> client_gvk E (Client c) t w;
                    let ctx = request_ctx E (agName r) c t req ctx w;
                    ((e, resource), w) \<leftarrow> client_Get E (Client c) req t w;
                    case e of
                      None \<Rightarrow> aggregate_reconcile E r ctx c resource w
                    | Some e \<Rightarrow>
                        (if isNotFound E e
                         then aggregate_reconcile E r ctx c
                           (resource\<lparr>objNamespace := nnNamespace (agRequest r), objName := nnName (agRequest r)\<rparr>) w
                         else (let w = (if \<not> is_quiet e then log_error ctx e ''unable to fetch resource'' [] w else w)
                               in Some ((empty_result, Some e), w))) } }"

section \<open>Runs\<close>

lemma writes_calls:
  "client_gvk E cl x w = Some (k, w') \<Longrightarrow> writes w w' []"
  "client_Get E cl key x w = Some (y, w') \<Longrightarrow> writes w w' []"
  by (auto simp: client_gvk_def client_GroupVersionKindFor_def client_Get_def invoke_def writes_def record_call_def)

lemma Aggregate_init_fields:
  assumes "Aggregate_init r = Some r'"
  shows "agRequest r' = agRequest r" and "agConfig r' = agConfig r"
    and "agReconciler r' = Some (case agReconciler r of None \<Rightarrow> Sequence [] | Some s \<Rightarrow> s)"
    and "agDesiredResource r' = Some (case agDesiredResource r of
      None \<Rightarrow> (\<lambda>ctx resource w. Some ((Some resource, None), w)) | Some f \<Rightarrow> f)"
    and "\<exists>stamp. agStamp r' = Some stamp \<and> rmFinalizer stamp = [] \<and> \<not> rmTrackDesired stamp"
  using assms by (auto simp: Aggregate_init_def Let_def split: if_splits)

lemma init_finalizer: "ResourceManager_init r w = Some (r', w') \<Longrightarrow> rmFinalizer r' = rmFinalizer r"
  by (auto simp: ResourceManager_init_def Let_def split: if_splits)

lemma init_track: "ResourceManager_init r w = Some (r', w') \<Longrightarrow> rmTrackDesired r' = rmTrackDesired r"
  by (auto simp: ResourceManager_init_def Let_def split: if_splits)

lemma manage_create_untracked:
  assumes "manage_create E r ctx pc c resource desired w = Some ((child, e, resource'), w')"
    and "\<not> rmTrackDesired r" and "Client c = Some cl"
  shows "writes w w' [Create cl desired] \<and> e = replyErr (respond E
    (trace w @ [LogInfo (ctxLogger ctx) ''creating resource'' [sanitize r (Some desired)]]) (Create cl desired))"
  using assms unfolding manage_create_def Let_def
  by (auto simp: client_write_def invoke_def record_failure_def Eventf_def writes_def log_info_def
      log_error_def record_call_def Let_def split: option.splits if_splits)

text \<open>
  Managing a resource that does not exist: it is created as desired, or left alone when nothing is
  desired.
\<close>

lemma Manage_missing:
  assumes "Manage E r ctx True resource (Some resource) desired w = Some ((child, e, resource'), w')"
    and "rmFinalizer r = []" and "\<not> rmTrackDesired r" and "creationTimestamp resource = None"
    and "ctxConfig ctx = Some c" and "Client c = Some cl"
  shows "case desired of
      None \<Rightarrow> writes w w' [] \<and> e = None
    | Some d \<Rightarrow> writes w w' [Create cl d] \<and> (\<exists>h. e = replyErr (respond E h (Create cl d)))"
proof -
  from assms(1) [unfolded Manage_def] obtain r1 w1 where i: "ResourceManager_init r w = Some (r1, w1)" by auto
  have r1: "rmFinalizer r1 = []" "\<not> rmTrackDesired r1"
    using init_finalizer [OF i] init_track [OF i] assms(2,3) by simp_all
  have c: "RetrieveConfigOrDie ctx = Some c"
    using assms(5) by (simp add: RetrieveConfigOrDie_def RetrieveConfig_def)
  show ?thesis
  proof (cases desired)
    case None
    with assms(1,4) i r1 have "e = None" and "w' = w1"
      by (auto simp: Manage_def missing_def ClearFinalizer_def ensureFinalizer_noop)
    with None writes_init [OF i] show ?thesis by simp
  next
    case (Some d)
    with assms(1,4) i r1 c obtain pc where
      "manage_create E r1 ctx pc c resource d w1 = Some ((child, e, resource'), w')"
      by (auto simp: Manage_def missing_def AddFinalizer_def ensureFinalizer_noop)
    from manage_create_untracked [OF this r1(2) assms(6)] Some writes_none(1) [OF writes_init [OF i]]
    show ?thesis by auto
  qed
qed

lemma aggregate_manage_missing:
  assumes "aggregate_manage E r ctx c resource result w = Some (out, w')"
    and "agDesiredResource r = Some f" and "agStamp r = Some stamp"
    and "rmFinalizer stamp = []" and "\<not> rmTrackDesired stamp" and "Client c = Some cl"
    and "creationTimestamp resource = None" and "deletionTimestamp resource = None"
  shows "\<exists>ctx' v desired e w1. f ctx' resource v = Some ((desired, e), w1) \<and> writes w v [] \<and>
    (case e of
       Some er \<Rightarrow> out = (empty_result, Some er) \<and> w' = w1
     | None \<Rightarrow>
         (case desired of
            None \<Rightarrow> writes w1 w' [] \<and> out = (result, None)
          | Some d \<Rightarrow> writes w1 w' [Create cl d] \<and>
              (\<exists>h. out = (case replyErr (respond E h (Create cl d)) of
                None \<Rightarrow> (result, None) | Some er \<Rightarrow> (empty_result, Some er)))))"
proof -
  let ?v = "snd (new_tracker 0 w)"
  let ?c = "\<lparr>Client = Client c, APIReader = APIReader c, Recorder = Recorder c, Tracker = Some (fst (new_tracker 0 w))\<rparr>"
  let ?ctx = "StashConfig ctx ?c"
  have v: "writes w ?v []" by (simp add: new_tracker_def writes_def)
  from assms(1,2,3,8) obtain desired e w1 where f: "f ?ctx resource ?v = Some ((desired, e), w1)"
    and rest: "(case e of
        Some e \<Rightarrow> Some ((empty_result, Some e), w1)
      | None \<Rightarrow>
          do { ((child, e, resource), w) \<leftarrow> Manage E stamp ?ctx True resource (Some resource) desired w1;
               case e of
                 Some e \<Rightarrow> Some ((empty_result, Some e), w)
               | None \<Rightarrow> Some ((result, None), w) }) = Some (out, w')"
    by (auto simp: aggregate_manage_def desiredResource_def case_prod_beta Let_def cong: option.case_cong)
  show ?thesis
  proof (cases e)
    case (Some er)
    with f v rest show ?thesis by (intro exI [of _ ?ctx] exI [of _ ?v]) auto
  next
    case None
    with rest obtain child e2 resource' w2 where
      m: "Manage E stamp ?ctx True resource (Some resource) desired w1 = Some ((child, e2, resource'), w2)"
      and o: "(case e2 of Some e \<Rightarrow> Some ((empty_result, Some e), w2) | None \<Rightarrow> Some ((result, None), w2)) = Some (out, w')"
      by auto
    have o: "w2 = w'" "out = (case e2 of None \<Rightarrow> (result, None) | Some er \<Rightarrow> (empty_result, Some er))"
      using o by (auto split: option.splits)
    have c: "ctxConfig ?ctx = Some ?c" "Client ?c = Some cl"
      using assms(6) by (simp_all add: StashConfig_def)
    have "case desired of
        None \<Rightarrow> writes w1 w' [] \<and> out = (result, None)
      | Some d \<Rightarrow> writes w1 w' [Create cl d] \<and>
          (\<exists>h. out = (case replyErr (respond E h (Create cl d)) of
            None \<Rightarrow> (result, None) | Some er \<Rightarrow> (empty_result, Some er)))"
    proof (cases desired)
      case None
      with Manage_missing [OF m assms(4,5,7) c] o show ?thesis by simp
    next
      case (Some d)
      with Manage_missing [OF m assms(4,5,7) c] o(1) obtain h where
        "writes w1 w' [Create cl d]" and "e2 = replyErr (respond E h (Create cl d))" by auto
      with Some o(2) show ?thesis by auto
    qed
    with f v None show ?thesis
      by - (rule exI [of _ ?ctx], rule exI [of _ ?v], rule exI [of _ desired], rule exI [of _ e],
          rule exI [of _ w1], simp)
  qed
qed

section \<open>A small instance\<close>

definition demo_aggregate :: AggregateReconciler where
  "demo_aggregate =
     \<lparr>agGoType = Some ''Parent'', agStampId = 0, agName = ''aggregate'', agSetup = None, agType = None,
      agRequest = demo_request, agReconciler = None, agDesiredResource = None, agHarmonizeImmutableFields = None,
      agMergeBeforeUpdate = Some demo_merge, agSanitize = None, agConfig = demo_config, agStamp = None\<rparr>"

section \<open>Properties\<close>

text \<open>
  An aggregate reconciler ignores requests for any other resource: it returns the empty result and
  makes no call.
\<close>

theorem Aggregate_ignores_others:
  assumes "Aggregate_init r = Some r'" and "req \<noteq> agRequest r"
  shows "Aggregate_Reconcile E r ctx req w = Some ((empty_result, None), w)"
  using assms Aggregate_init_fields(1) [OF assms(1)] by (auto simp: Aggregate_Reconcile_def)

theorem Aggregate_ignores_others_witness:
  "Aggregate_Reconcile (serving None) demo_aggregate background \<lparr>nnNamespace = ''ns'', nnName = ''other''\<rparr> demo_world =
     Some ((empty_result, None), demo_world)"
proof -
  obtain r' where "Aggregate_init demo_aggregate = Some r'"
    by (simp add: Aggregate_init_def demo_aggregate_def default_type_def Let_def)
  then show ?thesis by (rule Aggregate_ignores_others) (simp add: demo_aggregate_def demo_request_def)
qed

text \<open>
  C30. An aggregate reconciler creates its resource when it does not exist.  When the read says that the
  resource is not found, the sub-reconciler is run on what the read left, under the requested name and
  with nothing written before; an error of it that does not halt is returned and nothing more is done.
  Otherwise \<open>DesiredResource\<close> is asked with the resource as the sub-reconciler left it (provided that
  it did not make it look created or deleted); its error is returned, a resource it returns is created
  by the one write that follows, and none is made when it returns nothing.  The result is the
  sub-reconciler's, unless the server refused the create.
\<close>

theorem Aggregate_creates_missing:
  assumes "Aggregate_init r = Some r'" and "agType r' = Some t"
    and "agReconciler r' = Some s" and "agDesiredResource r' = Some f"
    and "Client (agConfig r) = Some cl"
    and "reply = respond E (trace w @ [GroupVersionKindFor cl t]) (Get cl (agRequest r) t)"
    and "replyErr reply = Some er" and "isNotFound E er" and "deletionTimestamp (replyObject reply) = None"
    and "Aggregate_Reconcile E r ctx (agRequest r) w = Some (out, w')"
  shows "\<exists>ctx1 w1 result e x w2.
    Reconcile s ctx1 ((replyObject reply)\<lparr>objNamespace := nnNamespace (agRequest r), objName := nnName (agRequest r)\<rparr>)
      w1 = Some ((result, e, x), w2) \<and> writes w w1 [] \<and>
    ctxConfig ctx1 = Some (agConfig r) \<and> ctxRequest ctx1 = Some (agRequest r) \<and>
    (if e \<noteq> None \<and> \<not> is_halt (the e) then out = (result, e) \<and> w' = w2
     else creationTimestamp x = None \<and> deletionTimestamp x = None \<longrightarrow>
       (\<exists>ctx2 v desired e2 w3. f ctx2 x v = Some ((desired, e2), w3) \<and> writes w2 v [] \<and>
         (case e2 of
            Some er \<Rightarrow> out = (empty_result, Some er) \<and> w' = w3
          | None \<Rightarrow>
              (case desired of
                 None \<Rightarrow> writes w3 w' [] \<and> out = (result, None)
               | Some d \<Rightarrow> writes w3 w' [Create cl d] \<and>
                   (\<exists>h. out = (case replyErr (respond E h (Create cl d)) of
                     None \<Rightarrow> (result, None) | Some er \<Rightarrow> (empty_result, Some er)))))))"
proof -
  let ?x = "(replyObject reply)\<lparr>objNamespace := nnNamespace (agRequest r), objName := nnName (agRequest r)\<rparr>"
  note fields = Aggregate_init_fields [OF assms(1)]
  from fields(5) obtain stamp where stamp: "agStamp r' = Some stamp" "rmFinalizer stamp = []"
    "\<not> rmTrackDesired stamp" by blast
  obtain ctx0 w0 where st: "WithStash ctx w = (ctx0, w0)" by fastforce
  then have w0: "trace w0 = trace w" by (auto simp: WithStash_def)
  from assms(10) [unfolded Aggregate_Reconcile_def Let_def] assms(1,2,5) fields(1,2) st obtain k w1 e1 y w2 where
    g: "client_gvk E (Client (agConfig r)) t w0 = Some (k, w1)"
    and get: "client_Get E (Client (agConfig r)) (agRequest r) t w1 = Some ((e1, y), w2)"
    and rest: "(case e1 of
        None \<Rightarrow> aggregate_reconcile E r' (request_ctx E (agName r') (agConfig r) t (agRequest r) ctx0 w1) (agConfig r) y w2
      | Some e \<Rightarrow>
          (if isNotFound E e
           then aggregate_reconcile E r' (request_ctx E (agName r') (agConfig r) t (agRequest r) ctx0 w1) (agConfig r)
             (y\<lparr>objNamespace := nnNamespace (agRequest r), objName := nnName (agRequest r)\<rparr>) w2
           else Some ((empty_result, Some e), if \<not> is_quiet e
             then log_error (request_ctx E (agName r') (agConfig r) t (agRequest r) ctx0 w1) e
               ''unable to fetch resource'' [] w2 else w2))) = Some (out, w')"
    by (auto cong: option.case_cong if_cong)
  let ?ctx = "request_ctx E (agName r') (agConfig r) t (agRequest r) ctx0 w1"
  have "e1 = Some er" and "y = replyObject reply"
    using w0 g get assms(5,6,7)
    by (auto simp: client_gvk_def client_GroupVersionKindFor_def client_Get_def invoke_def record_call_def)
  with rest assms(8) have "aggregate_reconcile E r' ?ctx (agConfig r) ?x w2 = Some (out, w')" by simp
  with assms(3,9) obtain result e x w3 where rec: "Reconcile s ?ctx ?x w2 = Some ((result, e, x), w3)"
    and rest: "(if (case e of None \<Rightarrow> False | Some e \<Rightarrow> \<not> is_halt e) then Some ((result, e), w3)
      else aggregate_manage E r' ?ctx (agConfig r) x result w3) = Some (out, w')"
    by (auto simp: aggregate_reconcile_def)
  have "writes w0 w2 []" by (rule writes_none(1) [OF writes_calls(1) [OF g] writes_calls(2) [OF get]])
  then have "writes w w2 []" by (simp add: writes_def w0)
  moreover have "ctxConfig ?ctx = Some (agConfig r)" "ctxRequest ?ctx = Some (agRequest r)"
    by (simp_all add: request_ctx_def stash_types_def StashConfig_def StashOriginalConfig_def StashResourceType_def
        StashOriginalResourceType_def StashRequest_def Let_def)
  moreover have "if e \<noteq> None \<and> \<not> is_halt (the e) then out = (result, e) \<and> w' = w3
     else creationTimestamp x = None \<and> deletionTimestamp x = None \<longrightarrow>
       (\<exists>ctx2 v desired e2 w4. f ctx2 x v = Some ((desired, e2), w4) \<and> writes w3 v [] \<and>
         (case e2 of
            Some er \<Rightarrow> out = (empty_result, Some er) \<and> w' = w4
          | None \<Rightarrow>
              (case desired of
                 None \<Rightarrow> writes w4 w' [] \<and> out = (result, None)
               | Some d \<Rightarrow> writes w4 w' [Create cl d] \<and>
                   (\<exists>h. out = (case replyErr (respond E h (Create cl d)) of
                     None \<Rightarrow> (result, None) | Some er \<Rightarrow> (empty_result, Some er))))))"
  proof (cases "e \<noteq> None \<and> \<not> is_halt (the e)")
    case True
    with rest show ?thesis by (auto split: option.splits)
  next
    case False
    with rest have m: "aggregate_manage E r' ?ctx (agConfig r) x result w3 = Some (out, w')"
      by (auto split: option.splits if_splits)
    have "creationTimestamp x = None \<and> deletionTimestamp x = None \<longrightarrow>
       (\<exists>ctx2 v desired e2 w4. f ctx2 x v = Some ((desired, e2), w4) \<and> writes w3 v [] \<and>
         (case e2 of
            Some er \<Rightarrow> out = (empty_result, Some er) \<and> w' = w4
          | None \<Rightarrow>
              (case desired of
                 None \<Rightarrow> writes w4 w' [] \<and> out = (result, None)
               | Some d \<Rightarrow> writes w4 w' [Create cl d] \<and>
                   (\<exists>h. out = (case replyErr (respond E h (Create cl d)) of
                     None \<Rightarrow> (result, None) | Some er \<Rightarrow> (empty_result, Some er))))))"
      using aggregate_manage_missing [OF m assms(4) stamp assms(5)] by blast
    then show ?thesis using False by (simp only: if_False)
  qed
  ultimately show ?thesis using rec by blast
qed

text \<open>An aggregate whose desired resource has a body of its own.\<close>

definition filled_aggregate :: AggregateReconciler where
  "filled_aggregate = demo_aggregate\<lparr>agReconciler := Some noop,
     agDesiredResource := Some (\<lambda>ctx resource w. Some ((Some (resource\<lparr>body := ''desired''\<rparr>), None), w))\<rparr>"

theorem Aggregate_creates_missing_witness:
  "\<exists>w' w3. Aggregate_Reconcile (serving (Some (Foreign ''NotFound'' []))) filled_aggregate background demo_request
      demo_world = Some ((empty_result, None), w') \<and>
    writes w3 w' [Create ''client'' (fetched_parent\<lparr>body := ''desired''\<rparr>)] \<and> writes demo_world w3 []"
proof -
  let ?E = "serving (Some (Foreign ''NotFound'' []))"
  obtain r' where i: "Aggregate_init filled_aggregate = Some r'" and t: "agType r' = Some (empty_object ''Parent'')"
    by (simp add: Aggregate_init_def filled_aggregate_def demo_aggregate_def default_type_def Let_def)
  have plain: "(fetched_parent\<lparr>objNamespace := ''ns'', objName := ''parent''\<rparr>) = fetched_parent"
    "creationTimestamp fetched_parent = None" "deletionTimestamp fetched_parent = None"
    by (simp_all add: fetched_parent_def empty_object_def)
  have f: "agConfig filled_aggregate = demo_config" "Client demo_config = Some ''client''"
    "agRequest filled_aggregate = demo_request"
    by (simp_all add: filled_aggregate_def demo_aggregate_def demo_config_def)
  let ?f = "\<lambda>ctx resource w. Some ((Some (resource\<lparr>body := ''desired''\<rparr>), None), w)"
  have r': "agReconciler r' = Some noop" "agDesiredResource r' = Some ?f"
    using Aggregate_init_fields [OF i] by (simp_all add: filled_aggregate_def)
  have s: "agStamp r' = Some \<lparr>rmId = 0, rmGoType = Some ''Parent'', rmName = ''aggregate'', rmType = Some (empty_object ''Parent''),
      rmFinalizer = [], rmTrackDesired = False, rmHarmonizeImmutableFields = None,
      rmMergeBeforeUpdate = Some demo_merge, rmSanitize = None\<rparr>"
    using i by (auto simp: Aggregate_init_def filled_aggregate_def demo_aggregate_def default_type_def Let_def)
  have answers: "replyErr (respond ?E h (Create c x)) = None" for h c x
    by (simp add: serving_def)
  have go: "\<exists>w'. aggregate_reconcile ?E r' ctx demo_config fetched_parent w = Some ((empty_result, None), w')"
    if "ctxOriginalConfig ctx = Some demo_config" for ctx w
    using that plain s f
    by (simp add: aggregate_reconcile_def aggregate_manage_def r' noop_def
        desiredResource_def new_tracker_def Manage_def ResourceManager_init_def default_type_def
        AddFinalizer_def ensureFinalizer_noop missing_def manage_create_def client_write_def invoke_def answers
        RetrieveConfigOrDie_def RetrieveOriginalConfigOrDie_def RetrieveOriginalConfig_def RetrieveConfig_def StashConfig_def Eventf_def demo_config_def Let_def)
  have reads: "replyErr (respond ?E h (Get c k x)) = Some (Foreign ''NotFound'' [])"
    "replyObject (respond ?E h (Get c k x)) = fetched_parent" "isNotFound ?E (Foreign ''NotFound'' [])" for h c k x
    by (simp_all add: serving_def demo_env_def)
  have "\<exists>w'. Aggregate_Reconcile ?E filled_aggregate background demo_request demo_world = Some ((empty_result, None), w')"
    using go plain
    by (simp add: Aggregate_Reconcile_def i t Aggregate_init_fields [OF i] f WithStash_def client_gvk_def
        client_GroupVersionKindFor_def client_Get_def invoke_def reads demo_request_def
        request_ctx_def StashOriginalConfig_def StashConfig_def stash_types_def StashRequest_def
        StashOriginalResourceType_def StashResourceType_def)
  then obtain w' where run: "Aggregate_Reconcile ?E filled_aggregate background (agRequest filled_aggregate) demo_world
      = Some ((empty_result, None), w')"
    using f by auto
  note c = Aggregate_creates_missing [OF i t r' f(2) [folded f(1)] refl reads(1,3) _ run, unfolded reads(2) f(3)]
  have "\<exists>w3. writes w3 w' [Create ''client'' (fetched_parent\<lparr>body := ''desired''\<rparr>)] \<and> writes demo_world w3 []"
    using c plain by (auto simp: noop_def demo_request_def dest: writes_none(1))
  with run f show ?thesis by auto
qed

text \<open>
  Validation of an aggregate reconciler after \<open>init\<close> only asks for a name in the request: \<open>init\<close> has
  filled in \<open>Reconciler\<close> and \<open>DesiredResource\<close>, so the error for lacking both is never returned.
\<close>

theorem Aggregate_validate_name_only:
  assumes "Aggregate_init r = Some r'"
  shows "Aggregate_validate r' \<noteq> None \<longleftrightarrow> nnName (agRequest r) = []"
  using Aggregate_init_fields [OF assms] by (auto simp: Aggregate_validate_def)

theorem Aggregate_validate_name_only_witness:
  "\<exists>r'. Aggregate_init demo_aggregate = Some r' \<and> Aggregate_validate r' = None"
proof -
  obtain r' where i: "Aggregate_init demo_aggregate = Some r'"
    by (simp add: Aggregate_init_def demo_aggregate_def default_type_def Let_def)
  from Aggregate_validate_name_only [OF i] i show ?thesis by (simp add: demo_aggregate_def demo_request_def)
qed

end
