(* ===== verification/Cast.thy ===== *)
theory Cast
  imports Manager
begin

text \<open>
  \<open>CastResource\<close> of \<^verbatim>\<open>src/reconcilers/cast.go\<close>: running a sub-reconciler on a projection of the resource
  to another type, and patching the resource with what it changed.
\<close>

text \<open>
  \<open>caGoType\<close> is the cast type, \<open>None\<close> for an interface, which \<open>caImplements\<close> says the resource
  implements.
\<close>

record CastResource =
  caGoType :: "string option"
  caImplements :: "object \<Rightarrow> bool"
  caName :: string
  caReconciler :: "sub_reconciler option"
  caNoop :: bool

definition Cast_init :: "CastResource \<Rightarrow> CastResource" where
  "Cast_init r =
     (case caGoType r of
        None \<Rightarrow> r\<lparr>caNoop := True\<rparr>
      | Some ct \<Rightarrow> if caName r = [] then r\<lparr>caName := typeName (empty_object ct) @ ''CastResource''\<rparr> else r)"

definition Cast_validate :: "CastResource \<Rightarrow> err option" where
  "Cast_validate r =
     (if caReconciler r = None then Some (Errorf ''CastResource %q must define Reconciler'' [caName r]) else None)"

definition Cast_SetupWithManager :: "CastResource \<Rightarrow> setup_fun" where
  "Cast_SetupWithManager r ctx w =
     (let r = Cast_init r
      in if \<not> caNoop r
         then (let ctx = WithName (caName r) ctx
               in case Cast_validate r of
                    Some e \<Rightarrow> Some (Some e, w)
                  | None \<Rightarrow> setup_of (caReconciler r) ctx w)
         else setup_of (caReconciler r) ctx w)"

definition cast :: "env \<Rightarrow> string \<Rightarrow> ctx \<Rightarrow> object \<Rightarrow> (world, err + ctx \<times> object) go" where
  "cast E ct ctx resource w =
     (case jsonMarshal E resource of
        Inl e \<Rightarrow> Some (Inl e, w)
      | Inr data \<Rightarrow>
          (let (e, castResource) = jsonUnmarshal E data (empty_object ct)
           in case e of
                Some e \<Rightarrow> Some (Inl e, w)
              | None \<Rightarrow>
                  do { (castResource, w) \<leftarrow>
                         (if gvk_Empty (objectKind castResource)
                          then do { c \<leftarrow> RetrieveConfigOrDie ctx;
                                    (k, w) \<leftarrow> client_gvk E (Client c) resource w;
                                    Some (castResource\<lparr>objectKind := k\<rparr>, w) }
                          else Some (castResource, w));
                       Some (Inr (StashResourceType ctx castResource, castResource), w) }))"

text \<open>What is done once the sub-reconciler has returned: the new resource and the collected errors.\<close>

definition cast_back :: "env \<Rightarrow> object \<Rightarrow> object \<Rightarrow> object \<Rightarrow> err list \<Rightarrow> err list \<times> object" where
  "cast_back E castOriginal castResource resource errs =
     (if \<not> deepEqual E castResource castOriginal
      then (case NewPatch E castOriginal castResource of
              Inl e \<Rightarrow> (errs @ [e], resource)
            | Inr patch \<Rightarrow>
                (let (e, resource) = Patch_Apply E patch resource
                 in case e of Some e \<Rightarrow> (errs @ [e], resource) | None \<Rightarrow> (errs, resource)))
      else (errs, resource))"

definition Cast_Reconcile :: "env \<Rightarrow> CastResource \<Rightarrow> ctx \<Rightarrow> object \<Rightarrow> (world, reconciled) go" where
  "Cast_Reconcile E r ctx resource w =
     (let r = Cast_init r
      in if caNoop r
         then (if caImplements r resource then do { s \<leftarrow> caReconciler r; Reconcile s ctx resource w } else None)
         else do { ct \<leftarrow> caGoType r;
                   let ctx = WithName (caName r) ctx;
                   (out, w) \<leftarrow> cast E ct ctx resource w;
                   case out of
                     Inl e \<Rightarrow> Some ((empty_result, Some e, resource), w)
                   | Inr (ctx, castResource) \<Rightarrow>
                       do { let castOriginal = castResource;
                            s \<leftarrow> caReconciler r;
                            ((result, e, castResource), w) \<leftarrow> Reconcile s ctx castResource w;
                            let errs = (case e of None \<Rightarrow> [] | Some e \<Rightarrow> [e]);
                            let (errs, resource) = cast_back E castOriginal castResource resource errs;
                            Some ((result, newAggregate E errs, resource), w) } })"

text \<open>
  Documented behaviour of \<open>NewAggregate\<close>: no error for an empty list, and an aggregate is whatever its
  members are.
\<close>

definition aggregate_law :: "env \<Rightarrow> bool" where
  "aggregate_law E \<longleftrightarrow>
     newAggregate E [] = None \<and>
     (\<forall>es. es \<noteq> [] \<longrightarrow> (\<exists>e. newAggregate E es = Some e \<and>
        (\<forall>t. (\<exists>e' \<in> set es. errors_is e' t) \<longrightarrow> errors_is e t)))"

lemma demo_aggregate_law: "aggregate_law demo_env"
  by (auto simp: aggregate_law_def demo_env_def)

lemma cast_back_errs: "\<exists>more. fst (cast_back E original castResource resource errs) = errs @ more"
  by (auto simp: cast_back_def Let_def split: sum.split prod.split option.split)

lemma Cast_run:
  assumes "caGoType r = Some ct" and "\<not> caNoop r" and "caReconciler r = Some s"
    and "cast E ct (WithName (caName (Cast_init r)) ctx) resource w = Some (Inr (ctx', castResource), w1)"
    and "Reconcile s ctx' castResource w1 = Some ((result, e, castResource1), w2)"
  shows "Cast_Reconcile E r ctx resource w =
    (case cast_back E castResource castResource1 resource (case e of None \<Rightarrow> [] | Some e \<Rightarrow> [e]) of
       (errs, resource1) \<Rightarrow> Some ((result, newAggregate E errs, resource1), w2))"
proof -
  have i: "caGoType (Cast_init r) = Some ct" "\<not> caNoop (Cast_init r)" "caReconciler (Cast_init r) = Some s"
    using assms(1-3) by (simp_all add: Cast_init_def)
  show ?thesis
    using assms(4,5) i by (simp add: Cast_Reconcile_def Let_def)
qed

section \<open>Properties\<close>

text \<open>
  C31. A cast is transparent where nothing changed: when the sub-reconciler leaves the projection as it
  was, the resource is returned as it was; and the error of the sub-reconciler, in particular one that
  halts or is quiet, is still recognised in the error of the cast, changed or not.
\<close>

theorem Cast_transparent:
  assumes "aggregate_law E" and "caGoType r = Some ct" and "\<not> caNoop r" and "caReconciler r = Some s"
    and "cast E ct (WithName (caName (Cast_init r)) ctx) resource w = Some (Inr (ctx', castResource), w1)"
    and "Reconcile s ctx' castResource w1 = Some ((result, e, castResource1), w2)"
  shows "\<exists>e' resource1. Cast_Reconcile E r ctx resource w = Some ((result, e', resource1), w2) \<and>
    (deepEqual E castResource1 castResource \<longrightarrow> resource1 = resource \<and> (e' = None \<longleftrightarrow> e = None)) \<and>
    (\<forall>er t. e = Some er \<and> errors_is er t \<longrightarrow> (\<exists>er'. e' = Some er' \<and> errors_is er' t))"
proof -
  let ?errs = "case e of None \<Rightarrow> [] | Some e \<Rightarrow> [e]"
  obtain errs resource1 where b: "cast_back E castResource castResource1 resource ?errs = (errs, resource1)" by fastforce
  obtain more where more: "errs = ?errs @ more"
    using cast_back_errs [of E castResource castResource1 resource ?errs] b by auto
  have run: "Cast_Reconcile E r ctx resource w = Some ((result, newAggregate E errs, resource1), w2)"
    using Cast_run [OF assms(2-6)] b by simp
  moreover have "resource1 = resource \<and> (newAggregate E errs = None \<longleftrightarrow> e = None)" if "deepEqual E castResource1 castResource"
  proof -
    have "errs = ?errs" "resource1 = resource" using b that by (simp_all add: cast_back_def)
    with assms(1) show ?thesis by (cases e) (auto simp: aggregate_law_def)
  qed
  moreover have "\<exists>er'. newAggregate E errs = Some er' \<and> errors_is er' t" if "e = Some er" "errors_is er t" for er t
  proof -
    have "errs \<noteq> []" "er \<in> set errs" using more that(1) by simp_all
    with assms(1) that(2) show ?thesis unfolding aggregate_law_def by blast
  qed
  ultimately show ?thesis
    by (intro exI [of _ "newAggregate E errs"] exI [of _ resource1]) blast
qed

theorem Cast_transparent_witness:
  "\<exists>e' w2. Cast_Reconcile demo_env
      \<lparr>caGoType = Some ''Duck'', caImplements = (\<lambda>_. False), caName = ''cast'',
       caReconciler = Some (failing ErrHaltSubReconcilers), caNoop = False\<rparr> demo_ctx (empty_object ''Parent'') demo_world
      = Some ((empty_result, Some e', empty_object ''Parent''), w2) \<and> is_halt e'"
proof -
  let ?r = "\<lparr>caGoType = Some ''Duck'', caImplements = (\<lambda>_. False), caName = ''cast'',
       caReconciler = Some (failing ErrHaltSubReconcilers), caNoop = False\<rparr>"
  obtain ctx' x w1 where c: "cast demo_env ''Duck'' (WithName (caName (Cast_init ?r)) demo_ctx) (empty_object ''Parent'') demo_world
      = Some (Inr (ctx', x), w1)"
  proof -
    have "jsonMarshal demo_env (empty_object ''Parent'') = Inr []"
      "jsonUnmarshal demo_env [] (empty_object ''Duck'') = (None, empty_object ''Duck'')"
      "gvk_Empty (objectKind (empty_object ''Duck''))"
      "RetrieveConfigOrDie (WithName (caName (Cast_init ?r)) demo_ctx) = Some demo_config"
      "Client demo_config = Some ''client''"
      by (simp_all add: demo_env_def empty_object_def gvk_Empty_def empty_gvk_def RetrieveConfigOrDie_def
          RetrieveConfig_def WithName_def demo_config_def)
    then show ?thesis
      using that by (simp add: cast_def client_gvk_def client_GroupVersionKindFor_def invoke_def cong: if_cong)
  qed
  have f: "Reconcile (failing ErrHaltSubReconcilers) ctx' x w1 = Some ((empty_result, Some ErrHaltSubReconcilers, x), w1)"
    by (simp add: failing_def)
  have r: "caGoType ?r = Some ''Duck''" "\<not> caNoop ?r" "caReconciler ?r = Some (failing ErrHaltSubReconcilers)" by simp_all
  have eq: "deepEqual demo_env x x" by (simp add: demo_env_def)
  from Cast_transparent [OF demo_aggregate_law r c f] eq show ?thesis
    by (fastforce simp: is_halt_def)
qed

end
