(* ===== verification/Webhook.thy ===== *)
theory Webhook
  imports Manager
begin

text \<open>
  \<open>AdmissionWebhookAdapter\<close> of \<^verbatim>\<open>src/reconcilers/webhook.go\<close>.  The response is on the heap, because
  sub-reconcilers reach it through the context.
\<close>

record AdmissionWebhookAdapter =
  waGoType :: "string option"
  waName :: string
  waType :: "object option"
  waReconciler :: "sub_reconciler option"
  waConfig :: Config

definition Webhook_init :: "AdmissionWebhookAdapter \<Rightarrow> AdmissionWebhookAdapter option" where
  "Webhook_init r =
     do { t \<leftarrow> default_type (waType r) (waGoType r);
          let r = r\<lparr>waType := Some t\<rparr>;
          Some (if waName r = [] then r\<lparr>waName := typeName t @ ''AdmissionWebhookAdapter''\<rparr> else r) }"

definition StashAdmissionRequest :: "ctx \<Rightarrow> admission_request \<Rightarrow> ctx" where
  "StashAdmissionRequest ctx req = ctx\<lparr>ctxAdmissionRequest := Some req\<rparr>"

definition empty_admission_request :: admission_request where
  "empty_admission_request =
     \<lparr>arUID = [], arNamespace = [], arName = [], arOperation = [], arObject = [], arOldObject = []\<rparr>"

definition RetrieveAdmissionRequest :: "ctx \<Rightarrow> admission_request" where
  "RetrieveAdmissionRequest ctx = (case ctxAdmissionRequest ctx of Some req \<Rightarrow> req | None \<Rightarrow> empty_admission_request)"

definition StashAdmissionResponse :: "ctx \<Rightarrow> nat \<Rightarrow> ctx" where
  "StashAdmissionResponse ctx resp = ctx\<lparr>ctxAdmissionResponse := Some resp\<rparr>"

definition RetrieveAdmissionResponse :: "ctx \<Rightarrow> nat option" where
  "RetrieveAdmissionResponse ctx = ctxAdmissionResponse ctx"

definition StashHTTPRequest :: "ctx \<Rightarrow> string \<Rightarrow> ctx" where
  "StashHTTPRequest ctx req = ctx\<lparr>ctxHTTPRequest := Some req\<rparr>"

definition RetrieveHTTPRequest :: "ctx \<Rightarrow> string option" where
  "RetrieveHTTPRequest ctx = ctxHTTPRequest ctx"

text \<open>\<open>Build\<close> makes a webhook whose contexts are prepared by this function.\<close>

definition Webhook_Build ::
    "AdmissionWebhookAdapter \<Rightarrow> (ctx \<Rightarrow> string \<Rightarrow> world \<Rightarrow> (ctx \<times> world) option) option" where
  "Webhook_Build r =
     do { r \<leftarrow> Webhook_init r;
          Some (\<lambda>ctx req w.
            (let ctx = WithName (waName r) (WithName ''controller-runtime.webhook.webhooks'' ctx);
                 (ctx, w) = WithStash ctx w;
                 ctx = StashConfig ctx (waConfig r);
                 ctx = StashOriginalConfig ctx (waConfig r)
             in do { t \<leftarrow> waType r;
                     let ctx = StashOriginalResourceType (StashResourceType ctx t) t;
                     Some (StashHTTPRequest ctx req, w) })) }"

definition update_response :: "nat \<Rightarrow> (admission_response \<Rightarrow> admission_response) \<Rightarrow> world \<Rightarrow> world" where
  "update_response p f w = w\<lparr>responses := (responses w)(p := f (responses w p))\<rparr>"

text \<open>The patch for a mutated resource, unless the response already has one.\<close>

definition respond_patch ::
    "env \<Rightarrow> ctx \<Rightarrow> nat \<Rightarrow> string \<Rightarrow> object \<Rightarrow> object \<Rightarrow> (world, err option) go" where
  "respond_patch E ctx p resourceBytes originalResource resource w =
     (let resp = responses w p
      in if respPatches resp = None \<and> respPatch resp = None \<and> respPatchType resp = None \<and>
            \<not> deepEqual E originalResource resource
         then (case jsonMarshal E resource of
                 Inl e \<Rightarrow> Some (Some e, w)
               | Inr mutationBytes \<Rightarrow>
                   (case createAdmissionPatch E resourceBytes mutationBytes of
                      Inl e \<Rightarrow> Some (Some e, w)
                    | Inr patch \<Rightarrow>
                        (let w = update_response p (\<lambda>resp. resp\<lparr>respPatches := Some patch\<rparr>) w
                         in Some (None, log_info ctx ''mutating resource'' [LogPatch patch] w))))
         else Some (None, w))"

definition webhook_reconcile ::
    "env \<Rightarrow> AdmissionWebhookAdapter \<Rightarrow> ctx \<Rightarrow> admission_request \<Rightarrow> nat \<Rightarrow> (world, err option) go" where
  "webhook_reconcile E r ctx req p w =
     do { t \<leftarrow> waType r;
          let resourceBytes = (if arOperation req = ''DELETE'' then arOldObject req else arObject req);
          let (e, resource) = jsonUnmarshal E resourceBytes t;
          case e of
            Some e \<Rightarrow> Some (Some e, w)
          | None \<Rightarrow>
              do { let resource = (case defaulter E resource of None \<Rightarrow> resource | Some f \<Rightarrow> f resource);
                   let originalResource = resource;
                   s \<leftarrow> waReconciler r;
                   ((result, e, resource), w) \<leftarrow> Reconcile s ctx resource w;
                   case e of
                     Some e \<Rightarrow> Some (Some e, w)
                   | None \<Rightarrow> respond_patch E ctx p resourceBytes originalResource resource w } }"

definition handle_ctx :: "env \<Rightarrow> admission_request \<Rightarrow> nat \<Rightarrow> ctx \<Rightarrow> world \<Rightarrow> ctx" where
  "handle_ctx E req p ctx w =
     (let ctx = StashNow ctx (clock E (trace w));
          ctx = StashAdmissionRequest ctx req;
          ctx = StashAdmissionResponse ctx p
      in StashRequest ctx \<lparr>nnNamespace = arNamespace req, nnName = arName req\<rparr>)"

definition Handle ::
    "env \<Rightarrow> AdmissionWebhookAdapter \<Rightarrow> ctx \<Rightarrow> admission_request \<Rightarrow> (world, admission_response) go" where
  "Handle E r ctx req w =
     do { r \<leftarrow> Webhook_init r;
          let p = nextResponse w;
          let w = w\<lparr>responses := (responses w)(p := empty_response\<lparr>respUID := arUID req, respAllowed := True\<rparr>),
                    nextResponse := Suc p\<rparr>;
          let ctx = handle_ctx E req p ctx w;
          (e, w) \<leftarrow> webhook_reconcile E r ctx req p w;
          let w = (case e of
                     None \<Rightarrow> w
                   | Some e \<Rightarrow>
                       (let w = (if \<not> is_quiet e then log_error ctx e ''reconcile error'' [] w else w)
                        in update_response p (\<lambda>resp.
                             (let resp = resp\<lparr>respAllowed := False\<rparr>
                              in if respResult resp = None
                                 then resp\<lparr>respResult := Some (500, errorMessage E e)\<rparr> else resp)) w));
          Some (responses w p, w) }"

section \<open>Properties\<close>

text \<open>The world in which a request is handled: its response is allocated, and allowed so far.\<close>

definition request_world :: "admission_request \<Rightarrow> world \<Rightarrow> world" where
  "request_world req w =
     w\<lparr>responses := (responses w)(nextResponse w := empty_response\<lparr>respUID := arUID req, respAllowed := True\<rparr>),
       nextResponse := Suc (nextResponse w)\<rparr>"

text \<open>A response that still needs a patch, because the resource was changed and nobody patched it.\<close>

definition needs_patch :: "env \<Rightarrow> object \<Rightarrow> object \<Rightarrow> admission_response \<Rightarrow> bool" where
  "needs_patch E original resource left \<longleftrightarrow>
     respPatches left = None \<and> respPatch left = None \<and> respPatchType left = None \<and>
     \<not> deepEqual E original resource"

lemma respond_patch_outcome:
  assumes "respond_patch E ctx p bytes original resource w = Some (e, w')"
  shows "if needs_patch E original resource (responses w p)
    then (case e of
        None \<Rightarrow> \<exists>m patch. jsonMarshal E resource = Inr m \<and> createAdmissionPatch E bytes m = Inr patch \<and>
          responses w' p = (responses w p)\<lparr>respPatches := Some patch\<rparr>
      | Some er \<Rightarrow> w' = w \<and> (jsonMarshal E resource = Inl er \<or>
          (\<exists>m. jsonMarshal E resource = Inr m \<and> createAdmissionPatch E bytes m = Inl er)))
    else e = None \<and> w' = w"
  using assms
  by (auto simp: respond_patch_def needs_patch_def update_response_def log_info_def record_call_def Let_def
      split: sum.splits if_splits)

lemma Handle_outcome:
  assumes "Webhook_init r = Some r'" and "Handle E r ctx req w = Some (resp, w')"
  obtains e w2 where
    "webhook_reconcile E r' (handle_ctx E req (nextResponse w) ctx (request_world req w)) req (nextResponse w)
      (request_world req w) = Some (e, w2)"
    and "case e of
      None \<Rightarrow> resp = responses w2 (nextResponse w)
    | Some er \<Rightarrow> resp = (responses w2 (nextResponse w))\<lparr>respAllowed := False,
        respResult := (case respResult (responses w2 (nextResponse w)) of
          None \<Rightarrow> Some (500, errorMessage E er) | Some x \<Rightarrow> Some x)\<rparr>"
proof -
  let ?p = "nextResponse w"
  from assms(2) [unfolded Handle_def Let_def request_world_def [symmetric]] assms(1) obtain e w2 where
    run: "webhook_reconcile E r' (handle_ctx E req ?p ctx (request_world req w)) req ?p (request_world req w)
      = Some (e, w2)"
    and rest: "resp = responses (case e of
                     None \<Rightarrow> w2
                   | Some er \<Rightarrow>
                       update_response ?p (\<lambda>resp.
                             (if respResult (resp\<lparr>respAllowed := False\<rparr>) = None
                              then resp\<lparr>respAllowed := False, respResult := Some (500, errorMessage E er)\<rparr>
                              else resp\<lparr>respAllowed := False\<rparr>))
                         (if \<not> is_quiet er then log_error (handle_ctx E req ?p ctx (request_world req w)) er
                            ''reconcile error'' [] w2 else w2)) ?p"
    by (auto simp del: admission_response.simps)
  have "case e of
      None \<Rightarrow> resp = responses w2 ?p
    | Some er \<Rightarrow> resp = (responses w2 ?p)\<lparr>respAllowed := False,
        respResult := (case respResult (responses w2 ?p) of
          None \<Rightarrow> Some (500, errorMessage E er) | Some x \<Rightarrow> Some x)\<rparr>"
    using rest
    by (auto simp: update_response_def log_error_def record_call_def Let_def split: option.splits if_splits)
  with run show thesis by (rule that)
qed

text \<open>
  C29. Fail closed.  A request whose object cannot be decoded is denied with that error, without
  running the reconciler.  Any other is allowed exactly if the reconciler, run on the decoded and
  defaulted object, returned no error at all, a halting one included, left the response allowed, and
  the patch for its changes, if one is needed, could be made; that patch is then in the response.  A
  request denied for an error says so: it keeps the result the reconciler put there, or gets code 500
  with the message of the error.
\<close>

theorem Webhook_fails_closed:
  assumes "Webhook_init r = Some r'" and "waType r' = Some t" and "waReconciler r' = Some s"
    and "bytes = (if arOperation req = ''DELETE'' then arOldObject req else arObject req)"
    and "Handle E r ctx req w = Some (resp, w')"
  shows "case jsonUnmarshal E bytes t of
      (Some er, _) \<Rightarrow> \<not> respAllowed resp \<and> respResult resp = Some (500, errorMessage E er)
    | (None, x) \<Rightarrow>
        (let original = (case defaulter E x of None \<Rightarrow> x | Some f \<Rightarrow> f x)
         in \<exists>result e resource w2 left.
           Reconcile s (handle_ctx E req (nextResponse w) ctx (request_world req w)) original (request_world req w)
             = Some ((result, e, resource), w2) \<and>
           left = responses w2 (nextResponse w) \<and>
           (respAllowed resp \<longleftrightarrow> e = None \<and> respAllowed left \<and>
              (needs_patch E original resource left \<longrightarrow>
                 (\<exists>m patch. jsonMarshal E resource = Inr m \<and> createAdmissionPatch E bytes m = Inr patch \<and>
                    respPatches resp = Some patch))) \<and>
           (\<forall>er. e = Some er \<longrightarrow> respResult resp =
              (case respResult left of None \<Rightarrow> Some (500, errorMessage E er) | Some x \<Rightarrow> Some x)) \<and>
           (respAllowed left \<and> \<not> respAllowed resp \<longrightarrow> respResult resp \<noteq> None))"
proof -
  let ?w = "request_world req w" and ?p = "nextResponse w"
  let ?ctx = "handle_ctx E req ?p ctx ?w"
  obtain er w3 where run: "webhook_reconcile E r' ?ctx req ?p ?w = Some (er, w3)"
    and resp: "case er of
      None \<Rightarrow> resp = responses w3 ?p
    | Some er \<Rightarrow> resp = (responses w3 ?p)\<lparr>respAllowed := False,
        respResult := (case respResult (responses w3 ?p) of
          None \<Rightarrow> Some (500, errorMessage E er) | Some x \<Rightarrow> Some x)\<rparr>"
    by (rule Handle_outcome [OF assms(1,5)])
  obtain d x where j: "jsonUnmarshal E bytes t = (d, x)" by fastforce
  show ?thesis
  proof (cases d)
    case (Some de)
    with run j assms(2,4) have "er = Some de" "w3 = ?w" by (auto simp: webhook_reconcile_def Let_def)
    with resp j Some show ?thesis by (simp add: request_world_def empty_response_def)
  next
    case None
    let ?o = "case defaulter E x of None \<Rightarrow> x | Some f \<Rightarrow> f x"
    from run j None assms(2,3) obtain result e resource w2 where
      rec: "Reconcile s ?ctx ?o ?w = Some ((result, e, resource), w2)"
      and rest: "(case e of Some e \<Rightarrow> Some (Some e, w2)
        | None \<Rightarrow> respond_patch E ?ctx ?p bytes ?o resource w2) = Some (er, w3)"
      by (auto simp: webhook_reconcile_def Let_def assms(4) [symmetric])
    show ?thesis
    proof (cases e)
      case (Some e')
      with rest have "er = Some e'" "w3 = w2" by simp_all
      with resp rec Some j None show ?thesis by (auto simp: Let_def split: option.splits)
    next
      case e: None
      with rest have "respond_patch E ?ctx ?p bytes ?o resource w2 = Some (er, w3)" by simp
      from respond_patch_outcome [OF this] resp rec e j None show ?thesis
        by (cases er; cases "needs_patch E ?o resource (responses w2 ?p)")
          (auto simp: Let_def split: option.splits)
    qed
  qed
qed

definition demo_webhook :: "sub_reconciler \<Rightarrow> AdmissionWebhookAdapter" where
  "demo_webhook s =
     \<lparr>waGoType = Some ''Parent'', waName = ''hook'', waType = Some (empty_object ''Parent''), waReconciler = Some s,
      waConfig = demo_config\<rparr>"

lemma demo_webhook_init: "Webhook_init (demo_webhook s) = Some (demo_webhook s)"
  by (simp add: Webhook_init_def demo_webhook_def default_type_def)

text \<open>A reconciler that halts: the request is denied.\<close>

theorem Webhook_fails_closed_witness:
  "\<exists>resp w'. Handle demo_env (demo_webhook (failing ErrHaltSubReconcilers)) demo_ctx empty_admission_request demo_world
      = Some (resp, w') \<and> \<not> respAllowed resp \<and> respResult resp = Some (500, ''error'')"
proof -
  let ?s = "failing ErrHaltSubReconcilers"
  let ?r = "demo_webhook ?s"
  have r: "waType ?r = Some (empty_object ''Parent'')" "waReconciler ?r = Some ?s"
    by (simp_all add: demo_webhook_def)
  have b: "[] = (if arOperation empty_admission_request = ''DELETE'' then arOldObject empty_admission_request
      else arObject empty_admission_request)"
    by (simp add: empty_admission_request_def)
  have h: "webhook_reconcile demo_env ?r c empty_admission_request p v = Some (Some ErrHaltSubReconcilers, v)" for c p v
    by (simp add: webhook_reconcile_def demo_webhook_def failing_def demo_env_def)
  obtain resp w' where run: "Handle demo_env ?r demo_ctx empty_admission_request demo_world = Some (resp, w')"
    by (simp add: Handle_def demo_webhook_init h Let_def)
  have j: "jsonUnmarshal demo_env [] (empty_object ''Parent'') = (None, empty_object ''Parent'')"
    "defaulter demo_env x = None" "errorMessage demo_env er = ''error''" for x er
    by (simp_all add: demo_env_def empty_object_def)
  from Webhook_fails_closed [OF demo_webhook_init r b run] run show ?thesis
    by (auto simp: j failing_def request_world_def empty_response_def)
qed

text \<open>
  The patch of a response: with an error-free reconciler that keeps the response, the response gets
  a patch from the request's object to the reconciled resource exactly if the reconciler changed the
  resource; otherwise it has none, and it echoes the identifier of the request either way.
\<close>

theorem Webhook_patches_changes:
  assumes "Webhook_init r = Some r'" and "waType r' = Some t" and "waReconciler r' = Some s"
    and "bytes = (if arOperation req = ''DELETE'' then arOldObject req else arObject req)"
    and "jsonUnmarshal E bytes t = (None, original)" and "defaulter E original = None"
    and "\<And>ctx w. \<exists>w'. Reconcile s ctx original w = Some ((result, None, resource), w') \<and> responses w' = responses w"
    and "jsonMarshal E resource = Inr mutation" and "createAdmissionPatch E bytes mutation = Inr patch"
  shows "\<exists>w'. Handle E r ctx req w =
    Some (\<lparr>respUID = arUID req, respAllowed = True, respResult = None,
           respPatches = (if deepEqual E original resource then None else Some patch),
           respPatch = None, respPatchType = None\<rparr>, w')"
proof -
  let ?p = "nextResponse w"
  let ?w = "w\<lparr>responses := (responses w)(?p := empty_response\<lparr>respUID := arUID req, respAllowed := True\<rparr>),
                nextResponse := Suc ?p\<rparr>"
  obtain w1 where run: "Reconcile s (handle_ctx E req ?p ctx ?w) original ?w = Some ((result, None, resource), w1)"
    and resp: "responses w1 = responses ?w"
    using assms(7) by blast
  from resp have p: "responses w1 ?p = empty_response\<lparr>respUID := arUID req, respAllowed := True\<rparr>" by simp
  show ?thesis
    using assms(1-3,5,6,8,9) assms(4) [symmetric] run p
    by (simp add: Handle_def webhook_reconcile_def respond_patch_def update_response_def log_info_def record_call_def
        empty_response_def Let_def)
qed

theorem Webhook_patches_changes_witness:
  "\<exists>w'. Handle demo_env (demo_webhook noop) demo_ctx empty_admission_request demo_world =
    Some (\<lparr>respUID = [], respAllowed = True, respResult = None, respPatches = None,
           respPatch = None, respPatchType = None\<rparr>, w')"
proof -
  have r: "waType (demo_webhook noop) = Some (empty_object ''Parent'')" "waReconciler (demo_webhook noop) = Some noop"
    by (simp_all add: demo_webhook_def)
  have b: "[] = (if arOperation empty_admission_request = ''DELETE'' then arOldObject empty_admission_request
      else arObject empty_admission_request)"
    by (simp add: empty_admission_request_def)
  have j: "jsonUnmarshal demo_env [] (empty_object ''Parent'') = (None, empty_object ''Parent'')"
    "defaulter demo_env (empty_object ''Parent'') = None"
    "jsonMarshal demo_env (empty_object ''Parent'') = Inr []" "createAdmissionPatch demo_env [] [] = Inr []"
    "deepEqual demo_env (empty_object ''Parent'') (empty_object ''Parent'')"
    by (simp_all add: demo_env_def empty_object_def)
  have n: "\<exists>w'. Reconcile noop ctx x w = Some ((empty_result, None, x), w') \<and> responses w' = responses w" for ctx x w
    by (simp add: noop_def)
  from Webhook_patches_changes [OF demo_webhook_init r b j(1,2) n j(3,4), of demo_ctx demo_world] j(5)
  show ?thesis by (simp add: empty_admission_request_def)
qed

end
