(* ===== verification/FakeClient.thy ===== *)
theory FakeClient
  imports Duck
begin

text \<open>
  The client that tests of reconcilers use, \<open>clientWrapper\<close> of \<^verbatim>\<open>src/testing/client.go\<close>: it records every
  write, offers each call to a chain of reactors, which may answer it with an error, and passes it on to
  the client it wraps.  The recorded writes are in the world, next to the world of the wrapped client.
\<close>

section \<open>Actions\<close>

record gvr =
  grGroup :: string
  grVersion :: string
  grResource :: string

text \<open>
  What the constructors of \<open>k8s.io/client-go/testing\<close> build.  Arguments in the order resource,
  sub-resource, namespace, name, and what else the action carries: the object, the type and bytes of a
  patch, or the rendered label and field selectors of a collection.
\<close>

datatype action =
    GetAction gvr string string string
  | ListAction gvr gvk string
  | CreateAction gvr string string string object
  | UpdateAction gvr string string object
  | PatchAction gvr string string string string string
  | DeleteAction gvr string string
  | DeleteCollectionAction gvr string string string

fun GetResource :: "action \<Rightarrow> gvr" where
  "GetResource (GetAction r sub ns name) = r"
| "GetResource (ListAction r k ns) = r"
| "GetResource (CreateAction r sub ns name obj) = r"
| "GetResource (UpdateAction r sub ns obj) = r"
| "GetResource (PatchAction r sub ns name ty b) = r"
| "GetResource (DeleteAction r ns name) = r"
| "GetResource (DeleteCollectionAction r ns ls fs) = r"

fun GetNamespace :: "action \<Rightarrow> string" where
  "GetNamespace (GetAction r sub ns name) = ns"
| "GetNamespace (ListAction r k ns) = ns"
| "GetNamespace (CreateAction r sub ns name obj) = ns"
| "GetNamespace (UpdateAction r sub ns obj) = ns"
| "GetNamespace (PatchAction r sub ns name ty b) = ns"
| "GetNamespace (DeleteAction r ns name) = ns"
| "GetNamespace (DeleteCollectionAction r ns ls fs) = ns"

fun GetSubresource :: "action \<Rightarrow> string" where
  "GetSubresource (GetAction r sub ns name) = sub"
| "GetSubresource (CreateAction r sub ns name obj) = sub"
| "GetSubresource (UpdateAction r sub ns obj) = sub"
| "GetSubresource (PatchAction r sub ns name ty b) = sub"
| "GetSubresource _ = []"

text \<open>
  The interfaces \<open>namedAction\<close> (get, patch and delete actions have a \<open>GetName\<close>) and \<open>objectAction\<close> (create
  and update actions have a \<open>GetObject\<close>).
\<close>

fun namedAction :: "action \<Rightarrow> string option" where
  "namedAction (GetAction r sub ns name) = Some name"
| "namedAction (PatchAction r sub ns name ty b) = Some name"
| "namedAction (DeleteAction r ns name) = Some name"
| "namedAction _ = None"

fun objectAction :: "action \<Rightarrow> object option" where
  "objectAction (CreateAction r sub ns name obj) = Some obj"
| "objectAction (UpdateAction r sub ns obj) = Some obj"
| "objectAction _ = None"

text \<open>The object of an action is a pointer: a reactor may change the object behind it.\<close>

fun with_object :: "object option \<Rightarrow> action \<Rightarrow> action" where
  "with_object (Some x) (CreateAction r sub ns name obj) = CreateAction r sub ns name x"
| "with_object (Some x) (UpdateAction r sub ns obj) = UpdateAction r sub ns x"
| "with_object _ a = a"

section \<open>The wrapper\<close>

text \<open>
  The fields of \<open>clientWrapper\<close> that change: the recorded actions, the counter of generated names, the
  counters inside the closures of \<open>CalledAtMostTimes\<close>, and the world of the wrapped client.
\<close>

record 'w fake =
  backend :: 'w
  CreateActions :: "action list"
  UpdateActions :: "action list"
  PatchActions :: "action list"
  DeleteActions :: "action list"
  DeleteCollectionActions :: "action list"
  StatusUpdateActions :: "action list"
  StatusPatchActions :: "action list"
  genCount :: nat
  callCounts :: "nat \<Rightarrow> nat"

text \<open>A reaction says whether it handled the action, with which error, and what it made of its object.\<close>

type_synonym 'w reaction = "action \<Rightarrow> ('w fake, bool \<times> err option \<times> object option) go"

record 'w reactor =
  reVerb :: string
  reResource :: string
  reReact :: "'w reaction"

record 'w clientWrapper =
  client :: "'w client_ops"
  reactionChain :: "'w reactor list"

record delete_all_of_options =
  daNamespace :: string
  daLabels :: "selector option"
  daFields :: "selector option"

text \<open>
  Functions of apimachinery, client-go and controller-runtime: references, matching of actions, patches,
  options and selectors.
\<close>

record test_lib =
  tlRefs :: refs_lib
  tlListReference :: "object_list \<Rightarrow> err + object_reference"
  reactorHandles :: "string \<Rightarrow> string \<Rightarrow> action \<Rightarrow> bool"
  actionMatches :: "action \<Rightarrow> string \<Rightarrow> string \<Rightarrow> bool"
  getVerb :: "action \<Rightarrow> string"
  patchType :: "string \<Rightarrow> string"
  patchData :: "string \<Rightarrow> object \<Rightarrow> err + string"
  listNamespace :: "string list \<Rightarrow> string"
  deleteAllOfOptions :: "string list \<Rightarrow> delete_all_of_options"
  labelsEmpty :: "selector \<Rightarrow> bool"
  fieldsEmpty :: "selector \<Rightarrow> bool"
  fieldsString :: "selector \<Rightarrow> string"

text \<open>\<open>fmt.Sprintf("%03d", n)\<close>.\<close>

definition pad3 :: "nat \<Rightarrow> string" where
  "pad3 n = replicate (3 - length (decimal n)) (CHR ''0'') @ decimal n"

definition generate_name :: "'w reaction" where
  "generate_name a w =
     (case objectAction a of
        None \<Rightarrow> Some ((False, None, None), w)
      | Some obj \<Rightarrow>
          (if GetSubresource a = [] \<and> objName obj = [] \<and> generateName obj \<noteq> []
           then let w = w\<lparr>genCount := genCount w + 1\<rparr>
                in Some ((False, None, Some (obj\<lparr>objName := generateName obj @ pad3 (genCount w)\<rparr>)), w)
           else Some ((False, None, None), w)))"

definition AddReactor :: "string \<Rightarrow> string \<Rightarrow> 'w reaction \<Rightarrow> 'w clientWrapper \<Rightarrow> 'w clientWrapper" where
  "AddReactor verb kind reaction c =
     c\<lparr>reactionChain := reactionChain c @ [\<lparr>reVerb = verb, reResource = kind, reReact = reaction\<rparr>]\<rparr>"

definition PrependReactor :: "string \<Rightarrow> string \<Rightarrow> 'w reaction \<Rightarrow> 'w clientWrapper \<Rightarrow> 'w clientWrapper" where
  "PrependReactor verb kind reaction c =
     c\<lparr>reactionChain := \<lparr>reVerb = verb, reResource = kind, reReact = reaction\<rparr> # reactionChain c\<rparr>"

definition NewFakeClientWrapper :: "'w client_ops \<Rightarrow> 'w clientWrapper" where
  "NewFakeClientWrapper cl = AddReactor ''create'' ''*'' generate_name \<lparr>client = cl, reactionChain = []\<rparr>"

text \<open>The state \<open>NewFakeClientWrapper\<close> starts with.\<close>

definition new_fake :: "'w \<Rightarrow> 'w fake" where
  "new_fake b =
     \<lparr>backend = b, CreateActions = [], UpdateActions = [], PatchActions = [], DeleteActions = [],
      DeleteCollectionActions = [], StatusUpdateActions = [], StatusPatchActions = [], genCount = 0,
      callCounts = (\<lambda>_. 0)\<rparr>"

text \<open>Objects get a creation time stamp of one second (\<open>time.UnixMilli(1000)\<close>, in nanoseconds) by default.\<close>

definition prepareObjects :: "object list \<Rightarrow> object list" where
  "prepareObjects objs =
     map (\<lambda>obj. if creationTimestamp obj = None then obj\<lparr>creationTimestamp := Some 1000000000\<rparr> else obj) objs"

section \<open>Calls\<close>

text \<open>An operation of the wrapped client.\<close>

definition lifted :: "('w, 'a) go \<Rightarrow> ('w fake, 'a) go" where
  "lifted m w = do { (x, b) \<leftarrow> m (backend w); Some (x, w\<lparr>backend := b\<rparr>) }"

text \<open>\<open>objmeta\<close>: the kind stands for the resource.  The second form is for lists.\<close>

definition reference_meta :: "test_lib \<Rightarrow> object_reference \<Rightarrow> gvr \<times> string \<times> string" where
  "reference_meta L objref =
     (let gvk = FromAPIVersionAndKind (tlRefs L) (orAPIVersion objref) (orKind objref)
      in (\<lparr>grGroup = gvkGroup gvk, grVersion = gvkVersion gvk, grResource = orKind objref\<rparr>,
          orNamespace objref, orName objref))"

definition objmeta :: "test_lib \<Rightarrow> object \<Rightarrow> err + gvr \<times> string \<times> string" where
  "objmeta L obj =
     (case GetReference (tlRefs L) obj of Inl e \<Rightarrow> Inl e | Inr objref \<Rightarrow> Inr (reference_meta L objref))"

definition list_objmeta :: "test_lib \<Rightarrow> object_list \<Rightarrow> err + gvr \<times> string \<times> string" where
  "list_objmeta L list =
     (case tlListReference L list of Inl e \<Rightarrow> Inl e | Inr objref \<Rightarrow> Inr (reference_meta L objref))"

text \<open>The first reactor that handles the action decides; the action is returned as the chain left it.\<close>

fun react :: "test_lib \<Rightarrow> 'w reactor list \<Rightarrow> action \<Rightarrow> ('w fake, err option \<times> action) go" where
  "react L [] action w = Some ((None, action), w)"
| "react L (reactor # chain) action w =
     (if \<not> reactorHandles L (reVerb reactor) (reResource reactor) action then react L chain action w
      else do { ((handled, e, obj), w) \<leftarrow> reReact reactor action w;
                let action = with_object obj action;
                if \<not> handled then react L chain action w
                else Some ((e, action), w) })"

text \<open>
  The shape of most methods: find the metadata of the object, record an action, offer another to the
  chain, and pass the call on with the object as the chain left it.
\<close>

definition reacted_object :: "action \<Rightarrow> object \<Rightarrow> object" where
  "reacted_object action obj = (case objectAction action of None \<Rightarrow> obj | Some x \<Rightarrow> x)"

definition guarded ::
    "test_lib \<Rightarrow> 'w clientWrapper \<Rightarrow> action \<Rightarrow> object \<Rightarrow> (object \<Rightarrow> ('w, err option \<times> object) go)
      \<Rightarrow> ('w fake, err option \<times> object) go" where
  "guarded L c action obj call w =
     do { ((e, action), w) \<leftarrow> react L (reactionChain c) action w;
          let obj = reacted_object action obj;
          case e of
            Some e \<Rightarrow> Some ((Some e, obj), w)
          | None \<Rightarrow> lifted (call obj) w }"

definition fake_Get :: "test_lib \<Rightarrow> 'w clientWrapper \<Rightarrow> namespaced_name \<Rightarrow> 'w fake object_op" where
  "fake_Get L c key obj opts w =
     (case objmeta L obj of
        Inl e \<Rightarrow> Some ((Some e, obj), w)
      | Inr (gvr, namespace, name) \<Rightarrow>
          guarded L c (GetAction gvr [] namespace name) obj (\<lambda>obj. opGet (opReader (client c)) key obj opts) w)"

definition fake_List ::
    "test_lib \<Rightarrow> 'w clientWrapper \<Rightarrow> object_list \<Rightarrow> string list \<Rightarrow> ('w fake, err option \<times> object_list) go" where
  "fake_List L c list opts w =
     (case list_objmeta L list of
        Inl e \<Rightarrow> Some ((Some e, list), w)
      | Inr (gvr, namespace, name) \<Rightarrow>
          (let gvk = \<lparr>gvkGroup = grGroup gvr, gvkVersion = grVersion gvr, gvkKind = grResource gvr\<rparr>
           in do { ((e, action), w) \<leftarrow> react L (reactionChain c) (ListAction gvr gvk (listNamespace L opts)) w;
                   case e of
                     Some e \<Rightarrow> Some ((Some e, list), w)
                   | None \<Rightarrow> lifted (opList (opReader (client c)) list opts) w }))"

definition fake_Create :: "test_lib \<Rightarrow> 'w clientWrapper \<Rightarrow> 'w fake object_op" where
  "fake_Create L c obj opts w =
     (case objmeta L obj of
        Inl e \<Rightarrow> Some ((Some e, obj), w)
      | Inr (gvr, namespace, name) \<Rightarrow>
          (let w = w\<lparr>CreateActions := CreateActions w @ [CreateAction gvr [] namespace [] obj]\<rparr>
           in guarded L c (CreateAction gvr [] namespace [] obj) obj (\<lambda>obj. opCreate (client c) obj opts) w))"

definition fake_Delete :: "test_lib \<Rightarrow> 'w clientWrapper \<Rightarrow> 'w fake object_op" where
  "fake_Delete L c obj opts w =
     (case objmeta L obj of
        Inl e \<Rightarrow> Some ((Some e, obj), w)
      | Inr (gvr, namespace, name) \<Rightarrow>
          (let w = w\<lparr>DeleteActions := DeleteActions w @ [DeleteAction gvr namespace name]\<rparr>
           in guarded L c (DeleteAction gvr namespace name) obj (\<lambda>obj. opDelete (client c) obj opts) w))"

definition fake_Update :: "test_lib \<Rightarrow> 'w clientWrapper \<Rightarrow> 'w fake object_op" where
  "fake_Update L c obj opts w =
     (case objmeta L obj of
        Inl e \<Rightarrow> Some ((Some e, obj), w)
      | Inr (gvr, namespace, name) \<Rightarrow>
          (let w = w\<lparr>UpdateActions := UpdateActions w @ [UpdateAction gvr [] namespace obj]\<rparr>
           in guarded L c (UpdateAction gvr [] namespace obj) obj (\<lambda>obj. opUpdate (client c) obj opts) w))"

definition fake_Patch :: "test_lib \<Rightarrow> 'w clientWrapper \<Rightarrow> string \<Rightarrow> 'w fake object_op" where
  "fake_Patch L c patch obj opts w =
     (case objmeta L obj of
        Inl e \<Rightarrow> Some ((Some e, obj), w)
      | Inr (gvr, namespace, name) \<Rightarrow>
          (case patchData L patch obj of
             Inl e \<Rightarrow> Some ((Some e, obj), w)
           | Inr b \<Rightarrow>
               (let action = PatchAction gvr [] (objNamespace obj) (objName obj) (patchType L patch) b;
                    w = w\<lparr>PatchActions := PatchActions w @ [action]\<rparr>
                in guarded L c action obj (\<lambda>obj. opPatch (client c) patch obj opts) w)))"

definition fake_DeleteAllOf :: "test_lib \<Rightarrow> 'w clientWrapper \<Rightarrow> 'w fake object_op" where
  "fake_DeleteAllOf L c obj opts w =
     (case objmeta L obj of
        Inl e \<Rightarrow> Some ((Some e, obj), w)
      | Inr (gvr, namespace, name) \<Rightarrow>
          (let deleteopts = deleteAllOfOptions L opts;
               labels = (case daLabels deleteopts of
                  Some s \<Rightarrow> if \<not> labelsEmpty L s then selString (tlRefs L) s else [] | None \<Rightarrow> []);
               fields = (case daFields deleteopts of
                  Some s \<Rightarrow> if \<not> fieldsEmpty L s then fieldsString L s else [] | None \<Rightarrow> []);
               action = DeleteCollectionAction gvr (daNamespace deleteopts) labels fields;
               w = w\<lparr>DeleteCollectionActions := DeleteCollectionActions w @ [action]\<rparr>
           in guarded L c action obj (\<lambda>obj. opDeleteAllOf (client c) obj opts) w))"

section \<open>Status and other sub-resources\<close>

text \<open>
  A call that only goes to the chain: the wrapped client never sees it.  The object whose sub-resource
  is meant is left alone; a sub-resource object changed by the chain is not looked at again.
\<close>

definition only_react :: "test_lib \<Rightarrow> 'w clientWrapper \<Rightarrow> action \<Rightarrow> object \<Rightarrow> ('w fake, err option \<times> object) go" where
  "only_react L c action obj w =
     do { ((e, action), w) \<leftarrow> react L (reactionChain c) action w; Some ((e, obj), w) }"

definition status_writer_Create :: "test_lib \<Rightarrow> 'w clientWrapper \<Rightarrow> object \<Rightarrow> 'w fake object_op" where
  "status_writer_Create L c subResource obj opts w =
     (case objmeta L obj of
        Inl e \<Rightarrow> Some ((Some e, obj), w)
      | Inr (gvr, namespace, name) \<Rightarrow>
          only_react L c (CreateAction gvr ''status'' namespace name subResource) obj w)"

definition status_writer_Update :: "test_lib \<Rightarrow> 'w clientWrapper \<Rightarrow> 'w fake object_op" where
  "status_writer_Update L c obj opts w =
     (case objmeta L obj of
        Inl e \<Rightarrow> Some ((Some e, obj), w)
      | Inr (gvr, namespace, name) \<Rightarrow>
          (let w = w\<lparr>StatusUpdateActions := StatusUpdateActions w @ [UpdateAction gvr ''status'' namespace obj]\<rparr>
           in guarded L c (UpdateAction gvr ''status'' namespace obj) obj
                (\<lambda>obj. swUpdate (opStatus (client c)) obj opts) w))"

definition status_writer_Patch :: "test_lib \<Rightarrow> 'w clientWrapper \<Rightarrow> string \<Rightarrow> 'w fake object_op" where
  "status_writer_Patch L c patch obj opts w =
     (case objmeta L obj of
        Inl e \<Rightarrow> Some ((Some e, obj), w)
      | Inr (gvr, namespace, name) \<Rightarrow>
          (case patchData L patch obj of
             Inl e \<Rightarrow> Some ((Some e, obj), w)
           | Inr b \<Rightarrow>
               (let action = PatchAction gvr ''status'' (objNamespace obj) (objName obj) (patchType L patch) b;
                    w = w\<lparr>StatusPatchActions := StatusPatchActions w @ [action]\<rparr>
                in guarded L c action obj (\<lambda>obj. swPatch (opStatus (client c)) patch obj opts) w)))"

definition fake_Status :: "test_lib \<Rightarrow> 'w clientWrapper \<Rightarrow> 'w fake writer_ops" where
  "fake_Status L c =
     \<lparr>swCreate = status_writer_Create L c, swUpdate = status_writer_Update L c,
      swPatch = status_writer_Patch L c\<rparr>"

definition sub_Get :: "test_lib \<Rightarrow> 'w clientWrapper \<Rightarrow> string \<Rightarrow> object \<Rightarrow> 'w fake object_op" where
  "sub_Get L c sub subResource obj opts w =
     (case objmeta L obj of
        Inl e \<Rightarrow> Some ((Some e, obj), w)
      | Inr (gvr, namespace, name) \<Rightarrow> only_react L c (GetAction gvr sub namespace name) obj w)"

definition sub_Create :: "test_lib \<Rightarrow> 'w clientWrapper \<Rightarrow> string \<Rightarrow> object \<Rightarrow> 'w fake object_op" where
  "sub_Create L c sub subResource obj opts w =
     (if sub = ''status'' then swCreate (fake_Status L c) subResource obj opts w
      else case objmeta L obj of
             Inl e \<Rightarrow> Some ((Some e, obj), w)
           | Inr (gvr, namespace, name) \<Rightarrow>
               only_react L c (CreateAction gvr sub namespace name subResource) obj w)"

definition sub_Update :: "test_lib \<Rightarrow> 'w clientWrapper \<Rightarrow> string \<Rightarrow> 'w fake object_op" where
  "sub_Update L c sub obj opts w =
     (if sub = ''status'' then swUpdate (fake_Status L c) obj opts w
      else case objmeta L obj of
             Inl e \<Rightarrow> Some ((Some e, obj), w)
           | Inr (gvr, namespace, name) \<Rightarrow>
               do { ((e, action), w) \<leftarrow> react L (reactionChain c) (UpdateAction gvr sub namespace obj) w;
                    Some ((e, reacted_object action obj), w) })"

definition sub_Patch :: "test_lib \<Rightarrow> 'w clientWrapper \<Rightarrow> string \<Rightarrow> string \<Rightarrow> 'w fake object_op" where
  "sub_Patch L c sub patch obj opts w =
     (if sub = ''status'' then swPatch (fake_Status L c) patch obj opts w
      else case objmeta L obj of
             Inl e \<Rightarrow> Some ((Some e, obj), w)
           | Inr (gvr, namespace, name) \<Rightarrow>
               (case patchData L patch obj of
                  Inl e \<Rightarrow> Some ((Some e, obj), w)
                | Inr b \<Rightarrow>
                    only_react L c (PatchAction gvr sub (objNamespace obj) (objName obj) (patchType L patch) b) obj w))"

definition fake_SubResource :: "test_lib \<Rightarrow> 'w clientWrapper \<Rightarrow> string \<Rightarrow> 'w fake sub_resource_ops" where
  "fake_SubResource L c sub =
     \<lparr>srGet = sub_Get L c sub,
      srWriter = \<lparr>swCreate = sub_Create L c sub, swUpdate = sub_Update L c sub, swPatch = sub_Patch L c sub\<rparr>\<rparr>"

text \<open>The wrapper as a client.\<close>

definition fake_client :: "test_lib \<Rightarrow> 'w clientWrapper \<Rightarrow> 'w fake client_ops" where
  "fake_client L c =
     \<lparr>opReader = \<lparr>opGet = fake_Get L c, opList = fake_List L c\<rparr>,
      opWatch = None,
      opCreate = fake_Create L c,
      opUpdate = fake_Update L c,
      opPatch = fake_Patch L c,
      opDelete = fake_Delete L c,
      opDeleteAllOf = fake_DeleteAllOf L c,
      opStatus = fake_Status L c,
      opSubResource = fake_SubResource L c,
      opGroupVersionKindFor = (\<lambda>obj. lifted (opGroupVersionKindFor (client c) obj)),
      opIsObjectNamespaced = (\<lambda>obj. lifted (opIsObjectNamespaced (client c) obj))\<rparr>"

section \<open>Reactions for tests\<close>

record InduceFailureOpts =
  ifError :: "err option"
  ifNamespace :: string
  ifName :: string
  ifSubResource :: string

text \<open>More than one set of options panics.\<close>

definition induce_failure :: "test_lib \<Rightarrow> string \<Rightarrow> string \<Rightarrow> InduceFailureOpts \<Rightarrow> 'w reaction" where
  "induce_failure L verb kind opts action w =
     (if \<not> actionMatches L action verb kind then Some ((False, None, None), w)
      else if ifNamespace opts \<noteq> [] \<and> ifNamespace opts \<noteq> GetNamespace action then Some ((False, None, None), w)
      else if ifName opts \<noteq> [] \<and>
        (case namedAction action of
           Some name \<Rightarrow> ifName opts \<noteq> name
         | None \<Rightarrow> (case objectAction action of Some obj \<Rightarrow> ifName opts \<noteq> objName obj | None \<Rightarrow> False))
      then Some ((False, None, None), w)
      else if ifSubResource opts \<noteq> [] \<and> ifSubResource opts \<noteq> GetSubresource action then Some ((False, None, None), w)
      else let e = (case ifError opts of
                      Some e \<Rightarrow> e
                    | None \<Rightarrow> Errorf ''inducing failure for %s %s'' [getVerb L action, grResource (GetResource action)])
           in Some ((True, Some e, None), w))"

definition InduceFailure :: "test_lib \<Rightarrow> string \<Rightarrow> string \<Rightarrow> InduceFailureOpts list \<Rightarrow> 'w reaction option" where
  "InduceFailure L verb kind os =
     (case os of
        [] \<Rightarrow> Some (induce_failure L verb kind \<lparr>ifError = None, ifNamespace = [], ifName = [], ifSubResource = []\<rparr>)
      | [opts] \<Rightarrow> Some (induce_failure L verb kind opts)
      | _ \<Rightarrow> None)"

text \<open>\<open>counter\<close> identifies the variable captured by the closure.\<close>

definition CalledAtMostTimes :: "test_lib \<Rightarrow> nat \<Rightarrow> string \<Rightarrow> string \<Rightarrow> int \<Rightarrow> 'w reaction" where
  "CalledAtMostTimes L counter verb kind maxCalls action w =
     (if \<not> actionMatches L action ''list'' ''ConfigMapList'' then Some ((False, None, None), w)
      else let callCount = callCounts w counter + 1;
               w = w\<lparr>callCounts := (callCounts w)(counter := callCount)\<rparr>
           in if int callCount \<le> maxCalls then Some ((False, None, None), w)
              else Some ((True, Some (Errorf ''%s %s called %d times, expected %d call(s)''
                     [verb, kind, decimal callCount, decimal_int maxCalls]), None), w))"

section \<open>Calls as data\<close>

text \<open>The calls a reconciler makes through the client, and the lists of recorded actions.\<close>

datatype fake_call =
    CallGet namespaced_name object "string list"
  | CallList object_list "string list"
  | CallCreate object "string list"
  | CallUpdate object "string list"
  | CallPatch string object "string list"
  | CallDelete object "string list"
  | CallDeleteAllOf object "string list"
  | CallStatusUpdate object "string list"
  | CallStatusPatch string object "string list"
  | CallSubResourceUpdate string object "string list"

definition outcome :: "('w, err option \<times> 'a) go \<Rightarrow> ('w, err option) go" where
  "outcome m w = do { ((e, x), w) \<leftarrow> m w; Some (e, w) }"

fun call_client :: "'w client_ops \<Rightarrow> fake_call \<Rightarrow> ('w, err option) go" where
  "call_client c (CallGet key obj opts) = outcome (opGet (opReader c) key obj opts)"
| "call_client c (CallList list opts) = outcome (opList (opReader c) list opts)"
| "call_client c (CallCreate obj opts) = outcome (opCreate c obj opts)"
| "call_client c (CallUpdate obj opts) = outcome (opUpdate c obj opts)"
| "call_client c (CallPatch patch obj opts) = outcome (opPatch c patch obj opts)"
| "call_client c (CallDelete obj opts) = outcome (opDelete c obj opts)"
| "call_client c (CallDeleteAllOf obj opts) = outcome (opDeleteAllOf c obj opts)"
| "call_client c (CallStatusUpdate obj opts) = outcome (swUpdate (opStatus c) obj opts)"
| "call_client c (CallStatusPatch patch obj opts) = outcome (swPatch (opStatus c) patch obj opts)"
| "call_client c (CallSubResourceUpdate sub obj opts) = outcome (swUpdate (srWriter (opSubResource c sub)) obj opts)"

datatype slot = Creates | Updates | Patches | Deletes | DeleteCollections | StatusUpdates | StatusPatches

fun recorded :: "'w fake \<Rightarrow> slot \<Rightarrow> action list" where
  "recorded w Creates = CreateActions w"
| "recorded w Updates = UpdateActions w"
| "recorded w Patches = PatchActions w"
| "recorded w Deletes = DeleteActions w"
| "recorded w DeleteCollections = DeleteCollectionActions w"
| "recorded w StatusUpdates = StatusUpdateActions w"
| "recorded w StatusPatches = StatusPatchActions w"

text \<open>The specification: what one call adds to the lists.\<close>

definition collection_action :: "test_lib \<Rightarrow> gvr \<Rightarrow> string list \<Rightarrow> action" where
  "collection_action L gvr opts =
     (let del = deleteAllOfOptions L opts
      in DeleteCollectionAction gvr (daNamespace del)
           (case daLabels del of Some s \<Rightarrow> if labelsEmpty L s then [] else selString (tlRefs L) s | None \<Rightarrow> [])
           (case daFields del of Some s \<Rightarrow> if fieldsEmpty L s then [] else fieldsString L s | None \<Rightarrow> []))"

definition with_meta :: "test_lib \<Rightarrow> object \<Rightarrow> (gvr \<Rightarrow> string \<Rightarrow> string \<Rightarrow> 'a option) \<Rightarrow> 'a option" where
  "with_meta L obj f = (case objmeta L obj of Inl e \<Rightarrow> None | Inr (gvr, ns, name) \<Rightarrow> f gvr ns name)"

definition patch_action :: "test_lib \<Rightarrow> string \<Rightarrow> string \<Rightarrow> object \<Rightarrow> action option" where
  "patch_action L sub patch obj =
     with_meta L obj (\<lambda>gvr ns name. case patchData L patch obj of
       Inl e \<Rightarrow> None
     | Inr b \<Rightarrow> Some (PatchAction gvr sub (objNamespace obj) (objName obj) (patchType L patch) b))"

fun record_of :: "test_lib \<Rightarrow> fake_call \<Rightarrow> (slot \<times> action) option" where
  "record_of L (CallCreate obj opts) =
     with_meta L obj (\<lambda>gvr ns name. Some (Creates, CreateAction gvr [] ns [] obj))"
| "record_of L (CallUpdate obj opts) =
     with_meta L obj (\<lambda>gvr ns name. Some (Updates, UpdateAction gvr [] ns obj))"
| "record_of L (CallPatch patch obj opts) = map_option (Pair Patches) (patch_action L [] patch obj)"
| "record_of L (CallDelete obj opts) =
     with_meta L obj (\<lambda>gvr ns name. Some (Deletes, DeleteAction gvr ns name))"
| "record_of L (CallDeleteAllOf obj opts) =
     with_meta L obj (\<lambda>gvr ns name. Some (DeleteCollections, collection_action L gvr opts))"
| "record_of L (CallStatusUpdate obj opts) =
     with_meta L obj (\<lambda>gvr ns name. Some (StatusUpdates, UpdateAction gvr ''status'' ns obj))"
| "record_of L (CallStatusPatch patch obj opts) =
     map_option (Pair StatusPatches) (patch_action L ''status'' patch obj)"
| "record_of L (CallSubResourceUpdate sub obj opts) =
     (if sub = ''status''
      then with_meta L obj (\<lambda>gvr ns name. Some (StatusUpdates, UpdateAction gvr ''status'' ns obj)) else None)"
| "record_of L _ = None"

definition add_record :: "(slot \<times> action) option \<Rightarrow> slot \<Rightarrow> action list" where
  "add_record r s = (case r of Some (s', a) \<Rightarrow> if s' = s then [a] else [] | None \<Rightarrow> [])"

lemma add_record_None [simp]: "add_record None s = []"
  by (simp add: add_record_def)

lemma recorded_add [simp]:
  "recorded (w\<lparr>CreateActions := CreateActions w @ [a]\<rparr>) s = recorded w s @ add_record (Some (Creates, a)) s"
  "recorded (w\<lparr>UpdateActions := UpdateActions w @ [a]\<rparr>) s = recorded w s @ add_record (Some (Updates, a)) s"
  "recorded (w\<lparr>PatchActions := PatchActions w @ [a]\<rparr>) s = recorded w s @ add_record (Some (Patches, a)) s"
  "recorded (w\<lparr>DeleteActions := DeleteActions w @ [a]\<rparr>) s = recorded w s @ add_record (Some (Deletes, a)) s"
  "recorded (w\<lparr>DeleteCollectionActions := DeleteCollectionActions w @ [a]\<rparr>) s =
     recorded w s @ add_record (Some (DeleteCollections, a)) s"
  "recorded (w\<lparr>StatusUpdateActions := StatusUpdateActions w @ [a]\<rparr>) s =
     recorded w s @ add_record (Some (StatusUpdates, a)) s"
  "recorded (w\<lparr>StatusPatchActions := StatusPatchActions w @ [a]\<rparr>) s =
     recorded w s @ add_record (Some (StatusPatches, a)) s"
  by (cases s; simp add: add_record_def)+

text \<open>A run of calls, as one reconciliation makes them.\<close>

fun call_all :: "'w client_ops \<Rightarrow> fake_call list \<Rightarrow> ('w, err option list) go" where
  "call_all c [] w = Some ([], w)"
| "call_all c (x # xs) w =
     do { (e, w) \<leftarrow> call_client c x w;
          (es, w) \<leftarrow> call_all c xs w;
          Some (e # es, w) }"

section \<open>Reactors leave the recorded actions alone\<close>

text \<open>\<open>untouched\<close>: a step changed neither the recorded actions nor the world of the wrapped client.\<close>

definition untouched :: "'w fake \<Rightarrow> 'w fake \<Rightarrow> bool" where
  "untouched w w' \<longleftrightarrow> recorded w' = recorded w \<and> backend w' = backend w"

interpretation untouched: world_relation untouched
  by unfold_locales (simp_all add: untouched_def)

abbreviation harmless :: "('w fake, 'a) go \<Rightarrow> bool" where
  "harmless m \<equiv> keeps untouched m"

lemma harmlessD:
  assumes "harmless m" and "m w = Some (x, w')"
  shows "recorded w' = recorded w" and "backend w' = backend w"
  using keepsD [OF assms] by (simp_all add: untouched_def)

locale harmless_reactors =
  fixes L :: test_lib and c :: "'w clientWrapper"
  assumes reaction_harmless: "r \<in> set (reactionChain c) \<Longrightarrow> harmless (reReact r a)"
begin

lemma react_harmless_on:
  "set chain \<subseteq> set (reactionChain c) \<Longrightarrow> harmless (react L chain a)"
proof (induction chain arbitrary: a)
  case Nil
  then show ?case by (auto simp: keeps_def intro: untouched.R_refl)
next
  case (Cons r chain)
  then have r: "harmless (reReact r a)" and IH: "\<And>a. harmless (react L chain a)"
    by (auto intro: reaction_harmless)
  show ?case
  proof
    fix w x w'
    assume run: "react L (r # chain) a w = Some (x, w')"
    show "untouched w w'"
    proof (cases "reactorHandles L (reVerb r) (reResource r) a")
      case False
      with run have "react L chain a w = Some (x, w')" by simp
      with IH show ?thesis by (rule keepsD)
    next
      case True
      with run obtain h e obj w1 where 1: "reReact r a w = Some ((h, e, obj), w1)"
        and 2: "(if \<not> h then react L chain (with_object obj a) w1 else Some ((e, with_object obj a), w1)) = Some (x, w')"
        by (auto simp: Let_def)
      from r 1 have "untouched w w1" by (rule keepsD)
      moreover have "untouched w1 w'"
        using 2 keepsD [OF IH] untouched.R_refl by (cases h) auto
      ultimately show ?thesis by (rule untouched.R_trans)
    qed
  qed
qed

lemma react_harmless: "harmless (react L (reactionChain c) a)"
  by (rule react_harmless_on) simp

lemma recorded_lifted: "lifted m w = Some (x, w') \<Longrightarrow> recorded w' = recorded w"
  by (rule ext, rename_tac s, case_tac s) (auto simp: lifted_def)

lemma recorded_guarded:
  assumes "guarded L c a obj call w = Some (x, w')"
  shows "recorded w' = recorded w"
proof -
  from assms obtain e a' w1 where r: "react L (reactionChain c) a w = Some ((e, a'), w1)"
    and "(case e of Some e \<Rightarrow> Some ((Some e, reacted_object a' obj), w1)
          | None \<Rightarrow> lifted (call (reacted_object a' obj)) w1) = Some (x, w')"
    by (auto simp: guarded_def Let_def)
  then have "recorded w' = recorded w1" by (auto split: option.splits intro: recorded_lifted)
  with harmlessD(1) [OF react_harmless r] show ?thesis by simp
qed

lemma recorded_only_react: "only_react L c a obj w = Some (x, w') \<Longrightarrow> recorded w' = recorded w"
  using harmlessD(1) [OF react_harmless] by (auto simp: only_react_def)

lemmas recorded_calls = recorded_guarded recorded_only_react recorded_lifted harmlessD(1) [OF react_harmless]

lemma recorded_call:
  assumes "call_client (fake_client L c) x w = Some (e, w')"
  shows "recorded w' s = recorded w s @ add_record (record_of L x) s"
  using assms
  by (cases x)
    (auto simp: fake_client_def outcome_def fake_Get_def fake_List_def fake_Create_def fake_Update_def fake_Patch_def
        fake_Delete_def fake_DeleteAllOf_def fake_Status_def status_writer_Update_def status_writer_Patch_def
        fake_SubResource_def sub_Update_def with_meta_def patch_action_def collection_action_def Let_def
      split: sum.splits option.splits if_splits dest!: recorded_calls)

lemma recorded_call_all:
  "call_all (fake_client L c) xs w = Some (es, w') \<Longrightarrow>
    recorded w' s = recorded w s @ concat (map (\<lambda>x. add_record (record_of L x) s) xs)"
  by (induction xs arbitrary: w es) (auto dest!: recorded_call [where s = s])

end

lemma harmless_generate_name: "harmless (generate_name a)"
proof
  fix w x w'
  assume "generate_name a w = Some (x, w')"
  moreover have "recorded (w\<lparr>genCount := n\<rparr>) = recorded w" for n
    by (rule ext, rename_tac s, case_tac s) simp_all
  ultimately show "untouched w w'"
    by (auto simp: generate_name_def untouched_def Let_def split: option.splits if_splits)
qed

lemma harmless_induce_failure: "harmless (induce_failure L verb kind opts a)"
  by (rule keepsI) (auto simp: induce_failure_def untouched.R_refl Let_def split: if_splits)

lemma harmless_CalledAtMostTimes: "harmless (CalledAtMostTimes L n verb kind k a)"
proof
  fix w x w'
  assume "CalledAtMostTimes L n verb kind k a w = Some (x, w')"
  moreover have "recorded (w\<lparr>callCounts := f\<rparr>) = recorded w" for f
    by (rule ext, rename_tac s, case_tac s) simp_all
  ultimately show "untouched w w'"
    by (auto simp: CalledAtMostTimes_def untouched_def Let_def split: if_splits)
qed

interpretation plain: harmless_reactors L "NewFakeClientWrapper cl" for L cl
  by unfold_locales (auto simp: NewFakeClientWrapper_def AddReactor_def intro: harmless_generate_name)

interpretation failing: harmless_reactors L
    "PrependReactor ''*'' ''*'' (induce_failure L verb kind opts) (NewFakeClientWrapper cl)" for L verb kind opts cl
  by unfold_locales
    (auto simp: NewFakeClientWrapper_def AddReactor_def PrependReactor_def
      intro: harmless_generate_name harmless_induce_failure)

section \<open>What a call offers to the chain, and what it does when the chain lets it pass\<close>

fun offered :: "test_lib \<Rightarrow> fake_call \<Rightarrow> action option" where
  "offered L (CallGet key obj opts) = with_meta L obj (\<lambda>gvr ns name. Some (GetAction gvr [] ns name))"
| "offered L (CallList list opts) =
     (case list_objmeta L list of
        Inl e \<Rightarrow> None
      | Inr (gvr, ns, name) \<Rightarrow>
          Some (ListAction gvr \<lparr>gvkGroup = grGroup gvr, gvkVersion = grVersion gvr, gvkKind = grResource gvr\<rparr>
            (listNamespace L opts)))"
| "offered L (CallSubResourceUpdate sub obj opts) =
     with_meta L obj (\<lambda>gvr ns name. Some (UpdateAction gvr sub ns obj))"
| "offered L x = map_option snd (record_of L x)"

fun put_record :: "(slot \<times> action) option \<Rightarrow> 'w fake \<Rightarrow> 'w fake" where
  "put_record None w = w"
| "put_record (Some (Creates, a)) w = w\<lparr>CreateActions := CreateActions w @ [a]\<rparr>"
| "put_record (Some (Updates, a)) w = w\<lparr>UpdateActions := UpdateActions w @ [a]\<rparr>"
| "put_record (Some (Patches, a)) w = w\<lparr>PatchActions := PatchActions w @ [a]\<rparr>"
| "put_record (Some (Deletes, a)) w = w\<lparr>DeleteActions := DeleteActions w @ [a]\<rparr>"
| "put_record (Some (DeleteCollections, a)) w = w\<lparr>DeleteCollectionActions := DeleteCollectionActions w @ [a]\<rparr>"
| "put_record (Some (StatusUpdates, a)) w = w\<lparr>StatusUpdateActions := StatusUpdateActions w @ [a]\<rparr>"
| "put_record (Some (StatusPatches, a)) w = w\<lparr>StatusPatchActions := StatusPatchActions w @ [a]\<rparr>"

lemma backend_put_record [simp]: "backend (put_record r w) = backend w"
  by (induction r w rule: put_record.induct) simp_all

lemmas fake_call_defs =
  fake_client_def outcome_def fake_Get_def fake_List_def fake_Create_def fake_Update_def fake_Patch_def
  fake_Delete_def fake_DeleteAllOf_def fake_Status_def status_writer_Update_def status_writer_Patch_def
  fake_SubResource_def sub_Update_def with_meta_def patch_action_def collection_action_def Let_def guarded_def
  only_react_def

text \<open>A call is decided by what the chain makes of the action it offers.\<close>

lemma call_rejected:
  assumes "offered L x = Some a"
    and "react L (reactionChain c) a (put_record (record_of L x) w) = Some ((Some e, a'), w')"
  shows "call_client (fake_client L c) x w = Some (Some e, w')"
  using assms
  by (cases x)
    (auto simp: fake_call_defs split: sum.splits option.splits if_splits)

lemma call_same_chain:
  assumes "offered L x = Some a"
    and "react L (reactionChain c) a (put_record (record_of L x) w) =
      react L (reactionChain d) a (put_record (record_of L x) w)"
    and "client c = client d"
  shows "call_client (fake_client L c) x w = call_client (fake_client L d) x w"
  using assms
  by (cases x)
    (auto simp: fake_call_defs split: sum.splits option.splits if_splits cong: option.case_cong)

text \<open>Which actions \<open>InduceFailure\<close> fails, and with what.\<close>

definition action_named :: "string \<Rightarrow> action \<Rightarrow> bool" where
  "action_named name a =
     (case namedAction a of
        Some n \<Rightarrow> name = n
      | None \<Rightarrow> (case objectAction a of Some obj \<Rightarrow> name = objName obj | None \<Rightarrow> True))"

definition fails_on :: "test_lib \<Rightarrow> string \<Rightarrow> string \<Rightarrow> InduceFailureOpts \<Rightarrow> action \<Rightarrow> bool" where
  "fails_on L verb kind opts a \<longleftrightarrow>
     actionMatches L a verb kind \<and> ifNamespace opts \<in> {[], GetNamespace a} \<and>
     (ifName opts = [] \<or> action_named (ifName opts) a) \<and> ifSubResource opts \<in> {[], GetSubresource a}"

definition induced_error :: "test_lib \<Rightarrow> InduceFailureOpts \<Rightarrow> action \<Rightarrow> err" where
  "induced_error L opts a =
     (case ifError opts of
        Some e \<Rightarrow> e
      | None \<Rightarrow> Errorf ''inducing failure for %s %s'' [getVerb L a, grResource (GetResource a)])"

lemma induce_failure_eq:
  "induce_failure L verb kind opts a w =
     Some (if fails_on L verb kind opts a then (True, Some (induced_error L opts a), None) else (False, None, None), w)"
  by (auto simp: induce_failure_def fails_on_def action_named_def induced_error_def Let_def split: option.splits)

lemma react_failing:
  assumes "reactorHandles L ''*'' ''*'' a"
  shows "react L (reactionChain (PrependReactor ''*'' ''*'' (induce_failure L verb kind opts) c)) a w =
    (if fails_on L verb kind opts a then Some ((Some (induced_error L opts a), a), w)
     else react L (reactionChain c) a w)"
  using assms by (simp add: PrependReactor_def induce_failure_eq Let_def)

text \<open>An action whose object, if any, needs no generated name.\<close>

definition settled :: "action \<Rightarrow> bool" where
  "settled a = (case objectAction a of None \<Rightarrow> True | Some obj \<Rightarrow> objName obj \<noteq> [] \<or> generateName obj = [])"

lemma react_plain:
  "settled a \<Longrightarrow> react L (reactionChain (NewFakeClientWrapper cl)) a w = Some ((None, a), w)"
  by (auto simp: NewFakeClientWrapper_def AddReactor_def generate_name_def settled_def Let_def split: option.splits)

lemma reacted_own_object: "objectAction a = Some obj \<Longrightarrow> reacted_object a obj = obj"
  "objectAction a = None \<Longrightarrow> reacted_object a obj = obj"
  by (simp_all add: reacted_object_def)

fun sub_resource_call :: "fake_call \<Rightarrow> bool" where
  "sub_resource_call (CallSubResourceUpdate sub obj opts) = True"
| "sub_resource_call _ = False"

text \<open>Offering a list of actions to one reaction: which ones it handled.\<close>

fun handled_by :: "'w reaction \<Rightarrow> action list \<Rightarrow> ('w fake, bool list) go" where
  "handled_by r [] w = Some ([], w)"
| "handled_by r (a # as) w =
     do { ((h, e, x), w) \<leftarrow> r a w;
          (hs, w) \<leftarrow> handled_by r as w;
          Some (h # hs, w) }"

lemma pad3_inject: "pad3 m = pad3 n \<Longrightarrow> m = n"
proof -
  assume "pad3 m = pad3 n"
  then have "digits_value (pad3 m) = digits_value (pad3 n)" by simp
  then show ?thesis by (simp add: pad3_def digits_value_zeros digits_value_decimal)
qed

section \<open>A small instance\<close>

text \<open>A store of objects behind the client methods used below, and library functions as documented.\<close>

definition echo_op :: "'w object_op" where
  "echo_op obj opts w = Some ((None, obj), w)"

definition store_client :: "object list client_ops" where
  "store_client =
     \<lparr>opReader =
        \<lparr>opGet = (\<lambda>key obj opts store.
           Some (case find (\<lambda>x. objName x = nnName key) store of
                   Some x \<Rightarrow> (None, x) | None \<Rightarrow> (Some (Foreign ''NotFound'' []), obj), store)),
         opList = (\<lambda>list opts store. Some ((None, list), store))\<rparr>,
      opWatch = None,
      opCreate = (\<lambda>obj opts store. Some ((None, obj), store @ [obj])),
      opUpdate = echo_op, opPatch = (\<lambda>patch. echo_op),
      opDelete = (\<lambda>obj opts store. Some ((None, obj), filter (\<lambda>x. objName x \<noteq> objName obj) store)),
      opDeleteAllOf = echo_op,
      opStatus = \<lparr>swCreate = (\<lambda>s. echo_op), swUpdate = echo_op, swPatch = (\<lambda>patch. echo_op)\<rparr>,
      opSubResource = (\<lambda>sub. \<lparr>srGet = (\<lambda>s. echo_op),
        srWriter = \<lparr>swCreate = (\<lambda>s. echo_op), swUpdate = echo_op, swPatch = (\<lambda>patch. echo_op)\<rparr>\<rparr>),
      opGroupVersionKindFor = (\<lambda>obj store. Some (Inr (objectKind obj), store)),
      opIsObjectNamespaced = (\<lambda>obj store. Some (Inr True, store))\<rparr>"

fun action_verb :: "action \<Rightarrow> string" where
  "action_verb (GetAction r sub ns name) = ''get''"
| "action_verb (ListAction r k ns) = ''list''"
| "action_verb (CreateAction r sub ns name obj) = ''create''"
| "action_verb (UpdateAction r sub ns obj) = ''update''"
| "action_verb (PatchAction r sub ns name ty b) = ''patch''"
| "action_verb (DeleteAction r ns name) = ''delete''"
| "action_verb (DeleteCollectionAction r ns ls fs) = ''delete-collection''"

definition demo_test_lib :: test_lib where
  "demo_test_lib =
     \<lparr>tlRefs = demo_refs,
      tlListReference = (\<lambda>l. Inr \<lparr>orAPIVersion = ''v1'', orKind = listType l, orNamespace = [], orName = []\<rparr>),
      reactorHandles = (\<lambda>verb resource a. verb \<in> {''*'', action_verb a} \<and> resource \<in> {''*'', grResource (GetResource a)}),
      actionMatches = (\<lambda>a verb resource. verb = action_verb a \<and> resource = grResource (GetResource a)),
      getVerb = action_verb,
      patchType = (\<lambda>p. ''merge''), patchData = (\<lambda>p obj. Inr p),
      listNamespace = (\<lambda>opts. []),
      deleteAllOfOptions = (\<lambda>opts. \<lparr>daNamespace = [], daLabels = None, daFields = None\<rparr>),
      labelsEmpty = (\<lambda>s. s = Selector []), fieldsEmpty = (\<lambda>s. s = Selector []), fieldsString = (\<lambda>s. [])\<rparr>"

lemma recorded_new_fake [simp]: "recorded (new_fake b) s = []"
  by (cases s) (simp_all add: new_fake_def)

lemma call_passed:
  assumes "offered L x = Some a" and "\<not> sub_resource_call x"
    and "react L (reactionChain c) a (put_record (record_of L x) w) = Some ((None, a), put_record (record_of L x) w)"
    and "client c = cl"
  shows "call_client (fake_client L c) x w =
    do { (e, b) \<leftarrow> call_client cl x (backend w); Some (e, (put_record (record_of L x) w)\<lparr>backend := b\<rparr>) }"
  using assms
  by (cases x)
    (auto simp: fake_call_defs lifted_def reacted_object_def split_def split: sum.splits option.splits if_splits)

lemma empty_object_names [simp]:
  "objName (empty_object t) = []" "objNamespace (empty_object t) = []" "generateName (empty_object t) = []"
  "goType (empty_object t) = t"
  by (simp_all add: empty_object_def)

lemma demo_test_lib_simps [simp]:
  "objmeta demo_test_lib obj =
     Inr (\<lparr>grGroup = [], grVersion = ''v1'', grResource = goType obj\<rparr>, objNamespace obj, objName obj)"
  "reactorHandles demo_test_lib verb resource a \<longleftrightarrow>
     verb \<in> {''*'', action_verb a} \<and> resource \<in> {''*'', grResource (GetResource a)}"
  "actionMatches demo_test_lib a verb resource \<longleftrightarrow> verb = action_verb a \<and> resource = grResource (GetResource a)"
  by (simp_all add: objmeta_def demo_test_lib_def demo_refs_def reference_meta_def)

section \<open>Properties\<close>

text \<open>
  The test client records every write a reconciler attempts, once, in order and as it was passed in,
  whatever the reactors answer: after any calls, each list of recorded actions is the concatenation of
  what the single calls add by specification, provided the reactors leave the lists alone.
\<close>

theorem fake_records_calls:
  assumes "\<And>r a. r \<in> set (reactionChain c) \<Longrightarrow> harmless (reReact r a)"
    and "call_all (fake_client L c) calls (new_fake b) = Some (es, w)"
  shows "recorded w s = concat (map (\<lambda>x. add_record (record_of L x) s) calls)"
proof -
  have "harmless_reactors c" using assms(1) by unfold_locales
  then show ?thesis using harmless_reactors.recorded_call_all [OF _ assms(2), of s] by simp
qed

theorem fake_records_calls_witness:
  "\<exists>es w. call_all (fake_client demo_test_lib (NewFakeClientWrapper store_client))
       [CallCreate ((empty_object ''Pod'')\<lparr>generateName := ''a-''\<rparr>) [], CallDelete (empty_object ''Pod'') []]
       (new_fake []) = Some (es, w) \<and>
     recorded w Creates = [CreateAction \<lparr>grGroup = [], grVersion = ''v1'', grResource = ''Pod''\<rparr> [] [] []
       ((empty_object ''Pod'')\<lparr>generateName := ''a-''\<rparr>)]"
proof -
  let ?calls = "[CallCreate ((empty_object ''Pod'')\<lparr>generateName := ''a-''\<rparr>) [], CallDelete (empty_object ''Pod'') []]"
  obtain es w where run: "call_all (fake_client demo_test_lib (NewFakeClientWrapper store_client)) ?calls
      (new_fake []) = Some (es, w)"
    by (simp add: fake_call_defs NewFakeClientWrapper_def AddReactor_def generate_name_def store_client_def lifted_def)
  have "\<And>r a. r \<in> set (reactionChain (NewFakeClientWrapper store_client)) \<Longrightarrow> harmless (reReact r a)"
    by (rule plain.reaction_harmless)
  from fake_records_calls [OF this run, of Creates] run show ?thesis
    by (auto simp: with_meta_def add_record_def)
qed

text \<open>
  The test client is transparent: with no reactors but its own, a call on an object that needs no
  generated name returns what the wrapped client returns, has the same effect on the world behind it,
  and adds its record.  Sub-resources are the exception, they are not passed on.
\<close>

theorem fake_transparent:
  assumes "offered L x = Some a" and "settled a" and "\<not> sub_resource_call x"
  shows "call_client (fake_client L (NewFakeClientWrapper cl)) x w =
    do { (e, b) \<leftarrow> call_client cl x (backend w); Some (e, (put_record (record_of L x) w)\<lparr>backend := b\<rparr>) }"
  by (rule call_passed [OF assms(1,3) react_plain [OF assms(2)]]) (simp add: NewFakeClientWrapper_def AddReactor_def)

theorem fake_transparent_witness:
  "\<exists>w. call_client (fake_client demo_test_lib (NewFakeClientWrapper store_client))
       (CallDelete ((empty_object ''Pod'')\<lparr>objName := ''a''\<rparr>) []) (new_fake [(empty_object ''Pod'')\<lparr>objName := ''a''\<rparr>])
     = Some (None, w) \<and> backend w = []"
proof -
  let ?pod = "(empty_object ''Pod'')\<lparr>objName := ''a''\<rparr>"
  let ?a = "DeleteAction \<lparr>grGroup = [], grVersion = ''v1'', grResource = ''Pod''\<rparr> [] ''a''"
  have "offered demo_test_lib (CallDelete ?pod []) = Some ?a" "settled ?a" "\<not> sub_resource_call (CallDelete ?pod [])"
    by (simp_all add: with_meta_def settled_def)
  from fake_transparent [OF this, of store_client "new_fake [?pod]"] show ?thesis
    by (simp add: outcome_def store_client_def new_fake_def)
qed

text \<open>
  \<open>InduceFailure\<close> put first in the chain makes exactly the chosen calls fail: those whose action matches
  the verb and kind, and the namespace, name and sub-resource when given, return the induced error without
  reaching the wrapped client, yet are recorded; every other call behaves as without it.
\<close>

theorem InduceFailure_spec:
  assumes "offered L x = Some a" and "reactorHandles L ''*'' ''*'' a"
  shows "call_client (fake_client L (PrependReactor ''*'' ''*'' (induce_failure L verb kind opts) c)) x w =
    (if fails_on L verb kind opts a then Some (Some (induced_error L opts a), put_record (record_of L x) w)
     else call_client (fake_client L c) x w)"
proof (cases "fails_on L verb kind opts a")
  case True
  let ?d = "PrependReactor ''*'' ''*'' (induce_failure L verb kind opts) c"
  from True have "react L (reactionChain ?d) a (put_record (record_of L x) w) =
      Some ((Some (induced_error L opts a), a), put_record (record_of L x) w)"
    by (simp add: react_failing [OF assms(2)])
  from call_rejected [OF assms(1) this] True show ?thesis by simp
next
  case False
  let ?d = "PrependReactor ''*'' ''*'' (induce_failure L verb kind opts) c"
  have "call_client (fake_client L ?d) x w = call_client (fake_client L c) x w"
  proof (rule call_same_chain [OF assms(1)])
    show "react L (reactionChain ?d) a (put_record (record_of L x) w) =
        react L (reactionChain c) a (put_record (record_of L x) w)"
      using False by (simp only: react_failing [OF assms(2)] if_False)
  qed (simp add: PrependReactor_def)
  with False show ?thesis by simp
qed

theorem InduceFailure_spec_witness:
  "call_client (fake_client demo_test_lib (PrependReactor ''*'' ''*''
       (induce_failure demo_test_lib ''create'' ''Pod'' \<lparr>ifError = Some ErrQuiet, ifNamespace = [], ifName = ''a'', ifSubResource = []\<rparr>)
       (NewFakeClientWrapper store_client)))
     (CallCreate ((empty_object ''Pod'')\<lparr>objName := ''a''\<rparr>) []) (new_fake []) =
   Some (Some ErrQuiet, put_record (record_of demo_test_lib (CallCreate ((empty_object ''Pod'')\<lparr>objName := ''a''\<rparr>) [])) (new_fake []))"
proof -
  let ?pod = "(empty_object ''Pod'')\<lparr>objName := ''a''\<rparr>"
  let ?a = "CreateAction \<lparr>grGroup = [], grVersion = ''v1'', grResource = ''Pod''\<rparr> [] [] [] ?pod"
  have "offered demo_test_lib (CallCreate ?pod []) = Some ?a" "reactorHandles demo_test_lib ''*'' ''*'' ?a"
    by (simp_all add: with_meta_def)
  from InduceFailure_spec [OF this, of "''create''" "''Pod''"
      "\<lparr>ifError = Some ErrQuiet, ifNamespace = [], ifName = ''a'', ifSubResource = []\<rparr>"] show ?thesis
    by (simp add: fails_on_def action_named_def induced_error_def)
qed

text \<open>
  A failure induced by name does not reach reads: the action of a \<open>Get\<close> carries the name of the object
  that is filled in and not the requested key, so reading into an empty object behaves as without the
  reactor, whatever key is requested.
\<close>

theorem InduceFailure_misses_reads:
  assumes "objmeta L obj = Inr (gvr, ns, [])" and "reactorHandles L ''*'' ''*'' (GetAction gvr [] ns [])"
    and "ifName opts \<noteq> []"
  shows "call_client (fake_client L (PrependReactor ''*'' ''*'' (induce_failure L verb kind opts) c)) (CallGet key obj os) w =
    call_client (fake_client L c) (CallGet key obj os) w"
proof -
  let ?d = "PrependReactor ''*'' ''*'' (induce_failure L verb kind opts) c"
  have o: "offered L (CallGet key obj os) = Some (GetAction gvr [] ns [])" using assms(1) by (simp add: with_meta_def)
  have "\<not> fails_on L verb kind opts (GetAction gvr [] ns [])"
    using assms(3) by (simp add: fails_on_def action_named_def)
  then have "react L (reactionChain ?d) (GetAction gvr [] ns []) w' = react L (reactionChain c) (GetAction gvr [] ns []) w'" for w'
    by (simp add: react_failing [OF assms(2)])
  then show ?thesis by (intro call_same_chain [OF o]) (simp_all add: PrependReactor_def)
qed

theorem InduceFailure_misses_reads_witness:
  "call_client (fake_client demo_test_lib (PrependReactor ''*'' ''*''
       (induce_failure demo_test_lib ''get'' ''Pod'' \<lparr>ifError = None, ifNamespace = [], ifName = ''a'', ifSubResource = []\<rparr>)
       (NewFakeClientWrapper store_client)))
     (CallGet \<lparr>nnNamespace = [], nnName = ''a''\<rparr> (empty_object ''Pod'') []) w =
   call_client (fake_client demo_test_lib (NewFakeClientWrapper store_client))
     (CallGet \<lparr>nnNamespace = [], nnName = ''a''\<rparr> (empty_object ''Pod'') []) w"
  by (rule InduceFailure_misses_reads) simp_all

text \<open>
  Generated names never clash: names generated for the same prefix at two different moments of a run
  differ; the suffix has at least three digits.
\<close>

theorem generated_names_distinct:
  assumes "generate_name a w = Some ((h, e, Some x), w1)" and "genCount w1 \<le> genCount w2"
    and "generate_name a' w2 = Some ((h', e', Some y), w3)" and "generateName x = generateName y"
  shows "objName x \<noteq> objName y \<and> (\<exists>suffix. objName x = generateName x @ suffix \<and> 3 \<le> length suffix)"
proof -
  have name: "objName z = generateName z @ pad3 (Suc (genCount v)) \<and> genCount v' = Suc (genCount v)"
    if "generate_name b v = Some ((h, e, Some z), v')" for b v h e z v'
    using that by (auto simp: generate_name_def Let_def split: option.splits if_splits)
  from name [OF assms(1)] name [OF assms(3)] assms(2,4) have "objName x \<noteq> objName y" by (auto dest: pad3_inject)
  moreover from name [OF assms(1)] have "\<exists>suffix. objName x = generateName x @ suffix \<and> 3 \<le> length suffix"
    by (auto simp: pad3_def)
  ultimately show ?thesis ..
qed

theorem generated_names_distinct_witness:
  "\<exists>x w y v. generate_name (CreateAction g [] [] [] ((empty_object ''Pod'')\<lparr>generateName := ''a-''\<rparr>)) (new_fake ()) =
       Some ((False, None, Some x), w) \<and>
     generate_name (CreateAction g [] [] [] ((empty_object ''Pod'')\<lparr>generateName := ''a-''\<rparr>)) w = Some ((False, None, Some y), v) \<and>
     objName x \<noteq> objName y"
proof -
  let ?a = "CreateAction g [] [] [] ((empty_object ''Pod'')\<lparr>generateName := ''a-''\<rparr>)"
  have go: "\<exists>x v. generate_name ?a w = Some ((False, None, Some x), v) \<and> generateName x = ''a-''" for w :: "unit fake"
    by (simp add: generate_name_def Let_def)
  obtain x w where 1: "generate_name ?a (new_fake ()) = Some ((False, None, Some x), w)" "generateName x = ''a-''"
    using go by blast
  obtain y v where 2: "generate_name ?a w = Some ((False, None, Some y), v)" "generateName y = ''a-''" using go by blast
  from generated_names_distinct [OF 1(1) order_refl 2(1)] 1 2 show ?thesis by auto
qed

text \<open>
  \<open>CalledAtMostTimes\<close> lets the first \<open>maxCalls\<close> calls pass and fails every later one, but it counts the
  calls that list \<open>ConfigMapList\<close>, whatever verb and kind it was given.
\<close>

theorem CalledAtMostTimes_limits:
  assumes "\<And>a. a \<in> set as \<Longrightarrow> actionMatches L a ''list'' ''ConfigMapList''" and "callCounts w n = k"
  shows "map_option fst (handled_by (CalledAtMostTimes L n verb kind maxCalls) as w) =
    Some (map (\<lambda>i. maxCalls < int i) [Suc k..<Suc (k + length as)])"
  using assms
proof (induction as arbitrary: w k)
  case Nil
  then show ?case by simp
next
  case (Cons a as)
  let ?w = "w\<lparr>callCounts := (callCounts w)(n := Suc k)\<rparr>"
  have "map_option fst (handled_by (CalledAtMostTimes L n verb kind maxCalls) as ?w) =
      Some (map (\<lambda>i. maxCalls < int i) [Suc (Suc k)..<Suc (Suc k + length as)])"
    using Cons.prems by (intro Cons.IH) simp_all
  moreover have "\<exists>e. CalledAtMostTimes L n verb kind maxCalls a w = Some ((maxCalls < int (Suc k), e, None), ?w)"
    using Cons.prems by (auto simp: CalledAtMostTimes_def Let_def)
  moreover have "[Suc k..<Suc (k + length (a # as))] = Suc k # [Suc (Suc k)..<Suc (Suc k + length as)]"
    by (subst upt_conv_Cons) simp_all
  ultimately show ?case by (auto split: option.splits)
qed

theorem CalledAtMostTimes_limits_witness:
  "map_option fst (handled_by (CalledAtMostTimes demo_test_lib 0 ''create'' ''Pod'' 1)
      (replicate 3 (ListAction \<lparr>grGroup = [], grVersion = ''v1'', grResource = ''ConfigMapList''\<rparr> empty_gvk []))
      (new_fake ())) = Some [False, True, True]"
  using CalledAtMostTimes_limits [of "replicate 3 (ListAction \<lparr>grGroup = [], grVersion = ''v1'', grResource = ''ConfigMapList''\<rparr> empty_gvk [])"
      demo_test_lib "new_fake ()" 0 0 "''create''" "''Pod''" 1]
  by (simp add: new_fake_def upt_rec)

end
