(* ===== verification/TestDoubles.thy ===== *)
theory TestDoubles
  imports FakeClient
begin

text \<open>
  The event recorder and the tracker tests run reconcilers with: \<^verbatim>\<open>src/testing/recorder.go\<close> and
  \<^verbatim>\<open>src/testing/tracker.go\<close>.  Both record what they are asked; the tracker also does it, on a
  \<open>tracker.New\<close> of its own, so it is interpreted as a tracker of the contract stated in theory Tracker.
\<close>

section \<open>Events\<close>

record event =
  evAPIVersion :: string
  evKind :: string
  evNamespace :: string
  evName :: string
  evType :: string
  evReason :: string
  evMessage :: string

text \<open>\<open>sprintf\<close> is \<open>fmt.Sprintf\<close>.  An object without a reference panics.\<close>

definition NewEvent ::
    "refs_lib \<Rightarrow> (string \<Rightarrow> log_value list \<Rightarrow> string) \<Rightarrow> object \<Rightarrow> string \<Rightarrow> string \<Rightarrow> string \<Rightarrow> log_value list \<Rightarrow> event option" where
  "NewEvent R sprintf factory eventtype reason messageFormat a =
     (case GetReference R factory of
        Inl e \<Rightarrow> None
      | Inr objref \<Rightarrow>
          Some \<lparr>evAPIVersion = orAPIVersion objref, evKind = orKind objref, evNamespace = orNamespace objref,
                evName = orName objref, evType = eventtype, evReason = reason, evMessage = sprintf messageFormat a\<rparr>)"

type_synonym eventRecorder = "event list"

definition recorder_Eventf ::
    "refs_lib \<Rightarrow> (string \<Rightarrow> log_value list \<Rightarrow> string) \<Rightarrow> object \<Rightarrow> string \<Rightarrow> string \<Rightarrow> string \<Rightarrow> log_value list
      \<Rightarrow> (eventRecorder, unit) go" where
  "recorder_Eventf R sprintf obj eventtype reason messageFmt args events =
     do { e \<leftarrow> NewEvent R sprintf obj eventtype reason messageFmt args; Some ((), events @ [e]) }"

definition recorder_Event ::
    "refs_lib \<Rightarrow> (string \<Rightarrow> log_value list \<Rightarrow> string) \<Rightarrow> object \<Rightarrow> string \<Rightarrow> string \<Rightarrow> string \<Rightarrow> (eventRecorder, unit) go" where
  "recorder_Event R sprintf obj eventtype reason message = recorder_Eventf R sprintf obj eventtype reason message []"

definition recorder_AnnotatedEventf ::
    "refs_lib \<Rightarrow> (string \<Rightarrow> log_value list \<Rightarrow> string) \<Rightarrow> object \<Rightarrow> (string \<rightharpoonup> string) \<Rightarrow> string \<Rightarrow> string \<Rightarrow> string
      \<Rightarrow> log_value list \<Rightarrow> (eventRecorder, unit) go" where
  "recorder_AnnotatedEventf R sprintf obj annotations eventtype reason messageFmt args =
     recorder_Eventf R sprintf obj eventtype reason messageFmt args"

section \<open>The tracker\<close>

text \<open>\<open>trTracked\<close> is a deprecated \<open>tracker.Key\<close>, an alternative to the reference.\<close>

record Key =
  keyGroup :: string
  keyKind :: string
  keyNamespace :: string
  keyName :: string

definition NewKey :: "gvk \<Rightarrow> namespaced_name \<Rightarrow> Key" where
  "NewKey gvk namespacedName =
     \<lparr>keyGroup = gvkGroup gvk, keyKind = gvkKind gvk, keyNamespace = nnNamespace namespacedName,
      keyName = nnName namespacedName\<rparr>"

record TrackRequest =
  trTracker :: namespaced_name
  trTracked :: Key
  trReference :: Reference

definition empty_key :: Key where
  "empty_key = \<lparr>keyGroup = [], keyKind = [], keyNamespace = [], keyName = []\<rparr>"

definition empty_reference :: Reference where
  "empty_reference = \<lparr>refAPIGroup = [], refKind = [], refNamespace = [], refName = [], refSelector = None\<rparr>"

definition normalize :: "TrackRequest \<Rightarrow> TrackRequest" where
  "normalize tr =
     (if trReference tr \<noteq> empty_reference then tr
      else tr\<lparr>trReference :=
                \<lparr>refAPIGroup = keyGroup (trTracked tr), refKind = keyKind (trTracked tr),
                 refNamespace = keyNamespace (trTracked tr), refName = keyName (trTracked tr), refSelector = None\<rparr>,
              trTracked := empty_key\<rparr>)"

definition CreateTrackRequest ::
    "string \<Rightarrow> string \<Rightarrow> string \<Rightarrow> string \<Rightarrow> string \<Rightarrow> string \<Rightarrow> TrackRequest" where
  "CreateTrackRequest trackedObjGroup trackedObjKind trackedObjNamespace trackedObjName trackingObjNamespace trackingObjName =
     \<lparr>trTracker = \<lparr>nnNamespace = trackingObjNamespace, nnName = trackingObjName\<rparr>, trTracked = empty_key,
      trReference = \<lparr>refAPIGroup = trackedObjGroup, refKind = trackedObjKind, refNamespace = trackedObjNamespace,
        refName = trackedObjName, refSelector = None\<rparr>\<rparr>"

text \<open>\<open>objectKinds\<close> is \<open>Scheme.ObjectKinds\<close>: an error or at least one kind (indexing an empty list panics).\<close>

definition NewTrackRequest ::
    "(object \<Rightarrow> err + gvk list) \<Rightarrow> object \<Rightarrow> object \<Rightarrow> TrackRequest option" where
  "NewTrackRequest objectKinds t b =
     (case objectKinds t of
        Inl e \<Rightarrow> None
      | Inr [] \<Rightarrow> None
      | Inr (k # ks) \<Rightarrow>
          Some \<lparr>trTracker = \<lparr>nnNamespace = objNamespace b, nnName = objName b\<rparr>, trTracked = empty_key,
                trReference = \<lparr>refAPIGroup = gvkGroup k, refKind = gvkKind k, refNamespace = objNamespace t,
                  refName = objName t, refSelector = None\<rparr>\<rparr>)"

record mockTracker =
  mtTracker :: impl
  mtReqs :: "TrackRequest list"

definition mock_TrackReference ::
    "refs_lib \<Rightarrow> mockTracker \<Rightarrow> int \<Rightarrow> Reference \<Rightarrow> object \<Rightarrow> err option \<times> mockTracker" where
  "mock_TrackReference R t now ref obj =
     (let t = t\<lparr>mtReqs := mtReqs t @ [\<lparr>trTracker = \<lparr>nnNamespace = objNamespace obj, nnName = objName obj\<rparr>,
                  trTracked = empty_key, trReference = ref\<rparr>]\<rparr>;
          (e, i) = TrackReference R (mtTracker t) now ref obj
      in (e, t\<lparr>mtTracker := i\<rparr>))"

definition mock_TrackObject ::
    "refs_lib \<Rightarrow> mockTracker \<Rightarrow> int \<Rightarrow> object \<Rightarrow> object \<Rightarrow> err option \<times> mockTracker" where
  "mock_TrackObject R t now ref obj =
     (case GetReference R ref of
        Inl e \<Rightarrow> (Some e, t)
      | Inr oref \<Rightarrow>
          (let gv = FromAPIVersionAndKind R (orAPIVersion oref) (orKind oref)
           in mock_TrackReference R t now
                \<lparr>refAPIGroup = gvkGroup gv, refKind = gvkKind gv, refNamespace = objNamespace ref,
                 refName = objName ref, refSelector = None\<rparr> obj))"

text \<open>\<open>GetObservers\<close> is that of the embedded tracker.\<close>

definition mock_GetObservers ::
    "refs_lib \<Rightarrow> mockTracker \<Rightarrow> int \<Rightarrow> object \<Rightarrow> (err + namespaced_name list) \<times> mockTracker" where
  "mock_GetObservers R t now obj =
     (let (r, i) = GetObservers R (mtTracker t) now obj in (r, t\<lparr>mtTracker := i\<rparr>))"

text \<open>
  The given requests are tracked when the tracker is created, one after the other at the times in
  \<open>readings\<close>; errors are ignored.
\<close>

definition one_day :: int where
  "one_day = 24 * 3600000000000"

fun track_given :: "refs_lib \<Rightarrow> (nat \<Rightarrow> int) \<Rightarrow> TrackRequest list \<Rightarrow> mockTracker \<Rightarrow> mockTracker" where
  "track_given R readings [] t = t"
| "track_given R readings (g # given) t =
     (let g = normalize g;
          obj = (empty_object ''Unstructured'')
            \<lparr>objNamespace := nnNamespace (trTracker g), objName := nnName (trTracker g)\<rparr>;
          (e, t) = mock_TrackReference R t (readings 0) (trReference g) obj
      in track_given R (\<lambda>i. readings (Suc i)) given t)"

definition createTracker :: "refs_lib \<Rightarrow> (nat \<Rightarrow> int) \<Rightarrow> TrackRequest list \<Rightarrow> mockTracker" where
  "createTracker R readings given =
     (let t = track_given R readings given \<lparr>mtTracker = New one_day, mtReqs = []\<rparr> in t\<lparr>mtReqs := []\<rparr>)"

definition getTrackRequests :: "mockTracker \<Rightarrow> TrackRequest list" where
  "getTrackRequests t = mtReqs t"

section \<open>It keeps the contract of a tracker\<close>

fun mock_step :: "refs_lib \<Rightarrow> int \<Rightarrow> tracker_call \<Rightarrow> mockTracker \<Rightarrow> mockTracker" where
  "mock_step R t (Track_Reference ref obj) m = snd (mock_TrackReference R m t ref obj)"
| "mock_step R t (Track_Object ref obj) m = snd (mock_TrackObject R m t ref obj)"
| "mock_step R t (Get_Observers obj) m = snd (mock_GetObservers R m t obj)"

text \<open>
  What a call is for the embedded tracker: tracking an object is tracking the reference made of its kind,
  namespace and name.
\<close>

definition mock_reference :: "refs_lib \<Rightarrow> object \<Rightarrow> Reference option" where
  "mock_reference R ref =
     (case GetReference R ref of
        Inl e \<Rightarrow> None
      | Inr oref \<Rightarrow>
          (let gv = FromAPIVersionAndKind R (orAPIVersion oref) (orKind oref)
           in Some \<lparr>refAPIGroup = gvkGroup gv, refKind = gvkKind gv, refNamespace = objNamespace ref,
                    refName = objName ref, refSelector = None\<rparr>))"

fun mock_call :: "refs_lib \<Rightarrow> tracker_call \<Rightarrow> tracker_call" where
  "mock_call R (Track_Object ref obj) =
     (case mock_reference R ref of None \<Rightarrow> Track_Object ref obj | Some r \<Rightarrow> Track_Reference r obj)"
| "mock_call R c = c"

text \<open>The request a call records.\<close>

fun requested :: "refs_lib \<Rightarrow> tracker_call \<Rightarrow> TrackRequest list" where
  "requested R (Track_Reference ref obj) =
     [\<lparr>trTracker = observer_key obj, trTracked = empty_key, trReference = ref\<rparr>]"
| "requested R (Track_Object ref obj) =
     (case mock_reference R ref of
        None \<Rightarrow> []
      | Some r \<Rightarrow> [\<lparr>trTracker = observer_key obj, trTracked = empty_key, trReference = r\<rparr>])"
| "requested R (Get_Observers obj) = []"

lemma mock_TrackReference_sel:
  "mtTracker (snd (mock_TrackReference R m t ref obj)) = snd (TrackReference R (mtTracker m) t ref obj)"
  "mtReqs (snd (mock_TrackReference R m t ref obj)) =
     mtReqs m @ [\<lparr>trTracker = observer_key obj, trTracked = empty_key, trReference = ref\<rparr>]"
  "fst (mock_TrackReference R m t ref obj) = fst (TrackReference R (mtTracker m) t ref obj)"
  by (simp_all add: mock_TrackReference_def observer_key_def Let_def split: prod.split)

lemma mock_TrackObject_eq:
  "mock_TrackObject R m t ref obj =
     (case mock_reference R ref of
        None \<Rightarrow> (Some (projl (GetReference R ref)), m)
      | Some r \<Rightarrow> mock_TrackReference R m t r obj)"
  by (simp add: mock_TrackObject_def mock_reference_def Let_def split: sum.split)

lemma mock_reference_None: "mock_reference R ref = None \<longleftrightarrow> object_reference R ref = None"
  by (simp add: mock_reference_def object_reference_def Let_def split: sum.split)

lemma mock_step_tracker: "mtTracker (mock_step R t c m) = tracker_step R t (mock_call R c) (mtTracker m)"
  by (cases c)
    (auto simp: mock_TrackReference_sel mock_TrackObject_eq TrackObject_eq mock_reference_None mock_GetObservers_def
      split: option.splits prod.splits dest: mock_reference_None [THEN iffD2])

lemma mock_step_reqs: "mtReqs (mock_step R t c m) = mtReqs m @ requested R c"
  by (cases c)
    (auto simp: mock_TrackReference_sel mock_TrackObject_eq mock_GetObservers_def split: option.splits prod.splits)

interpretation mock: tracker_contract "mock_step R" "\<lambda>c. asked R (mock_call R c)"
  "\<lambda>m t obj. case fst (mock_GetObservers R m t obj) of Inl _ \<Rightarrow> None | Inr ks \<Rightarrow> Some ks"
  "\<lambda>m. tracker_wf R (mtTracker m)" "\<lambda>m. current_lease (mtTracker m)" "\<lambda>m. leaseDuration (mtTracker m)" "concerns R" for R
proof unfold_locales
  fix m :: mockTracker and t u :: int and c p k sel obj ks
  show "tracker_wf R (mtTracker m) \<Longrightarrow> tracker_wf R (mtTracker (mock_step R t c m))"
    by (simp add: mock_step_tracker tr.step_inv)
  show "leaseDuration (mtTracker (mock_step R t c m)) = leaseDuration (mtTracker m)"
    by (simp add: mock_step_tracker tr.step_lease)
  show "asked R (mock_call R c) = Some (p, k, sel) \<Longrightarrow> current_lease (mtTracker (mock_step R t c m)) p k u =
      (if u \<le> t + leaseDuration (mtTracker m) then Some sel else None)"
    unfolding mock_step_tracker by (rule current_step_asked)
  show "tracker_wf R (mtTracker m) \<Longrightarrow> t \<le> u \<Longrightarrow> \<forall>sel. asked R (mock_call R c) \<noteq> Some (p, k, sel) \<Longrightarrow>
      current_lease (mtTracker (mock_step R t c m)) p k u = current_lease (mtTracker m) p k u"
    unfolding mock_step_tracker by (rule current_step_other)
  assume "tracker_wf R (mtTracker m)" and
    "(case fst (mock_GetObservers R m t obj) of Inl _ \<Rightarrow> None | Inr ks \<Rightarrow> Some ks) = Some ks"
  then show "set ks = {k. \<exists>p sel. current_lease (mtTracker m) p k t = Some sel \<and> concerns R obj p sel}"
    by (intro tr.observers_exact) (auto simp: mock_GetObservers_def split: prod.splits)
qed

section \<open>Properties\<close>

text \<open>The given requests as calls with their times.\<close>

fun given_calls :: "(nat \<Rightarrow> int) \<Rightarrow> TrackRequest list \<Rightarrow> (int \<times> tracker_call) list" where
  "given_calls readings [] = []"
| "given_calls readings (g # given) =
     (let g = normalize g
      in (readings 0, Track_Reference (trReference g)
            ((empty_object ''Unstructured'')\<lparr>objNamespace := nnNamespace (trTracker g), objName := nnName (trTracker g)\<rparr>))
         # given_calls (\<lambda>i. readings (Suc i)) given)"

definition mock_run :: "refs_lib \<Rightarrow> (int \<times> tracker_call) list \<Rightarrow> mockTracker \<Rightarrow> mockTracker" where
  "mock_run R calls m = foldl (\<lambda>m (t, c). mock_step R t c m) m calls"

lemma mock_run_eq: "mock_run R calls m = mock.run R calls m"
  by (induction calls arbitrary: m) (auto simp: mock_run_def)

lemma mock_run_append: "mock_run R (xs @ ys) m = mock_run R ys (mock_run R xs m)"
  by (simp add: mock_run_def)

lemma track_given_run: "track_given R readings given m = mock_run R (given_calls readings given) m"
  by (induction R readings given m rule: track_given.induct)
    (auto simp: mock_run_def Let_def mock_TrackReference_sel split: prod.splits)

lemma mock_run_reqs: "mtReqs (mock_run R calls m) = mtReqs m @ concat (map (\<lambda>(t, c). requested R c) calls)"
  by (induction calls arbitrary: m) (auto simp: mock_run_def mock_step_reqs)

lemma mock_run_tracker:
  "mtTracker (mock_run R calls m) = tracker_run R (map (\<lambda>(t, c). (t, mock_call R c)) calls) (mtTracker m)"
  by (induction calls arbitrary: m) (auto simp: mock_run_def tracker_run_def mock_step_tracker)

lemma createTracker_sel:
  "mtTracker (createTracker R readings given) =
     mtTracker (mock_run R (given_calls readings given) \<lparr>mtTracker = New one_day, mtReqs = []\<rparr>)"
  "mtReqs (createTracker R readings given) = []"
  by (simp_all add: createTracker_def track_given_run)

lemma mock_run_same_tracker:
  "mtTracker m = mtTracker m' \<Longrightarrow> mtTracker (mock_run R calls m) = mtTracker (mock_run R calls m')"
  by (simp add: mock_run_tracker)

text \<open>
  The test tracker reports what a reconciler tracked: every \<open>TrackReference\<close>, accepted or not, and every
  \<open>TrackObject\<close> of an object with a kind, in order, and none of the requests it was seeded with.
\<close>

theorem mock_tracker_records:
  "getTrackRequests (mock_run R calls (createTracker R readings given)) = concat (map (\<lambda>(t, c). requested R c) calls)"
  by (simp add: getTrackRequests_def mock_run_reqs createTracker_sel)

text \<open>
  The test tracker is a tracker: seeded with requests and then used, at times that are not later than
  now, it reports as observers of an object exactly those that made, or were given with, an accepted
  request within a day whose reference is the object's or whose selector matches it, and did not ask
  for the same watch point again.
\<close>

theorem mock_tracker_exact:
  assumes "\<forall>call \<in> set (given_calls readings given @ calls). fst call \<le> now"
    and "fst (mock_GetObservers R (mock_run R calls (createTracker R readings given)) now obj) = Inr ks"
  shows "k \<in> set ks \<longleftrightarrow>
    (\<exists>pre t call post ref observer. given_calls readings given @ calls = pre @ (t, call) # post \<and>
       tracked R (mock_call R call) = Some (ref, observer) \<and> observer_key observer = k \<and> refers R ref obj \<and>
       now \<le> t + one_day \<and> (\<forall>(t', call') \<in> set post. \<not> asks_for R ref k (mock_call R call')))"
proof -
  let ?m = "\<lparr>mtTracker = New one_day, mtReqs = []\<rparr>" and ?all = "given_calls readings given @ calls"
  have "mtTracker (mock_run R calls (createTracker R readings given)) = mtTracker (mock.run R ?all ?m)"
    unfolding mock_run_eq [symmetric] mock_run_append
    by (rule mock_run_same_tracker) (simp add: createTracker_sel)
  with assms(2) have obs: "(case fst (mock_GetObservers R (mock.run R ?all ?m) now obj) of
      Inl _ \<Rightarrow> None | Inr ks \<Rightarrow> Some ks) = Some ks"
    by (simp add: mock_GetObservers_def split_def Let_def)
  have inv: "tracker_wf R (mtTracker ?m)" and lease: "leaseDuration (mtTracker ?m) = one_day"
    by simp_all (simp add: New_def)
  have none: "current_lease (mtTracker ?m) p k now = None" for p k by (simp add: current_New)
  have quiet: "mock.quiet R post (watch_point R ref) k \<longleftrightarrow>
      (\<forall>(t', call') \<in> set post. \<not> asks_for R ref k (mock_call R call'))" for post ref
    by (simp add: mock.quiet_def asks_for_asked)
  from mock.run_observers_exact [where x = obj and k = k, OF inv assms(1) none obs]
  have "k \<in> set ks \<longleftrightarrow> (\<exists>pre t' c post p sel. ?all = pre @ (t', c) # post \<and>
      asked R (mock_call R c) = Some (p, k, sel) \<and> concerns R obj p sel \<and> now \<le> t' + one_day \<and>
      mock.quiet R post p k)"
    unfolding lease .
  then show ?thesis
    unfolding asked_def concerns_refers [symmetric] quiet [symmetric] by fastforce
qed

theorem mock_tracker_exact_witness:
  "\<lparr>nnNamespace = ''ns'', nnName = ''parent''\<rparr> \<in>
     set (projr (fst (mock_GetObservers demo_refs
       (createTracker demo_refs (\<lambda>_. 0) [CreateTrackRequest [] ''Pod'' ''ns'' ''a'' ''ns'' ''parent'']) 10
       (demo_object ''Pod'' ''a''))))"
proof -
  let ?given = "[CreateTrackRequest [] ''Pod'' ''ns'' ''a'' ''ns'' ''parent'']"
  let ?ref = "\<lparr>refAPIGroup = [], refKind = ''Pod'', refNamespace = ''ns'', refName = ''a'', refSelector = None\<rparr>"
  let ?by = "(empty_object ''Unstructured'')\<lparr>objNamespace := ''ns'', objName := ''parent''\<rparr>"
  let ?m = "mock_run demo_refs [] (createTracker demo_refs (\<lambda>_. 0) ?given)"
  obtain ks where ks: "fst (mock_GetObservers demo_refs ?m 10 (demo_object ''Pod'' ''a'')) = Inr ks"
    using GetObservers_Some(2) [of demo_refs "demo_object ''Pod'' ''a''"]
    by (force simp: object_ref_def demo_refs_def mock_GetObservers_def split_def Let_def)
  have g: "given_calls (\<lambda>_. 0) ?given = [(0, Track_Reference ?ref ?by)]"
    by (simp add: CreateTrackRequest_def normalize_def empty_reference_def)
  have "tracked demo_refs (mock_call demo_refs (Track_Reference ?ref ?by)) = Some (?ref, ?by)"
    by (simp add: reference_errors_valid valid_reference_def demo_refs_def)
  moreover have "refers demo_refs ?ref (demo_object ''Pod'' ''a'')"
    by (simp add: refers_def object_ref_def demo_refs_def demo_object_def empty_object_def)
  moreover have "observer_key ?by = \<lparr>nnNamespace = ''ns'', nnName = ''parent''\<rparr>" by (simp add: observer_key_def)
  ultimately have "\<lparr>nnNamespace = ''ns'', nnName = ''parent''\<rparr> \<in> set ks"
    by (subst mock_tracker_exact [OF _ ks]) (auto simp: g Cons_eq_append_conv one_day_def simp del: given_calls.simps tracked.simps mock_call.simps)
  with ks show ?thesis by (simp add: mock_run_def)
qed

end
