(* ===== verification/Expectations.thy ===== *)
theory Expectations
  imports TestDoubles
begin

text \<open>
  The expectations of a test, \<open>ExpectConfig\<close> of \<^verbatim>\<open>src/testing/config.go\<close>, and the colouring of diffs of
  \<^verbatim>\<open>src/testing/color.go\<close>: building a configuration of test doubles from given objects, and comparing
  what they recorded with what was expected.
\<close>

section \<open>Colours\<close>

text \<open>\<open>strings.Split(s, "\n")\<close>; a coloured line is a function of the colour library.\<close>

fun split_lines :: "string \<Rightarrow> string list" where
  "split_lines [] = [[]]"
| "split_lines (c # cs) =
     (if c = CHR 0x0A then [] # split_lines cs
      else case split_lines cs of l # ls \<Rightarrow> (c # l) # ls | [] \<Rightarrow> [[c]])"

definition color_line :: "(string \<Rightarrow> string) \<Rightarrow> (string \<Rightarrow> string) \<Rightarrow> string \<Rightarrow> string" where
  "color_line added removed line =
     (case line of
        [] \<Rightarrow> line
      | c # cs \<Rightarrow> if c = CHR ''+'' then added line else if c = CHR ''-'' then removed line else line)"

definition ColorizeDiff :: "(string \<Rightarrow> string) \<Rightarrow> (string \<Rightarrow> string) \<Rightarrow> string \<Rightarrow> string" where
  "ColorizeDiff added removed diff = concat (map (\<lambda>line. color_line added removed line @ [CHR 0x0A]) (split_lines diff))"

section \<open>References to actions\<close>

text \<open>Parts of an action that only some actions have; the lists they are read from hold no others.\<close>

definition GetName :: "action \<Rightarrow> string" where
  "GetName a = (case namedAction a of Some name \<Rightarrow> name | None \<Rightarrow> [])"

fun GetPatch :: "action \<Rightarrow> string \<times> string" where
  "GetPatch (PatchAction r sub ns name ty b) = (ty, b)"
| "GetPatch _ = ([], [])"

fun GetCollection :: "action \<Rightarrow> string \<times> string" where
  "GetCollection (DeleteCollectionAction r ns ls fs) = (ls, fs)"
| "GetCollection _ = ([], [])"

record PatchRef =
  prGroup :: string
  prKind :: string
  prNamespace :: string
  prName :: string
  prSubResource :: string
  prPatchType :: string
  prPatch :: string

definition NewPatchRef :: "action \<Rightarrow> PatchRef" where
  "NewPatchRef action =
     \<lparr>prGroup = grGroup (GetResource action), prKind = grResource (GetResource action),
      prNamespace = GetNamespace action, prName = GetName action, prSubResource = GetSubresource action,
      prPatchType = fst (GetPatch action), prPatch = snd (GetPatch action)\<rparr>"

record DeleteRef =
  drGroup :: string
  drKind :: string
  drNamespace :: string
  drName :: string

definition NewDeleteRef :: "action \<Rightarrow> DeleteRef" where
  "NewDeleteRef action =
     \<lparr>drGroup = grGroup (GetResource action), drKind = grResource (GetResource action),
      drNamespace = GetNamespace action, drName = GetName action\<rparr>"

definition NewDeleteRefFromObject :: "(object \<Rightarrow> err + gvk list) \<Rightarrow> object \<Rightarrow> DeleteRef option" where
  "NewDeleteRefFromObject objectKinds obj =
     (case objectKinds obj of
        Inl e \<Rightarrow> None
      | Inr [] \<Rightarrow> None
      | Inr (k # ks) \<Rightarrow>
          Some \<lparr>drGroup = gvkGroup k, drKind = gvkKind k, drNamespace = objNamespace obj, drName = objName obj\<rparr>)"

record DeleteCollectionRef =
  dcGroup :: string
  dcKind :: string
  dcNamespace :: string
  dcLabels :: selector
  dcFields :: selector

text \<open>\<open>restrictions\<close> parses the rendered selectors of an action back.\<close>

definition NewDeleteCollectionRef :: "(string \<times> string \<Rightarrow> selector \<times> selector) \<Rightarrow> action \<Rightarrow> DeleteCollectionRef" where
  "NewDeleteCollectionRef restrictions action =
     \<lparr>dcGroup = grGroup (GetResource action), dcKind = grResource (GetResource action),
      dcNamespace = GetNamespace action, dcLabels = fst (restrictions (GetCollection action)),
      dcFields = snd (restrictions (GetCollection action))\<rparr>"

section \<open>Configurations with expectations\<close>

text \<open>
  Options of go-cmp.  A path filter ignores parts of a value by the path to them: the path as a string, as Go
  source, and the name of the struct field in its last step.  Field names are ASCII.
\<close>

record cmp_path =
  pathString :: string
  pathGoString :: string
  pathField :: "string option"

datatype cmp_option =
    IgnoreAllUnexported | IgnoreLastTransitionTime | IgnoreTypeMeta | IgnoreCreationTimestamp
  | IgnoreResourceVersion | statusSubresourceOnly | EquateEmpty

definition has_suffix :: "string \<Rightarrow> string \<Rightarrow> bool" where
  "has_suffix s suffix \<longleftrightarrow> length suffix \<le> length s \<and> drop (length s - length suffix) s = suffix"

definition has_prefix :: "string \<Rightarrow> string \<Rightarrow> bool" where
  "has_prefix s prefix \<longleftrightarrow> take (length prefix) s = prefix"

definition is_upper :: "string \<Rightarrow> bool" where
  "is_upper name = (case name of [] \<Rightarrow> False | c # cs \<Rightarrow> CHR ''A'' \<le> c \<and> c \<le> CHR ''Z'')"

text \<open>The filter of \<open>IgnoreAllUnexported\<close> of \<^verbatim>\<open>src/reconcilers/cmp.go\<close>.\<close>

definition unexported_field :: "cmp_path \<Rightarrow> bool" where
  "unexported_field p = (case pathField p of None \<Rightarrow> False | Some name \<Rightarrow> \<not> is_upper name)"

text \<open>The Go source of the path to a metadata field of an unstructured object, in the four spellings.\<close>

definition metadata_suffixes :: "string \<Rightarrow> string list" where
  "metadata_suffixes field =
     [''(*unstructured.Unstructured).Object[\"metadata\"].(map[string]any)[\"'' @ field @ ''\"]'',
      ''{*unstructured.Unstructured}.Object[\"metadata\"].(map[string]any)[\"'' @ field @ ''\"]'',
      ''(*unstructured.Unstructured).Object[\"metadata\"].(map[string]interface {})[\"'' @ field @ ''\"]'',
      ''{*unstructured.Unstructured}.Object[\"metadata\"].(map[string]interface {})[\"'' @ field @ ''\"]'']"

fun ignores :: "cmp_option \<Rightarrow> cmp_path \<Rightarrow> bool" where
  "ignores IgnoreAllUnexported p \<longleftrightarrow> unexported_field p"
| "ignores IgnoreLastTransitionTime p \<longleftrightarrow>
     has_suffix (pathString p) ''LastTransitionTime'' \<or> has_suffix (pathGoString p) ''[\"lastTransitionTime\"]''"
| "ignores IgnoreTypeMeta p \<longleftrightarrow>
     has_suffix (pathString p) ''TypeMeta.APIVersion'' \<or> has_suffix (pathString p) ''TypeMeta.Kind''"
| "ignores IgnoreCreationTimestamp p \<longleftrightarrow>
     has_suffix (pathString p) ''ObjectMeta.CreationTimestamp'' \<or>
     list_ex (has_suffix (pathGoString p)) (metadata_suffixes ''creationTimestamp'')"
| "ignores IgnoreResourceVersion p \<longleftrightarrow>
     has_suffix (pathString p) ''ObjectMeta.ResourceVersion'' \<or>
     list_ex (has_suffix (pathGoString p)) (metadata_suffixes ''resourceVersion'')"
| "ignores statusSubresourceOnly p \<longleftrightarrow> pathString p \<noteq> [] \<and> \<not> has_prefix (pathString p) ''Status''"
| "ignores EquateEmpty p \<longleftrightarrow> False"

text \<open>\<open>NormalizeLabelSelector\<close> and \<open>NormalizeFieldSelector\<close>.\<close>

definition normalize_selector :: "(selector \<Rightarrow> bool) \<Rightarrow> (selector \<Rightarrow> string) \<Rightarrow> selector option \<Rightarrow> string option" where
  "normalize_selector isEmpty render s =
     (case s of None \<Rightarrow> None | Some s \<Rightarrow> if isEmpty s then None else Some (render s))"

text \<open>The fake client builder of controller-runtime, with the state the built client starts with.\<close>

record client_builder =
  cbStatusSubresource :: "object list"
  cbObjects :: "object list"
  cbOther :: string

text \<open>
  Test libraries: the diffs of go-cmp (empty when equal), the builder, the scheme and the clock.  The diff of
  objects is given the ignored paths and whether empty and nil collections are the same.
\<close>

record 'w expect_lib =
  elTest :: test_lib
  elDuck :: duck_lib
  elBuild :: "client_builder \<Rightarrow> 'w client_ops \<times> 'w"
  elReadings :: "nat \<Rightarrow> int"
  elRestrictions :: "string \<times> string \<Rightarrow> selector \<times> selector"
  elAdded :: "string \<Rightarrow> string"
  elRemoved :: "string \<Rightarrow> string"
  diffObject :: "(cmp_path \<Rightarrow> bool) \<Rightarrow> bool \<Rightarrow> object \<Rightarrow> object \<Rightarrow> string"
  diffPatch :: "PatchRef \<Rightarrow> PatchRef \<Rightarrow> string"
  diffDelete :: "DeleteRef \<Rightarrow> DeleteRef \<Rightarrow> string"
  diffCollection :: "(selector option \<Rightarrow> string option) \<Rightarrow> (selector option \<Rightarrow> string option) \<Rightarrow> DeleteCollectionRef \<Rightarrow> DeleteCollectionRef \<Rightarrow> string"
  diffEvent :: "event \<Rightarrow> event \<Rightarrow> string"
  diffTrack :: "(selector option \<Rightarrow> string option) \<Rightarrow> TrackRequest \<Rightarrow> TrackRequest \<Rightarrow> string"

text \<open>
  The messages of failed assertions: the list and position (the name of the list, the singular for an
  unexpected entry), the part naming the configuration, and the diff.  Printed values are left out.
\<close>

datatype failure =
    NotObserved string nat string
  | Differs string nat string string
  | Unexpected string string

text \<open>The doubles of an initialised configuration, by their addresses on the heap.\<close>

record 'w doubles =
  dbClient :: "nat \<times> 'w clientWrapper"
  dbAPIReader :: "nat \<times> 'w clientWrapper"
  dbRecorder :: nat
  dbTracker :: nat

record 'w test_heap =
  hpClients :: "nat \<Rightarrow> 'w fake"
  hpRecorders :: "nat \<Rightarrow> event list"
  hpTrackers :: "nat \<Rightarrow> mockTracker"
  hpNext :: nat
  hpWorld :: world

text \<open>\<open>ecDoubles\<close> is \<open>None\<close> as long as \<open>once\<close> has not run; the other fields are the exported ones.\<close>

record 'w ExpectConfig =
  ecName :: string
  ecStatusSubResourceTypes :: "object list"
  ecGivenObjects :: "object list"
  ecAPIGivenObjects :: "object list"
  ecWithClientBuilder :: "(client_builder \<Rightarrow> client_builder) option"
  ecWithReactors :: "'w reaction list"
  ecGivenTracks :: "TrackRequest list"
  ecExpectTracks :: "TrackRequest list"
  ecExpectEvents :: "event list"
  ecExpectCreates :: "object list"
  ecExpectUpdates :: "object list"
  ecExpectPatches :: "PatchRef list"
  ecExpectDeletes :: "DeleteRef list"
  ecExpectDeleteCollections :: "DeleteCollectionRef list"
  ecExpectStatusUpdates :: "object list"
  ecExpectStatusPatches :: "PatchRef list"
  ecDoubles :: "'w doubles option"
  ecObservedErrors :: "failure list"

definition createClient ::
    "'w expect_lib \<Rightarrow> 'w ExpectConfig \<Rightarrow> object list \<Rightarrow> object list \<Rightarrow> 'w clientWrapper \<times> 'w fake" where
  "createClient L c objs statusSubResourceTypes =
     (let builder = \<lparr>cbStatusSubresource = statusSubResourceTypes, cbObjects = prepareObjects objs, cbOther = []\<rparr>;
          builder = (case ecWithClientBuilder c of Some f \<Rightarrow> f builder | None \<Rightarrow> builder);
          (client, b) = elBuild L builder
      in (NewFakeClientWrapper (NewDuckAwareClientWrapper (elDuck L) client), new_fake b))"

definition ExpectConfig_init ::
    "'w expect_lib \<Rightarrow> 'w ExpectConfig \<Rightarrow> 'w test_heap \<Rightarrow> 'w doubles \<times> 'w ExpectConfig \<times> 'w test_heap" where
  "ExpectConfig_init L c h =
     (case ecDoubles c of
        Some d \<Rightarrow> (d, c, h)
      | None \<Rightarrow>
          (let (client, fake) = createClient L c (ecGivenObjects c) (ecStatusSubResourceTypes c);
               client = foldl (\<lambda>cl reactor. PrependReactor ''*'' ''*'' reactor cl) client (rev (ecWithReactors c));
               (apiReader, apiFake) = createClient L c (ecAPIGivenObjects c) (ecStatusSubResourceTypes c);
               n = hpNext h;
               d = \<lparr>dbClient = (n, client), dbAPIReader = (n + 1, apiReader), dbRecorder = n, dbTracker = n\<rparr>;
               h = h\<lparr>hpClients := (hpClients h)(n := fake, n + 1 := apiFake),
                     hpRecorders := (hpRecorders h)(n := []),
                     hpTrackers := (hpTrackers h)(n := createTracker (tlRefs (elTest L)) (elReadings L) (ecGivenTracks c)),
                     hpNext := n + 2\<rparr>
           in (d, c\<lparr>ecDoubles := Some d, ecObservedErrors := []\<rparr>, h)))"

definition configNameMsg :: "'w ExpectConfig \<Rightarrow> string" where
  "configNameMsg c = (if ecName c = [] \<or> ecName c = ''default'' then [] else '' for config '' @ ecName c)"

text \<open>A configuration of \<^verbatim>\<open>src/reconcilers/config.go\<close>: clients and recorders go by their addresses.\<close>

definition doubles_config :: "'w doubles \<Rightarrow> Config" where
  "doubles_config d =
     \<lparr>Client = Some (decimal (fst (dbClient d))), APIReader = Some (decimal (fst (dbAPIReader d))),
      Recorder = Some (decimal (dbRecorder d)), Tracker = Some (dbTracker d)\<rparr>"

definition ExpectConfig_Config ::
    "'w expect_lib \<Rightarrow> 'w ExpectConfig \<Rightarrow> 'w test_heap \<Rightarrow> Config \<times> 'w ExpectConfig \<times> 'w test_heap" where
  "ExpectConfig_Config L c h = (let (d, c, h) = ExpectConfig_init L c h in (doubles_config d, c, h))"

definition errorf :: "failure list \<Rightarrow> 'w ExpectConfig \<Rightarrow> 'w ExpectConfig" where
  "errorf fs c = c\<lparr>ecObservedErrors := ecObservedErrors c @ fs\<rparr>"

section \<open>Comparing\<close>

text \<open>
  The loop all assertions share: each expected entry against the observed one at its position, then the
  observed entries beyond the expected ones.
\<close>

definition compare_all ::
    "'w expect_lib \<Rightarrow> string \<Rightarrow> string \<Rightarrow> string \<Rightarrow> ('e \<Rightarrow> 'a \<Rightarrow> string) \<Rightarrow> 'e list \<Rightarrow> 'a list \<Rightarrow> failure list" where
  "compare_all L expectation action msg diff expected actual =
     concat (map (\<lambda>(i, exp).
       if i \<ge> length actual then [NotObserved expectation i msg]
       else let d = diff exp (actual ! i)
            in if d \<noteq> [] then [Differs expectation i msg (ColorizeDiff (elAdded L) (elRemoved L) d)] else [])
       (enumerate 0 expected)) @
     (if length actual > length expected
      then map (\<lambda>extra. Unexpected action msg) (drop (length expected) actual) else [])"

text \<open>An assertion initialises the configuration, reports its failures and keeps them.\<close>

type_synonym 'w assertion = "'w ExpectConfig \<Rightarrow> 'w test_heap \<Rightarrow> failure list \<times> 'w ExpectConfig \<times> 'w test_heap"

definition asserting :: "'w expect_lib \<Rightarrow> ('w doubles \<Rightarrow> 'w ExpectConfig \<Rightarrow> 'w test_heap \<Rightarrow> failure list) \<Rightarrow> 'w assertion" where
  "asserting L compare c h =
     (let (d, c, h) = ExpectConfig_init L c h; fs = compare d c h in (fs, errorf fs c, h))"

definition diff_with :: "'w expect_lib \<Rightarrow> cmp_option list \<Rightarrow> object \<Rightarrow> object \<Rightarrow> string" where
  "diff_with L options = diffObject L (\<lambda>p. \<exists>opt \<in> set options. ignores opt p) (EquateEmpty \<in> set options)"

definition label_normalizer :: "'w expect_lib \<Rightarrow> selector option \<Rightarrow> string option" where
  "label_normalizer L = normalize_selector (labelsEmpty (elTest L)) (selString (tlRefs (elTest L)))"

definition field_normalizer :: "'w expect_lib \<Rightarrow> selector option \<Rightarrow> string option" where
  "field_normalizer L = normalize_selector (fieldsEmpty (elTest L)) (fieldsString (elTest L))"

definition compareActions ::
    "'w expect_lib \<Rightarrow> string \<Rightarrow> cmp_option list \<Rightarrow> 'w ExpectConfig \<Rightarrow> object list \<Rightarrow> action list \<Rightarrow> failure list" where
  "compareActions L actionName diffOptions c expected actual =
     compare_all L (''Expect'' @ actionName @ ''s'') actionName (configNameMsg c)
       (\<lambda>exp a. diff_with L diffOptions exp (case objectAction a of Some obj \<Rightarrow> obj | None \<Rightarrow> exp)) expected actual"

abbreviation observed_client :: "'w doubles \<Rightarrow> 'w test_heap \<Rightarrow> 'w fake" where
  "observed_client d h \<equiv> hpClients h (fst (dbClient d))"

definition write_options :: "cmp_option list" where
  "write_options =
     [IgnoreAllUnexported, IgnoreLastTransitionTime, IgnoreTypeMeta, IgnoreCreationTimestamp, IgnoreResourceVersion, EquateEmpty]"

definition status_options :: "cmp_option list" where
  "status_options = [statusSubresourceOnly, IgnoreAllUnexported, IgnoreLastTransitionTime, EquateEmpty]"

definition AssertClientCreateExpectations :: "'w expect_lib \<Rightarrow> 'w assertion" where
  "AssertClientCreateExpectations L =
     asserting L (\<lambda>d c h. compareActions L ''Create'' write_options c (ecExpectCreates c) (CreateActions (observed_client d h)))"

definition AssertClientUpdateExpectations :: "'w expect_lib \<Rightarrow> 'w assertion" where
  "AssertClientUpdateExpectations L =
     asserting L (\<lambda>d c h. compareActions L ''Update'' write_options c (ecExpectUpdates c) (UpdateActions (observed_client d h)))"

definition AssertClientPatchExpectations :: "'w expect_lib \<Rightarrow> 'w assertion" where
  "AssertClientPatchExpectations L =
     asserting L (\<lambda>d c h. compare_all L ''ExpectPatches'' ''Patch'' (configNameMsg c)
       (\<lambda>exp a. diffPatch L exp (NewPatchRef a)) (ecExpectPatches c) (PatchActions (observed_client d h)))"

definition AssertClientDeleteExpectations :: "'w expect_lib \<Rightarrow> 'w assertion" where
  "AssertClientDeleteExpectations L =
     asserting L (\<lambda>d c h. compare_all L ''ExpectDeletes'' ''Delete'' (configNameMsg c)
       (\<lambda>exp a. diffDelete L exp (NewDeleteRef a)) (ecExpectDeletes c) (DeleteActions (observed_client d h)))"

definition AssertClientDeleteCollectionExpectations :: "'w expect_lib \<Rightarrow> 'w assertion" where
  "AssertClientDeleteCollectionExpectations L =
     asserting L (\<lambda>d c h. compare_all L ''ExpectDeleteCollections'' ''DeleteCollection'' (configNameMsg c)
       (\<lambda>exp a. diffCollection L (label_normalizer L) (field_normalizer L) exp
         (NewDeleteCollectionRef (elRestrictions L) a))
       (ecExpectDeleteCollections c) (DeleteCollectionActions (observed_client d h)))"

definition AssertClientStatusUpdateExpectations :: "'w expect_lib \<Rightarrow> 'w assertion" where
  "AssertClientStatusUpdateExpectations L =
     asserting L (\<lambda>d c h. compareActions L ''StatusUpdate'' status_options c (ecExpectStatusUpdates c)
       (StatusUpdateActions (observed_client d h)))"

definition AssertClientStatusPatchExpectations :: "'w expect_lib \<Rightarrow> 'w assertion" where
  "AssertClientStatusPatchExpectations L =
     asserting L (\<lambda>d c h. compare_all L ''ExpectStatusPatches'' ''StatusPatch'' (configNameMsg c)
       (\<lambda>exp a. diffPatch L exp (NewPatchRef a)) (ecExpectStatusPatches c) (StatusPatchActions (observed_client d h)))"

definition AssertRecorderExpectations :: "'w expect_lib \<Rightarrow> 'w assertion" where
  "AssertRecorderExpectations L =
     asserting L (\<lambda>d c h. compare_all L ''ExpectEvents'' ''Event'' (configNameMsg c) (diffEvent L)
       (ecExpectEvents c) (hpRecorders h (dbRecorder d)))"

definition AssertTrackerExpectations :: "'w expect_lib \<Rightarrow> 'w assertion" where
  "AssertTrackerExpectations L =
     asserting L (\<lambda>d c h. compare_all L ''ExpectTracks'' ''Track'' (configNameMsg c)
       (\<lambda>exp a. diffTrack L (label_normalizer L) (normalize exp) a)
       (ecExpectTracks c) (getTrackRequests (hpTrackers h (dbTracker d))))"

text \<open>Assertions one after the other.\<close>

fun assert_all :: "'w assertion list \<Rightarrow> 'w assertion" where
  "assert_all [] c h = ([], c, h)"
| "assert_all (a # as) c h =
     (let (fs, c, h) = a c h; (gs, c, h) = assert_all as c h in (fs @ gs, c, h))"

definition AssertClientExpectations :: "'w expect_lib \<Rightarrow> 'w assertion" where
  "AssertClientExpectations L c h =
     (let (d, c, h) = ExpectConfig_init L c h
      in assert_all
           [AssertClientCreateExpectations L, AssertClientUpdateExpectations L, AssertClientPatchExpectations L,
            AssertClientDeleteExpectations L, AssertClientDeleteCollectionExpectations L,
            AssertClientStatusUpdateExpectations L, AssertClientStatusPatchExpectations L] c h)"

definition AssertExpectations :: "'w expect_lib \<Rightarrow> 'w assertion" where
  "AssertExpectations L c h =
     (let (d, c, h) = ExpectConfig_init L c h
      in assert_all
           [AssertClientExpectations L, AssertRecorderExpectations L, AssertTrackerExpectations L] c h)"

section \<open>What the assertions report\<close>

lemma ball_enumerate: "(\<forall>p \<in> set (enumerate 0 xs). P p) \<longleftrightarrow> (\<forall>i < length xs. P (i, xs ! i))"
  by (auto simp: Ball_def in_set_enumerate_eq)

definition compare_from ::
    "'w expect_lib \<Rightarrow> string \<Rightarrow> string \<Rightarrow> ('e \<Rightarrow> 'a \<Rightarrow> string) \<Rightarrow> nat \<times> 'e \<Rightarrow> 'a list \<Rightarrow> failure list" where
  "compare_from L expectation msg diff p actual =
     (case p of (i, exp) \<Rightarrow>
       if i \<ge> length actual then [NotObserved expectation i msg]
       else let d = diff exp (actual ! i)
            in if d \<noteq> [] then [Differs expectation i msg (ColorizeDiff (elAdded L) (elRemoved L) d)] else [])"

lemma compare_all_eq:
  "compare_all L expectation action msg diff expected actual =
     concat (map (\<lambda>p. compare_from L expectation msg diff p actual) (enumerate 0 expected)) @
     map (\<lambda>_. Unexpected action msg) (drop (length expected) actual)"
  by (auto simp: compare_all_def compare_from_def)

lemma compare_from_Nil:
  "compare_from L expectation msg diff (i, exp) actual = [] \<longleftrightarrow> i < length actual \<and> diff exp (actual ! i) = []"
  by (auto simp: compare_from_def Let_def)

lemma compare_all_Nil:
  "compare_all L expectation action msg diff expected actual = [] \<longleftrightarrow>
    list_all2 (\<lambda>exp a. diff exp a = []) expected actual"
proof -
  have "compare_all L expectation action msg diff expected actual = [] \<longleftrightarrow>
      (\<forall>i < length expected. i < length actual \<and> diff (expected ! i) (actual ! i) = []) \<and> length actual \<le> length expected"
    by (simp add: compare_all_eq ball_enumerate compare_from_Nil)
  also have "\<dots> \<longleftrightarrow> list_all2 (\<lambda>exp a. diff exp a = []) expected actual"
    by (cases "length actual < length expected") (auto simp: list_all2_conv_all_nth)
  finally show ?thesis .
qed

lemma compare_all_unobserved:
  "compare_all L expectation action msg diff expected [] =
    map (\<lambda>i. NotObserved expectation i msg) [0..<length expected]"
proof -
  have "concat (map (\<lambda>p. compare_from L expectation msg diff p []) xs) =
      map (\<lambda>i. NotObserved expectation i msg) (map fst xs)" for xs
    by (induction xs) (auto simp: compare_from_def)
  from this [of "enumerate 0 expected"] show ?thesis
    unfolding compare_all_eq by (simp del: map_map)
qed

text \<open>An initialised configuration stays as it is but for the kept errors, which no comparison reads.\<close>

lemma asserting_ready:
  "ecDoubles c = Some d \<Longrightarrow> asserting L compare c h = (compare d c h, errorf (compare d c h) c, h)"
  by (simp add: asserting_def ExpectConfig_init_def Let_def)

lemma errorf_sel [simp]:
  "ecName (errorf fs c) = ecName c" "ecDoubles (errorf fs c) = ecDoubles c"
  "ecExpectTracks (errorf fs c) = ecExpectTracks c" "ecExpectEvents (errorf fs c) = ecExpectEvents c"
  "ecExpectCreates (errorf fs c) = ecExpectCreates c" "ecExpectUpdates (errorf fs c) = ecExpectUpdates c"
  "ecExpectPatches (errorf fs c) = ecExpectPatches c" "ecExpectDeletes (errorf fs c) = ecExpectDeletes c"
  "ecExpectDeleteCollections (errorf fs c) = ecExpectDeleteCollections c"
  "ecExpectStatusUpdates (errorf fs c) = ecExpectStatusUpdates c"
  "ecExpectStatusPatches (errorf fs c) = ecExpectStatusPatches c"
  "configNameMsg (errorf fs c) = configNameMsg c"
  by (simp_all add: errorf_def configNameMsg_def)

lemma errorf_errorf [simp]: "errorf gs (errorf fs c) = errorf (fs @ gs) c" "errorf [] c = c"
  by (simp_all add: errorf_def)

text \<open>A comparison that does not look at the kept errors.\<close>

definition unbiased :: "('w doubles \<Rightarrow> 'w ExpectConfig \<Rightarrow> 'w test_heap \<Rightarrow> failure list) \<Rightarrow> bool" where
  "unbiased compare \<longleftrightarrow> (\<forall>d c h fs. compare d (errorf fs c) h = compare d c h)"

lemma assert_all_ready:
  assumes "ecDoubles c = Some d" and "\<And>compare. compare \<in> set cs \<Longrightarrow> unbiased compare"
  shows "assert_all (map (asserting L) cs) c h =
    (let fs = concat (map (\<lambda>compare. compare d c h) cs) in (fs, errorf fs c, h))"
  using assms
proof (induction cs arbitrary: c)
  case Nil
  then show ?case by simp
next
  case (Cons x cs)
  let ?fs = "x d c h"
  have same: "map (\<lambda>compare. compare d (errorf ?fs c) h) cs = map (\<lambda>compare. compare d c h) cs"
    using Cons.prems(2) by (auto simp: unbiased_def)
  have "assert_all (map (asserting L) cs) (errorf ?fs c) h =
      (let fs = concat (map (\<lambda>compare. compare d (errorf ?fs c) h) cs) in (fs, errorf fs (errorf ?fs c), h))"
    using Cons.prems by (intro Cons.IH) simp_all
  then show ?case
    unfolding same using Cons.prems(1) by (simp add: asserting_ready Let_def)
qed

text \<open>The nine comparisons, in the order in which they are made.\<close>

definition client_comparisons ::
    "'w expect_lib \<Rightarrow> ('w doubles \<Rightarrow> 'w ExpectConfig \<Rightarrow> 'w test_heap \<Rightarrow> failure list) list" where
  "client_comparisons L =
     [\<lambda>d c h. compareActions L ''Create'' write_options c (ecExpectCreates c) (CreateActions (observed_client d h)),
      \<lambda>d c h. compareActions L ''Update'' write_options c (ecExpectUpdates c) (UpdateActions (observed_client d h)),
      \<lambda>d c h. compare_all L ''ExpectPatches'' ''Patch'' (configNameMsg c)
        (\<lambda>exp a. diffPatch L exp (NewPatchRef a)) (ecExpectPatches c) (PatchActions (observed_client d h)),
      \<lambda>d c h. compare_all L ''ExpectDeletes'' ''Delete'' (configNameMsg c)
        (\<lambda>exp a. diffDelete L exp (NewDeleteRef a)) (ecExpectDeletes c) (DeleteActions (observed_client d h)),
      \<lambda>d c h. compare_all L ''ExpectDeleteCollections'' ''DeleteCollection'' (configNameMsg c)
        (\<lambda>exp a. diffCollection L (label_normalizer L) (field_normalizer L) exp
          (NewDeleteCollectionRef (elRestrictions L) a))
        (ecExpectDeleteCollections c) (DeleteCollectionActions (observed_client d h)),
      \<lambda>d c h. compareActions L ''StatusUpdate'' status_options c (ecExpectStatusUpdates c)
        (StatusUpdateActions (observed_client d h)),
      \<lambda>d c h. compare_all L ''ExpectStatusPatches'' ''StatusPatch'' (configNameMsg c)
        (\<lambda>exp a. diffPatch L exp (NewPatchRef a)) (ecExpectStatusPatches c) (StatusPatchActions (observed_client d h))]"

definition double_comparisons ::
    "'w expect_lib \<Rightarrow> ('w doubles \<Rightarrow> 'w ExpectConfig \<Rightarrow> 'w test_heap \<Rightarrow> failure list) list" where
  "double_comparisons L =
     [\<lambda>d c h. compare_all L ''ExpectEvents'' ''Event'' (configNameMsg c) (diffEvent L)
        (ecExpectEvents c) (hpRecorders h (dbRecorder d)),
      \<lambda>d c h. compare_all L ''ExpectTracks'' ''Track'' (configNameMsg c)
        (\<lambda>exp a. diffTrack L (label_normalizer L) (normalize exp) a)
        (ecExpectTracks c) (getTrackRequests (hpTrackers h (dbTracker d)))]"

lemma comparisons_unbiased:
  "compare \<in> set (client_comparisons L) \<Longrightarrow> unbiased compare"
  "compare \<in> set (double_comparisons L) \<Longrightarrow> unbiased compare"
  by (auto simp: client_comparisons_def double_comparisons_def unbiased_def compareActions_def)

lemma AssertClientExpectations_ready:
  assumes "ecDoubles c = Some d"
  shows "AssertClientExpectations L c h =
    (let fs = concat (map (\<lambda>compare. compare d c h) (client_comparisons L)) in (fs, errorf fs c, h))"
proof -
  have "AssertClientExpectations L c h = assert_all (map (asserting L) (client_comparisons L)) c h"
    using assms
    by (simp add: AssertClientExpectations_def ExpectConfig_init_def client_comparisons_def
        AssertClientCreateExpectations_def AssertClientUpdateExpectations_def AssertClientPatchExpectations_def
        AssertClientDeleteExpectations_def AssertClientDeleteCollectionExpectations_def
        AssertClientStatusUpdateExpectations_def AssertClientStatusPatchExpectations_def del: assert_all.simps)
  also note assert_all_ready [OF assms comparisons_unbiased(1)]
  finally show ?thesis .
qed

lemma AssertExpectations_ready:
  assumes "ecDoubles c = Some d"
  shows "AssertExpectations L c h =
    (let fs = concat (map (\<lambda>compare. compare d c h) (client_comparisons L @ double_comparisons L)) in (fs, errorf fs c, h))"
proof -
  let ?fs = "concat (map (\<lambda>compare. compare d c h) (client_comparisons L))"
  have "AssertExpectations L c h =
      (let (gs, c, h) = assert_all (map (asserting L) (double_comparisons L)) (errorf ?fs c) h in (?fs @ gs, c, h))"
    using assms
    by (simp add: AssertExpectations_def ExpectConfig_init_def AssertClientExpectations_ready [OF assms]
        AssertRecorderExpectations_def AssertTrackerExpectations_def double_comparisons_def Let_def split_def)
  also have "assert_all (map (asserting L) (double_comparisons L)) (errorf ?fs c) h =
      (let gs = concat (map (\<lambda>compare. compare d (errorf ?fs c) h) (double_comparisons L)) in (gs, errorf gs (errorf ?fs c), h))"
    using assms by (intro assert_all_ready comparisons_unbiased(2)) simp_all
  also have "map (\<lambda>compare. compare d (errorf ?fs c) h) (double_comparisons L) =
      map (\<lambda>compare. compare d c h) (double_comparisons L)"
    by (simp add: double_comparisons_def)
  finally show ?thesis by (simp add: Let_def)
qed

section \<open>What the expectations mean\<close>

text \<open>
  \<open>client_matches\<close>: the writes recorded in \<open>records\<close> are, one by one, the expected ones up to the options of
  the comparison.
\<close>

definition same_object :: "'w expect_lib \<Rightarrow> cmp_option list \<Rightarrow> object \<Rightarrow> action \<Rightarrow> bool" where
  "same_object L options exp a \<longleftrightarrow>
     diff_with L options exp (case objectAction a of Some obj \<Rightarrow> obj | None \<Rightarrow> exp) = []"

definition client_matches :: "'w expect_lib \<Rightarrow> 'w ExpectConfig \<Rightarrow> (slot \<Rightarrow> action list) \<Rightarrow> bool" where
  "client_matches L c records \<longleftrightarrow>
     list_all2 (same_object L write_options) (ecExpectCreates c) (records Creates) \<and>
     list_all2 (same_object L write_options) (ecExpectUpdates c) (records Updates) \<and>
     list_all2 (\<lambda>exp a. diffPatch L exp (NewPatchRef a) = []) (ecExpectPatches c) (records Patches) \<and>
     list_all2 (\<lambda>exp a. diffDelete L exp (NewDeleteRef a) = []) (ecExpectDeletes c) (records Deletes) \<and>
     list_all2 (\<lambda>exp a. diffCollection L (label_normalizer L) (field_normalizer L) exp
       (NewDeleteCollectionRef (elRestrictions L) a) = []) (ecExpectDeleteCollections c) (records DeleteCollections) \<and>
     list_all2 (same_object L status_options) (ecExpectStatusUpdates c) (records StatusUpdates) \<and>
     list_all2 (\<lambda>exp a. diffPatch L exp (NewPatchRef a) = []) (ecExpectStatusPatches c) (records StatusPatches)"

definition doubles_match :: "'w expect_lib \<Rightarrow> 'w ExpectConfig \<Rightarrow> event list \<Rightarrow> TrackRequest list \<Rightarrow> bool" where
  "doubles_match L c events tracks \<longleftrightarrow>
     list_all2 (\<lambda>exp e. diffEvent L exp e = []) (ecExpectEvents c) events \<and>
     list_all2 (\<lambda>exp r. diffTrack L (label_normalizer L) (normalize exp) r = []) (ecExpectTracks c) tracks"

lemma client_comparisons_Nil:
  "concat (map (\<lambda>compare. compare d c h) (client_comparisons L)) = [] \<longleftrightarrow>
    client_matches L c (recorded (observed_client d h))"
  by (simp add: client_comparisons_def client_matches_def compareActions_def compare_all_Nil same_object_def [abs_def])

lemma double_comparisons_Nil:
  "concat (map (\<lambda>compare. compare d c h) (double_comparisons L)) = [] \<longleftrightarrow>
    doubles_match L c (hpRecorders h (dbRecorder d)) (getTrackRequests (hpTrackers h (dbTracker d)))"
  by (simp add: double_comparisons_def doubles_match_def compare_all_Nil)

text \<open>All expectations of a configuration, reported as not observed.\<close>

definition all_unobserved :: "'w ExpectConfig \<Rightarrow> failure list" where
  "all_unobserved c =
     concat (map (\<lambda>(expectation, n). map (\<lambda>i. NotObserved expectation i (configNameMsg c)) [0..<n])
       [(''ExpectCreates'', length (ecExpectCreates c)), (''ExpectUpdates'', length (ecExpectUpdates c)),
        (''ExpectPatches'', length (ecExpectPatches c)), (''ExpectDeletes'', length (ecExpectDeletes c)),
        (''ExpectDeleteCollections'', length (ecExpectDeleteCollections c)),
        (''ExpectStatusUpdates'', length (ecExpectStatusUpdates c)),
        (''ExpectStatusPatches'', length (ecExpectStatusPatches c)), (''ExpectEvents'', length (ecExpectEvents c)),
        (''ExpectTracks'', length (ecExpectTracks c))])"

text \<open>A configuration that is initialised now: its doubles are new, and have seen nothing.\<close>

lemma foldl_PrependReactor:
  "foldl (\<lambda>cl r. PrependReactor ''*'' ''*'' r cl) cl rs =
    cl\<lparr>reactionChain := map (\<lambda>r. \<lparr>reVerb = ''*'', reResource = ''*'', reReact = r\<rparr>) (rev rs) @ reactionChain cl\<rparr>"
  by (induction rs arbitrary: cl) (simp_all add: PrependReactor_def)

lemma init_fresh:
  assumes "ecDoubles c = None" and "ExpectConfig_init L c h = (d, c', h')"
  shows "c' = c\<lparr>ecDoubles := Some d, ecObservedErrors := []\<rparr>"
    and "reactionChain (snd (dbClient d)) = map (\<lambda>r. \<lparr>reVerb = ''*'', reResource = ''*'', reReact = r\<rparr>) (ecWithReactors c) @
      [\<lparr>reVerb = ''create'', reResource = ''*'', reReact = generate_name\<rparr>]"
    and "\<exists>b. observed_client d h' = new_fake b"
    and "hpRecorders h' (dbRecorder d) = []" and "getTrackRequests (hpTrackers h' (dbTracker d)) = []"
  using assms
  by (auto simp: ExpectConfig_init_def createClient_def foldl_PrependReactor NewFakeClientWrapper_def AddReactor_def
      getTrackRequests_def createTracker_def Let_def split: prod.splits)

lemma AssertExpectations_init:
  assumes "ExpectConfig_init L c h = (d, c', h')"
  shows "AssertExpectations L c h = AssertExpectations L c' h'"
proof -
  from assms have "ecDoubles c' = Some d" by (auto simp: ExpectConfig_init_def Let_def split: option.splits prod.splits)
  then have "ExpectConfig_init L c' h' = (d, c', h')" by (simp add: ExpectConfig_init_def)
  then show ?thesis by (simp add: AssertExpectations_def assms)
qed

lemma compareActions_unobserved:
  "compareActions L action options c expected [] =
    map (\<lambda>i. NotObserved (''Expect'' @ action @ ''s'') i (configNameMsg c)) [0..<length expected]"
  by (simp add: compareActions_def compare_all_unobserved)

lemma AssertExpectations_fresh:
  assumes "ecDoubles c = None"
  shows "fst (AssertExpectations L c h) = all_unobserved c"
proof -
  obtain d c' h' where i: "ExpectConfig_init L c h = (d, c', h')" by (metis prod_cases3)
  note f = init_fresh [OF assms i]
  from f(3) obtain b where b: "observed_client d h' = new_fake b" by blast
  have "fst (AssertExpectations L c' h') =
      concat (map (\<lambda>compare. compare d c' h') (client_comparisons L @ double_comparisons L))"
    by (simp add: AssertExpectations_ready f(1) Let_def)
  also have "\<dots> = all_unobserved c"
    unfolding client_comparisons_def double_comparisons_def b f(4,5) all_unobserved_def
    by (simp add: b f(4,5) new_fake_def compareActions_unobserved compare_all_unobserved f(1) configNameMsg_def)
  finally show ?thesis by (simp add: AssertExpectations_init [OF i])
qed

lemma join_split_lines: "concat (map (\<lambda>line. line @ [CHR 0x0A]) (split_lines s)) = s @ [CHR 0x0A]"
  by (induction s) (auto split: list.splits)

text \<open>Without colours a diff keeps its text.\<close>

lemma ColorizeDiff_plain: "ColorizeDiff id id diff = diff @ [CHR 0x0A]"
proof -
  have "color_line id id line = line" for line by (simp add: color_line_def split: list.split)
  then show ?thesis by (simp add: ColorizeDiff_def join_split_lines)
qed

section \<open>A small instance\<close>

definition demo_expect_lib :: "object list expect_lib" where
  "demo_expect_lib =
     \<lparr>elTest = demo_test_lib,
      elDuck = \<lparr>notRegistered = (\<lambda>x. False), listNotRegistered = (\<lambda>x. False), toUnstructured = Inr,
        fromUnstructured = (\<lambda>u x. (None, u)), listToUnstructured = Inr, listFromUnstructured = (\<lambda>u x. (None, u))\<rparr>,
      elBuild = (\<lambda>b. (store_client, cbObjects b)),
      elReadings = (\<lambda>i. 0), elRestrictions = (\<lambda>(ls, fs). (Selector ls, Selector fs)),
      elAdded = id, elRemoved = id,
      diffObject = (\<lambda>ignored equate x y. if x = y then [] else ''object''),
      diffPatch = (\<lambda>x y. if x = y then [] else ''patch''), diffDelete = (\<lambda>x y. if x = y then [] else ''delete''),
      diffCollection = (\<lambda>f g x y. if x = y then [] else ''collection''),
      diffEvent = (\<lambda>x y. if x = y then [] else ''event''), diffTrack = (\<lambda>f x y. if x = y then [] else ''track'')\<rparr>"

definition demo_expect_config :: "object list ExpectConfig" where
  "demo_expect_config =
     \<lparr>ecName = ''demo'', ecStatusSubResourceTypes = [], ecGivenObjects = [], ecAPIGivenObjects = [],
      ecWithClientBuilder = None, ecWithReactors = [], ecGivenTracks = [], ecExpectTracks = [], ecExpectEvents = [],
      ecExpectCreates = [(empty_object ''Pod'')\<lparr>objName := ''a''\<rparr>], ecExpectUpdates = [], ecExpectPatches = [],
      ecExpectDeletes = [], ecExpectDeleteCollections = [], ecExpectStatusUpdates = [], ecExpectStatusPatches = [],
      ecDoubles = None, ecObservedErrors = []\<rparr>"

definition demo_test_heap :: "object list test_heap" where
  "demo_test_heap =
     \<lparr>hpClients = (\<lambda>_. new_fake []), hpRecorders = (\<lambda>_. []), hpTrackers = (\<lambda>_. \<lparr>mtTracker = New 0, mtReqs = []\<rparr>),
      hpNext = 0, hpWorld = empty_world\<rparr>"

section \<open>Properties\<close>

text \<open>
  The assertions of an initialised configuration report nothing exactly when every list of observed
  writes, events and tracks matches the expected list entry by entry, in order and in number.
\<close>

theorem AssertExpectations_exact:
  assumes "ecDoubles c = Some d"
  shows "fst (AssertExpectations L c h) = [] \<longleftrightarrow>
    client_matches L c (recorded (observed_client d h)) \<and>
    doubles_match L c (hpRecorders h (dbRecorder d)) (getTrackRequests (hpTrackers h (dbTracker d)))"
  using AssertExpectations_ready [OF assms, of L h] client_comparisons_Nil [of d c h L] double_comparisons_Nil [of d c h L]
  by (simp add: Let_def)

text \<open>
  C37. A test of the writes of a reconciler is exact: for a configuration whose reactors do not touch the
  records, after any calls through its client the client assertions report nothing exactly when the
  writes those calls attempted, as the specification lists them, are the expected ones; whether a reactor
  made a write fail does not matter.
\<close>

theorem client_expectations_exact:
  assumes "ecDoubles c = None" and "ExpectConfig_init L c h = (d, c', h')"
    and "\<And>r a. r \<in> set (ecWithReactors c) \<Longrightarrow> harmless (r a)"
    and "call_all (fake_client (elTest L) (snd (dbClient d))) calls (observed_client d h') = Some (es, w)"
  shows "fst (AssertClientExpectations L c' (h'\<lparr>hpClients := (hpClients h')(fst (dbClient d) := w)\<rparr>)) = [] \<longleftrightarrow>
    client_matches L c (\<lambda>s. concat (map (\<lambda>x. add_record (record_of (elTest L) x) s) calls))"
proof -
  note f = init_fresh [OF assms(1,2)]
  let ?h = "h'\<lparr>hpClients := (hpClients h')(fst (dbClient d) := w)\<rparr>"
  have chain: "harmless_reactors (snd (dbClient d))"
    by unfold_locales (auto simp: f(2) intro: assms(3) harmless_generate_name)
  from f(3) obtain b where "observed_client d h' = new_fake b" by blast
  with harmless_reactors.recorded_call_all [OF chain assms(4)]
  have w: "recorded w = (\<lambda>s. concat (map (\<lambda>x. add_record (record_of (elTest L) x) s) calls))" by auto
  have "ecDoubles c' = Some d" by (simp add: f(1))
  from AssertClientExpectations_ready [OF this, of L ?h] client_comparisons_Nil [of d c' ?h L]
  have "fst (AssertClientExpectations L c' ?h) = [] \<longleftrightarrow> client_matches L c' (recorded w)" by (simp add: Let_def)
  also have "client_matches L c' (recorded w) = client_matches L c (recorded w)" by (simp add: client_matches_def f(1))
  finally show ?thesis unfolding w .
qed

theorem client_expectations_exact_witness:
  "\<exists>d c' h' es w. ExpectConfig_init demo_expect_lib demo_expect_config demo_test_heap = (d, c', h') \<and>
     call_all (fake_client demo_test_lib (snd (dbClient d))) [CallCreate ((empty_object ''Pod'')\<lparr>objName := ''a''\<rparr>) []]
       (observed_client d h') = Some (es, w) \<and>
     fst (AssertClientExpectations demo_expect_lib c' (h'\<lparr>hpClients := (hpClients h')(fst (dbClient d) := w)\<rparr>)) = []"
proof -
  let ?pod = "(empty_object ''Pod'')\<lparr>objName := ''a''\<rparr>"
  obtain d c' h' where i: "ExpectConfig_init demo_expect_lib demo_expect_config demo_test_heap = (d, c', h')"
    by (metis prod_cases3)
  have n: "ecDoubles demo_expect_config = None" by (simp add: demo_expect_config_def)
  obtain es w where run: "call_all (fake_client (elTest demo_expect_lib) (snd (dbClient d))) [CallCreate ?pod []]
      (observed_client d h') = Some (es, w)"
    using i
    by (auto simp: ExpectConfig_init_def demo_expect_config_def createClient_def demo_expect_lib_def Let_def
        NewFakeClientWrapper_def AddReactor_def fake_call_defs generate_name_def lifted_def store_client_def
        NewDuckAwareClientWrapper_def unsupported_def IsDuck_def reacted_object_def)
  let ?h = "h'\<lparr>hpClients := (hpClients h')(fst (dbClient d) := w)\<rparr>"
  have "fst (AssertClientExpectations demo_expect_lib c' ?h) = [] \<longleftrightarrow>
      client_matches demo_expect_lib demo_expect_config
        (\<lambda>s. concat (map (\<lambda>x. add_record (record_of (elTest demo_expect_lib) x) s) [CallCreate ?pod []]))"
    by (rule client_expectations_exact [OF n i _ run]) (simp add: demo_expect_config_def)
  moreover have "elTest demo_expect_lib = demo_test_lib" by (simp add: demo_expect_lib_def)
  ultimately show ?thesis
    using i run
    by (auto simp: client_matches_def demo_expect_config_def demo_expect_lib_def same_object_def diff_with_def add_record_def
        with_meta_def)
qed

end
