(* ===== verification/TestCases.thy ===== *)
theory TestCases
  imports Expectations
begin

text \<open>
  Running a test case: \<^verbatim>\<open>src/testing/reconciler.go\<close>, \<^verbatim>\<open>src/testing/subreconciler.go\<close> and
  \<^verbatim>\<open>src/testing/webhook.go\<close>.  The code under test is an arbitrary function on the heap of the test doubles.
  A run gives the failures reported to \<open>testing.T\<close>, or \<open>None\<close> when the code under test panics and no panic is
  expected.
\<close>

section \<open>Failures\<close>

datatype test_failure =
    Assertion failure
  | ReconcileOutcome "err option" bool
  | ResultDiffers string
  | ResourceDiffers string
  | StashDiffers string string
  | ResponseDiffers string
  | PrepareError err
  | CleanUpError err
  | ExpectedPanic
  | RequestRequired
  | ConversionError err
  | StillFocused nat nat
  | Reported string

text \<open>More of the libraries: diffs of results, resources, stashed values and responses.\<close>

record 'w case_lib =
  clExpect :: "'w expect_lib"
  clNow :: int
  diffResult :: "result \<Rightarrow> result \<Rightarrow> string"
  diffResource :: "object \<Rightarrow> object \<Rightarrow> string"
  diffStash :: "stash_value option \<Rightarrow> stash_value option \<Rightarrow> string"
  diffResponse :: "admission_response \<Rightarrow> admission_response \<Rightarrow> string"
  completeResponse :: "admission_request \<Rightarrow> admission_response \<Rightarrow> admission_response"

definition colored :: "'w case_lib \<Rightarrow> string \<Rightarrow> string" where
  "colored L d = ColorizeDiff (elAdded (clExpect L)) (elRemoved (clExpect L)) d"

definition normalizeResult :: "result \<Rightarrow> result" where
  "normalizeResult result = (if RequeueAfter result \<noteq> 0 then result\<lparr>Requeue := False\<rparr> else result)"

section \<open>What all test cases share\<close>

text \<open>
  The functions a test case may bring: they see the context and may report failures.  \<open>Prepare\<close> and
  \<open>CleanUp\<close> that change the test case itself amount to another test case.
\<close>

type_synonym prepare_fun = "ctx \<Rightarrow> ctx \<times> err option"
type_synonym cleanup_fun = "ctx \<Rightarrow> err option"
type_synonym verify_fun = "result \<Rightarrow> err option \<Rightarrow> string list"

text \<open>
  The additional configurations, in the order in which the map is ranged over: each is a copy of the map's
  value, named and initialised; only what it hands out is kept.
\<close>

fun additional_configs ::
    "'w expect_lib \<Rightarrow> (string \<times> 'w ExpectConfig) list \<Rightarrow> (string \<rightharpoonup> Config) \<Rightarrow> 'w test_heap
      \<Rightarrow> (string \<rightharpoonup> Config) \<times> 'w test_heap" where
  "additional_configs L [] configs h = (configs, h)"
| "additional_configs L ((k, v) # rest) configs h =
     (let (config, v, h) = ExpectConfig_Config L (v\<lparr>ecName := k\<rparr>) h
      in additional_configs L rest (configs(k \<mapsto> config)) h)"

text \<open>The final loop, again over copies of the map's values.\<close>

fun assert_configs ::
    "'w expect_lib \<Rightarrow> (string \<times> 'w ExpectConfig) list \<Rightarrow> 'w test_heap \<Rightarrow> failure list \<times> 'w test_heap" where
  "assert_configs L [] h = ([], h)"
| "assert_configs L ((k, config) # rest) h =
     (let (fs, config, h) = AssertExpectations L config h;
          (gs, h) = assert_configs L rest h
      in (fs @ gs, h))"

definition outcome_failures :: "'w case_lib \<Rightarrow> bool \<Rightarrow> result \<Rightarrow> result \<Rightarrow> err option \<Rightarrow> test_failure list" where
  "outcome_failures L ShouldErr ExpectedResult result e =
     (if (e \<noteq> None) \<noteq> ShouldErr then [ReconcileOutcome e ShouldErr] else []) @
     (if e = None
      then let d = diffResult L (normalizeResult ExpectedResult) (normalizeResult result)
           in if d \<noteq> [] then [ResultDiffers (colored L d)] else []
      else [])"

definition verify_failures :: "verify_fun option \<Rightarrow> result \<Rightarrow> err option \<Rightarrow> test_failure list" where
  "verify_failures verify result e =
     (case verify of None \<Rightarrow> [] | Some f \<Rightarrow> map Reported (f result e))"

definition cleanup_failures :: "cleanup_fun option \<Rightarrow> ctx \<Rightarrow> test_failure list" where
  "cleanup_failures cleanup ctx =
     (case cleanup of
        None \<Rightarrow> []
      | Some f \<Rightarrow> (case f ctx of None \<Rightarrow> [] | Some e \<Rightarrow> [CleanUpError e]))"

definition prepared :: "prepare_fun option \<Rightarrow> ctx \<Rightarrow> ctx \<times> err option" where
  "prepared prepare ctx = (case prepare of None \<Rightarrow> (ctx, None) | Some f \<Rightarrow> f ctx)"

text \<open>The configuration made from the fields of a test case.\<close>

definition default_config :: "'w ExpectConfig \<Rightarrow> 'w ExpectConfig" where
  "default_config c = c\<lparr>ecName := ''default'', ecDoubles := None, ecObservedErrors := []\<rparr>"

section \<open>Reconciler test cases\<close>

text \<open>\<open>rtConfig\<close> holds the fields the test case shares with \<open>ExpectConfig\<close>.\<close>

record 'w ReconcilerTestCase =
  rtName :: string
  rtFocus :: bool
  rtSkip :: bool
  rtRequest :: namespaced_name
  rtConfig :: "'w ExpectConfig"
  rtAdditionalConfigs :: "(string \<times> 'w ExpectConfig) list"
  rtShouldErr :: bool
  rtExpectedResult :: result
  rtVerify :: "verify_fun option"
  rtPrepare :: "prepare_fun option"
  rtCleanUp :: "cleanup_fun option"
  rtNow :: "int option"

type_synonym 'w reconciler_factory = "Config \<Rightarrow> ctx \<Rightarrow> namespaced_name \<Rightarrow> ('w test_heap, result \<times> err option) go"

definition ReconcilerTestCase_Run ::
    "'w case_lib \<Rightarrow> 'w reconciler_factory \<Rightarrow> 'w ReconcilerTestCase \<Rightarrow> ('w test_heap, test_failure list) go" where
  "ReconcilerTestCase_Run L factory tc h =
     (if rtSkip tc then Some ([], h)
      else
        let E = clExpect L;
            now = (case rtNow tc of None \<Rightarrow> clNow L | Some t \<Rightarrow> t);
            ctx = StashNow background now;
            (ctx, e) = prepared (rtPrepare tc) ctx
        in case e of
             Some e \<Rightarrow> Some ([PrepareError e], h)
           | None \<Rightarrow>
               (let (configs, h) = additional_configs E (rtAdditionalConfigs tc) Map.empty h;
                    ctx' = StashAdditionalConfigs ctx configs;
                    (config, expectConfig, h) = ExpectConfig_Config E (default_config (rtConfig tc)) h
                in do { ((result, e), h) \<leftarrow> factory config ctx' (rtRequest tc) h;
                        let fs = outcome_failures L (rtShouldErr tc) (rtExpectedResult tc) result e;
                        let vs = verify_failures (rtVerify tc) result e;
                        let (as, expectConfig, h) = AssertExpectations E expectConfig h;
                        let (bs, h) = assert_configs E (rtAdditionalConfigs tc) h;
                        Some (fs @ vs @ map Assertion as @ map Assertion bs @ cleanup_failures (rtCleanUp tc) ctx', h) }))"

section \<open>Sub-reconciler test cases\<close>

record 'w SubReconcilerTestCase =
  stName :: string
  stFocus :: bool
  stSkip :: bool
  stResource :: object
  stGivenStashedValues :: "(string \<times> stash_value) list"
  stConfig :: "'w ExpectConfig"
  stExpectResource :: "object option"
  stExpectStashedValues :: "(string \<times> stash_value) list"
  stVerifyStashedValue :: "(string \<Rightarrow> stash_value \<Rightarrow> stash_value option \<Rightarrow> string list) option"
  stAdditionalConfigs :: "(string \<times> 'w ExpectConfig) list"
  stShouldErr :: bool
  stShouldPanic :: bool
  stExpectedResult :: result
  stVerify :: "verify_fun option"
  stPrepare :: "prepare_fun option"
  stCleanUp :: "cleanup_fun option"
  stNow :: "int option"

type_synonym 'w sub_reconciler_factory =
  "Config \<Rightarrow> ctx \<Rightarrow> object \<Rightarrow> ('w test_heap, result \<times> err option \<times> object) go"

definition on_world :: "(world, 'a) go \<Rightarrow> ('w test_heap, 'a) go" where
  "on_world m h = do { (x, w) \<leftarrow> m (hpWorld h); Some (x, h\<lparr>hpWorld := w\<rparr>) }"

fun stash_given :: "ctx \<Rightarrow> (string \<times> stash_value) list \<Rightarrow> ('w test_heap, unit) go" where
  "stash_given ctx [] h = Some ((), h)"
| "stash_given ctx ((k, v) # rest) h =
     do { (_, h) \<leftarrow> on_world (StashValue ctx k v) h; stash_given ctx rest h }"

definition verify_stashed ::
    "'w case_lib \<Rightarrow> (string \<Rightarrow> stash_value \<Rightarrow> stash_value option \<Rightarrow> string list) option \<Rightarrow> string \<Rightarrow> stash_value
      \<Rightarrow> stash_value option \<Rightarrow> test_failure list" where
  "verify_stashed L verify key expected actual =
     (case verify of
        Some f \<Rightarrow> map Reported (f key expected actual)
      | None \<Rightarrow>
          (let d = diffStash L (Some expected) actual
           in if d \<noteq> [] then [StashDiffers key (colored L d)] else []))"

fun compare_stash ::
    "'w case_lib \<Rightarrow> (string \<Rightarrow> stash_value \<Rightarrow> stash_value option \<Rightarrow> string list) option \<Rightarrow> ctx
      \<Rightarrow> (string \<times> stash_value) list \<Rightarrow> ('w test_heap, test_failure list) go" where
  "compare_stash L verify ctx [] h = Some ([], h)"
| "compare_stash L verify ctx ((key, expected) # rest) h =
     do { (actual, h) \<leftarrow> on_world (RetrieveValue ctx key) h;
          (fs, h) \<leftarrow> compare_stash L verify ctx rest h;
          Some (verify_stashed L verify key expected actual @ fs, h) }"

definition default_version :: "object \<Rightarrow> object" where
  "default_version obj = (if resourceVersion obj = [] then obj\<lparr>resourceVersion := ''999''\<rparr> else obj)"

text \<open>
  The closure around \<open>Reconcile\<close>.  When a panic is expected it is recovered and the zero results are
  returned; \<open>atPanic\<close> is what the code had made of the resource and of the heap by then.
\<close>

definition run_expecting ::
    "bool \<Rightarrow> (object \<Rightarrow> 'w test_heap \<Rightarrow> object \<times> 'w test_heap) \<Rightarrow> (object \<Rightarrow> ('w test_heap, result \<times> err option \<times> object) go)
      \<Rightarrow> object \<Rightarrow> ('w test_heap, test_failure list \<times> result \<times> err option \<times> object) go" where
  "run_expecting ShouldPanic atPanic r resource h =
     (case r resource h of
        Some ((result, e, resource), h) \<Rightarrow> Some (((if ShouldPanic then [ExpectedPanic] else []), result, e, resource), h)
      | None \<Rightarrow>
          (if ShouldPanic
           then let (resource, h) = atPanic resource h in Some (([], empty_result, None, resource), h)
           else None))"

definition given_resource :: "'w expect_lib \<Rightarrow> object \<Rightarrow> err + object" where
  "given_resource E resource =
     (if is_duck (elDuck E) resource then toUnstructured (elDuck E) resource else Inr resource)"

definition with_given :: "object \<Rightarrow> 'w ExpectConfig \<Rightarrow> 'w ExpectConfig" where
  "with_given given c =
     c\<lparr>ecGivenObjects := ecGivenObjects c @ [given], ecAPIGivenObjects := ecAPIGivenObjects c @ [given],
       ecExpectStatusUpdates := [], ecExpectStatusPatches := []\<rparr>"

text \<open>The context a sub-reconciler is run in.\<close>

definition sub_ctx :: "ctx \<Rightarrow> Config \<Rightarrow> object \<Rightarrow> ctx" where
  "sub_ctx ctx c resource =
     (let ctx = StashConfig ctx c;
          ctx = StashOriginalConfig ctx c;
          ctx = StashRequest ctx \<lparr>nnNamespace = objNamespace resource, nnName = objName resource\<rparr>;
          ctx = StashOriginalResourceType ctx resource
      in StashResourceType ctx resource)"

definition SubReconcilerTestCase_Run ::
    "'w case_lib \<Rightarrow> (object \<Rightarrow> 'w test_heap \<Rightarrow> object \<times> 'w test_heap) \<Rightarrow> 'w sub_reconciler_factory
      \<Rightarrow> 'w SubReconcilerTestCase \<Rightarrow> ('w test_heap, test_failure list) go" where
  "SubReconcilerTestCase_Run L atPanic factory tc h =
     (if stSkip tc then Some ([], h)
      else
        let E = clExpect L;
            (ctx, w) = WithStash background (hpWorld h);
            h = h\<lparr>hpWorld := w\<rparr>;
            ctx = StashNow ctx (case stNow tc of None \<Rightarrow> clNow L | Some t \<Rightarrow> t);
            (ctx, e) = prepared (stPrepare tc) ctx
        in case e of
             Some e \<Rightarrow> Some ([PrepareError e], h)
           | None \<Rightarrow>
               (case given_resource E (stResource tc) of
                  Inl e \<Rightarrow> Some (ConversionError e # cleanup_failures (stCleanUp tc) ctx, h)
                | Inr given \<Rightarrow>
                    (let (c, expectConfig, h) = ExpectConfig_Config E (with_given given (default_config (stConfig tc))) h
                     in do { (_, h) \<leftarrow> stash_given ctx (stGivenStashedValues tc) h;
                             let resource = default_version (stResource tc);
                             let ctx = sub_ctx ctx c resource;
                             let (configs, h) = additional_configs E (stAdditionalConfigs tc) Map.empty h;
                             let ctx = StashAdditionalConfigs ctx configs;
                             ((ps, result, e, resource), h) \<leftarrow>
                               run_expecting (stShouldPanic tc) atPanic (factory c ctx) resource h;
                             let fs = outcome_failures L (stShouldErr tc) (stExpectedResult tc) result e;
                             let vs = verify_failures (stVerify tc) result e;
                             let expectedResource = default_version
                               (case stExpectResource tc of Some x \<Rightarrow> x | None \<Rightarrow> stResource tc);
                             let d = diffResource L expectedResource resource;
                             let rs = (if d \<noteq> [] then [ResourceDiffers (colored L d)] else []);
                             (ss, h) \<leftarrow> compare_stash L (stVerifyStashedValue tc) ctx (stExpectStashedValues tc) h;
                             let (as, expectConfig, h) = AssertExpectations E expectConfig h;
                             let (bs, h) = assert_configs E (stAdditionalConfigs tc) h;
                             Some (ps @ fs @ vs @ rs @ ss @ map Assertion as @ map Assertion bs @
                               cleanup_failures (stCleanUp tc) ctx, h) })))"

section \<open>Webhook test cases\<close>

record 'w AdmissionWebhookTestCase =
  wtName :: string
  wtFocus :: bool
  wtSkip :: bool
  wtRequest :: "admission_request option"
  wtHTTPRequest :: "string option"
  wtConfig :: "'w ExpectConfig"
  wtShouldPanic :: bool
  wtExpectedResponse :: admission_response
  wtPrepare :: "prepare_fun option"
  wtCleanUp :: "cleanup_fun option"
  wtNow :: "int option"

text \<open>An \<open>admission.Webhook\<close>: the context function, which may be nil, and the handler.\<close>

record 'w webhook =
  whContext :: "(ctx \<Rightarrow> string \<Rightarrow> ('w test_heap, ctx) go) option"
  whHandle :: "ctx \<Rightarrow> admission_request \<Rightarrow> ('w test_heap, admission_response) go"

text \<open>A failed preparation is reported and the test goes on.  Without a request the test ends there.\<close>

definition AdmissionWebhookTestCase_Run ::
    "'w case_lib \<Rightarrow> (ctx \<Rightarrow> 'w test_heap \<Rightarrow> ctx \<times> 'w test_heap) \<Rightarrow> (Config \<Rightarrow> 'w webhook) \<Rightarrow> 'w AdmissionWebhookTestCase
      \<Rightarrow> ('w test_heap, test_failure list) go" where
  "AdmissionWebhookTestCase_Run L atPanic factory tc h =
     (if wtSkip tc then Some ([], h)
      else
        let E = clExpect L;
            (ctx, w) = WithStash background (hpWorld h);
            h = h\<lparr>hpWorld := w\<rparr>;
            ctx = StashNow ctx (case wtNow tc of None \<Rightarrow> clNow L | Some t \<Rightarrow> t);
            (ctx, e) = prepared (wtPrepare tc) ctx;
            qs = (case e of Some e \<Rightarrow> [PrepareError e] | None \<Rightarrow> []);
            (c, expectConfig, h) = ExpectConfig_Config E (default_config (wtConfig tc)) h;
            r = factory c;
            httpRequest = (case wtHTTPRequest tc of Some req \<Rightarrow> req | None \<Rightarrow> ''/'')
        in case wtRequest tc of
             None \<Rightarrow>
               Some (qs @ [RequestRequired] @ (if wtShouldPanic tc then [ExpectedPanic] else []) @
                 cleanup_failures (wtCleanUp tc) ctx, h)
           | Some request \<Rightarrow>
               do { ((ps, response, ctx), h) \<leftarrow>
                      (case do { (ctx, h) \<leftarrow> (case whContext r of None \<Rightarrow> Some (ctx, h) | Some f \<Rightarrow> f ctx httpRequest h);
                                 (response, h) \<leftarrow> whHandle r ctx request h;
                                 Some ((response, ctx), h) } of
                         Some ((response, ctx), h) \<Rightarrow> Some (((if wtShouldPanic tc then [ExpectedPanic] else []), response, ctx), h)
                       | None \<Rightarrow>
                           (if wtShouldPanic tc then let (ctx, h) = atPanic ctx h in Some (([], empty_response, ctx), h)
                            else None));
                    let d = diffResponse L (completeResponse L request (wtExpectedResponse tc)) response;
                    let rs = (if d \<noteq> [] then [ResponseDiffers (colored L d)] else []);
                    let (as, expectConfig, h) = AssertExpectations E expectConfig h;
                    Some (qs @ ps @ rs @ map Assertion as @ cleanup_failures (wtCleanUp tc) ctx, h) })"

section \<open>Suites\<close>

text \<open>
  \<open>Run\<close> of the three suites, for any kind of test case: each executed case is a subtest of its own, with
  its failures under its name.
\<close>

fun run_subtests ::
    "('c \<Rightarrow> string) \<Rightarrow> ('c \<Rightarrow> ('h, test_failure list) go) \<Rightarrow> 'c list \<Rightarrow> ('h, (string \<times> test_failure list) list) go" where
  "run_subtests name run [] h = Some ([], h)"
| "run_subtests name run (test # tests) h =
     do { (fs, h) \<leftarrow> run test h;
          (rest, h) \<leftarrow> run_subtests name run tests h;
          Some ((name test, fs) # rest, h) }"

fun first_focused :: "('c \<Rightarrow> bool) \<Rightarrow> 'c list \<Rightarrow> 'c list" where
  "first_focused focus [] = []"
| "first_focused focus (test # tests) = (if focus test then [test] else first_focused focus tests)"

definition suite_Run ::
    "('c \<Rightarrow> bool) \<Rightarrow> ('c \<Rightarrow> string) \<Rightarrow> ('c \<Rightarrow> ('h, test_failure list) go) \<Rightarrow> 'c list
      \<Rightarrow> ('h, (string \<times> test_failure list) list \<times> test_failure list) go" where
  "suite_Run focus name run ts h =
     (let focused = first_focused focus ts;
          testsToExecute = (if length focused > 0 then focused else ts)
      in do { (subtests, h) \<leftarrow> run_subtests name run testsToExecute h;
              Some ((subtests, if length focused > 0 then [StillFocused (length focused) (length ts)] else []), h) })"

definition ReconcilerTestSuite_Run where
  "ReconcilerTestSuite_Run L factory = suite_Run rtFocus rtName (ReconcilerTestCase_Run L factory)"

definition SubReconcilerTestSuite_Run where
  "SubReconcilerTestSuite_Run L atPanic factory = suite_Run stFocus stName (SubReconcilerTestCase_Run L atPanic factory)"

definition AdmissionWebhookTestSuite_Run where
  "AdmissionWebhookTestSuite_Run L atPanic factory = suite_Run wtFocus wtName (AdmissionWebhookTestCase_Run L atPanic factory)"

text \<open>The map variants name each case after its key and run them in the order of the range.\<close>

definition ReconcilerTests_Run where
  "ReconcilerTests_Run L factory rt = ReconcilerTestSuite_Run L factory (map (\<lambda>(name, rtc). rtc\<lparr>rtName := name\<rparr>) rt)"

definition SubReconcilerTests_Run where
  "SubReconcilerTests_Run L atPanic factory rt =
     SubReconcilerTestSuite_Run L atPanic factory (map (\<lambda>(name, rtc). rtc\<lparr>stName := name\<rparr>) rt)"

definition AdmissionWebhookTests_Run where
  "AdmissionWebhookTests_Run L atPanic factory wt =
     AdmissionWebhookTestSuite_Run L atPanic factory (map (\<lambda>(name, wtc). wtc\<lparr>wtName := name\<rparr>) wt)"

section \<open>Facts\<close>

lemma assert_configs_fresh:
  "\<forall>(k, c) \<in> set configs. ecDoubles c = None \<Longrightarrow>
    fst (assert_configs E configs h) = concat (map (\<lambda>(k, c). all_unobserved c) configs)"
proof (induction configs arbitrary: h)
  case Nil
  then show ?case by simp
next
  case (Cons a configs)
  obtain k c where a: "a = (k, c)" by (cases a)
  obtain fs c' h' where r: "AssertExpectations E c h = (fs, c', h')" by (metis prod_cases3)
  with AssertExpectations_fresh [of c E h] Cons.prems a have "fs = all_unobserved c" by simp
  moreover have "fst (assert_configs E configs h') = concat (map (\<lambda>(k, c). all_unobserved c) configs)"
    using Cons.prems by (intro Cons.IH) simp
  ultimately show ?case using a r by (simp add: split_def Let_def)
qed

lemma ExpectConfig_Config_default:
  obtains d c' h' where "ExpectConfig_Config E (default_config c) h = (doubles_config d, c', h')"
    and "ExpectConfig_init E (default_config c) h = (d, c', h')" and "ecDoubles c' = Some d"
proof -
  obtain d c' h' where i: "ExpectConfig_init E (default_config c) h = (d, c', h')" by (metis prod_cases3)
  have "ecDoubles (default_config c) = None" by (simp add: default_config_def)
  from init_fresh(1) [OF this i] have "ecDoubles c' = Some d" by simp
  with i show thesis by (intro that) (simp_all add: ExpectConfig_Config_def)
qed

lemma matches_default:
  assumes "ExpectConfig_init E (default_config c) h = (d, c', h')"
  shows "client_matches E c' = client_matches E c" and "doubles_match E c' = doubles_match E c"
proof -
  have "ecDoubles (default_config c) = None" by (simp add: default_config_def)
  from init_fresh(1) [OF this assms] show "client_matches E c' = client_matches E c" "doubles_match E c' = doubles_match E c"
    by (simp_all add: fun_eq_iff client_matches_def doubles_match_def default_config_def)
qed

lemma AssertExpectations_Nil:
  assumes "ecDoubles c = Some d"
  shows "\<exists>c'. AssertExpectations E c h = (fst (AssertExpectations E c h), c', h)"
    and "fst (AssertExpectations E c h) = [] \<longleftrightarrow>
      client_matches E c (recorded (observed_client d h)) \<and>
      doubles_match E c (hpRecorders h (dbRecorder d)) (getTrackRequests (hpTrackers h (dbTracker d)))"
  using AssertExpectations_ready [OF assms, of E h] client_comparisons_Nil [of d c h E] double_comparisons_Nil [of d c h E]
  by (auto simp: Let_def)

lemma outcome_failures_Nil:
  "outcome_failures L ShouldErr ExpectedResult result e = [] \<longleftrightarrow>
    (e \<noteq> None) = ShouldErr \<and> (e = None \<longrightarrow> diffResult L (normalizeResult ExpectedResult) (normalizeResult result) = [])"
  by (auto simp: outcome_failures_def Let_def)

lemma first_focused_append:
  "\<forall>x \<in> set xs. \<not> focus x \<Longrightarrow> focus t \<Longrightarrow> first_focused focus (xs @ t # ys) = [t]"
  by (induction xs) simp_all

section \<open>A small instance\<close>

definition demo_case_lib :: "object list case_lib" where
  "demo_case_lib =
     \<lparr>clExpect = demo_expect_lib, clNow = 0, diffResult = (\<lambda>x y. if x = y then [] else ''result''),
      diffResource = (\<lambda>x y. if x = y then [] else ''resource''), diffStash = (\<lambda>x y. if x = y then [] else ''stash''),
      diffResponse = (\<lambda>x y. if x = y then [] else ''response''), completeResponse = (\<lambda>req resp. resp)\<rparr>"

definition demo_event :: event where
  "demo_event = \<lparr>evAPIVersion = ''v1'', evKind = ''Pod'', evNamespace = [], evName = ''a'', evType = ''Normal'',
     evReason = ''Created'', evMessage = []\<rparr>"

text \<open>Code under test that records one event, and a test case that expects it.\<close>

definition recording :: "object list reconciler_factory" where
  "recording config ctx req h =
     Some ((empty_result, None), h\<lparr>hpRecorders := (hpRecorders h)(0 := hpRecorders h 0 @ [demo_event])\<rparr>)"

definition demo_test_case :: "(string \<times> object list ExpectConfig) list \<Rightarrow> object list ReconcilerTestCase" where
  "demo_test_case additional =
     \<lparr>rtName = ''test'', rtFocus = False, rtSkip = False, rtRequest = \<lparr>nnNamespace = [], nnName = ''a''\<rparr>,
      rtConfig = demo_expect_config\<lparr>ecExpectCreates := [], ecExpectEvents := [demo_event]\<rparr>,
      rtAdditionalConfigs = additional, rtShouldErr = False, rtExpectedResult = empty_result, rtVerify = None,
      rtPrepare = None, rtCleanUp = None, rtNow = None\<rparr>"

lemma demo_init:
  "ExpectConfig_init demo_expect_lib c demo_test_heap = (d, c', h') \<Longrightarrow> ecDoubles c = None \<Longrightarrow>
    ecWithClientBuilder c = None \<Longrightarrow> dbRecorder d = 0 \<and> fst (dbClient d) = 0 \<and> dbTracker d = 0"
  by (auto simp: ExpectConfig_init_def createClient_def demo_expect_lib_def demo_test_heap_def Let_def split: prod.splits)

section \<open>Properties\<close>

text \<open>
  C38. A reconciler test is exact: a test case without hooks or additional configurations passes exactly
  when the code under test errs as expected, returns the expected result (a delay implies requeueing) when
  it does not err, and its writes, events and tracks are the expected ones, entry by entry and in order.
\<close>

theorem ReconcilerTestCase_Run_exact:
  assumes "\<not> rtSkip tc" and "rtPrepare tc = None" and "rtVerify tc = None" and "rtCleanUp tc = None"
    and "rtAdditionalConfigs tc = []"
    and "ExpectConfig_init (clExpect L) (default_config (rtConfig tc)) h = (d, c, h1)"
    and "factory (doubles_config d)
      (StashAdditionalConfigs (StashNow background (case rtNow tc of None \<Rightarrow> clNow L | Some t \<Rightarrow> t)) Map.empty)
      (rtRequest tc) h1 = Some ((result, e), h2)"
  shows "\<exists>fs. ReconcilerTestCase_Run L factory tc h = Some (fs, h2) \<and>
    (fs = [] \<longleftrightarrow>
       (e \<noteq> None) = rtShouldErr tc \<and>
       (e = None \<longrightarrow> diffResult L (normalizeResult (rtExpectedResult tc)) (normalizeResult result) = []) \<and>
       client_matches (clExpect L) (rtConfig tc) (recorded (observed_client d h2)) \<and>
       doubles_match (clExpect L) (rtConfig tc) (hpRecorders h2 (dbRecorder d)) (getTrackRequests (hpTrackers h2 (dbTracker d))))"
proof -
  have "ecDoubles (default_config (rtConfig tc)) = None" by (simp add: default_config_def)
  from init_fresh(1) [OF this assms(6)] have dc: "ecDoubles c = Some d" by simp
  obtain c2 where a: "AssertExpectations (clExpect L) c h2 = (fst (AssertExpectations (clExpect L) c h2), c2, h2)"
    using AssertExpectations_Nil(1) [OF dc] by blast
  let ?as = "fst (AssertExpectations (clExpect L) c h2)"
  let ?fs = "outcome_failures L (rtShouldErr tc) (rtExpectedResult tc) result e"
  have "ReconcilerTestCase_Run L factory tc h =
      (let (as, expectConfig, h) = AssertExpectations (clExpect L) c h2 in Some (?fs @ map Assertion as, h))"
    using assms(1-5,7)
    by (simp add: ReconcilerTestCase_Run_def ExpectConfig_Config_def assms(6) prepared_def verify_failures_def
        cleanup_failures_def Let_def split_def)
  also have "\<dots> = Some (?fs @ map Assertion ?as, h2)" by (subst a) simp
  finally have "ReconcilerTestCase_Run L factory tc h = Some (?fs @ map Assertion ?as, h2)" .
  moreover note AssertExpectations_Nil(2) [OF dc, of "clExpect L" h2]
  ultimately show ?thesis
    by (simp add: outcome_failures_Nil matches_default [OF assms(6)])
qed

theorem ReconcilerTestCase_Run_exact_witness:
  "\<exists>h'. ReconcilerTestCase_Run demo_case_lib recording (demo_test_case []) demo_test_heap = Some ([], h')"
proof -
  let ?tc = "demo_test_case []" and ?L = demo_case_lib
  let ?c = "default_config (rtConfig ?tc)"
  obtain d c h1 where i: "ExpectConfig_init (clExpect ?L) ?c demo_test_heap = (d, c, h1)" by (metis prod_cases3)
  have n: "ecDoubles ?c = None" "ecWithClientBuilder ?c = None"
    by (simp_all add: default_config_def demo_test_case_def demo_expect_config_def)
  note f = init_fresh [OF n(1) i]
  from f(3) obtain b where b: "observed_client d h1 = new_fake b" by blast
  from i n have d: "dbRecorder d = 0" using demo_init [of ?c d c h1] by (simp add: demo_case_lib_def)
  let ?h2 = "h1\<lparr>hpRecorders := (hpRecorders h1)(0 := hpRecorders h1 0 @ [demo_event])\<rparr>"
  have run: "recording (doubles_config d) ctx req h1 = Some ((empty_result, None), ?h2)" for ctx req
    by (simp add: recording_def)
  have "\<exists>fs. ReconcilerTestCase_Run ?L recording ?tc demo_test_heap = Some (fs, ?h2) \<and>
    (fs = [] \<longleftrightarrow>
       (None \<noteq> (None :: err option)) = rtShouldErr ?tc \<and>
       ((None :: err option) = None \<longrightarrow> diffResult ?L (normalizeResult (rtExpectedResult ?tc)) (normalizeResult empty_result) = []) \<and>
       client_matches (clExpect ?L) (rtConfig ?tc) (recorded (observed_client d ?h2)) \<and>
       doubles_match (clExpect ?L) (rtConfig ?tc) (hpRecorders ?h2 (dbRecorder d)) (getTrackRequests (hpTrackers ?h2 (dbTracker d))))"
    by (rule ReconcilerTestCase_Run_exact [where L = ?L and tc = ?tc and factory = recording, OF _ _ _ _ _ i run])
      (simp_all add: demo_test_case_def)
  moreover have "diffResult ?L x x = []" for x by (simp add: demo_case_lib_def)
  moreover have "client_matches (clExpect ?L) (rtConfig ?tc) (recorded (observed_client d ?h2))"
    using b by (simp add: client_matches_def demo_test_case_def demo_expect_config_def new_fake_def)
  moreover have "doubles_match (clExpect ?L) (rtConfig ?tc) (hpRecorders ?h2 (dbRecorder d)) (getTrackRequests (hpTrackers ?h2 (dbTracker d)))"
    using f(4,5) d by (simp add: doubles_match_def demo_test_case_def demo_expect_config_def demo_case_lib_def demo_expect_lib_def)
  ultimately show ?thesis by (auto simp: demo_test_case_def)
qed

text \<open>
  C39. The expectations of an additional configuration are never met: the configuration that is asserted at
  the end is a fresh copy, not the one the code under test used, so each of its expectations is reported
  as not observed whatever the code did.
\<close>

theorem additional_expectations_never_met:
  assumes "ReconcilerTestCase_Run L factory tc h = Some (fs, h')"
    and "\<not> rtSkip tc" and "rtPrepare tc = None"
    and "\<forall>(k, c) \<in> set (rtAdditionalConfigs tc). ecDoubles c = None" and "(k, c) \<in> set (rtAdditionalConfigs tc)"
  shows "Assertion ` set (all_unobserved c) \<subseteq> set fs"
proof -
  from assms(1-3) obtain pre bs post h1 where "fs = pre @ map Assertion bs @ post"
    and "bs = fst (assert_configs (clExpect L) (rtAdditionalConfigs tc) h1)"
    by (auto simp: ReconcilerTestCase_Run_def prepared_def Let_def split: prod.splits) (metis append.assoc fst_conv)
  with assert_configs_fresh [OF assms(4), of "clExpect L" h1] assms(5) show ?thesis by auto
qed

theorem additional_expectations_never_met_witness:
  "\<exists>fs h'. ReconcilerTestCase_Run demo_case_lib recording (demo_test_case [(''other'', demo_expect_config)]) demo_test_heap =
      Some (fs, h') \<and> Assertion (NotObserved ''ExpectCreates'' 0 '' for config demo'') \<in> set fs"
proof -
  let ?tc = "demo_test_case [(''other'', demo_expect_config)]"
  obtain fs h' where run: "ReconcilerTestCase_Run demo_case_lib recording ?tc demo_test_heap = Some (fs, h')"
    by (simp add: ReconcilerTestCase_Run_def recording_def demo_test_case_def prepared_def Let_def split_def)
  have "Assertion ` set (all_unobserved demo_expect_config) \<subseteq> set fs"
    by (rule additional_expectations_never_met [OF run]) (auto simp: demo_test_case_def demo_expect_config_def)
  then have "Assertion (NotObserved ''ExpectCreates'' 0 '' for config demo'') \<in> set fs"
    by (auto simp: all_unobserved_def demo_expect_config_def configNameMsg_def)
  with run show ?thesis by blast
qed

text \<open>
  A suite with a focused case runs the first focused case and nothing else, and fails.  Further
  focused cases are not run.
\<close>

theorem suite_Run_focused:
  assumes "\<forall>x \<in> set xs. \<not> focus x" and "focus t"
  shows "suite_Run focus name run (xs @ t # ys) h =
    do { (fs, h) \<leftarrow> run t h; Some (([(name t, fs)], [StillFocused 1 (length xs + 1 + length ys)]), h) }"
proof -
  have "run_subtests name run [t] h = do { (fs, h) \<leftarrow> run t h; Some ([(name t, fs)], h) }" by (simp add: split_def)
  then show ?thesis
    using first_focused_append [OF assms, of ys] by (simp add: suite_Run_def split_def Let_def)
qed

theorem suite_Run_focused_witness:
  "suite_Run (\<lambda>n. 1 < n) (\<lambda>n. ''test'') (\<lambda>n h. Some ([], h)) [1, 2, 3 :: nat] () =
    Some (([(''test'', [])], [StillFocused 1 3]), ())"
  using suite_Run_focused [of "[1]" "\<lambda>n. 1 < n" "2 :: nat" "\<lambda>n. ''test''" "\<lambda>n h. Some ([], h)" "[3]" "()"] by simp

end
