(* ===== verification/GoHeap.thy ===== *)
theory GoHeap
  imports Conditions
begin

text \<open>
  The memory behind the resources of \<^verbatim>\<open>src/internal/resources\<close>: Go maps, slices and pointers are
  addresses of a heap, so that two structs may share a map.  A struct is a value; its deep copy copies what
  its addresses lead to.  The contract of a deep copy is the locale \<open>deep_copy\<close>, with combinators for
  the shapes of generated code.  \<open>ObjectMeta\<close>, \<open>ListMeta\<close> and \<open>PodTemplateSpec\<close>, which belong to
  Kubernetes and bring their own deep copies, are values.
\<close>

section \<open>Structs\<close>

type_synonym addr = nat

record type_meta =
  tmAPIVersion :: string
  tmKind :: string

text \<open>\<open>apis.Status\<close> of \<^verbatim>\<open>src/apis/status_types.go\<close>, its conditions being a slice on the heap.\<close>

record heap_status =
  hsObservedGeneration :: int
  hsConditions :: "addr option"

record TestResourceStatus =
  rsStatus :: heap_status
  rsFields :: "addr option"

record TestResourceSpec =
  rpFields :: "addr option"
  rpTemplate :: string
  rpErrOnMarshal :: bool
  rpErrOnUnmarshal :: bool

text \<open>The shape all test resources share.\<close>

record ('spec, 'status) test_object =
  toTypeMeta :: type_meta
  toObjectMeta :: string
  toSpec :: 'spec
  toStatus :: 'status

type_synonym TestResource = "(TestResourceSpec, TestResourceStatus) test_object"

section \<open>The heap\<close>

record go_heap =
  ghMaps :: "addr \<Rightarrow> string \<rightharpoonup> string"
  ghConditions :: "addr \<Rightarrow> condition list"
  ghStatuses :: "addr \<Rightarrow> TestResourceStatus"
  ghResources :: "addr \<Rightarrow> TestResource"
  ghNext :: addr

definition alloc_map :: "(string \<rightharpoonup> string) \<Rightarrow> go_heap \<Rightarrow> addr \<times> go_heap" where
  "alloc_map m h = (ghNext h, h\<lparr>ghMaps := (ghMaps h)(ghNext h := m), ghNext := ghNext h + 1\<rparr>)"

definition alloc_conditions :: "condition list \<Rightarrow> go_heap \<Rightarrow> addr \<times> go_heap" where
  "alloc_conditions cs h =
     (ghNext h, h\<lparr>ghConditions := (ghConditions h)(ghNext h := cs), ghNext := ghNext h + 1\<rparr>)"

definition alloc_status :: "TestResourceStatus \<Rightarrow> go_heap \<Rightarrow> addr \<times> go_heap" where
  "alloc_status s h = (ghNext h, h\<lparr>ghStatuses := (ghStatuses h)(ghNext h := s), ghNext := ghNext h + 1\<rparr>)"

definition alloc_resource :: "TestResource \<Rightarrow> go_heap \<Rightarrow> addr \<times> go_heap" where
  "alloc_resource r h = (ghNext h, h\<lparr>ghResources := (ghResources h)(ghNext h := r), ghNext := ghNext h + 1\<rparr>)"

lemmas alloc_defs = alloc_map_def alloc_conditions_def alloc_status_def alloc_resource_def

definition store_map :: "addr \<Rightarrow> (string \<rightharpoonup> string) \<Rightarrow> go_heap \<Rightarrow> go_heap" where
  "store_map a m h = h\<lparr>ghMaps := (ghMaps h)(a := m)\<rparr>"

text \<open>\<open>m[key] = value\<close>; writing to a nil map panics.\<close>

definition map_put :: "addr option \<Rightarrow> string \<Rightarrow> string \<Rightarrow> (go_heap, unit) go" where
  "map_put f key v h =
     (case f of None \<Rightarrow> None | Some a \<Rightarrow> Some ((), store_map a ((ghMaps h a)(key \<mapsto> v)) h))"

text \<open>What is at an address, in all stores.\<close>

definition cell :: "go_heap \<Rightarrow> addr \<Rightarrow> (string \<rightharpoonup> string) \<times> condition list \<times> TestResourceStatus \<times> TestResource" where
  "cell h a = (ghMaps h a, ghConditions h a, ghStatuses h a, ghResources h a)"

definition allocated :: "go_heap \<Rightarrow> addr set" where
  "allocated h = {..<ghNext h}"

definition agree :: "addr set \<Rightarrow> go_heap \<Rightarrow> go_heap \<Rightarrow> bool" where
  "agree S h h' \<longleftrightarrow> (\<forall>a \<in> S. cell h' a = cell h a)"

definition grown :: "go_heap \<Rightarrow> go_heap \<Rightarrow> bool" where
  "grown h h' \<longleftrightarrow> ghNext h \<le> ghNext h' \<and> agree (allocated h) h h'"

lemma agree_refl [simp]: "agree S h h"
  by (simp add: agree_def)

lemma agree_trans: "agree S h h' \<Longrightarrow> agree S h' h'' \<Longrightarrow> agree S h h''"
  by (simp add: agree_def)

lemma agree_sym: "agree S h h' \<Longrightarrow> agree S h' h"
  by (simp add: agree_def)

lemma agree_mono: "agree T h h' \<Longrightarrow> S \<subseteq> T \<Longrightarrow> agree S h h'"
  by (auto simp: agree_def)

lemma agree_Un [simp]: "agree (S \<union> T) h h' \<longleftrightarrow> agree S h h' \<and> agree T h h'"
  by (auto simp: agree_def)

lemma agree_insert [simp]: "agree (insert a S) h h' \<longleftrightarrow> cell h' a = cell h a \<and> agree S h h'"
  by (auto simp: agree_def)

lemma agree_cell: "agree S h h' \<Longrightarrow> a \<in> S \<Longrightarrow> cell h' a = cell h a"
  by (simp add: agree_def)

lemma cell_eqD:
  assumes "cell h' a = cell h a"
  shows "ghMaps h' a = ghMaps h a" and "ghConditions h' a = ghConditions h a"
    and "ghStatuses h' a = ghStatuses h a" and "ghResources h' a = ghResources h a"
  using assms by (simp_all add: cell_def)

lemma grown_refl [simp]: "grown h h"
  by (simp add: grown_def)

lemma grown_trans: "grown h h' \<Longrightarrow> grown h' h'' \<Longrightarrow> grown h h''"
  unfolding grown_def by (auto simp: allocated_def intro: agree_trans agree_mono)

lemma grown_agree: "grown h h' \<Longrightarrow> S \<subseteq> allocated h \<Longrightarrow> agree S h h'"
  by (auto simp: grown_def intro: agree_mono)

lemma grown_allocated: "grown h h' \<Longrightarrow> allocated h \<subseteq> allocated h'"
  by (auto simp: grown_def allocated_def)

lemma alloc_grown:
  "alloc_map m h = (a, h') \<Longrightarrow> grown h h' \<and> a \<in> allocated h' - allocated h \<and> ghMaps h' a = m"
  "alloc_conditions cs h = (a, h') \<Longrightarrow> grown h h' \<and> a \<in> allocated h' - allocated h \<and> ghConditions h' a = cs"
  "alloc_status s h = (a, h') \<Longrightarrow> grown h h' \<and> a \<in> allocated h' - allocated h \<and> ghStatuses h' a = s"
  "alloc_resource r h = (a, h') \<Longrightarrow> grown h h' \<and> a \<in> allocated h' - allocated h \<and> ghResources h' a = r"
  by (auto simp: alloc_defs grown_def agree_def allocated_def cell_def)

section \<open>The contract of a deep copy\<close>

text \<open>
  \<open>reach\<close> are the addresses a value leads to, \<open>view\<close> is what it shows when everything is read back.  A copy
  shows the same, at addresses that were free before, and nothing that was allocated changes.
\<close>

type_synonym 'a copier = "'a \<Rightarrow> go_heap \<Rightarrow> 'a \<times> go_heap"

locale deep_copy =
  fixes copy :: "'a copier" and reach :: "go_heap \<Rightarrow> 'a \<Rightarrow> addr set" and view :: "go_heap \<Rightarrow> 'a \<Rightarrow> 'v"
  assumes reach_cong: "agree (reach h x) h h' \<Longrightarrow> reach h' x = reach h x"
    and view_cong: "agree (reach h x) h h' \<Longrightarrow> view h' x = view h x"
    and copy_fresh: "reach h x \<subseteq> allocated h \<Longrightarrow> copy x h = (y, h') \<Longrightarrow>
      grown h h' \<and> view h' y = view h x \<and> reach h' y \<subseteq> allocated h' - allocated h"
begin

text \<open>A value and its copy: changes outside the one do not show in it.\<close>

lemma original_kept:
  assumes "reach h x \<subseteq> allocated h" and "copy x h = (y, h')" and "agree (- reach h' y) h' h''"
  shows "view h'' x = view h x" and "reach h'' x = reach h x"
proof -
  note f = copy_fresh [OF assms(1,2)]
  then have 1: "agree (reach h x) h h'" using assms(1) by (simp add: grown_agree)
  have "reach h x \<subseteq> - reach h' y" using f assms(1) by auto
  with assms(3) have "agree (reach h x) h' h''" by (rule agree_mono)
  with 1 have "agree (reach h x) h h''" by (rule agree_trans)
  then show "view h'' x = view h x" "reach h'' x = reach h x" by (rule view_cong, rule reach_cong)
qed

lemma copy_kept:
  assumes "reach h x \<subseteq> allocated h" and "copy x h = (y, h')" and "agree (- allocated h) h' h''"
  shows "view h'' y = view h x"
proof -
  note f = copy_fresh [OF assms(1,2)]
  then have "reach h' y \<subseteq> - allocated h" by auto
  with assms(3) have "agree (reach h' y) h' h''" by (rule agree_mono)
  with f show ?thesis by (simp add: view_cong)
qed

end

section \<open>Copies of values, maps and slices\<close>

text \<open>\<open>if in.Fields != nil { \<dots> }\<close>: a new map with the entries of the old one.\<close>

definition copy_fields :: "addr option copier" where
  "copy_fields f h =
     (case f of None \<Rightarrow> (None, h) | Some a \<Rightarrow> let (b, h) = alloc_map (\<lambda>key. ghMaps h a key) h in (Some b, h))"

text \<open>A slice of conditions; \<open>metav1.Condition\<close> has no references.\<close>

definition copy_conditions :: "addr option copier" where
  "copy_conditions cs h =
     (case cs of None \<Rightarrow> (None, h) | Some a \<Rightarrow> let (b, h) = alloc_conditions (map (\<lambda>c. c) (ghConditions h a)) h in (Some b, h))"

definition view_fields :: "go_heap \<Rightarrow> addr option \<Rightarrow> (string \<rightharpoonup> string) option" where
  "view_fields h f = map_option (ghMaps h) f"

definition view_conditions :: "go_heap \<Rightarrow> addr option \<Rightarrow> condition list option" where
  "view_conditions h cs = map_option (ghConditions h) cs"

interpretation fields: deep_copy copy_fields "\<lambda>h. set_option" view_fields
  by unfold_locales
    (auto simp: view_fields_def copy_fields_def agree_def cell_def dest: cell_eqD alloc_grown
      split: option.splits prod.splits intro!: option.map_cong0)

interpretation conds: deep_copy copy_conditions "\<lambda>h. set_option" view_conditions
  by unfold_locales
    (auto simp: view_conditions_def copy_conditions_def agree_def cell_def dest: cell_eqD alloc_grown
      split: option.splits prod.splits intro!: option.map_cong0)

section \<open>Combinators\<close>

text \<open>A struct without references is copied by assignment.\<close>

lemma deep_copy_value: "deep_copy (\<lambda>x h. (x, h)) (\<lambda>h x. {}) (\<lambda>h x. x)"
  by unfold_locales auto

text \<open>One field of a struct that is otherwise assigned.\<close>

lemma deep_copy_field:
  assumes "deep_copy c r v" and "\<And>x a. get (put x a) = a" and "\<And>x a w. shown (put x a) w = shown x w"
  shows "deep_copy (\<lambda>x h. let (a, h) = c (get x) h in (put x a, h)) (\<lambda>h x. r h (get x)) (\<lambda>h x. shown x (v h (get x)))"
proof -
  note d = assms(1)
  show ?thesis
  proof
    fix h h' x assume a: "agree (r h (get x)) h h'"
    show "r h' (get x) = r h (get x)" by (rule deep_copy.reach_cong [OF d a])
    show "shown x (v h' (get x)) = shown x (v h (get x))" by (simp add: deep_copy.view_cong [OF d a])
  next
    fix h h' x y
    assume a: "r h (get x) \<subseteq> allocated h" and "(let (a, h) = c (get x) h in (put x a, h)) = (y, h')"
    then obtain b where b: "c (get x) h = (b, h')" and "y = put x b" by (auto split: prod.splits)
    with deep_copy.copy_fresh [OF d a b]
    show "grown h h' \<and> shown y (v h' (get y)) = shown x (v h (get x)) \<and> r h' (get y) \<subseteq> allocated h' - allocated h"
      by (simp add: assms(2,3))
  qed
qed

text \<open>Two fields one after the other.\<close>

lemma deep_copy_fields2:
  assumes "deep_copy c1 r1 v1" and "deep_copy c2 r2 v2"
    and "\<And>x a b. getA (put x a b) = a" and "\<And>x a b. getB (put x a b) = b"
    and "\<And>x a b w1 w2. shown (put x a b) w1 w2 = shown x w1 w2"
  shows "deep_copy (\<lambda>x h. let (a, h) = c1 (getA x) h; (b, h) = c2 (getB x) h in (put x a b, h))
    (\<lambda>h x. r1 h (getA x) \<union> r2 h (getB x)) (\<lambda>h x. shown x (v1 h (getA x)) (v2 h (getB x)))"
proof
  fix h h' x assume a: "agree (r1 h (getA x) \<union> r2 h (getB x)) h h'"
  then have a: "agree (r1 h (getA x)) h h'" "agree (r2 h (getB x)) h h'" by simp_all
  note eqs = deep_copy.reach_cong [OF assms(1) a(1)] deep_copy.view_cong [OF assms(1) a(1)]
    deep_copy.reach_cong [OF assms(2) a(2)] deep_copy.view_cong [OF assms(2) a(2)]
  show "r1 h' (getA x) \<union> r2 h' (getB x) = r1 h (getA x) \<union> r2 h (getB x)" by (simp add: eqs)
  show "shown x (v1 h' (getA x)) (v2 h' (getB x)) = shown x (v1 h (getA x)) (v2 h (getB x))" by (simp add: eqs)
next
  fix h h2 x y
  assume al: "r1 h (getA x) \<union> r2 h (getB x) \<subseteq> allocated h"
    and "(let (a, h) = c1 (getA x) h; (b, h) = c2 (getB x) h in (put x a b, h)) = (y, h2)"
  then obtain a h1 b where 1: "c1 (getA x) h = (a, h1)" and 2: "c2 (getB x) h1 = (b, h2)" and y: "y = put x a b"
    by (auto split: prod.splits)
  from al have al: "r1 h (getA x) \<subseteq> allocated h" "r2 h (getB x) \<subseteq> allocated h" by simp_all
  note f1 = deep_copy.copy_fresh [OF assms(1) al(1) 1]
  then have kept: "agree (r2 h (getB x)) h h1" using al(2) by (simp add: grown_agree)
  note same = deep_copy.reach_cong [OF assms(2) kept] deep_copy.view_cong [OF assms(2) kept]
  have sub: "allocated h \<subseteq> allocated h1" using f1 by (simp add: grown_allocated)
  then have "r2 h1 (getB x) \<subseteq> allocated h1" using al(2) same by auto
  note f2 = deep_copy.copy_fresh [OF assms(2) this 2]
  have "agree (r1 h1 a) h1 h2" using f1 f2 by (auto intro!: grown_agree)
  note same1 = deep_copy.reach_cong [OF assms(1) this] deep_copy.view_cong [OF assms(1) this]
  have "allocated h1 \<subseteq> allocated h2" using f2 by (simp add: grown_allocated)
  with f1 f2 sub grown_trans [of h h1 h2]
  show "grown h h2 \<and> shown y (v1 h2 (getA y)) (v2 h2 (getB y)) = shown x (v1 h (getA x)) (v2 h (getB x)) \<and>
      r1 h2 (getA y) \<union> r2 h2 (getB y) \<subseteq> allocated h2 - allocated h"
    by (auto simp: y assms(3-5) same same1)
qed

text \<open>A nil or non-nil value, and a slice of values copied one by one.\<close>

definition copy_option :: "'a copier \<Rightarrow> 'a option copier" where
  "copy_option copy p h = (case p of None \<Rightarrow> (None, h) | Some x \<Rightarrow> let (y, h) = copy x h in (Some y, h))"

definition reach_option :: "(go_heap \<Rightarrow> 'a \<Rightarrow> addr set) \<Rightarrow> go_heap \<Rightarrow> 'a option \<Rightarrow> addr set" where
  "reach_option reach h p = (case p of None \<Rightarrow> {} | Some x \<Rightarrow> reach h x)"

lemma deep_copy_option:
  assumes "deep_copy c r v"
  shows "deep_copy (copy_option c) (reach_option r) (\<lambda>h. map_option (v h))"
proof
  fix h h' x assume "agree (reach_option r h x) h h'"
  then show "reach_option r h' x = reach_option r h x" and "map_option (v h') x = map_option (v h) x"
    using deep_copy.reach_cong [OF assms] deep_copy.view_cong [OF assms]
    by (auto simp: reach_option_def split: option.splits)
next
  fix h h' x y
  assume "reach_option r h x \<subseteq> allocated h" and "copy_option c x h = (y, h')"
  then show "grown h h' \<and> map_option (v h') y = map_option (v h) x \<and> reach_option r h' y \<subseteq> allocated h' - allocated h"
    using deep_copy.copy_fresh [OF assms, of h "the x" "the y" h']
    by (cases x) (auto simp: copy_option_def reach_option_def split: prod.splits)
qed

fun copy_items :: "'a copier \<Rightarrow> 'a list copier" where
  "copy_items copy [] h = ([], h)"
| "copy_items copy (x # xs) h = (let (y, h) = copy x h; (ys, h) = copy_items copy xs h in (y # ys, h))"

lemma deep_copy_items:
  assumes "deep_copy c r v"
  shows "deep_copy (copy_items c) (\<lambda>h xs. \<Union>x \<in> set xs. r h x) (\<lambda>h. map (v h))"
proof
  fix h h' xs assume a: "agree (\<Union>x \<in> set xs. r h x) h h'"
  then have a: "\<And>x. x \<in> set xs \<Longrightarrow> agree (r h x) h h'" by (auto intro: agree_mono)
  show "(\<Union>x \<in> set xs. r h' x) = (\<Union>x \<in> set xs. r h x)"
    by (simp add: deep_copy.reach_cong [OF assms a])
  show "map (v h') xs = map (v h) xs"
    by (simp add: deep_copy.view_cong [OF assms a])
next
  fix h h' xs ys
  assume "(\<Union>x \<in> set xs. r h x) \<subseteq> allocated h" and "copy_items c xs h = (ys, h')"
  then show "grown h h' \<and> map (v h') ys = map (v h) xs \<and> (\<Union>x \<in> set ys. r h' x) \<subseteq> allocated h' - allocated h"
  proof (induction xs arbitrary: ys h h')
    case Nil
    then show ?case by simp
  next
    case (Cons x xs)
    from Cons.prems(2) obtain y h1 ys' where 1: "c x h = (y, h1)" and 2: "copy_items c xs h1 = (ys', h')" and
      ys: "ys = y # ys'" by (auto split: prod.splits)
    have al: "r h x \<subseteq> allocated h" using Cons.prems(1) by simp
    note f1 = deep_copy.copy_fresh [OF assms al 1]
    have sub: "allocated h \<subseteq> allocated h1" using f1 by (simp add: grown_allocated)
    have kept: "\<And>z. z \<in> set xs \<Longrightarrow> agree (r h z) h h1" using f1 Cons.prems(1) by (auto intro!: grown_agree)
    note same = deep_copy.reach_cong [OF assms kept] deep_copy.view_cong [OF assms kept]
    have "(\<Union>z \<in> set xs. r h1 z) \<subseteq> allocated h1" using Cons.prems(1) sub by (auto simp: same)
    note f2 = Cons.IH [OF this 2]
    have "agree (r h1 y) h1 h'" using f1 f2 by (auto intro!: grown_agree)
    note same1 = deep_copy.reach_cong [OF assms this] deep_copy.view_cong [OF assms this]
    have "allocated h1 \<subseteq> allocated h'" using f2 by (simp add: grown_allocated)
    moreover have "map (v h1) xs = map (v h) xs" by (simp add: same)
    moreover have "grown h h'" using f1 f2 by (auto intro: grown_trans)
    ultimately show ?case using f1 f2 sub unfolding ys by (auto simp: same1)
  qed
qed

text \<open>A pointer to a struct: a new struct into which the old one is copied.\<close>

definition copy_pointer ::
    "(go_heap \<Rightarrow> addr \<Rightarrow> 'a) \<Rightarrow> ('a \<Rightarrow> go_heap \<Rightarrow> addr \<times> go_heap) \<Rightarrow> 'a copier \<Rightarrow> addr copier" where
  "copy_pointer load alloc copy p h = (let (y, h) = copy (load h p) h in alloc y h)"

lemma deep_copy_pointer:
  assumes d: "deep_copy c r v"
    and load: "\<And>h h' a. cell h' a = cell h a \<Longrightarrow> load h' a = load h a"
    and alloc: "\<And>y h a h'. alloc y h = (a, h') \<Longrightarrow> grown h h' \<and> a \<in> allocated h' - allocated h \<and> load h' a = y"
  shows "deep_copy (copy_pointer load alloc c) (\<lambda>h p. insert p (r h (load h p))) (\<lambda>h p. v h (load h p))"
proof
  fix h h' p assume a: "agree (insert p (r h (load h p))) h h'"
  then have l: "load h' p = load h p" and a: "agree (r h (load h p)) h h'"
    by (auto intro: load)
  show "insert p (r h' (load h' p)) = insert p (r h (load h p))" "v h' (load h' p) = v h (load h p)"
    by (simp_all add: l deep_copy.reach_cong [OF d a] deep_copy.view_cong [OF d a])
next
  fix h h' p q
  assume al: "insert p (r h (load h p)) \<subseteq> allocated h" and "copy_pointer load alloc c p h = (q, h')"
  then obtain y h1 where 1: "c (load h p) h = (y, h1)" and 2: "alloc y h1 = (q, h')"
    by (auto simp: copy_pointer_def split: prod.splits)
  from al have "r h (load h p) \<subseteq> allocated h" by simp
  note f1 = deep_copy.copy_fresh [OF d this 1] and f2 = alloc [OF 2]
  have "agree (r h1 y) h1 h'" using f1 f2 by (auto intro!: grown_agree)
  note same = deep_copy.reach_cong [OF d this] deep_copy.view_cong [OF d this]
  have sub: "allocated h \<subseteq> allocated h1" "allocated h1 \<subseteq> allocated h'" using f1 f2 by (simp_all add: grown_allocated)
  have l: "load h' q = y" using f2 by blast
  have "grown h h'" using f1 f2 by (blast intro: grown_trans)
  moreover have "v h' (load h' q) = v h (load h p)" using f1 unfolding l same by blast
  moreover have "q \<in> allocated h' - allocated h" using f2 sub by blast
  moreover have "r h' (load h' q) \<subseteq> allocated h' - allocated h" using f1 sub unfolding l same by blast
  ultimately show "grown h h' \<and> v h' (load h' q) = v h (load h p) \<and>
      insert q (r h' (load h' q)) \<subseteq> allocated h' - allocated h" by blast
qed

end
