(* ===== verification/TestTypes.thy ===== *)
theory TestTypes
  imports GoHeap
begin

text \<open>
  The resource types of \<^verbatim>\<open>src/internal/resources\<close>, which the tests of the library reconcile: their
  defaulting, validation, conditions and JSON, and their generated deep copies
  (\<^verbatim>\<open>zz_generated.deepcopy.go\<close> there and in \<^verbatim>\<open>src/apis\<close>).  That a deep copy is independent of its
  original is what allows the other theories to model objects as values.
\<close>

section \<open>Types\<close>

type_synonym TestResourceNoStatus = "(TestResourceSpec, unit) test_object"

text \<open>\<open>TestResourceEmptyStatusStatus\<close> is a struct without fields.\<close>

type_synonym TestResourceEmptyStatusStatus = unit
type_synonym TestResourceEmptyStatus = "(TestResourceSpec, TestResourceEmptyStatusStatus) test_object"

text \<open>The status is a pointer that may be nil.\<close>

type_synonym TestResourceNilableStatus = "(TestResourceSpec, addr option) test_object"

record TestDuckSpec =
  dsFields :: "addr option"

type_synonym TestDuck = "(TestDuckSpec, TestResourceStatus) test_object"

record TestResourceUnexportedFieldsSpec =
  usFields :: "addr option"
  usUnexportedFields :: "addr option"
  usTemplate :: string
  usErrOnMarshal :: bool
  usErrOnUnmarshal :: bool

record TestResourceUnexportedFieldsStatus =
  utStatus :: heap_status
  utFields :: "addr option"
  utUnexportedFields :: "addr option"

type_synonym TestResourceUnexportedFields =
  "(TestResourceUnexportedFieldsSpec, TestResourceUnexportedFieldsStatus) test_object"

text \<open>Lists: the items are a slice, nil or not, of structs, strings, pointers or interface values.\<close>

record 'item test_list =
  liTypeMeta :: type_meta
  liListMeta :: string
  liItems :: "'item list option"

type_synonym TestResourceList = "TestResource test_list"
type_synonym TestResourceNoStatusList = "TestResourceNoStatus test_list"

text \<open>The items of this list have the type without a status.\<close>

type_synonym TestResourceEmptyStatusList = "TestResourceNoStatus test_list"
type_synonym TestResourceNilableStatusList = "TestResourceNilableStatus test_list"
type_synonym TestDuckList = "TestDuck test_list"
type_synonym TestResourceUnexportedFieldsList = "TestResourceUnexportedFields test_list"
type_synonym TestResourceInvalidList = "string test_list"
type_synonym TestResourcePointerList = "addr option test_list"
type_synonym 'o TestResourceInterfaceList = "'o option test_list"

section \<open>Deep copies\<close>

definition Status_DeepCopyInto :: "heap_status copier" where
  "Status_DeepCopyInto x h =
     (let (cs, h) = copy_conditions (hsConditions x) h in (x\<lparr>hsConditions := cs\<rparr>, h))"

text \<open>\<open>DeepCopy\<close> on a pointer, which may be nil, and \<open>DeepCopyObject\<close>, which gives a nil interface for nil.\<close>

definition DeepCopy_with :: "'a copier \<Rightarrow> 'a option copier" where
  "DeepCopy_with into x h =
     (case x of None \<Rightarrow> (None, h) | Some x \<Rightarrow> let (out, h) = into x h in (Some out, h))"

definition DeepCopyObject_with :: "'a option copier \<Rightarrow> 'a option copier" where
  "DeepCopyObject_with deepCopy x h =
     (let (c, h) = deepCopy x h in case c of Some c \<Rightarrow> (Some c, h) | None \<Rightarrow> (None, h))"

definition Status_DeepCopy :: "heap_status option copier" where
  "Status_DeepCopy = DeepCopy_with Status_DeepCopyInto"

text \<open>The template is copied by its own deep copy, a value.\<close>

definition TestResourceSpec_DeepCopyInto :: "TestResourceSpec copier" where
  "TestResourceSpec_DeepCopyInto x h =
     (let (f, h) = copy_fields (rpFields x) h in (x\<lparr>rpFields := f\<rparr>, h))"

definition TestResourceSpec_DeepCopy :: "TestResourceSpec option copier" where
  "TestResourceSpec_DeepCopy = DeepCopy_with TestResourceSpec_DeepCopyInto"

definition TestResourceStatus_DeepCopyInto :: "TestResourceStatus copier" where
  "TestResourceStatus_DeepCopyInto x h =
     (let (s, h) = Status_DeepCopyInto (rsStatus x) h;
          (f, h) = copy_fields (rsFields x) h
      in (x\<lparr>rsStatus := s, rsFields := f\<rparr>, h))"

definition TestResourceStatus_DeepCopy :: "TestResourceStatus option copier" where
  "TestResourceStatus_DeepCopy = DeepCopy_with TestResourceStatus_DeepCopyInto"

text \<open>The generated copy of an object: metadata, spec, status.\<close>

definition copy_object :: "'sp copier \<Rightarrow> 'st copier \<Rightarrow> ('sp, 'st) test_object copier" where
  "copy_object copySpec copyStatus x h =
     (let (sp, h) = copySpec (toSpec x) h;
          (st, h) = copyStatus (toStatus x) h
      in (x\<lparr>toSpec := sp, toStatus := st\<rparr>, h))"

definition TestResource_DeepCopyInto :: "TestResource copier" where
  "TestResource_DeepCopyInto = copy_object TestResourceSpec_DeepCopyInto TestResourceStatus_DeepCopyInto"

definition TestResource_DeepCopy :: "TestResource option copier" where
  "TestResource_DeepCopy = DeepCopy_with TestResource_DeepCopyInto"

definition TestResource_DeepCopyObject :: "TestResource option copier" where
  "TestResource_DeepCopyObject = DeepCopyObject_with TestResource_DeepCopy"

definition TestResourceNoStatus_DeepCopyInto :: "TestResourceNoStatus copier" where
  "TestResourceNoStatus_DeepCopyInto = copy_object TestResourceSpec_DeepCopyInto (\<lambda>s h. (s, h))"

definition TestResourceNoStatus_DeepCopy :: "TestResourceNoStatus option copier" where
  "TestResourceNoStatus_DeepCopy = DeepCopy_with TestResourceNoStatus_DeepCopyInto"

definition TestResourceNoStatus_DeepCopyObject :: "TestResourceNoStatus option copier" where
  "TestResourceNoStatus_DeepCopyObject = DeepCopyObject_with TestResourceNoStatus_DeepCopy"

definition TestResourceEmptyStatusStatus_DeepCopyInto :: "TestResourceEmptyStatusStatus copier" where
  "TestResourceEmptyStatusStatus_DeepCopyInto x h = (x, h)"

definition TestResourceEmptyStatusStatus_DeepCopy :: "TestResourceEmptyStatusStatus option copier" where
  "TestResourceEmptyStatusStatus_DeepCopy = DeepCopy_with TestResourceEmptyStatusStatus_DeepCopyInto"

text \<open>The status is assigned.\<close>

definition TestResourceEmptyStatus_DeepCopyInto :: "TestResourceEmptyStatus copier" where
  "TestResourceEmptyStatus_DeepCopyInto = copy_object TestResourceSpec_DeepCopyInto (\<lambda>s h. (s, h))"

definition TestResourceEmptyStatus_DeepCopy :: "TestResourceEmptyStatus option copier" where
  "TestResourceEmptyStatus_DeepCopy = DeepCopy_with TestResourceEmptyStatus_DeepCopyInto"

definition TestResourceEmptyStatus_DeepCopyObject :: "TestResourceEmptyStatus option copier" where
  "TestResourceEmptyStatus_DeepCopyObject = DeepCopyObject_with TestResourceEmptyStatus_DeepCopy"

definition TestResourceNilableStatus_DeepCopyInto :: "TestResourceNilableStatus copier" where
  "TestResourceNilableStatus_DeepCopyInto =
     copy_object TestResourceSpec_DeepCopyInto
       (copy_option (copy_pointer ghStatuses alloc_status TestResourceStatus_DeepCopyInto))"

definition TestResourceNilableStatus_DeepCopy :: "TestResourceNilableStatus option copier" where
  "TestResourceNilableStatus_DeepCopy = DeepCopy_with TestResourceNilableStatus_DeepCopyInto"

definition TestResourceNilableStatus_DeepCopyObject :: "TestResourceNilableStatus option copier" where
  "TestResourceNilableStatus_DeepCopyObject = DeepCopyObject_with TestResourceNilableStatus_DeepCopy"

definition TestDuckSpec_DeepCopyInto :: "TestDuckSpec copier" where
  "TestDuckSpec_DeepCopyInto x h = (let (f, h) = copy_fields (dsFields x) h in (x\<lparr>dsFields := f\<rparr>, h))"

definition TestDuckSpec_DeepCopy :: "TestDuckSpec option copier" where
  "TestDuckSpec_DeepCopy = DeepCopy_with TestDuckSpec_DeepCopyInto"

definition TestDuck_DeepCopyInto :: "TestDuck copier" where
  "TestDuck_DeepCopyInto = copy_object TestDuckSpec_DeepCopyInto TestResourceStatus_DeepCopyInto"

definition TestDuck_DeepCopy :: "TestDuck option copier" where
  "TestDuck_DeepCopy = DeepCopy_with TestDuck_DeepCopyInto"

definition TestDuck_DeepCopyObject :: "TestDuck option copier" where
  "TestDuck_DeepCopyObject = DeepCopyObject_with TestDuck_DeepCopy"

definition TestResourceUnexportedFieldsSpec_DeepCopyInto :: "TestResourceUnexportedFieldsSpec copier" where
  "TestResourceUnexportedFieldsSpec_DeepCopyInto x h =
     (let (f, h) = copy_fields (usFields x) h;
          (u, h) = copy_fields (usUnexportedFields x) h
      in (x\<lparr>usFields := f, usUnexportedFields := u\<rparr>, h))"

definition TestResourceUnexportedFieldsSpec_DeepCopy :: "TestResourceUnexportedFieldsSpec option copier" where
  "TestResourceUnexportedFieldsSpec_DeepCopy = DeepCopy_with TestResourceUnexportedFieldsSpec_DeepCopyInto"

definition TestResourceUnexportedFieldsStatus_DeepCopyInto :: "TestResourceUnexportedFieldsStatus copier" where
  "TestResourceUnexportedFieldsStatus_DeepCopyInto x h =
     (let (s, h) = Status_DeepCopyInto (utStatus x) h;
          (f, h) = copy_fields (utFields x) h;
          (u, h) = copy_fields (utUnexportedFields x) h
      in (x\<lparr>utStatus := s, utFields := f, utUnexportedFields := u\<rparr>, h))"

definition TestResourceUnexportedFieldsStatus_DeepCopy :: "TestResourceUnexportedFieldsStatus option copier" where
  "TestResourceUnexportedFieldsStatus_DeepCopy = DeepCopy_with TestResourceUnexportedFieldsStatus_DeepCopyInto"

definition TestResourceUnexportedFields_DeepCopyInto :: "TestResourceUnexportedFields copier" where
  "TestResourceUnexportedFields_DeepCopyInto =
     copy_object TestResourceUnexportedFieldsSpec_DeepCopyInto TestResourceUnexportedFieldsStatus_DeepCopyInto"

definition TestResourceUnexportedFields_DeepCopy :: "TestResourceUnexportedFields option copier" where
  "TestResourceUnexportedFields_DeepCopy = DeepCopy_with TestResourceUnexportedFields_DeepCopyInto"

definition TestResourceUnexportedFields_DeepCopyObject :: "TestResourceUnexportedFields option copier" where
  "TestResourceUnexportedFields_DeepCopyObject = DeepCopyObject_with TestResourceUnexportedFields_DeepCopy"

text \<open>The generated copy of a list: metadata and, unless nil, a new slice of copied items.\<close>

definition copy_list :: "'item list copier \<Rightarrow> 'item test_list copier" where
  "copy_list copyItems x h =
     (let (items, h) = copy_option copyItems (liItems x) h in (x\<lparr>liItems := items\<rparr>, h))"

definition TestResourceList_DeepCopyInto :: "TestResourceList copier" where
  "TestResourceList_DeepCopyInto = copy_list (copy_items TestResource_DeepCopyInto)"

definition TestResourceList_DeepCopy :: "TestResourceList option copier" where
  "TestResourceList_DeepCopy = DeepCopy_with TestResourceList_DeepCopyInto"

definition TestResourceList_DeepCopyObject :: "TestResourceList option copier" where
  "TestResourceList_DeepCopyObject = DeepCopyObject_with TestResourceList_DeepCopy"

definition TestResourceNoStatusList_DeepCopyInto :: "TestResourceNoStatusList copier" where
  "TestResourceNoStatusList_DeepCopyInto = copy_list (copy_items TestResourceNoStatus_DeepCopyInto)"

definition TestResourceNoStatusList_DeepCopy :: "TestResourceNoStatusList option copier" where
  "TestResourceNoStatusList_DeepCopy = DeepCopy_with TestResourceNoStatusList_DeepCopyInto"

definition TestResourceNoStatusList_DeepCopyObject :: "TestResourceNoStatusList option copier" where
  "TestResourceNoStatusList_DeepCopyObject = DeepCopyObject_with TestResourceNoStatusList_DeepCopy"

definition TestResourceEmptyStatusList_DeepCopyInto :: "TestResourceEmptyStatusList copier" where
  "TestResourceEmptyStatusList_DeepCopyInto = copy_list (copy_items TestResourceNoStatus_DeepCopyInto)"

definition TestResourceEmptyStatusList_DeepCopy :: "TestResourceEmptyStatusList option copier" where
  "TestResourceEmptyStatusList_DeepCopy = DeepCopy_with TestResourceEmptyStatusList_DeepCopyInto"

definition TestResourceEmptyStatusList_DeepCopyObject :: "TestResourceEmptyStatusList option copier" where
  "TestResourceEmptyStatusList_DeepCopyObject = DeepCopyObject_with TestResourceEmptyStatusList_DeepCopy"

definition TestResourceNilableStatusList_DeepCopyInto :: "TestResourceNilableStatusList copier" where
  "TestResourceNilableStatusList_DeepCopyInto = copy_list (copy_items TestResourceNilableStatus_DeepCopyInto)"

definition TestResourceNilableStatusList_DeepCopy :: "TestResourceNilableStatusList option copier" where
  "TestResourceNilableStatusList_DeepCopy = DeepCopy_with TestResourceNilableStatusList_DeepCopyInto"

definition TestResourceNilableStatusList_DeepCopyObject :: "TestResourceNilableStatusList option copier" where
  "TestResourceNilableStatusList_DeepCopyObject = DeepCopyObject_with TestResourceNilableStatusList_DeepCopy"

definition TestDuckList_DeepCopyInto :: "TestDuckList copier" where
  "TestDuckList_DeepCopyInto = copy_list (copy_items TestDuck_DeepCopyInto)"

definition TestDuckList_DeepCopy :: "TestDuckList option copier" where
  "TestDuckList_DeepCopy = DeepCopy_with TestDuckList_DeepCopyInto"

definition TestDuckList_DeepCopyObject :: "TestDuckList option copier" where
  "TestDuckList_DeepCopyObject = DeepCopyObject_with TestDuckList_DeepCopy"

definition TestResourceUnexportedFieldsList_DeepCopyInto :: "TestResourceUnexportedFieldsList copier" where
  "TestResourceUnexportedFieldsList_DeepCopyInto = copy_list (copy_items TestResourceUnexportedFields_DeepCopyInto)"

definition TestResourceUnexportedFieldsList_DeepCopy :: "TestResourceUnexportedFieldsList option copier" where
  "TestResourceUnexportedFieldsList_DeepCopy = DeepCopy_with TestResourceUnexportedFieldsList_DeepCopyInto"

definition TestResourceUnexportedFieldsList_DeepCopyObject :: "TestResourceUnexportedFieldsList option copier" where
  "TestResourceUnexportedFieldsList_DeepCopyObject = DeepCopyObject_with TestResourceUnexportedFieldsList_DeepCopy"

definition TestResourceInvalidList_DeepCopyInto :: "TestResourceInvalidList copier" where
  "TestResourceInvalidList_DeepCopyInto = copy_list (\<lambda>items h. (items, h))"

definition TestResourceInvalidList_DeepCopy :: "TestResourceInvalidList option copier" where
  "TestResourceInvalidList_DeepCopy = DeepCopy_with TestResourceInvalidList_DeepCopyInto"

definition TestResourceInvalidList_DeepCopyObject :: "TestResourceInvalidList option copier" where
  "TestResourceInvalidList_DeepCopyObject = DeepCopyObject_with TestResourceInvalidList_DeepCopy"

definition TestResourcePointerList_DeepCopyInto :: "TestResourcePointerList copier" where
  "TestResourcePointerList_DeepCopyInto = copy_list (copy_items (copy_option (copy_pointer ghResources alloc_resource TestResource_DeepCopyInto)))"

definition TestResourcePointerList_DeepCopy :: "TestResourcePointerList option copier" where
  "TestResourcePointerList_DeepCopy = DeepCopy_with TestResourcePointerList_DeepCopyInto"

definition TestResourcePointerList_DeepCopyObject :: "TestResourcePointerList option copier" where
  "TestResourcePointerList_DeepCopyObject = DeepCopyObject_with TestResourcePointerList_DeepCopy"

text \<open>
  Interface values copy themselves, by a \<open>DeepCopyObject\<close> found at run time; on a nil interface, and when
  the copy is no \<open>client.Object\<close>, the code panics.
\<close>

fun copy_interfaces :: "('o \<Rightarrow> (go_heap, 'o option) go) \<Rightarrow> 'o option list \<Rightarrow> (go_heap, 'o option list) go" where
  "copy_interfaces deepCopyObject [] h = Some ([], h)"
| "copy_interfaces deepCopyObject (x # xs) h =
     do { x \<leftarrow> x;
          (y, h) \<leftarrow> deepCopyObject x h;
          y \<leftarrow> y;
          (ys, h) \<leftarrow> copy_interfaces deepCopyObject xs h;
          Some (Some y # ys, h) }"

definition TestResourceInterfaceList_DeepCopyInto ::
    "('o \<Rightarrow> (go_heap, 'o option) go) \<Rightarrow> 'o TestResourceInterfaceList \<Rightarrow> (go_heap, 'o TestResourceInterfaceList) go" where
  "TestResourceInterfaceList_DeepCopyInto deepCopyObject x h =
     (case liItems x of
        None \<Rightarrow> Some (x, h)
      | Some items \<Rightarrow>
          do { (items, h) \<leftarrow> copy_interfaces deepCopyObject items h; Some (x\<lparr>liItems := Some items\<rparr>, h) })"

definition TestResourceInterfaceList_DeepCopy ::
    "('o \<Rightarrow> (go_heap, 'o option) go) \<Rightarrow> 'o TestResourceInterfaceList option
      \<Rightarrow> (go_heap, 'o TestResourceInterfaceList option) go" where
  "TestResourceInterfaceList_DeepCopy deepCopyObject x h =
     (case x of
        None \<Rightarrow> Some (None, h)
      | Some x \<Rightarrow> do { (out, h) \<leftarrow> TestResourceInterfaceList_DeepCopyInto deepCopyObject x h; Some (Some out, h) })"

definition TestResourceInterfaceList_DeepCopyObject ::
    "('o \<Rightarrow> (go_heap, 'o option) go) \<Rightarrow> 'o TestResourceInterfaceList option
      \<Rightarrow> (go_heap, 'o TestResourceInterfaceList option) go" where
  "TestResourceInterfaceList_DeepCopyObject deepCopyObject x h =
     do { (c, h) \<leftarrow> TestResourceInterfaceList_DeepCopy deepCopyObject x h;
          case c of Some c \<Rightarrow> Some (Some c, h) | None \<Rightarrow> Some (None, h) }"

section \<open>Every deep copy keeps the contract\<close>

text \<open>What each type leads to and shows.\<close>

definition reach_status :: "go_heap \<Rightarrow> heap_status \<Rightarrow> addr set" where
  "reach_status h x = set_option (hsConditions x)"

definition view_status :: "go_heap \<Rightarrow> heap_status \<Rightarrow> int \<times> condition list option" where
  "view_status h x = (hsObservedGeneration x, view_conditions h (hsConditions x))"

definition reach_rs :: "go_heap \<Rightarrow> TestResourceStatus \<Rightarrow> addr set" where
  "reach_rs h x = reach_status h (rsStatus x) \<union> set_option (rsFields x)"

definition view_rs :: "go_heap \<Rightarrow> TestResourceStatus \<Rightarrow> (int \<times> condition list option) \<times> (string \<rightharpoonup> string) option" where
  "view_rs h x = (view_status h (rsStatus x), view_fields h (rsFields x))"

definition reach_spec :: "go_heap \<Rightarrow> TestResourceSpec \<Rightarrow> addr set" where
  "reach_spec h x = set_option (rpFields x)"

definition view_spec :: "go_heap \<Rightarrow> TestResourceSpec \<Rightarrow> (string \<rightharpoonup> string) option \<times> string \<times> bool \<times> bool" where
  "view_spec h x = (view_fields h (rpFields x), rpTemplate x, rpErrOnMarshal x, rpErrOnUnmarshal x)"

definition reach_duck_spec :: "go_heap \<Rightarrow> TestDuckSpec \<Rightarrow> addr set" where
  "reach_duck_spec h x = set_option (dsFields x)"

definition view_duck_spec :: "go_heap \<Rightarrow> TestDuckSpec \<Rightarrow> (string \<rightharpoonup> string) option" where
  "view_duck_spec h x = view_fields h (dsFields x)"

definition reach_us :: "go_heap \<Rightarrow> TestResourceUnexportedFieldsSpec \<Rightarrow> addr set" where
  "reach_us h x = set_option (usFields x) \<union> set_option (usUnexportedFields x)"

definition view_us ::
    "go_heap \<Rightarrow> TestResourceUnexportedFieldsSpec
      \<Rightarrow> (string \<rightharpoonup> string) option \<times> (string \<rightharpoonup> string) option \<times> string \<times> bool \<times> bool" where
  "view_us h x =
     (view_fields h (usFields x), view_fields h (usUnexportedFields x), usTemplate x, usErrOnMarshal x, usErrOnUnmarshal x)"

definition reach_ut :: "go_heap \<Rightarrow> TestResourceUnexportedFieldsStatus \<Rightarrow> addr set" where
  "reach_ut h x = reach_status h (utStatus x) \<union> (set_option (utFields x) \<union> set_option (utUnexportedFields x))"

definition view_ut ::
    "go_heap \<Rightarrow> TestResourceUnexportedFieldsStatus
      \<Rightarrow> (int \<times> condition list option) \<times> (string \<rightharpoonup> string) option \<times> (string \<rightharpoonup> string) option" where
  "view_ut h x =
     (view_status h (utStatus x), view_fields h (utFields x), view_fields h (utUnexportedFields x))"

definition reach_object ::
    "(go_heap \<Rightarrow> 'sp \<Rightarrow> addr set) \<Rightarrow> (go_heap \<Rightarrow> 'st \<Rightarrow> addr set) \<Rightarrow> go_heap \<Rightarrow> ('sp, 'st) test_object \<Rightarrow> addr set" where
  "reach_object r1 r2 h x = r1 h (toSpec x) \<union> r2 h (toStatus x)"

definition view_object ::
    "(go_heap \<Rightarrow> 'sp \<Rightarrow> 'v) \<Rightarrow> (go_heap \<Rightarrow> 'st \<Rightarrow> 'w) \<Rightarrow> go_heap \<Rightarrow> ('sp, 'st) test_object
      \<Rightarrow> type_meta \<times> string \<times> 'v \<times> 'w" where
  "view_object v1 v2 h x = (toTypeMeta x, toObjectMeta x, v1 h (toSpec x), v2 h (toStatus x))"

lemmas status_defs = Status_DeepCopyInto_def reach_status_def view_status_def
lemmas rs_defs = TestResourceStatus_DeepCopyInto_def reach_rs_def view_rs_def
lemmas spec_defs = TestResourceSpec_DeepCopyInto_def reach_spec_def view_spec_def
lemmas duck_spec_defs = TestDuckSpec_DeepCopyInto_def reach_duck_spec_def view_duck_spec_def
lemmas us_defs = TestResourceUnexportedFieldsSpec_DeepCopyInto_def reach_us_def view_us_def
lemmas ut_defs = TestResourceUnexportedFieldsStatus_DeepCopyInto_def reach_ut_def view_ut_def

lemma Status_deep_copy: "deep_copy Status_DeepCopyInto reach_status view_status"
  unfolding status_defs [abs_def]
  by (rule deep_copy_field [OF conds.deep_copy_axioms, where shown = "\<lambda>x w. (hsObservedGeneration x, w)"]) simp_all

lemma TestResourceSpec_deep_copy: "deep_copy TestResourceSpec_DeepCopyInto reach_spec view_spec"
  unfolding spec_defs [abs_def]
  by (rule deep_copy_field [OF fields.deep_copy_axioms,
        where shown = "\<lambda>x w. (w, rpTemplate x, rpErrOnMarshal x, rpErrOnUnmarshal x)"]) simp_all

lemma TestDuckSpec_deep_copy: "deep_copy TestDuckSpec_DeepCopyInto reach_duck_spec view_duck_spec"
  unfolding duck_spec_defs [abs_def]
  by (rule deep_copy_field [OF fields.deep_copy_axioms, where shown = "\<lambda>x w. w"]) simp_all

lemma TestResourceStatus_deep_copy: "deep_copy TestResourceStatus_DeepCopyInto reach_rs view_rs"
  unfolding rs_defs [abs_def]
  by (rule deep_copy_fields2 [OF Status_deep_copy fields.deep_copy_axioms, where shown = "\<lambda>x v w. (v, w)"]) simp_all

lemma TestResourceUnexportedFieldsSpec_deep_copy:
  "deep_copy TestResourceUnexportedFieldsSpec_DeepCopyInto reach_us view_us"
  unfolding us_defs [abs_def]
  by (rule deep_copy_fields2 [OF fields.deep_copy_axioms fields.deep_copy_axioms,
        where shown = "\<lambda>x v w. (v, w, usTemplate x, usErrOnMarshal x, usErrOnUnmarshal x)"]) simp_all

text \<open>Three fields: the last two are copied as a pair.\<close>

lemma TestResourceUnexportedFieldsStatus_deep_copy:
  "deep_copy TestResourceUnexportedFieldsStatus_DeepCopyInto reach_ut view_ut"
proof -
  let ?two = "\<lambda>p h. let (f, h) = copy_fields (fst p) h; (u, h) = copy_fields (snd p) h in ((f, u), h)"
  have two: "deep_copy ?two (\<lambda>h p. set_option (fst p) \<union> set_option (snd p))
      (\<lambda>h p. (view_fields h (fst p), view_fields h (snd p)))"
    by (rule deep_copy_fields2 [OF fields.deep_copy_axioms fields.deep_copy_axioms,
          where put = "\<lambda>p f u. (f, u)" and shown = "\<lambda>p v w. (v, w)"]) simp_all
  have "deep_copy (\<lambda>x h. let (s, h) = Status_DeepCopyInto (utStatus x) h;
        (p, h) = ?two (utFields x, utUnexportedFields x) h
      in (x\<lparr>utStatus := s, utFields := fst p, utUnexportedFields := snd p\<rparr>, h))
    (\<lambda>h x. reach_status h (utStatus x) \<union>
      (set_option (fst (utFields x, utUnexportedFields x)) \<union> set_option (snd (utFields x, utUnexportedFields x))))
    (\<lambda>h x. (view_status h (utStatus x), view_fields h (fst (utFields x, utUnexportedFields x)),
      view_fields h (snd (utFields x, utUnexportedFields x))))"
    by (rule deep_copy_fields2 [OF Status_deep_copy two,
          where getB = "\<lambda>x. (utFields x, utUnexportedFields x)"
            and put = "\<lambda>x s p. x\<lparr>utStatus := s, utFields := fst p, utUnexportedFields := snd p\<rparr>"
            and shown = "\<lambda>x v w. (v, w)"]) simp_all
  then show ?thesis
    by (simp add: ut_defs [abs_def] split_def Let_def)
qed

lemma deep_copy_object:
  "deep_copy c1 r1 v1 \<Longrightarrow> deep_copy c2 r2 v2 \<Longrightarrow> deep_copy (copy_object c1 c2) (reach_object r1 r2) (view_object v1 v2)"
  unfolding copy_object_def [abs_def] reach_object_def [abs_def] view_object_def [abs_def]
  by (rule deep_copy_fields2 [where shown = "\<lambda>x v w. (toTypeMeta x, toObjectMeta x, v, w)"]) simp_all

text \<open>The contract for every object type.\<close>

definition reach_nilable :: "go_heap \<Rightarrow> addr option \<Rightarrow> addr set" where
  "reach_nilable = reach_option (\<lambda>h p. insert p (reach_rs h (ghStatuses h p)))"

definition view_nilable :: "go_heap \<Rightarrow> addr option \<Rightarrow> ((int \<times> condition list option) \<times> (string \<rightharpoonup> string) option) option" where
  "view_nilable = (\<lambda>h. map_option (\<lambda>p. view_rs h (ghStatuses h p)))"

lemma deep_copy_nilable:
  "deep_copy (copy_option (copy_pointer ghStatuses alloc_status TestResourceStatus_DeepCopyInto)) reach_nilable view_nilable"
  unfolding reach_nilable_def view_nilable_def
  by (intro deep_copy_option deep_copy_pointer TestResourceStatus_deep_copy) (auto dest: cell_eqD alloc_grown)

interpretation tr_copy: deep_copy TestResource_DeepCopyInto
    "reach_object reach_spec reach_rs" "view_object view_spec view_rs"
  unfolding TestResource_DeepCopyInto_def
  by (intro deep_copy_object TestResourceSpec_deep_copy TestResourceStatus_deep_copy)

interpretation duck_copy: deep_copy TestDuck_DeepCopyInto
    "reach_object reach_duck_spec reach_rs" "view_object view_duck_spec view_rs"
  unfolding TestDuck_DeepCopyInto_def
  by (intro deep_copy_object TestDuckSpec_deep_copy TestResourceStatus_deep_copy)

interpretation nilable_copy: deep_copy TestResourceNilableStatus_DeepCopyInto
    "reach_object reach_spec reach_nilable" "view_object view_spec view_nilable"
  unfolding TestResourceNilableStatus_DeepCopyInto_def
  by (intro deep_copy_object TestResourceSpec_deep_copy deep_copy_nilable)

interpretation no_status_copy: deep_copy TestResourceNoStatus_DeepCopyInto
    "reach_object reach_spec (\<lambda>h x. {})" "view_object view_spec (\<lambda>h x. x)"
  unfolding TestResourceNoStatus_DeepCopyInto_def
  by (intro deep_copy_object TestResourceSpec_deep_copy deep_copy_value)

interpretation empty_status_copy: deep_copy TestResourceEmptyStatus_DeepCopyInto
    "reach_object reach_spec (\<lambda>h x. {})" "view_object view_spec (\<lambda>h x. x)"
  unfolding TestResourceEmptyStatus_DeepCopyInto_def
  by (intro deep_copy_object TestResourceSpec_deep_copy deep_copy_value)

interpretation unexported_copy: deep_copy TestResourceUnexportedFields_DeepCopyInto
    "reach_object reach_us reach_ut" "view_object view_us view_ut"
  unfolding TestResourceUnexportedFields_DeepCopyInto_def
  by (intro deep_copy_object TestResourceUnexportedFieldsSpec_deep_copy TestResourceUnexportedFieldsStatus_deep_copy)

text \<open>Lists, of structs and of pointers.\<close>

definition reach_list :: "(go_heap \<Rightarrow> 'a \<Rightarrow> addr set) \<Rightarrow> go_heap \<Rightarrow> 'a test_list \<Rightarrow> addr set" where
  "reach_list r h x = reach_option (\<lambda>h xs. \<Union>x \<in> set xs. r h x) h (liItems x)"

definition view_list :: "(go_heap \<Rightarrow> 'a \<Rightarrow> 'v) \<Rightarrow> go_heap \<Rightarrow> 'a test_list \<Rightarrow> type_meta \<times> string \<times> 'v list option" where
  "view_list v h x = (liTypeMeta x, liListMeta x, map_option (map (v h)) (liItems x))"

lemma deep_copy_list:
  assumes "deep_copy c r v"
  shows "deep_copy (copy_list (copy_items c)) (reach_list r) (view_list v)"
  unfolding copy_list_def [abs_def] reach_list_def [abs_def] view_list_def [abs_def]
  by (rule deep_copy_field [OF deep_copy_option [OF deep_copy_items [OF assms]],
        where shown = "\<lambda>x w. (liTypeMeta x, liListMeta x, w)"]) simp_all

interpretation tr_list_copy: deep_copy TestResourceList_DeepCopyInto
    "reach_list (reach_object reach_spec reach_rs)" "view_list (view_object view_spec view_rs)"
  unfolding TestResourceList_DeepCopyInto_def by (intro deep_copy_list tr_copy.deep_copy_axioms)

interpretation pointer_list_copy: deep_copy TestResourcePointerList_DeepCopyInto
    "reach_list (reach_option (\<lambda>h p. insert p (reach_object reach_spec reach_rs h (ghResources h p))))"
    "view_list (\<lambda>h. map_option (\<lambda>p. view_object view_spec view_rs h (ghResources h p)))"
  unfolding TestResourcePointerList_DeepCopyInto_def
  by (intro deep_copy_list deep_copy_option deep_copy_pointer tr_copy.deep_copy_axioms)
    (auto dest: cell_eqD alloc_grown)

lemma list_deep_copies:
  "deep_copy TestDuckList_DeepCopyInto
     (reach_list (reach_object reach_duck_spec reach_rs)) (view_list (view_object view_duck_spec view_rs))"
  "deep_copy TestResourceNoStatusList_DeepCopyInto
     (reach_list (reach_object reach_spec (\<lambda>h x. {}))) (view_list (view_object view_spec (\<lambda>h x. x)))"
  "deep_copy TestResourceEmptyStatusList_DeepCopyInto
     (reach_list (reach_object reach_spec (\<lambda>h x. {}))) (view_list (view_object view_spec (\<lambda>h x. x)))"
  "deep_copy TestResourceNilableStatusList_DeepCopyInto
     (reach_list (reach_object reach_spec reach_nilable)) (view_list (view_object view_spec view_nilable))"
  "deep_copy TestResourceUnexportedFieldsList_DeepCopyInto
     (reach_list (reach_object reach_us reach_ut)) (view_list (view_object view_us view_ut))"
  unfolding TestDuckList_DeepCopyInto_def TestResourceNoStatusList_DeepCopyInto_def
    TestResourceEmptyStatusList_DeepCopyInto_def TestResourceNilableStatusList_DeepCopyInto_def
    TestResourceUnexportedFieldsList_DeepCopyInto_def
  by (intro deep_copy_list duck_copy.deep_copy_axioms no_status_copy.deep_copy_axioms
      nilable_copy.deep_copy_axioms unexported_copy.deep_copy_axioms)+

end
