(* ===== verification/TestResources.thy ===== *)
theory TestResources
  imports TestTypes
begin

text \<open>
  The operations of the resource types of \<^verbatim>\<open>src/internal/resources\<close>: defaulting, validation,
  conditions, unexported fields, the semantic equality they register, and the JSON of a spec, with what
  they do to shared maps and to copies.
\<close>

section \<open>Defaulting and validation\<close>

text \<open>\<open>if m == nil { m = map[string]string{} }; m[key] = value\<close>.\<close>

definition add_field :: "string \<Rightarrow> string \<Rightarrow> addr option copier" where
  "add_field key v f h =
     (let (a, h) = (case f of None \<Rightarrow> alloc_map Map.empty h | Some a \<Rightarrow> (a, h))
      in (Some a, store_map a ((ghMaps h a)(key \<mapsto> v)) h))"

text \<open>\<open>Default\<close> of the types whose spec is a \<open>TestResourceSpec\<close>, and of the two others.\<close>

definition spec_Default :: "(TestResourceSpec, 'st) test_object copier" where
  "spec_Default r h =
     (let (f, h) = add_field ''Defaulter'' ''ran'' (rpFields (toSpec r)) h
      in (r\<lparr>toSpec := (toSpec r)\<lparr>rpFields := f\<rparr>\<rparr>, h))"

definition TestResource_Default :: "TestResource copier" where
  "TestResource_Default = spec_Default"

definition TestResourceNoStatus_Default :: "TestResourceNoStatus copier" where
  "TestResourceNoStatus_Default = spec_Default"

definition TestResourceEmptyStatus_Default :: "TestResourceEmptyStatus copier" where
  "TestResourceEmptyStatus_Default = spec_Default"

definition TestResourceNilableStatus_Default :: "TestResourceNilableStatus copier" where
  "TestResourceNilableStatus_Default = spec_Default"

definition TestDuck_Default :: "TestDuck copier" where
  "TestDuck_Default r h =
     (let (f, h) = add_field ''Defaulter'' ''ran'' (dsFields (toSpec r)) h
      in (r\<lparr>toSpec := (toSpec r)\<lparr>dsFields := f\<rparr>\<rparr>, h))"

definition TestResourceUnexportedFields_Default :: "TestResourceUnexportedFields copier" where
  "TestResourceUnexportedFields_Default r h =
     (let (f, h) = add_field ''Defaulter'' ''ran'' (usFields (toSpec r)) h
      in (r\<lparr>toSpec := (toSpec r)\<lparr>usFields := f\<rparr>\<rparr>, h))"

text \<open>
  \<open>validate\<close> builds an error for the field "invalid" and drops it.  The error list of apimachinery is the
  list of its errors, \<open>toAggregate\<close> its \<open>ToAggregate\<close>.
\<close>

definition validate_fields :: "go_heap \<Rightarrow> addr option \<Rightarrow> err list" where
  "validate_fields h f =
     (let errs = []
      in case f of
           None \<Rightarrow> errs
         | Some a \<Rightarrow>
             (case ghMaps h a ''invalid'' of
                None \<Rightarrow> errs
              | Some v \<Rightarrow> (let dropped = Foreign (''spec.fields.invalid: '' @ v) [] in errs)))"

definition TestResource_validate :: "go_heap \<Rightarrow> TestResource \<Rightarrow> err list" where
  "TestResource_validate h r = validate_fields h (rpFields (toSpec r))"

definition TestResourceNilableStatus_validate :: "go_heap \<Rightarrow> TestResourceNilableStatus \<Rightarrow> err list" where
  "TestResourceNilableStatus_validate h r = validate_fields h (rpFields (toSpec r))"

definition TestDuck_validate :: "go_heap \<Rightarrow> TestDuck \<Rightarrow> err list" where
  "TestDuck_validate h r = validate_fields h (dsFields (toSpec r))"

definition TestResourceUnexportedFields_validate :: "go_heap \<Rightarrow> TestResourceUnexportedFields \<Rightarrow> err list" where
  "TestResourceUnexportedFields_validate h r = validate_fields h (usFields (toSpec r))"

text \<open>\<open>ValidateCreate\<close>, \<open>ValidateUpdate\<close> (which does not look at the old object) and \<open>ValidateDelete\<close>: warnings and an error.\<close>

definition TestResource_ValidateCreate :: "(err list \<Rightarrow> err option) \<Rightarrow> go_heap \<Rightarrow> TestResource \<Rightarrow> string list \<times> err option" where
  "TestResource_ValidateCreate toAggregate h r = ([], toAggregate (TestResource_validate h r))"

definition TestResource_ValidateUpdate ::
    "(err list \<Rightarrow> err option) \<Rightarrow> go_heap \<Rightarrow> TestResource \<Rightarrow> 'o \<Rightarrow> string list \<times> err option" where
  "TestResource_ValidateUpdate toAggregate h r old = ([], toAggregate (TestResource_validate h r))"

definition TestResource_ValidateDelete :: "TestResource \<Rightarrow> string list \<times> err option" where
  "TestResource_ValidateDelete r = ([], None)"

definition TestResourceNilableStatus_ValidateCreate ::
    "(err list \<Rightarrow> err option) \<Rightarrow> go_heap \<Rightarrow> TestResourceNilableStatus \<Rightarrow> string list \<times> err option" where
  "TestResourceNilableStatus_ValidateCreate toAggregate h r = ([], toAggregate (TestResourceNilableStatus_validate h r))"

definition TestResourceNilableStatus_ValidateUpdate ::
    "(err list \<Rightarrow> err option) \<Rightarrow> go_heap \<Rightarrow> TestResourceNilableStatus \<Rightarrow> 'o \<Rightarrow> string list \<times> err option" where
  "TestResourceNilableStatus_ValidateUpdate toAggregate h r old = ([], toAggregate (TestResourceNilableStatus_validate h r))"

definition TestResourceNilableStatus_ValidateDelete :: "TestResourceNilableStatus \<Rightarrow> string list \<times> err option" where
  "TestResourceNilableStatus_ValidateDelete r = ([], None)"

definition TestDuck_ValidateCreate :: "(err list \<Rightarrow> err option) \<Rightarrow> go_heap \<Rightarrow> TestDuck \<Rightarrow> string list \<times> err option" where
  "TestDuck_ValidateCreate toAggregate h r = ([], toAggregate (TestDuck_validate h r))"

definition TestDuck_ValidateUpdate ::
    "(err list \<Rightarrow> err option) \<Rightarrow> go_heap \<Rightarrow> TestDuck \<Rightarrow> 'o \<Rightarrow> string list \<times> err option" where
  "TestDuck_ValidateUpdate toAggregate h r old = ([], toAggregate (TestDuck_validate h r))"

definition TestDuck_ValidateDelete :: "TestDuck \<Rightarrow> string list \<times> err option" where
  "TestDuck_ValidateDelete r = ([], None)"

definition TestResourceUnexportedFields_ValidateCreate ::
    "(err list \<Rightarrow> err option) \<Rightarrow> go_heap \<Rightarrow> TestResourceUnexportedFields \<Rightarrow> string list \<times> err option" where
  "TestResourceUnexportedFields_ValidateCreate toAggregate h r =
     ([], toAggregate (TestResourceUnexportedFields_validate h r))"

definition TestResourceUnexportedFields_ValidateUpdate ::
    "(err list \<Rightarrow> err option) \<Rightarrow> go_heap \<Rightarrow> TestResourceUnexportedFields \<Rightarrow> 'o \<Rightarrow> string list \<times> err option" where
  "TestResourceUnexportedFields_ValidateUpdate toAggregate h r old =
     ([], toAggregate (TestResourceUnexportedFields_validate h r))"

definition TestResourceUnexportedFields_ValidateDelete :: "TestResourceUnexportedFields \<Rightarrow> string list \<times> err option" where
  "TestResourceUnexportedFields_ValidateDelete r = ([], None)"

section \<open>Conditions of a test resource\<close>

text \<open>
  \<open>GetConditions\<close> and \<open>SetConditions\<close> of the embedded \<open>apis.Status\<close>: the manager always stores a slice it
  has just built, nil when it is empty.
\<close>

definition rs_GetConditions :: "TestResourceStatus \<times> go_heap \<Rightarrow> condition list" where
  "rs_GetConditions = (\<lambda>(s, h). case hsConditions (rsStatus s) of None \<Rightarrow> [] | Some a \<Rightarrow> ghConditions h a)"

definition rs_SetConditions :: "TestResourceStatus \<times> go_heap \<Rightarrow> condition list \<Rightarrow> TestResourceStatus \<times> go_heap" where
  "rs_SetConditions = (\<lambda>(s, h) cs.
     let (c, h) = (if cs = [] then (None, h) else let (a, h) = alloc_conditions cs h in (Some a, h))
     in (s\<lparr>rsStatus := (rsStatus s)\<lparr>hsConditions := c\<rparr>\<rparr>, h))"

definition heap_accessor :: "(TestResourceStatus \<times> go_heap) ConditionsAccessor" where
  "heap_accessor = \<lparr>GetConditions = rs_GetConditions, SetConditions = rs_SetConditions\<rparr>"

definition condSet :: ConditionSet where
  "condSet = NewLivingConditionSet []"

definition TestResourceStatus_InitializeConditions :: "(int \<Rightarrow> int) \<Rightarrow> int \<Rightarrow> TestResourceStatus copier" where
  "TestResourceStatus_InitializeConditions rfc ctxNow rs h =
     InitializeConditions rfc (ManageWithContext condSet ctxNow (Some heap_accessor)) (rs, h)"

definition TestResourceStatus_MarkReady :: "(int \<Rightarrow> int) \<Rightarrow> int \<Rightarrow> TestResourceStatus copier" where
  "TestResourceStatus_MarkReady rfc ctxNow rs h =
     MarkTrue rfc (ManageWithContext condSet ctxNow (Some heap_accessor)) ConditionReady ''Ready'' [] (rs, h)"

definition TestResourceStatus_MarkNotReady ::
    "(int \<Rightarrow> int) \<Rightarrow> int \<Rightarrow> string \<Rightarrow> string \<Rightarrow> TestResourceStatus copier" where
  "TestResourceStatus_MarkNotReady rfc ctxNow reason message rs h =
     MarkFalse rfc (ManageWithContext condSet ctxNow (Some heap_accessor)) ConditionReady reason message (rs, h)"

interpretation heap_conditions: conditions_accessor heap_accessor
  by unfold_locales
    (auto simp: heap_accessor_def rs_GetConditions_def rs_SetConditions_def alloc_conditions_def Let_def split: prod.splits)

section \<open>Unexported fields\<close>

definition us_GetUnexportedFields :: "TestResourceUnexportedFieldsSpec \<Rightarrow> addr option" where
  "us_GetUnexportedFields r = usUnexportedFields r"

definition us_SetUnexportedFields :: "addr option \<Rightarrow> TestResourceUnexportedFieldsSpec \<Rightarrow> TestResourceUnexportedFieldsSpec" where
  "us_SetUnexportedFields f r = r\<lparr>usUnexportedFields := f\<rparr>"

definition us_AddUnexportedField :: "string \<Rightarrow> string \<Rightarrow> TestResourceUnexportedFieldsSpec copier" where
  "us_AddUnexportedField key v r h =
     (let (f, h) = add_field key v (usUnexportedFields r) h in (r\<lparr>usUnexportedFields := f\<rparr>, h))"

definition ut_GetUnexportedFields :: "TestResourceUnexportedFieldsStatus \<Rightarrow> addr option" where
  "ut_GetUnexportedFields r = utUnexportedFields r"

definition ut_SetUnexportedFields :: "addr option \<Rightarrow> TestResourceUnexportedFieldsStatus \<Rightarrow> TestResourceUnexportedFieldsStatus" where
  "ut_SetUnexportedFields f r = r\<lparr>utUnexportedFields := f\<rparr>"

definition ut_AddUnexportedField :: "string \<Rightarrow> string \<Rightarrow> TestResourceUnexportedFieldsStatus copier" where
  "ut_AddUnexportedField key v r h =
     (let (f, h) = add_field key v (utUnexportedFields r) h in (r\<lparr>utUnexportedFields := f\<rparr>, h))"

text \<open>The status gets the map of the spec itself.\<close>

definition ReflectUnexportedFieldsToStatus :: "TestResourceUnexportedFields \<Rightarrow> TestResourceUnexportedFields" where
  "ReflectUnexportedFieldsToStatus r =
     r\<lparr>toStatus := (toStatus r)\<lparr>utUnexportedFields := usUnexportedFields (toSpec r)\<rparr>\<rparr>"

text \<open>
  The functions registered with \<open>equality.Semantic\<close>, given its \<open>DeepEqual\<close> on the types of the fields.
  They see exported fields only.
\<close>

record equalities =
  eqFields :: "(string \<rightharpoonup> string) option \<Rightarrow> (string \<rightharpoonup> string) option \<Rightarrow> bool"
  eqTemplate :: "string \<Rightarrow> string \<Rightarrow> bool"
  eqBool :: "bool \<Rightarrow> bool \<Rightarrow> bool"
  eqStatus :: "int \<times> condition list option \<Rightarrow> int \<times> condition list option \<Rightarrow> bool"

definition us_semantic_equal ::
    "equalities \<Rightarrow> go_heap \<Rightarrow> TestResourceUnexportedFieldsSpec \<Rightarrow> TestResourceUnexportedFieldsSpec \<Rightarrow> bool" where
  "us_semantic_equal q h a b \<longleftrightarrow>
     eqFields q (view_fields h (usFields a)) (view_fields h (usFields b)) \<and>
     eqTemplate q (usTemplate a) (usTemplate b) \<and>
     eqBool q (usErrOnMarshal a) (usErrOnMarshal b) \<and>
     eqBool q (usErrOnUnmarshal a) (usErrOnUnmarshal b)"

definition ut_semantic_equal ::
    "equalities \<Rightarrow> go_heap \<Rightarrow> TestResourceUnexportedFieldsStatus \<Rightarrow> TestResourceUnexportedFieldsStatus \<Rightarrow> bool" where
  "ut_semantic_equal q h a b \<longleftrightarrow>
     eqStatus q (view_status h (utStatus a)) (view_status h (utStatus b)) \<and>
     eqFields q (view_fields h (utFields a)) (view_fields h (utFields b))"

section \<open>JSON\<close>

text \<open>
  Documents, and what \<open>encoding/json\<close> does with the anonymous structs of the code.  A template is written
  and read by the code of its own type, into the template that is there.  Keys are matched to fields
  without regard to case (of ASCII letters), later ones overriding; decoding goes on after a value of the
  wrong type and returns the first error, so an error is all there is to see.
\<close>

datatype json =
    JNull
  | JBool bool
  | JNumber int
  | JString string
  | JArray "json list"
  | JObject "(string \<times> json) list"

record json_lib =
  jlMarshalTemplate :: "string \<Rightarrow> err + json"
  jlUnmarshalTemplate :: "string \<Rightarrow> json \<Rightarrow> err + string"

record spec_alias =
  alFields :: "(string \<rightharpoonup> string) option"
  alTemplate :: string
  alErrOnMarshal :: bool
  alErrOnUnmarshal :: bool

definition marshal_map :: "(string \<rightharpoonup> string) \<Rightarrow> json" where
  "marshal_map m = JObject (map (\<lambda>k. (k, JString (the (m k)))) (sorted_list_of_set (dom m)))"

text \<open>\<open>omitempty\<close> leaves out nil and empty maps and false; it means nothing for a struct.\<close>

definition marshal_alias :: "json_lib \<Rightarrow> spec_alias \<Rightarrow> err + json" where
  "marshal_alias L a =
     (case jlMarshalTemplate L (alTemplate a) of
        Inl e \<Rightarrow> Inl e
      | Inr t \<Rightarrow>
          Inr (JObject
            ((case alFields a of None \<Rightarrow> [] | Some m \<Rightarrow> if dom m = {} then [] else [(''fields'', marshal_map m)]) @
             [(''template'', t)] @
             (if alErrOnMarshal a then [(''errOnMarshal'', JBool True)] else []) @
             (if alErrOnUnmarshal a then [(''errOnUnmarshal'', JBool True)] else []))))"

definition fold_char :: "char \<Rightarrow> char" where
  "fold_char c = (if CHR ''A'' \<le> c \<and> c \<le> CHR ''Z'' then char_of (of_char c + (32 :: nat)) else c)"

definition type_error :: err where
  "type_error = Foreign ''json.UnmarshalTypeError'' []"

fun unmarshal_entries :: "(string \<rightharpoonup> string) \<Rightarrow> (string \<times> json) list \<Rightarrow> err + (string \<rightharpoonup> string)" where
  "unmarshal_entries m [] = Inr m"
| "unmarshal_entries m ((k, v) # kvs) =
     (case v of
        JString s \<Rightarrow> unmarshal_entries (m(k \<mapsto> s)) kvs
      | JNull \<Rightarrow> unmarshal_entries (m(k \<mapsto> [])) kvs
      | _ \<Rightarrow> Inl type_error)"

fun unmarshal_bool :: "bool \<Rightarrow> json \<Rightarrow> err + bool" where
  "unmarshal_bool b (JBool b') = Inr b'"
| "unmarshal_bool b JNull = Inr b"
| "unmarshal_bool b _ = Inl type_error"

definition unmarshal_member :: "json_lib \<Rightarrow> string \<times> json \<Rightarrow> spec_alias \<Rightarrow> err + spec_alias" where
  "unmarshal_member L kv a =
     (let k = map fold_char (fst kv); v = snd kv
      in if k = ''fields'' then
           (case v of
              JNull \<Rightarrow> Inr (a\<lparr>alFields := None\<rparr>)
            | JObject kvs \<Rightarrow>
                (case unmarshal_entries (case alFields a of None \<Rightarrow> Map.empty | Some m \<Rightarrow> m) kvs of
                   Inl e \<Rightarrow> Inl e
                 | Inr m \<Rightarrow> Inr (a\<lparr>alFields := Some m\<rparr>))
            | _ \<Rightarrow> Inl type_error)
         else if k = ''template'' then
           (case jlUnmarshalTemplate L (alTemplate a) v of Inl e \<Rightarrow> Inl e | Inr t \<Rightarrow> Inr (a\<lparr>alTemplate := t\<rparr>))
         else if k = ''erronmarshal'' then
           (case unmarshal_bool (alErrOnMarshal a) v of Inl e \<Rightarrow> Inl e | Inr b \<Rightarrow> Inr (a\<lparr>alErrOnMarshal := b\<rparr>))
         else if k = ''erronunmarshal'' then
           (case unmarshal_bool (alErrOnUnmarshal a) v of Inl e \<Rightarrow> Inl e | Inr b \<Rightarrow> Inr (a\<lparr>alErrOnUnmarshal := b\<rparr>))
         else Inr a)"

fun unmarshal_members :: "json_lib \<Rightarrow> (string \<times> json) list \<Rightarrow> spec_alias \<Rightarrow> err + spec_alias" where
  "unmarshal_members L [] a = Inr a"
| "unmarshal_members L (kv # kvs) a =
     (case unmarshal_member L kv a of Inl e \<Rightarrow> Inl e | Inr a \<Rightarrow> unmarshal_members L kvs a)"

fun unmarshal_alias :: "json_lib \<Rightarrow> json \<Rightarrow> spec_alias \<Rightarrow> err + spec_alias" where
  "unmarshal_alias L (JObject kvs) a = unmarshal_members L kvs a"
| "unmarshal_alias L JNull a = Inr a"
| "unmarshal_alias L _ a = Inl type_error"

definition empty_alias :: spec_alias where
  "empty_alias = \<lparr>alFields = None, alTemplate = [], alErrOnMarshal = False, alErrOnUnmarshal = False\<rparr>"

text \<open>A map that was decoded is a new map.\<close>

definition alloc_fields :: "(string \<rightharpoonup> string) option \<Rightarrow> go_heap \<Rightarrow> addr option \<times> go_heap" where
  "alloc_fields m h = (case m of None \<Rightarrow> (None, h) | Some m \<Rightarrow> let (a, h) = alloc_map m h in (Some a, h))"

definition TestResourceSpec_MarshalJSON :: "json_lib \<Rightarrow> go_heap \<Rightarrow> TestResourceSpec \<Rightarrow> err + json" where
  "TestResourceSpec_MarshalJSON L h r =
     (if rpErrOnMarshal r then Inl (Errorf ''ErrOnMarshal true'' [])
      else marshal_alias L
        \<lparr>alFields = view_fields h (rpFields r), alTemplate = rpTemplate r,
         alErrOnMarshal = rpErrOnMarshal r, alErrOnUnmarshal = rpErrOnUnmarshal r\<rparr>)"

definition TestResourceSpec_UnmarshalJSON ::
    "json_lib \<Rightarrow> json \<Rightarrow> TestResourceSpec \<Rightarrow> go_heap \<Rightarrow> (err option \<times> TestResourceSpec) \<times> go_heap" where
  "TestResourceSpec_UnmarshalJSON L data r h =
     (case unmarshal_alias L data empty_alias of
        Inl e \<Rightarrow> ((Some e, r), h)
      | Inr a \<Rightarrow>
          (let (f, h) = alloc_fields (alFields a) h;
               r = r\<lparr>rpFields := f, rpTemplate := alTemplate a, rpErrOnMarshal := alErrOnMarshal a,
                     rpErrOnUnmarshal := alErrOnUnmarshal a\<rparr>
           in if rpErrOnUnmarshal r then ((Some (Errorf ''ErrOnUnmarshal true'' []), r), h)
              else ((None, r), h)))"

text \<open>The unexported fields are neither written nor read.\<close>

definition us_MarshalJSON :: "json_lib \<Rightarrow> go_heap \<Rightarrow> TestResourceUnexportedFieldsSpec \<Rightarrow> err + json" where
  "us_MarshalJSON L h r =
     (if usErrOnMarshal r then Inl (Errorf ''ErrOnMarshal true'' [])
      else marshal_alias L
        \<lparr>alFields = view_fields h (usFields r), alTemplate = usTemplate r,
         alErrOnMarshal = usErrOnMarshal r, alErrOnUnmarshal = usErrOnUnmarshal r\<rparr>)"

definition us_UnmarshalJSON ::
    "json_lib \<Rightarrow> json \<Rightarrow> TestResourceUnexportedFieldsSpec \<Rightarrow> go_heap
      \<Rightarrow> (err option \<times> TestResourceUnexportedFieldsSpec) \<times> go_heap" where
  "us_UnmarshalJSON L data r h =
     (case unmarshal_alias L data empty_alias of
        Inl e \<Rightarrow> ((Some e, r), h)
      | Inr a \<Rightarrow>
          (let (f, h) = alloc_fields (alFields a) h;
               r = r\<lparr>usFields := f, usTemplate := alTemplate a, usErrOnMarshal := alErrOnMarshal a,
                     usErrOnUnmarshal := alErrOnUnmarshal a\<rparr>
           in if usErrOnUnmarshal r then ((Some (Errorf ''ErrOnUnmarshal true'' []), r), h)
              else ((None, r), h)))"

section \<open>What operations leave alone\<close>

text \<open>
  \<open>spares A reach h x h'\<close> \<open>y\<close>: getting from \<open>x\<close> to \<open>y\<close> nothing in \<open>A\<close> changed, and \<open>y\<close> leads nowhere into it.
\<close>

definition spares ::
    "addr set \<Rightarrow> (go_heap \<Rightarrow> 'a \<Rightarrow> addr set) \<Rightarrow> go_heap \<Rightarrow> 'a \<times> go_heap \<Rightarrow> bool" where
  "spares A reach h out \<longleftrightarrow>
     agree A h (snd out) \<and> ghNext h \<le> ghNext (snd out) \<and> reach (snd out) (fst out) \<inter> A = {}"

lemma spares_trans:
  "spares A r h (x, h1) \<Longrightarrow> spares A r' h1 out \<Longrightarrow> spares A r' h out"
  by (auto simp: spares_def intro: agree_trans)

lemma allocated_mono: "A \<subseteq> allocated h \<Longrightarrow> ghNext h \<le> ghNext h' \<Longrightarrow> A \<subseteq> allocated h'"
  by (auto simp: allocated_def)

lemma grown_spares:
  assumes "grown h h'" and "A \<subseteq> allocated h"
  shows "agree A h h' \<and> ghNext h \<le> ghNext h'"
  using assms by (auto simp: grown_def intro: agree_mono)

lemma store_map_spares [simp]:
  "a \<notin> A \<Longrightarrow> agree A h (store_map a m h)" "ghNext (store_map a m h) = ghNext h"
  by (auto simp: store_map_def agree_def cell_def)

lemma alloc_map_spares:
  assumes "A \<subseteq> allocated h"
  shows "agree A h (snd (alloc_map m h)) \<and> ghNext h \<le> ghNext (snd (alloc_map m h)) \<and> fst (alloc_map m h) \<notin> A"
  using alloc_grown(1) [of m h "fst (alloc_map m h)" "snd (alloc_map m h)"] grown_spares [OF _ assms] assms by auto

lemma alloc_conditions_spares:
  assumes "A \<subseteq> allocated h"
  shows "agree A h (snd (alloc_conditions m h)) \<and> ghNext h \<le> ghNext (snd (alloc_conditions m h)) \<and>
    fst (alloc_conditions m h) \<notin> A"
  using alloc_grown(2) [of m h "fst (alloc_conditions m h)" "snd (alloc_conditions m h)"] grown_spares [OF _ assms] assms
  by auto

lemma add_field_spares:
  assumes "A \<subseteq> allocated h" and "set_option f \<inter> A = {}"
  shows "spares A (\<lambda>h. set_option) h (add_field key v f h)"
proof (cases f)
  case None
  obtain a h1 where m: "alloc_map Map.empty h = (a, h1)" by fastforce
  with alloc_map_spares [OF assms(1), of Map.empty] have "agree A h h1" "ghNext h \<le> ghNext h1" "a \<notin> A" by simp_all
  then show ?thesis using None m by (auto simp: add_field_def spares_def intro: agree_trans)
next
  case (Some a)
  then show ?thesis using assms(2) by (auto simp: add_field_def spares_def)
qed

lemma add_field_view:
  assumes "add_field key v f h = (f', h')"
  shows "view_fields h' f' = Some ((case view_fields h f of None \<Rightarrow> Map.empty | Some m \<Rightarrow> m)(key \<mapsto> v))"
  using assms by (auto simp: add_field_def view_fields_def store_map_def alloc_map_def split: option.splits prod.splits)

lemma alloc_fields_spares:
  assumes "alloc_fields m h = (f, h')" and "A \<subseteq> allocated h"
  shows "agree A h h'" and "ghNext h \<le> ghNext h'" and "set_option f \<inter> A = {}"
  using assms(1) alloc_map_spares [OF assms(2), of "the m"]
  by (auto simp: alloc_fields_def split: option.splits prod.splits)

lemma alloc_fields_view: "alloc_fields m h = (f, h') \<Longrightarrow> view_fields h' f = m"
  by (auto simp: alloc_fields_def view_fields_def alloc_map_def split: option.splits prod.splits)

text \<open>The manager of a set without dependents stores conditions at most once.\<close>

lemma SetCondition_shape:
  "SetCondition rfc (ManageWithContext C n (Some A)) new s = s \<or>
   (\<exists>cs. SetCondition rfc (ManageWithContext C n (Some A)) new s = SetConditions A s cs)"
  by (auto simp: SetCondition_def ManageWithContext_def split: option.splits)

lemma condSet_sel [simp]: "happyType condSet = ConditionReady" "dependents condSet = []" "happyReason condSet = ''Ready''"
  by (simp_all add: condSet_def NewLivingConditionSet_def NewLivingConditionSetWithHappyReason_def newConditionSet_def)

lemma ManageWithContext_sel [simp]:
  "conditionSet (ManageWithContext C n A) = C" "accessor (ManageWithContext C n A) = A" "now (ManageWithContext C n A) = n"
  by (simp_all add: ManageWithContext_def)

lemma rs_SetConditions_spares:
  assumes "A \<subseteq> allocated h" and "reach_rs h rs \<inter> A = {}"
  shows "spares A reach_rs h (rs_SetConditions (rs, h) cs)"
  using alloc_conditions_spares [OF assms(1), of cs] assms(2)
  by (auto simp: rs_SetConditions_def spares_def reach_rs_def reach_status_def Let_def split: prod.splits)

lemma SetCondition_spares:
  assumes "A \<subseteq> allocated h" and "reach_rs h rs \<inter> A = {}"
  shows "spares A reach_rs h (SetCondition rfc (ManageWithContext condSet n (Some heap_accessor)) new (rs, h))"
  using SetCondition_shape [of rfc condSet n heap_accessor new "(rs, h)"]
proof (elim disjE exE)
  assume "SetCondition rfc (ManageWithContext condSet n (Some heap_accessor)) new (rs, h) = (rs, h)"
  then show ?thesis using assms(2) by (simp add: spares_def)
next
  fix cs
  assume "SetCondition rfc (ManageWithContext condSet n (Some heap_accessor)) new (rs, h) =
    SetConditions heap_accessor (rs, h) cs"
  then show ?thesis using rs_SetConditions_spares [OF assms, of cs] by (simp add: heap_accessor_def)
qed

lemma status_operations_spare:
  assumes "A \<subseteq> allocated h" and "reach_rs h rs \<inter> A = {}"
  shows "spares A reach_rs h (TestResourceStatus_InitializeConditions rfc n rs h)"
    and "spares A reach_rs h (TestResourceStatus_MarkReady rfc n rs h)"
    and "spares A reach_rs h (TestResourceStatus_MarkNotReady rfc n reason msg rs h)"
  using SetCondition_spares [OF assms] assms(2)
  by (auto simp: TestResourceStatus_InitializeConditions_def InitializeConditions_def TestResourceStatus_MarkReady_def
      MarkTrue_def TestResourceStatus_MarkNotReady_def MarkFalse_def Let_def spares_def split: option.split)

section \<open>Operations on a test resource\<close>

text \<open>An operation changes the resource behind the pointer it gets, or panics.\<close>

type_synonym 'r stamp = "'r \<Rightarrow> (go_heap, 'r) go"

text \<open>An operation that works on what it is given and on new memory only.\<close>

definition local_stamp :: "(go_heap \<Rightarrow> 'r \<Rightarrow> addr set) \<Rightarrow> 'r stamp \<Rightarrow> bool" where
  "local_stamp reach fn \<longleftrightarrow>
     (\<forall>r h r' h' A. fn r h = Some (r', h') \<longrightarrow> reach h r \<subseteq> allocated h \<longrightarrow> A \<subseteq> allocated h \<longrightarrow> reach h r \<inter> A = {} \<longrightarrow>
        spares A reach h (r', h') \<and> reach h' r' \<subseteq> allocated h')"

fun run_all :: "'r stamp list \<Rightarrow> 'r stamp" where
  "run_all [] r h = Some (r, h)"
| "run_all (fn # fns) r h = do { (r, h) \<leftarrow> fn r h; run_all fns r h }"

text \<open>
  The operations the types of the package offer: defaulting, the conditions of the status, decoding of the
  spec, and the assignment \<open>r.Spec.Fields[key] = value\<close>, which panics on a nil map.
\<close>

datatype change =
    Defaulted
  | Initialized int
  | Ready int
  | NotReady int string string
  | Decoded json
  | Field string string

definition with_status :: "TestResourceStatus copier \<Rightarrow> TestResource copier" where
  "with_status f r h = (let (s, h) = f (toStatus r) h in (r\<lparr>toStatus := s\<rparr>, h))"

fun apply_change :: "(int \<Rightarrow> int) \<Rightarrow> json_lib \<Rightarrow> change \<Rightarrow> TestResource stamp" where
  "apply_change rfc L Defaulted r h = Some (TestResource_Default r h)"
| "apply_change rfc L (Initialized n) r h = Some (with_status (TestResourceStatus_InitializeConditions rfc n) r h)"
| "apply_change rfc L (Ready n) r h = Some (with_status (TestResourceStatus_MarkReady rfc n) r h)"
| "apply_change rfc L (NotReady n reason msg) r h = Some (with_status (TestResourceStatus_MarkNotReady rfc n reason msg) r h)"
| "apply_change rfc L (Decoded data) r h =
     (let ((e, sp), h) = TestResourceSpec_UnmarshalJSON L data (toSpec r) h in Some (r\<lparr>toSpec := sp\<rparr>, h))"
| "apply_change rfc L (Field key v) r h = do { (_, h) \<leftarrow> map_put (rpFields (toSpec r)) key v h; Some (r, h) }"

abbreviation tr_reach :: "go_heap \<Rightarrow> TestResource \<Rightarrow> addr set" where
  "tr_reach \<equiv> reach_object reach_spec reach_rs"

abbreviation tr_view ::
    "go_heap \<Rightarrow> TestResource \<Rightarrow> type_meta \<times> string \<times> ((string \<rightharpoonup> string) option \<times> string \<times> bool \<times> bool) \<times>
      (int \<times> condition list option) \<times> (string \<rightharpoonup> string) option" where
  "tr_view \<equiv> view_object view_spec view_rs"

lemma reach_rs_heap [simp]: "reach_rs h = reach_rs h'" "reach_spec h = reach_spec h'"
  by (simp_all add: fun_eq_iff reach_rs_def reach_status_def reach_spec_def)

lemma with_status_spares:
  assumes "reach_spec h (toSpec r) \<inter> A = {}" and "spares A reach_rs h (f (toStatus r) h)"
  shows "spares A tr_reach h (with_status f r h)"
  using assms by (auto simp: with_status_def spares_def reach_object_def reach_spec_def split: prod.splits)

text \<open>Nothing is handed out that was not allocated.\<close>

definition stays_allocated :: "(go_heap \<Rightarrow> 'a \<Rightarrow> addr set) \<Rightarrow> go_heap \<Rightarrow> 'a \<times> go_heap \<Rightarrow> bool" where
  "stays_allocated reach h out \<longleftrightarrow> allocated h \<subseteq> allocated (snd out) \<and> reach (snd out) (fst out) \<subseteq> allocated (snd out)"

lemma add_field_allocated:
  "set_option f \<subseteq> allocated h \<Longrightarrow> add_field key v f h = (f', h') \<Longrightarrow> set_option f' \<subseteq> allocated h' \<and> allocated h \<subseteq> allocated h'"
  by (auto simp: add_field_def alloc_map_def store_map_def allocated_def split: option.splits)

lemma rs_SetConditions_stays_allocated:
  assumes "reach_rs h rs \<subseteq> allocated h"
  shows "stays_allocated reach_rs h (rs_SetConditions (rs, h) cs)"
  using assms
  by (auto simp: stays_allocated_def rs_SetConditions_def alloc_conditions_def allocated_def reach_rs_def reach_status_def
      Let_def split: prod.splits if_splits)

lemma SetCondition_stays_allocated:
  assumes "reach_rs h rs \<subseteq> allocated h"
  shows "stays_allocated reach_rs h (SetCondition rfc (ManageWithContext condSet n (Some heap_accessor)) new (rs, h))"
  using SetCondition_shape [of rfc condSet n heap_accessor new "(rs, h)"]
proof (elim disjE exE)
  assume "SetCondition rfc (ManageWithContext condSet n (Some heap_accessor)) new (rs, h) = (rs, h)"
  then show ?thesis using assms by (simp add: stays_allocated_def)
next
  fix cs
  assume "SetCondition rfc (ManageWithContext condSet n (Some heap_accessor)) new (rs, h) =
    SetConditions heap_accessor (rs, h) cs"
  then show ?thesis using rs_SetConditions_stays_allocated [OF assms, of cs] by (simp add: heap_accessor_def)
qed

lemma status_operations_stays_allocated:
  assumes "reach_rs h rs \<subseteq> allocated h"
  shows "stays_allocated reach_rs h (TestResourceStatus_InitializeConditions rfc n rs h)"
    and "stays_allocated reach_rs h (TestResourceStatus_MarkReady rfc n rs h)"
    and "stays_allocated reach_rs h (TestResourceStatus_MarkNotReady rfc n reason msg rs h)"
  using SetCondition_stays_allocated [OF assms] assms
  by (auto simp: TestResourceStatus_InitializeConditions_def InitializeConditions_def TestResourceStatus_MarkReady_def
      MarkTrue_def TestResourceStatus_MarkNotReady_def MarkFalse_def Let_def stays_allocated_def split: option.split)

lemma local_with_status:
  assumes "\<And>rs h A. A \<subseteq> allocated h \<Longrightarrow> reach_rs h rs \<inter> A = {} \<Longrightarrow> spares A reach_rs h (f rs h)"
    and "\<And>rs h. reach_rs h rs \<subseteq> allocated h \<Longrightarrow> stays_allocated reach_rs h (f rs h)"
  shows "local_stamp tr_reach (\<lambda>r h. Some (with_status f r h))"
  unfolding local_stamp_def
proof (intro allI impI conjI)
  fix r h r' h' A
  assume a: "Some (with_status f r h) = Some (r', h')" "tr_reach h r \<subseteq> allocated h" "A \<subseteq> allocated h" "tr_reach h r \<inter> A = {}"
  then have sp: "reach_spec h (toSpec r) \<inter> A = {}" and st: "reach_rs h (toStatus r) \<inter> A = {}"
    by (auto simp: reach_object_def)
  from with_status_spares [where f = f, OF sp assms(1) [OF a(3) st]] a(1) show "spares A tr_reach h (r', h')" by simp
  from a(2) have "stays_allocated reach_rs h (f (toStatus r) h)" by (intro assms(2)) (simp add: reach_object_def)
  with a(1,2) show "tr_reach h' r' \<subseteq> allocated h'"
    by (auto simp: with_status_def stays_allocated_def reach_object_def reach_spec_def split: prod.splits)
qed

lemma local_Default: "local_stamp tr_reach (\<lambda>r h. Some (TestResource_Default r h))"
  unfolding local_stamp_def
proof (intro allI impI conjI)
  fix r h r' h' A
  assume a: "Some (TestResource_Default r h) = Some (r', h')" "tr_reach h r \<subseteq> allocated h" "A \<subseteq> allocated h" "tr_reach h r \<inter> A = {}"
  obtain f h1 where f: "add_field ''Defaulter'' ''ran'' (rpFields (toSpec r)) h = (f, h1)" by fastforce
  from a have al: "set_option (rpFields (toSpec r)) \<subseteq> allocated h" "reach_rs h (toStatus r) \<subseteq> allocated h"
    and sp: "set_option (rpFields (toSpec r)) \<inter> A = {}" and st: "reach_rs h (toStatus r) \<inter> A = {}"
    by (auto simp: reach_object_def reach_spec_def)
  from add_field_spares [OF a(3) sp, of "''Defaulter''" "''ran''"] a(1) st f show "spares A tr_reach h (r', h')"
    by (auto simp: TestResource_Default_def spec_Default_def spares_def reach_object_def reach_spec_def reach_rs_def
        reach_status_def)
  from add_field_allocated [OF al(1) f] a(1) f al(2) show "tr_reach h' r' \<subseteq> allocated h'"
    by (auto simp: TestResource_Default_def spec_Default_def reach_object_def reach_spec_def reach_rs_def reach_status_def)
qed

lemma local_Decoded: "local_stamp tr_reach (apply_change rfc L (Decoded data))"
  unfolding local_stamp_def
proof (intro allI impI conjI)
  fix r h r' h' A
  assume a: "apply_change rfc L (Decoded data) r h = Some (r', h')" "tr_reach h r \<subseteq> allocated h" "A \<subseteq> allocated h" "tr_reach h r \<inter> A = {}"
  show "spares A tr_reach h (r', h')"
    using a(1,4) by (auto simp: TestResourceSpec_UnmarshalJSON_def spares_def reach_object_def reach_spec_def reach_rs_def
        reach_status_def Let_def dest: alloc_fields_spares [OF _ a(3)] split: prod.splits sum.splits if_splits)
  show "tr_reach h' r' \<subseteq> allocated h'"
    using a(1,2) by (auto simp: TestResourceSpec_UnmarshalJSON_def reach_object_def reach_spec_def reach_rs_def
        reach_status_def alloc_fields_def alloc_map_def allocated_def Let_def split: prod.splits sum.splits if_splits option.splits)
qed

lemma local_Field: "local_stamp tr_reach (apply_change rfc L (Field key v))"
  by (auto simp: local_stamp_def map_put_def spares_def reach_object_def reach_spec_def reach_rs_def reach_status_def
      allocated_def store_map_def agree_def cell_def split: option.splits)

text \<open>So every operation of the package is local.\<close>

lemma local_change: "local_stamp tr_reach (apply_change rfc L c)"
proof (cases c)
  case Defaulted
  have "apply_change rfc L Defaulted = (\<lambda>r h. Some (TestResource_Default r h))" by (simp add: fun_eq_iff)
  with local_Default Defaulted show ?thesis by simp
next
  case (Initialized n)
  have "apply_change rfc L (Initialized n) = (\<lambda>r h. Some (with_status (TestResourceStatus_InitializeConditions rfc n) r h))"
    by (simp add: fun_eq_iff)
  then show ?thesis unfolding Initialized
    by (simp add: local_with_status status_operations_spare status_operations_stays_allocated)
next
  case (Ready n)
  have "apply_change rfc L (Ready n) = (\<lambda>r h. Some (with_status (TestResourceStatus_MarkReady rfc n) r h))"
    by (simp add: fun_eq_iff)
  then show ?thesis unfolding Ready
    by (simp add: local_with_status status_operations_spare status_operations_stays_allocated)
next
  case (NotReady n reason msg)
  have "apply_change rfc L (NotReady n reason msg) =
      (\<lambda>r h. Some (with_status (TestResourceStatus_MarkNotReady rfc n reason msg) r h))" by (simp add: fun_eq_iff)
  then show ?thesis unfolding NotReady
    by (simp add: local_with_status status_operations_spare status_operations_stays_allocated)
qed (simp_all add: local_Decoded local_Field)

lemma run_all_spares:
  assumes "\<forall>fn \<in> set fns. local_stamp reach fn" and "run_all fns r h = Some (r', h')"
    and "reach h r \<subseteq> allocated h" and "A \<subseteq> allocated h" and "reach h r \<inter> A = {}"
  shows "spares A reach h (r', h')"
  using assms
proof (induction fns arbitrary: r h)
  case Nil
  then show ?case by (simp add: spares_def)
next
  case (Cons fn fns)
  from Cons.prems(2) obtain r1 h1 where 1: "fn r h = Some (r1, h1)" and 2: "run_all fns r1 h1 = Some (r', h')" by auto
  from Cons.prems(1) have "local_stamp reach fn" by simp
  with 1 Cons.prems(3-5) have s: "spares A reach h (r1, h1)" and al: "reach h1 r1 \<subseteq> allocated h1"
    unfolding local_stamp_def by blast+
  then have "A \<subseteq> allocated h1" and "reach h1 r1 \<inter> A = {}"
    using Cons.prems(4) by (auto simp: spares_def intro: allocated_mono [THEN subsetD])
  with Cons.prems(1) 2 al have "spares A reach h1 (r', h')" by (intro Cons.IH) simp_all
  with s show ?case by (rule spares_trans)
qed

section \<open>JSON back and forth\<close>

lemma unmarshal_entries_map:
  "unmarshal_entries m (map (\<lambda>k. (k, JString (f k))) ks) = Inr (\<lambda>k. if k \<in> set ks then Some (f k) else m k)"
proof (induction ks arbitrary: m)
  case (Cons k ks)
  show ?case by (simp add: Cons.IH) (auto simp: fun_eq_iff)
qed simp

lemma unmarshal_marshal_map:
  assumes "finite (dom m)"
  shows "\<exists>kvs. marshal_map m = JObject kvs \<and> unmarshal_entries Map.empty kvs = Inr m"
  using assms by (auto simp: marshal_map_def unmarshal_entries_map fun_eq_iff domIff)

lemma fold_keys [simp]:
  "map fold_char ''fields'' = ''fields''" "map fold_char ''template'' = ''template''"
  "map fold_char ''errOnMarshal'' = ''erronmarshal''" "map fold_char ''errOnUnmarshal'' = ''erronunmarshal''"
  by code_simp+

lemma unmarshal_member_keys:
  "unmarshal_member L (''fields'', JObject kvs) a =
     (case unmarshal_entries (case alFields a of None \<Rightarrow> Map.empty | Some m \<Rightarrow> m) kvs of
        Inl e \<Rightarrow> Inl e | Inr m \<Rightarrow> Inr (a\<lparr>alFields := Some m\<rparr>))"
  "unmarshal_member L (''template'', v) a =
     (case jlUnmarshalTemplate L (alTemplate a) v of Inl e \<Rightarrow> Inl e | Inr t \<Rightarrow> Inr (a\<lparr>alTemplate := t\<rparr>))"
  "unmarshal_member L (''errOnMarshal'', JBool b) a = Inr (a\<lparr>alErrOnMarshal := b\<rparr>)"
  "unmarshal_member L (''errOnUnmarshal'', JBool b) a = Inr (a\<lparr>alErrOnUnmarshal := b\<rparr>)"
  unfolding unmarshal_member_def Let_def fst_conv snd_conv fold_keys by simp_all

text \<open>An empty map is written as a missing one.\<close>

definition omit_empty :: "(string \<rightharpoonup> string) option \<Rightarrow> (string \<rightharpoonup> string) option" where
  "omit_empty f = (if f = Some Map.empty then None else f)"

definition template_law :: "json_lib \<Rightarrow> bool" where
  "template_law L \<longleftrightarrow> (\<forall>t j. jlMarshalTemplate L t = Inr j \<longrightarrow> jlUnmarshalTemplate L [] j = Inr t)"

lemma alias_roundtrip:
  assumes "template_law L" and "marshal_alias L a = Inr data" and "case alFields a of None \<Rightarrow> True | Some m \<Rightarrow> finite (dom m)"
  shows "unmarshal_alias L data empty_alias = Inr (a\<lparr>alFields := omit_empty (alFields a)\<rparr>)"
proof -
  from assms(2) obtain t where t: "jlMarshalTemplate L (alTemplate a) = Inr t"
    by (auto simp: marshal_alias_def split: sum.splits)
  with assms(1) have u: "jlUnmarshalTemplate L [] t = Inr (alTemplate a)" by (simp add: template_law_def)
  let ?rest = "[(''template'', t)] @ (if alErrOnMarshal a then [(''errOnMarshal'', JBool True)] else []) @
    (if alErrOnUnmarshal a then [(''errOnUnmarshal'', JBool True)] else [])"
  have rest: "unmarshal_members L ?rest (empty_alias\<lparr>alFields := f\<rparr>) = Inr (a\<lparr>alFields := f\<rparr>)" for f
    using u by (cases "alErrOnMarshal a"; cases "alErrOnUnmarshal a") (simp_all add: unmarshal_member_keys empty_alias_def)
  show ?thesis
  proof (cases "omit_empty (alFields a)")
    case None
    with t assms(2) have "data = JObject ?rest"
      by (auto simp: marshal_alias_def omit_empty_def split: if_splits option.splits)
    with rest [of None] None show ?thesis by (simp add: empty_alias_def)
  next
    case (Some m)
    then have f: "alFields a = Some m" and ne: "dom m \<noteq> {}" by (auto simp: omit_empty_def split: if_splits)
    with assms(3) have "finite (dom m)" by simp
    then obtain kvs where kvs: "marshal_map m = JObject kvs" "unmarshal_entries Map.empty kvs = Inr m"
      using unmarshal_marshal_map by blast
    have "data = JObject ((''fields'', JObject kvs) # ?rest)"
      using t assms(2) f ne kvs(1) by (simp add: marshal_alias_def)
    moreover have "unmarshal_member L (''fields'', JObject kvs) empty_alias = Inr (empty_alias\<lparr>alFields := Some m\<rparr>)"
      using kvs(2) by (simp add: unmarshal_member_keys empty_alias_def)
    ultimately show ?thesis using rest [of "Some m"] Some by simp
  qed
qed

section \<open>Properties\<close>

text \<open>A heap with one map, and a resource whose fields it holds.\<close>

definition demo_heap :: go_heap where
  "demo_heap =
     \<lparr>ghMaps = (\<lambda>a. [''key'' \<mapsto> ''value'']), ghConditions = (\<lambda>a. []),
      ghStatuses = (\<lambda>a. \<lparr>rsStatus = \<lparr>hsObservedGeneration = 0, hsConditions = None\<rparr>, rsFields = None\<rparr>),
      ghResources = (\<lambda>a. \<lparr>toTypeMeta = \<lparr>tmAPIVersion = [], tmKind = []\<rparr>, toObjectMeta = [],
        toSpec = \<lparr>rpFields = None, rpTemplate = [], rpErrOnMarshal = False, rpErrOnUnmarshal = False\<rparr>,
        toStatus = \<lparr>rsStatus = \<lparr>hsObservedGeneration = 0, hsConditions = None\<rparr>, rsFields = None\<rparr>\<rparr>),
      ghNext = 1\<rparr>"

definition demo_spec :: TestResourceSpec where
  "demo_spec = \<lparr>rpFields = Some 0, rpTemplate = ''pod'', rpErrOnMarshal = False, rpErrOnUnmarshal = False\<rparr>"

definition demo_resource :: TestResource where
  "demo_resource =
     \<lparr>toTypeMeta = \<lparr>tmAPIVersion = ''v1'', tmKind = ''TestResource''\<rparr>, toObjectMeta = ''meta'', toSpec = demo_spec,
      toStatus = \<lparr>rsStatus = \<lparr>hsObservedGeneration = 1, hsConditions = None\<rparr>, rsFields = Some 0\<rparr>\<rparr>"

definition demo_json :: json_lib where
  "demo_json = \<lparr>jlMarshalTemplate = (\<lambda>t. Inr (JString t)),
     jlUnmarshalTemplate = (\<lambda>t j. case j of JString s \<Rightarrow> Inr s | _ \<Rightarrow> Inl type_error)\<rparr>"

text \<open>
  C33. A deep copy is independent.  It shows what the original shows, and making it changes nothing that was
  allocated.  Any sequence of operations on the copy, each of which stays within what it is given and new
  memory (\<open>local_stamp\<close>; all operations of the package do, see \<open>local_change\<close>), leaves everything that was
  allocated before the copy was made as it was, the original included; any such sequence on the original
  leaves everything as it was that the original does not lead to, the copy included.
\<close>

theorem DeepCopy_independent:
  assumes "tr_reach h x \<subseteq> allocated h" and "TestResource_DeepCopy (Some x) h = (Some y, h')"
    and "\<forall>fn \<in> set fns. local_stamp tr_reach fn"
  shows "tr_view h' y = tr_view h x \<and> agree (allocated h) h h' \<and>
    (\<forall>y2 h2. run_all fns y h' = Some (y2, h2) \<longrightarrow> agree (allocated h) h h2 \<and> tr_view h2 x = tr_view h x) \<and>
    (\<forall>x2 h2. run_all fns x h' = Some (x2, h2) \<longrightarrow>
       agree (allocated h' - tr_reach h x) h' h2 \<and> tr_view h2 y = tr_view h x)"
proof -
  have c: "TestResource_DeepCopyInto x h = (y, h')"
    using assms(2) by (auto simp: TestResource_DeepCopy_def DeepCopy_with_def split: prod.splits)
  note f = tr_copy.copy_fresh [OF assms(1) c]
  then have grown: "agree (allocated h) h h'" "allocated h \<subseteq> allocated h'" by (simp_all add: grown_def grown_allocated)
  then have kept: "agree (tr_reach h x) h h'" using assms(1) by (blast intro: agree_mono)
  note x = tr_copy.reach_cong [OF kept]
  have aly: "tr_reach h' y \<subseteq> allocated h'" and disj: "tr_reach h' y \<inter> allocated h = {}" using f by blast+
  have alx: "tr_reach h' x \<subseteq> allocated h'" using assms(1) grown(2) by (auto simp: x)
  have 1: "agree (allocated h) h h2 \<and> tr_view h2 x = tr_view h x" if r: "run_all fns y h' = Some (y2, h2)" for y2 h2
  proof -
    from run_all_spares [OF assms(3) r aly grown(2) disj] grown(1) have "agree (allocated h) h h2"
      by (auto simp: spares_def intro: agree_trans)
    moreover from agree_mono [OF this assms(1)] have "tr_view h2 x = tr_view h x" by (rule tr_copy.view_cong)
    ultimately show ?thesis ..
  qed
  have 2: "agree (allocated h' - tr_reach h x) h' h2 \<and> tr_view h2 y = tr_view h x"
    if r: "run_all fns x h' = Some (x2, h2)" for x2 h2
  proof -
    have "tr_reach h' x \<inter> (allocated h' - tr_reach h x) = {}" by (auto simp: x)
    from run_all_spares [OF assms(3) r alx Diff_subset this]
    have a: "agree (allocated h' - tr_reach h x) h' h2" by (simp add: spares_def)
    have "tr_reach h' y \<subseteq> allocated h' - tr_reach h x" using aly disj assms(1) by auto
    with a have "tr_view h2 y = tr_view h' y" by (intro tr_copy.view_cong) (rule agree_mono)
    with a f show ?thesis by simp
  qed
  from f grown(1) 1 2 show ?thesis by blast
qed

text \<open>The copy is defaulted and gets a field: its fields change, those of the original do not.\<close>

theorem DeepCopy_independent_witness:
  "\<exists>y h' y2 h2. TestResource_DeepCopy (Some demo_resource) demo_heap = (Some y, h') \<and>
     run_all (map (apply_change id demo_json) [Defaulted, Field ''key'' ''other'']) y h' = Some (y2, h2) \<and>
     view_fields h2 (rpFields (toSpec y2)) = Some [''key'' \<mapsto> ''other'', ''Defaulter'' \<mapsto> ''ran''] \<and>
     tr_view h2 demo_resource = tr_view demo_heap demo_resource"
proof -
  let ?cs = "[Defaulted, Field ''key'' ''other'']"
  have al: "tr_reach demo_heap demo_resource \<subseteq> allocated demo_heap"
    by (simp add: reach_object_def reach_spec_def reach_rs_def reach_status_def demo_resource_def demo_spec_def
        demo_heap_def allocated_def)
  obtain y h' where i: "TestResource_DeepCopyInto demo_resource demo_heap = (y, h')" by fastforce
  then have c: "TestResource_DeepCopy (Some demo_resource) demo_heap = (Some y, h')"
    by (simp add: TestResource_DeepCopy_def DeepCopy_with_def)
  from i have "\<exists>y2 h2. run_all (map (apply_change id demo_json) ?cs) y h' = Some (y2, h2) \<and>
      view_fields h2 (rpFields (toSpec y2)) = Some [''key'' \<mapsto> ''other'', ''Defaulter'' \<mapsto> ''ran'']"
    by (auto simp: TestResource_DeepCopyInto_def copy_object_def spec_defs rs_defs status_defs copy_fields_def
        copy_conditions_def demo_resource_def demo_spec_def demo_heap_def alloc_map_def TestResource_Default_def
        spec_Default_def add_field_def map_put_def store_map_def view_fields_def fun_eq_iff)
  moreover have "\<forall>fn \<in> set (map (apply_change id demo_json) ?cs). local_stamp tr_reach fn"
    by (simp add: local_change)
  ultimately show ?thesis using DeepCopy_independent [OF al c] c by blast
qed

text \<open>
  C35. JSON round trip of a spec: reading what was written into any spec gives the fields, template
  and switches that were written, an empty map being read as a missing one; the read returns an error
  exactly if the spec asks for one, and even then the spec has been filled.
\<close>

theorem spec_json_roundtrip:
  assumes "template_law L" and "TestResourceSpec_MarshalJSON L h x = Inr data"
    and "case view_fields h (rpFields x) of None \<Rightarrow> True | Some m \<Rightarrow> finite (dom m)"
    and "TestResourceSpec_UnmarshalJSON L data z h1 = ((e, y), h2)"
  shows "view_spec h2 y = (omit_empty (view_fields h (rpFields x)), rpTemplate x, False, rpErrOnUnmarshal x) \<and>
    (e = None \<longleftrightarrow> \<not> rpErrOnUnmarshal x)"
proof -
  let ?a = "\<lparr>alFields = view_fields h (rpFields x), alTemplate = rpTemplate x, alErrOnMarshal = rpErrOnMarshal x,
    alErrOnUnmarshal = rpErrOnUnmarshal x\<rparr>"
  from assms(2) have m: "\<not> rpErrOnMarshal x" and "marshal_alias L ?a = Inr data"
    by (auto simp: TestResourceSpec_MarshalJSON_def split: if_splits)
  from alias_roundtrip [OF assms(1) this(2)] assms(3)
  have u: "unmarshal_alias L data empty_alias = Inr (?a\<lparr>alFields := omit_empty (alFields ?a)\<rparr>)" by simp
  obtain f h3 where f: "alloc_fields (omit_empty (view_fields h (rpFields x))) h1 = (f, h3)" by fastforce
  from assms(4) u f have y: "y = z\<lparr>rpFields := f, rpTemplate := rpTemplate x, rpErrOnMarshal := rpErrOnMarshal x,
      rpErrOnUnmarshal := rpErrOnUnmarshal x\<rparr>" and "h2 = h3" and "e = None \<longleftrightarrow> \<not> rpErrOnUnmarshal x"
    by (auto simp: TestResourceSpec_UnmarshalJSON_def Let_def split: if_splits)
  with alloc_fields_view [OF f] m show ?thesis by (simp add: view_spec_def)
qed

theorem spec_json_roundtrip_witness:
  "\<exists>data y h2. TestResourceSpec_MarshalJSON demo_json demo_heap demo_spec = Inr data \<and>
     TestResourceSpec_UnmarshalJSON demo_json data demo_spec demo_heap = ((None, y), h2) \<and>
     view_fields h2 (rpFields y) = Some [''key'' \<mapsto> ''value'']"
proof -
  have law: "template_law demo_json" by (simp add: template_law_def demo_json_def)
  obtain data where d: "TestResourceSpec_MarshalJSON demo_json demo_heap demo_spec = Inr data"
    by (auto simp: TestResourceSpec_MarshalJSON_def demo_spec_def marshal_alias_def demo_json_def)
  obtain e y h2 where u: "TestResourceSpec_UnmarshalJSON demo_json data demo_spec demo_heap = ((e, y), h2)"
    by (metis prod.exhaust)
  have v: "view_fields demo_heap (rpFields demo_spec) = Some [''key'' \<mapsto> ''value'']"
    by (simp add: view_fields_def demo_heap_def demo_spec_def)
  have "view_spec h2 y = (omit_empty (view_fields demo_heap (rpFields demo_spec)), rpTemplate demo_spec, False,
      rpErrOnUnmarshal demo_spec) \<and> (e = None \<longleftrightarrow> \<not> rpErrOnUnmarshal demo_spec)"
    by (rule spec_json_roundtrip [OF law d _ u]) (simp add: v)
  then have "view_fields h2 (rpFields y) = Some [''key'' \<mapsto> ''value'']" and "e = None"
    unfolding v by (simp_all add: view_spec_def omit_empty_def demo_spec_def fun_eq_iff)
  with d u show ?thesis by blast
qed

text \<open>
  Reflecting unexported fields shares the map: a field added to the spec afterwards shows in the status.  A deep
  copy does not share it, and the semantic equality does not see it.
\<close>

theorem unexported_fields_shared:
  assumes "usUnexportedFields (toSpec r) = Some a" and "r' = ReflectUnexportedFieldsToStatus r"
    and "us_AddUnexportedField key v (toSpec r') h = (sp, h1)"
    and "reach_object reach_us reach_ut h r' \<subseteq> allocated h"
    and "TestResourceUnexportedFields_DeepCopyInto r' h = (c, h2)" and "usUnexportedFields (toSpec c) = Some b"
    and "us_AddUnexportedField key v (toSpec c) h2 = (sp2, h3)"
  shows "view_fields h1 (ut_GetUnexportedFields (toStatus r')) = Some ((ghMaps h a)(key \<mapsto> v)) \<and>
    view_object view_us view_ut h3 r' = view_object view_us view_ut h r'"
proof -
  have "view_fields h1 (ut_GetUnexportedFields (toStatus r')) = Some ((ghMaps h a)(key \<mapsto> v))"
    using assms(1-3)
    by (auto simp: us_AddUnexportedField_def add_field_def ReflectUnexportedFieldsToStatus_def ut_GetUnexportedFields_def
        view_fields_def store_map_def)
  moreover from assms(6,7) have "h3 = store_map b ((ghMaps h2 b)(key \<mapsto> v)) h2"
    by (simp add: us_AddUnexportedField_def add_field_def)
  then have "agree (- reach_object reach_us reach_ut h2 c) h2 h3"
    using assms(6) by (auto simp: reach_object_def reach_us_def)
  then have "view_object view_us view_ut h3 r' = view_object view_us view_ut h r'"
    by (rule unexported_copy.original_kept(1) [OF assms(4,5)])
  ultimately show ?thesis by simp
qed

text \<open>Validation accepts every resource, those with the field "invalid" included: the error it builds is dropped.\<close>

theorem validation_accepts_everything:
  assumes "toAggregate [] = None"
  shows "TestResource_ValidateCreate toAggregate h r = ([], None) \<and> TestResource_ValidateUpdate toAggregate h r old = ([], None) \<and>
    TestDuck_ValidateCreate toAggregate h d = ([], None) \<and>
    TestResourceNilableStatus_ValidateCreate toAggregate h n = ([], None) \<and>
    TestResourceUnexportedFields_ValidateCreate toAggregate h u = ([], None)"
proof -
  have "validate_fields h f = []" for f by (simp add: validate_fields_def split: option.split)
  with assms show ?thesis
    by (simp add: TestResource_ValidateCreate_def TestResource_ValidateUpdate_def TestResource_validate_def
        TestDuck_ValidateCreate_def TestDuck_validate_def TestResourceNilableStatus_ValidateCreate_def
        TestResourceNilableStatus_validate_def TestResourceUnexportedFields_ValidateCreate_def
        TestResourceUnexportedFields_validate_def)
qed

text \<open>
  The conditions of a test resource: marked ready it is happy, marked not ready it is not, and no other
  condition changes.
\<close>

theorem test_status_ready:
  assumes "distinct (map condType (rs_GetConditions (rs, h)))"
  shows "IsHappy (ManageWithContext condSet n' (Some heap_accessor)) (TestResourceStatus_MarkReady rfc n rs h) \<and>
    \<not> IsHappy (ManageWithContext condSet n' (Some heap_accessor)) (TestResourceStatus_MarkNotReady rfc n reason msg rs h) \<and>
    (\<forall>t. t \<noteq> ConditionReady \<longrightarrow>
      heap_conditions.abs (TestResourceStatus_MarkReady rfc n rs h) t = heap_conditions.abs (rs, h) t)"
proof -
  have g: "GetConditions heap_accessor = rs_GetConditions" by (simp add: heap_accessor_def)
  have wf: "heap_conditions.wf (rs, h)" using assms by (simp add: heap_conditions.wf_def g)
  have happy: "IsHappy (ManageWithContext condSet n' (Some heap_accessor)) s \<longleftrightarrow>
      heap_conditions.abs s ConditionReady = Some ConditionTrue" for s
    by (auto simp: IsHappy_def GetCondition_def ConditionIsTrue_def heap_conditions.abs_def heap_conditions.lookup_def
        split: option.split)
  have m: "ManageWithContext condSet n (Some heap_accessor) = heap_conditions.mgr condSet n"
    by (simp add: heap_conditions.mgr_def)
  show ?thesis
    unfolding happy TestResourceStatus_MarkReady_def TestResourceStatus_MarkNotReady_def m
      heap_conditions.abs_MarkTrue [OF wf] heap_conditions.abs_MarkFalse [OF wf]
    by (auto simp: all_true_def)
qed

end
