(* ===== verification/Dies.thy ===== *)
theory Dies
  imports TestResources
begin

text \<open>
  The dies of \<^verbatim>\<open>src/internal/resources/dies\<close>, builders of test resources: a die wraps a resource and is
  either immutable, when every method works on a copy and returns a new die, or mutable, when methods change
  it in place.  The generated code (\<^verbatim>\<open>zz_generated.die.go\<close>) has the same methods for twelve types up to the
  type names; they are stated once over a description of the type (\<open>die_type\<close>) and instantiated for each.
  A method returns its receiver as it leaves it, its result, and the heap; \<open>None\<close> is a panic.
\<close>

section \<open>Dies\<close>

text \<open>\<open>dieFrozen\<close> is the \<open>FrozenObjectMeta\<close> of a die for an object; dies of other structs have \<open>()\<close> there.\<close>

record ('m, 'r) die =
  dieFrozen :: 'm
  dieMutable :: bool
  dieR :: 'r

text \<open>The zero value of the resource type, \<open>v1.FreezeObjectMeta\<close> of its metadata, and its deep copy.\<close>

record ('m, 'r) die_type =
  dtZero :: 'r
  dtFreeze :: "'r \<Rightarrow> 'm"
  dtDeepCopy :: "'r copier"

type_synonym ('m, 'r, 'a) die_method = "('m, 'r) die \<Rightarrow> (go_heap, ('m, 'r) die \<times> 'a) go"

text \<open>
  What the methods use of \<open>encoding/json\<close>, YAML, files, the unstructured converter and raw extensions.
  \<open>Unmarshal\<close> fills the value it is given, also when it fails.  \<open>json.Marshal\<close> of a struct that is
  passed by value does not reach the methods a pointer to it has, so it is another function than on a pointer.
\<close>

record 'r die_lib =
  dlUnmarshalJSON :: "string \<Rightarrow> 'r \<Rightarrow> go_heap \<Rightarrow> (err option \<times> 'r) \<times> go_heap"
  dlUnmarshalYAML :: "string \<Rightarrow> 'r \<Rightarrow> go_heap \<Rightarrow> (err option \<times> 'r) \<times> go_heap"
  dlMarshalJSON :: "go_heap \<Rightarrow> 'r \<Rightarrow> err + string"
  dlMarshalJSONValue :: "go_heap \<Rightarrow> 'r \<Rightarrow> err + string"
  dlMarshalYAML :: "go_heap \<Rightarrow> 'r \<Rightarrow> err + string"
  dlToUnstructured :: "go_heap \<Rightarrow> 'r \<Rightarrow> err + string"
  dlReadFile :: "string \<Rightarrow> err + string"
  dlMarshalRaw :: "string \<Rightarrow> err + string"
  dlUnmarshalRaw :: "string \<Rightarrow> err + string"
  dlObjectKind :: "'r \<Rightarrow> gvk"

definition die_DeepCopy :: "('m, 'r) die_type \<Rightarrow> ('m, 'r) die copier" where
  "die_DeepCopy T d h =
     (let (r, h) = dtDeepCopy T (dieR d) h
      in (\<lparr>dieFrozen = dtFreeze T r, dieMutable = dieMutable d, dieR = r\<rparr>, h))"

definition DieImmutable :: "('m, 'r) die_type \<Rightarrow> bool \<Rightarrow> ('m, 'r) die copier" where
  "DieImmutable T immutable d h =
     (if dieMutable d = (\<not> immutable) then (d, h)
      else let (d, h) = die_DeepCopy T d h in (d\<lparr>dieMutable := \<not> immutable\<rparr>, h))"

text \<open>The receiver and the result; they are the same die when it is mutable.\<close>

definition DieFeed :: "('m, 'r) die_type \<Rightarrow> 'r \<Rightarrow> ('m, 'r) die \<Rightarrow> ('m, 'r) die \<times> ('m, 'r) die" where
  "DieFeed T r d =
     (if dieMutable d then let d = d\<lparr>dieFrozen := dtFreeze T r, dieR := r\<rparr> in (d, d)
      else (d, \<lparr>dieFrozen = dtFreeze T r, dieMutable = dieMutable d, dieR = r\<rparr>))"

definition DieFeedPtr :: "('m, 'r) die_type \<Rightarrow> 'r option \<Rightarrow> ('m, 'r) die \<Rightarrow> ('m, 'r) die \<times> ('m, 'r) die" where
  "DieFeedPtr T r d = (let r = (case r of None \<Rightarrow> dtZero T | Some r \<Rightarrow> r) in DieFeed T r d)"

definition DieFeedJSON :: "('m, 'r) die_type \<Rightarrow> 'r die_lib \<Rightarrow> string \<Rightarrow> ('m, 'r, ('m, 'r) die) die_method" where
  "DieFeedJSON T L j d h =
     (let ((e, r), h) = dlUnmarshalJSON L j (dtZero T) h
      in case e of Some e \<Rightarrow> None | None \<Rightarrow> Some (DieFeed T r d, h))"

definition DieFeedYAML :: "('m, 'r) die_type \<Rightarrow> 'r die_lib \<Rightarrow> string \<Rightarrow> ('m, 'r, ('m, 'r) die) die_method" where
  "DieFeedYAML T L y d h =
     (let ((e, r), h) = dlUnmarshalYAML L y (dtZero T) h
      in case e of Some e \<Rightarrow> None | None \<Rightarrow> Some (DieFeed T r d, h))"

definition DieFeedYAMLFile :: "('m, 'r) die_type \<Rightarrow> 'r die_lib \<Rightarrow> string \<Rightarrow> ('m, 'r, ('m, 'r) die) die_method" where
  "DieFeedYAMLFile T L name d h =
     (case dlReadFile L name of Inl e \<Rightarrow> None | Inr y \<Rightarrow> DieFeedYAML T L y d h)"

definition DieFeedRawExtension :: "('m, 'r) die_type \<Rightarrow> 'r die_lib \<Rightarrow> string \<Rightarrow> ('m, 'r, ('m, 'r) die) die_method" where
  "DieFeedRawExtension T L raw d h =
     (case dlMarshalRaw L raw of Inl e \<Rightarrow> None | Inr j \<Rightarrow> DieFeedJSON T L j d h)"

definition DieRelease :: "('m, 'r) die_type \<Rightarrow> ('m, 'r) die \<Rightarrow> go_heap \<Rightarrow> 'r \<times> go_heap" where
  "DieRelease T d h = (if dieMutable d then (dieR d, h) else dtDeepCopy T (dieR d) h)"

text \<open>A pointer to a new variable that holds what was released.\<close>

definition DieReleasePtr :: "('m, 'r) die_type \<Rightarrow> ('m, 'r) die \<Rightarrow> go_heap \<Rightarrow> 'r \<times> go_heap" where
  "DieReleasePtr T d h = (let (r, h) = DieRelease T d h in (r, h))"

definition DieReleaseUnstructured :: "('m, 'r) die_type \<Rightarrow> 'r die_lib \<Rightarrow> ('m, 'r) die \<Rightarrow> (go_heap, string) go" where
  "DieReleaseUnstructured T L d h =
     (let (r, h) = DieReleasePtr T d h
      in case dlToUnstructured L h r of Inl e \<Rightarrow> None | Inr u \<Rightarrow> Some (u, h))"

definition DieReleaseJSON :: "('m, 'r) die_type \<Rightarrow> 'r die_lib \<Rightarrow> ('m, 'r) die \<Rightarrow> (go_heap, string) go" where
  "DieReleaseJSON T L d h =
     (let (r, h) = DieReleasePtr T d h
      in case dlMarshalJSON L h r of Inl e \<Rightarrow> None | Inr j \<Rightarrow> Some (j, h))"

definition DieReleaseYAML :: "('m, 'r) die_type \<Rightarrow> 'r die_lib \<Rightarrow> ('m, 'r) die \<Rightarrow> (go_heap, string) go" where
  "DieReleaseYAML T L d h =
     (let (r, h) = DieReleasePtr T d h
      in case dlMarshalYAML L h r of Inl e \<Rightarrow> None | Inr y \<Rightarrow> Some (y, h))"

definition DieReleaseRawExtension :: "('m, 'r) die_type \<Rightarrow> 'r die_lib \<Rightarrow> ('m, 'r) die \<Rightarrow> (go_heap, string) go" where
  "DieReleaseRawExtension T L d h =
     do { (j, h) \<leftarrow> DieReleaseJSON T L d h;
          case dlUnmarshalRaw L j of Inl e \<Rightarrow> None | Inr raw \<Rightarrow> Some (raw, h) }"

text \<open>Callbacks (\<open>'r stamp\<close>) change the resource behind the pointer they get.\<close>

definition DieStamp :: "('m, 'r) die_type \<Rightarrow> 'r stamp \<Rightarrow> ('m, 'r, ('m, 'r) die) die_method" where
  "DieStamp T fn d h =
     (let (r, h) = DieRelease T d h
      in do { (r, h) \<leftarrow> fn r h; Some (DieFeed T r d, h) })"

text \<open>
  \<open>DieStampAt\<close>: the callback is looked at by reflection (its numbers of parameters and results), and
  the matches of the path by the type of what is found; \<open>saCall\<close> calls the callback on a match.
\<close>

datatype assignable_to = ValueAssignable | AddressAssignable | NotAssignable

record ('r, 'p) stamp_at =
  saNumIn :: nat
  saNumOut :: nat
  saParse :: "string \<Rightarrow> err option"
  saFindResults :: "string \<Rightarrow> 'r \<Rightarrow> go_heap \<Rightarrow> err + 'p list"
  saAssignable :: "'p \<Rightarrow> assignable_to"
  saCall :: "'p \<Rightarrow> 'r stamp"

fun stamp_matches :: "('r, 'p) stamp_at \<Rightarrow> 'p list \<Rightarrow> 'r stamp" where
  "stamp_matches S [] r h = Some (r, h)"
| "stamp_matches S (cv # cvs) r h =
     (if saAssignable S cv = NotAssignable then None
      else do { (r, h) \<leftarrow> saCall S cv r h; stamp_matches S cvs r h })"

definition DieStampAt :: "('m, 'r) die_type \<Rightarrow> string \<Rightarrow> ('r, 'p) stamp_at \<Rightarrow> ('m, 'r, ('m, 'r) die) die_method" where
  "DieStampAt T jp S =
     DieStamp T (\<lambda>r h.
       if saNumIn S \<noteq> 1 then None
       else if saNumOut S \<noteq> 0 then None
       else case saParse S (''{'' @ jp @ ''}'') of
              Some e \<Rightarrow> None
            | None \<Rightarrow>
                (case saFindResults S (''{'' @ jp @ ''}'') r h of
                   Inl e \<Rightarrow> Some (r, h)
                 | Inr cvs \<Rightarrow> stamp_matches S cvs r h))"

text \<open>The blank die, and callbacks on a mutable die; nil callbacks are skipped.\<close>

definition Blank :: "('m, 'r) die_type \<Rightarrow> ('m, 'r) die" where
  "Blank T = \<lparr>dieFrozen = dtFreeze T (dtZero T), dieMutable = False, dieR = dtZero T\<rparr>"

fun run_callbacks :: "('d \<Rightarrow> (go_heap, 'd) go) option list \<Rightarrow> 'd \<Rightarrow> (go_heap, 'd) go" where
  "run_callbacks [] nd h = Some (nd, h)"
| "run_callbacks (None # fns) nd h = run_callbacks fns nd h"
| "run_callbacks (Some fn # fns) nd h = do { (nd, h) \<leftarrow> fn nd h; run_callbacks fns nd h }"

definition DieWith ::
    "('m, 'r) die_type \<Rightarrow> (('m, 'r) die \<Rightarrow> (go_heap, ('m, 'r) die) go) option list \<Rightarrow> ('m, 'r, ('m, 'r) die) die_method" where
  "DieWith T fns d h =
     (let (r, h) = DieRelease T d h;
          (nd, h) = DieImmutable T False (snd (DieFeed T r (Blank T))) h
      in do { (nd, h) \<leftarrow> run_callbacks fns nd h;
              let (r, h) = DieRelease T nd h;
              Some (DieFeed T r d, h) })"

text \<open>Dies of objects are objects themselves.\<close>

definition die_DeepCopyObject :: "('m, 'r) die_type \<Rightarrow> ('m, 'r) die \<Rightarrow> go_heap \<Rightarrow> 'r \<times> go_heap" where
  "die_DeepCopyObject T d h = dtDeepCopy T (dieR d) h"

definition die_GetObjectKind :: "('m, 'r) die_type \<Rightarrow> 'r die_lib \<Rightarrow> ('m, 'r) die \<Rightarrow> go_heap \<Rightarrow> gvk \<times> go_heap" where
  "die_GetObjectKind T L d h = (let (r, h) = DieRelease T d h in (dlObjectKind L r, h))"

definition die_MarshalJSON :: "'r die_lib \<Rightarrow> ('m, 'r) die \<Rightarrow> go_heap \<Rightarrow> err + string" where
  "die_MarshalJSON L d h = dlMarshalJSONValue L h (dieR d)"

text \<open>\<open>isBlank\<close>: the receiver is the blank die of its type.\<close>

definition die_UnmarshalJSON ::
    "('m, 'r) die_type \<Rightarrow> 'r die_lib \<Rightarrow> bool \<Rightarrow> string \<Rightarrow> ('m, 'r) die \<Rightarrow> go_heap \<Rightarrow> (('m, 'r) die \<times> err option) \<times> go_heap" where
  "die_UnmarshalJSON T L isBlank b d h =
     (if isBlank then ((d, Some (Errorf ''cannot unmarshal into the blank die, create a copy first'' [])), h)
      else if \<not> dieMutable d
      then ((d, Some (Errorf ''cannot unmarshal into immutable dies, create a mutable version first'' [])), h)
      else let ((e, r), h) = dlUnmarshalJSON L b (dtZero T) h in ((snd (DieFeed T r d), e), h))"

section \<open>Methods as values\<close>

text \<open>
  All generated methods of one type: those that feed and release a resource, those that stamp it, and the
  ones that dies of objects have in addition.
\<close>

record ('m, 'r) die_methods =
  mDieImmutable :: "bool \<Rightarrow> ('m, 'r) die copier"
  mDieFeed :: "'r \<Rightarrow> ('m, 'r) die \<Rightarrow> ('m, 'r) die \<times> ('m, 'r) die"
  mDieFeedPtr :: "'r option \<Rightarrow> ('m, 'r) die \<Rightarrow> ('m, 'r) die \<times> ('m, 'r) die"
  mDieFeedJSON :: "string \<Rightarrow> ('m, 'r, ('m, 'r) die) die_method"
  mDieFeedYAML :: "string \<Rightarrow> ('m, 'r, ('m, 'r) die) die_method"
  mDieFeedYAMLFile :: "string \<Rightarrow> ('m, 'r, ('m, 'r) die) die_method"
  mDieFeedRawExtension :: "string \<Rightarrow> ('m, 'r, ('m, 'r) die) die_method"
  mDieRelease :: "('m, 'r) die \<Rightarrow> go_heap \<Rightarrow> 'r \<times> go_heap"
  mDieReleasePtr :: "('m, 'r) die \<Rightarrow> go_heap \<Rightarrow> 'r \<times> go_heap"
  mDieReleaseJSON :: "('m, 'r) die \<Rightarrow> (go_heap, string) go"
  mDieReleaseYAML :: "('m, 'r) die \<Rightarrow> (go_heap, string) go"
  mDieReleaseRawExtension :: "('m, 'r) die \<Rightarrow> (go_heap, string) go"

definition die_methods_of :: "('m, 'r) die_type \<Rightarrow> 'r die_lib \<Rightarrow> ('m, 'r) die_methods" where
  "die_methods_of T L =
     \<lparr>mDieImmutable = DieImmutable T, mDieFeed = DieFeed T, mDieFeedPtr = DieFeedPtr T,
      mDieFeedJSON = DieFeedJSON T L, mDieFeedYAML = DieFeedYAML T L, mDieFeedYAMLFile = DieFeedYAMLFile T L,
      mDieFeedRawExtension = DieFeedRawExtension T L, mDieRelease = DieRelease T, mDieReleasePtr = DieReleasePtr T,
      mDieReleaseJSON = DieReleaseJSON T L, mDieReleaseYAML = DieReleaseYAML T L,
      mDieReleaseRawExtension = DieReleaseRawExtension T L\<rparr>"

record ('m, 'r, 'p) stamp_methods =
  mDieStamp :: "'r stamp \<Rightarrow> ('m, 'r, ('m, 'r) die) die_method"
  mDieStampAt :: "string \<Rightarrow> ('r, 'p) stamp_at \<Rightarrow> ('m, 'r, ('m, 'r) die) die_method"
  mDieWith :: "(('m, 'r) die \<Rightarrow> (go_heap, ('m, 'r) die) go) option list \<Rightarrow> ('m, 'r, ('m, 'r) die) die_method"
  mDeepCopy :: "('m, 'r) die copier"

definition stamp_methods_of :: "('m, 'r) die_type \<Rightarrow> ('m, 'r, 'p) stamp_methods" where
  "stamp_methods_of T =
     \<lparr>mDieStamp = DieStamp T, mDieStampAt = DieStampAt T, mDieWith = DieWith T, mDeepCopy = die_DeepCopy T\<rparr>"

record ('m, 'r) object_methods =
  mDieReleaseUnstructured :: "('m, 'r) die \<Rightarrow> (go_heap, string) go"
  mDeepCopyObject :: "('m, 'r) die \<Rightarrow> go_heap \<Rightarrow> 'r \<times> go_heap"
  mGetObjectKind :: "('m, 'r) die \<Rightarrow> go_heap \<Rightarrow> gvk \<times> go_heap"
  mMarshalJSON :: "('m, 'r) die \<Rightarrow> go_heap \<Rightarrow> err + string"
  mUnmarshalJSON :: "bool \<Rightarrow> string \<Rightarrow> ('m, 'r) die \<Rightarrow> go_heap \<Rightarrow> (('m, 'r) die \<times> err option) \<times> go_heap"

definition object_methods_of :: "('m, 'r) die_type \<Rightarrow> 'r die_lib \<Rightarrow> ('m, 'r) object_methods" where
  "object_methods_of T L =
     \<lparr>mDieReleaseUnstructured = DieReleaseUnstructured T L, mDeepCopyObject = die_DeepCopyObject T,
      mGetObjectKind = die_GetObjectKind T L, mMarshalJSON = die_MarshalJSON L, mUnmarshalJSON = die_UnmarshalJSON T L\<rparr>"

section \<open>Stamps\<close>

text \<open>Assignments to fields, and callbacks on a mutable die for a part of the resource.\<close>

definition assign :: "('r \<Rightarrow> 'r) \<Rightarrow> 'r stamp" where
  "assign f r h = Some (f r, h)"

definition stamp_part ::
    "('m, 's) die_type \<Rightarrow> ('r \<Rightarrow> 's) \<Rightarrow> ('s \<Rightarrow> 'r \<Rightarrow> 'r) \<Rightarrow> (('m, 's) die \<Rightarrow> (go_heap, ('m, 's) die) go) \<Rightarrow> 'r stamp" where
  "stamp_part S get put fn r h =
     (let (d, h) = DieImmutable S False (Blank S) h;
          d = snd (DieFeed S (get r) d)
      in do { (d, h) \<leftarrow> fn d h;
              let (x, h) = DieRelease S d h;
              Some (put x r, h) })"

definition stamp_field :: "('r \<Rightarrow> addr option) \<Rightarrow> (addr option \<Rightarrow> 'r \<Rightarrow> 'r) \<Rightarrow> string \<Rightarrow> string \<Rightarrow> 'r stamp" where
  "stamp_field get put key v r h = (let (f, h) = add_field key v (get r) h in Some (put f r, h))"

definition set_APIVersion :: "string \<Rightarrow> ('sp, 'st) test_object \<Rightarrow> ('sp, 'st) test_object" where
  "set_APIVersion v r = r\<lparr>toTypeMeta := (toTypeMeta r)\<lparr>tmAPIVersion := v\<rparr>\<rparr>"

definition set_Kind :: "string \<Rightarrow> ('sp, 'st) test_object \<Rightarrow> ('sp, 'st) test_object" where
  "set_Kind v r = r\<lparr>toTypeMeta := (toTypeMeta r)\<lparr>tmKind := v\<rparr>\<rparr>"

definition set_meta :: "string \<Rightarrow> ('sp, 'st) test_object \<Rightarrow> ('sp, 'st) test_object" where
  "set_meta m r = r\<lparr>toObjectMeta := m\<rparr>"

definition set_spec :: "'sp \<Rightarrow> ('sp, 'st) test_object \<Rightarrow> ('sp, 'st) test_object" where
  "set_spec s r = r\<lparr>toSpec := s\<rparr>"

definition set_status :: "'st \<Rightarrow> ('sp, 'st) test_object \<Rightarrow> ('sp, 'st) test_object" where
  "set_status s r = r\<lparr>toStatus := s\<rparr>"

lemmas set_defs = set_APIVersion_def set_Kind_def set_meta_def set_spec_def set_status_def

definition empty_object_of :: "'sp \<Rightarrow> 'st \<Rightarrow> ('sp, 'st) test_object" where
  "empty_object_of sp st =
     \<lparr>toTypeMeta = \<lparr>tmAPIVersion = [], tmKind = []\<rparr>, toObjectMeta = [], toSpec = sp, toStatus = st\<rparr>"

definition empty_spec :: TestResourceSpec where
  "empty_spec = \<lparr>rpFields = None, rpTemplate = [], rpErrOnMarshal = False, rpErrOnUnmarshal = False\<rparr>"

definition empty_heap_status :: heap_status where
  "empty_heap_status = \<lparr>hsObservedGeneration = 0, hsConditions = None\<rparr>"

definition empty_rs :: TestResourceStatus where
  "empty_rs = \<lparr>rsStatus = empty_heap_status, rsFields = None\<rparr>"

definition empty_duck_spec :: TestDuckSpec where
  "empty_duck_spec = \<lparr>dsFields = None\<rparr>"

definition empty_us :: TestResourceUnexportedFieldsSpec where
  "empty_us = \<lparr>usFields = None, usUnexportedFields = None, usTemplate = [], usErrOnMarshal = False, usErrOnUnmarshal = False\<rparr>"

definition empty_ut :: TestResourceUnexportedFieldsStatus where
  "empty_ut = \<lparr>utStatus = empty_heap_status, utFields = None, utUnexportedFields = None\<rparr>"

section \<open>The types\<close>

text \<open>The dies of structs that are part of an object.\<close>

definition TestResourceSpecDie :: "(unit, TestResourceSpec) die_type" where
  "TestResourceSpecDie = \<lparr>dtZero = empty_spec, dtFreeze = (\<lambda>r. ()), dtDeepCopy = TestResourceSpec_DeepCopyInto\<rparr>"

definition TestResourceSpecDie_methods :: "TestResourceSpec die_lib \<Rightarrow> (unit, TestResourceSpec) die_methods" where
  "TestResourceSpecDie_methods = die_methods_of TestResourceSpecDie"

definition TestResourceSpecDie_stamp_methods :: "(unit, TestResourceSpec, 'p) stamp_methods" where
  "TestResourceSpecDie_stamp_methods = stamp_methods_of TestResourceSpecDie"

definition TestResourceStatusDie :: "(unit, TestResourceStatus) die_type" where
  "TestResourceStatusDie = \<lparr>dtZero = empty_rs, dtFreeze = (\<lambda>r. ()), dtDeepCopy = TestResourceStatus_DeepCopyInto\<rparr>"

definition TestResourceStatusDie_methods :: "TestResourceStatus die_lib \<Rightarrow> (unit, TestResourceStatus) die_methods" where
  "TestResourceStatusDie_methods = die_methods_of TestResourceStatusDie"

definition TestResourceStatusDie_stamp_methods :: "(unit, TestResourceStatus, 'p) stamp_methods" where
  "TestResourceStatusDie_stamp_methods = stamp_methods_of TestResourceStatusDie"

definition TestResourceEmptyStatusStatusDie :: "(unit, TestResourceEmptyStatusStatus) die_type" where
  "TestResourceEmptyStatusStatusDie = \<lparr>dtZero = (), dtFreeze = (\<lambda>r. ()), dtDeepCopy = TestResourceEmptyStatusStatus_DeepCopyInto\<rparr>"

definition TestResourceEmptyStatusStatusDie_methods :: "TestResourceEmptyStatusStatus die_lib \<Rightarrow> (unit, TestResourceEmptyStatusStatus) die_methods" where
  "TestResourceEmptyStatusStatusDie_methods = die_methods_of TestResourceEmptyStatusStatusDie"

definition TestResourceEmptyStatusStatusDie_stamp_methods :: "(unit, TestResourceEmptyStatusStatus, 'p) stamp_methods" where
  "TestResourceEmptyStatusStatusDie_stamp_methods = stamp_methods_of TestResourceEmptyStatusStatusDie"

definition TestDuckSpecDie :: "(unit, TestDuckSpec) die_type" where
  "TestDuckSpecDie = \<lparr>dtZero = empty_duck_spec, dtFreeze = (\<lambda>r. ()), dtDeepCopy = TestDuckSpec_DeepCopyInto\<rparr>"

definition TestDuckSpecDie_methods :: "TestDuckSpec die_lib \<Rightarrow> (unit, TestDuckSpec) die_methods" where
  "TestDuckSpecDie_methods = die_methods_of TestDuckSpecDie"

definition TestDuckSpecDie_stamp_methods :: "(unit, TestDuckSpec, 'p) stamp_methods" where
  "TestDuckSpecDie_stamp_methods = stamp_methods_of TestDuckSpecDie"

definition TestResourceUnexportedFieldsSpecDie :: "(unit, TestResourceUnexportedFieldsSpec) die_type" where
  "TestResourceUnexportedFieldsSpecDie = \<lparr>dtZero = empty_us, dtFreeze = (\<lambda>r. ()), dtDeepCopy = TestResourceUnexportedFieldsSpec_DeepCopyInto\<rparr>"

definition TestResourceUnexportedFieldsSpecDie_methods :: "TestResourceUnexportedFieldsSpec die_lib \<Rightarrow> (unit, TestResourceUnexportedFieldsSpec) die_methods" where
  "TestResourceUnexportedFieldsSpecDie_methods = die_methods_of TestResourceUnexportedFieldsSpecDie"

definition TestResourceUnexportedFieldsSpecDie_stamp_methods :: "(unit, TestResourceUnexportedFieldsSpec, 'p) stamp_methods" where
  "TestResourceUnexportedFieldsSpecDie_stamp_methods = stamp_methods_of TestResourceUnexportedFieldsSpecDie"

definition TestResourceUnexportedFieldsStatusDie :: "(unit, TestResourceUnexportedFieldsStatus) die_type" where
  "TestResourceUnexportedFieldsStatusDie = \<lparr>dtZero = empty_ut, dtFreeze = (\<lambda>r. ()), dtDeepCopy = TestResourceUnexportedFieldsStatus_DeepCopyInto\<rparr>"

definition TestResourceUnexportedFieldsStatusDie_methods :: "TestResourceUnexportedFieldsStatus die_lib \<Rightarrow> (unit, TestResourceUnexportedFieldsStatus) die_methods" where
  "TestResourceUnexportedFieldsStatusDie_methods = die_methods_of TestResourceUnexportedFieldsStatusDie"

definition TestResourceUnexportedFieldsStatusDie_stamp_methods :: "(unit, TestResourceUnexportedFieldsStatus, 'p) stamp_methods" where
  "TestResourceUnexportedFieldsStatusDie_stamp_methods = stamp_methods_of TestResourceUnexportedFieldsStatusDie"

text \<open>The dies of objects; \<open>freeze\<close> is \<open>v1.FreezeObjectMeta\<close>.\<close>

definition TestResourceDie :: "(string \<Rightarrow> 'm) \<Rightarrow> ('m, TestResource) die_type" where
  "TestResourceDie freeze =
     \<lparr>dtZero = empty_object_of empty_spec empty_rs, dtFreeze = (\<lambda>r. freeze (toObjectMeta r)), dtDeepCopy = TestResource_DeepCopyInto\<rparr>"

definition TestResourceEmptyStatusDie :: "(string \<Rightarrow> 'm) \<Rightarrow> ('m, TestResourceEmptyStatus) die_type" where
  "TestResourceEmptyStatusDie freeze =
     \<lparr>dtZero = empty_object_of empty_spec (), dtFreeze = (\<lambda>r. freeze (toObjectMeta r)), dtDeepCopy = TestResourceEmptyStatus_DeepCopyInto\<rparr>"

definition TestResourceEmptyStatusDie_methods :: "(string \<Rightarrow> 'm) \<Rightarrow> TestResourceEmptyStatus die_lib \<Rightarrow> ('m, TestResourceEmptyStatus) die_methods" where
  "TestResourceEmptyStatusDie_methods freeze = die_methods_of (TestResourceEmptyStatusDie freeze)"

definition TestResourceEmptyStatusDie_stamp_methods :: "(string \<Rightarrow> 'm) \<Rightarrow> ('m, TestResourceEmptyStatus, 'p) stamp_methods" where
  "TestResourceEmptyStatusDie_stamp_methods freeze = stamp_methods_of (TestResourceEmptyStatusDie freeze)"

definition TestResourceEmptyStatusDie_object_methods :: "(string \<Rightarrow> 'm) \<Rightarrow> TestResourceEmptyStatus die_lib \<Rightarrow> ('m, TestResourceEmptyStatus) object_methods" where
  "TestResourceEmptyStatusDie_object_methods freeze = object_methods_of (TestResourceEmptyStatusDie freeze)"

definition TestResourceNoStatusDie :: "(string \<Rightarrow> 'm) \<Rightarrow> ('m, TestResourceNoStatus) die_type" where
  "TestResourceNoStatusDie freeze =
     \<lparr>dtZero = empty_object_of empty_spec (), dtFreeze = (\<lambda>r. freeze (toObjectMeta r)), dtDeepCopy = TestResourceNoStatus_DeepCopyInto\<rparr>"

definition TestResourceNoStatusDie_methods :: "(string \<Rightarrow> 'm) \<Rightarrow> TestResourceNoStatus die_lib \<Rightarrow> ('m, TestResourceNoStatus) die_methods" where
  "TestResourceNoStatusDie_methods freeze = die_methods_of (TestResourceNoStatusDie freeze)"

definition TestResourceNoStatusDie_stamp_methods :: "(string \<Rightarrow> 'm) \<Rightarrow> ('m, TestResourceNoStatus, 'p) stamp_methods" where
  "TestResourceNoStatusDie_stamp_methods freeze = stamp_methods_of (TestResourceNoStatusDie freeze)"

definition TestResourceNoStatusDie_object_methods :: "(string \<Rightarrow> 'm) \<Rightarrow> TestResourceNoStatus die_lib \<Rightarrow> ('m, TestResourceNoStatus) object_methods" where
  "TestResourceNoStatusDie_object_methods freeze = object_methods_of (TestResourceNoStatusDie freeze)"

definition TestResourceNilableStatusDie :: "(string \<Rightarrow> 'm) \<Rightarrow> ('m, TestResourceNilableStatus) die_type" where
  "TestResourceNilableStatusDie freeze =
     \<lparr>dtZero = empty_object_of empty_spec None, dtFreeze = (\<lambda>r. freeze (toObjectMeta r)), dtDeepCopy = TestResourceNilableStatus_DeepCopyInto\<rparr>"

definition TestResourceNilableStatusDie_methods :: "(string \<Rightarrow> 'm) \<Rightarrow> TestResourceNilableStatus die_lib \<Rightarrow> ('m, TestResourceNilableStatus) die_methods" where
  "TestResourceNilableStatusDie_methods freeze = die_methods_of (TestResourceNilableStatusDie freeze)"

definition TestResourceNilableStatusDie_stamp_methods :: "(string \<Rightarrow> 'm) \<Rightarrow> ('m, TestResourceNilableStatus, 'p) stamp_methods" where
  "TestResourceNilableStatusDie_stamp_methods freeze = stamp_methods_of (TestResourceNilableStatusDie freeze)"

definition TestResourceNilableStatusDie_object_methods :: "(string \<Rightarrow> 'm) \<Rightarrow> TestResourceNilableStatus die_lib \<Rightarrow> ('m, TestResourceNilableStatus) object_methods" where
  "TestResourceNilableStatusDie_object_methods freeze = object_methods_of (TestResourceNilableStatusDie freeze)"

definition TestDuckDie :: "(string \<Rightarrow> 'm) \<Rightarrow> ('m, TestDuck) die_type" where
  "TestDuckDie freeze =
     \<lparr>dtZero = empty_object_of empty_duck_spec empty_rs, dtFreeze = (\<lambda>r. freeze (toObjectMeta r)), dtDeepCopy = TestDuck_DeepCopyInto\<rparr>"

definition TestDuckDie_methods :: "(string \<Rightarrow> 'm) \<Rightarrow> TestDuck die_lib \<Rightarrow> ('m, TestDuck) die_methods" where
  "TestDuckDie_methods freeze = die_methods_of (TestDuckDie freeze)"

definition TestDuckDie_stamp_methods :: "(string \<Rightarrow> 'm) \<Rightarrow> ('m, TestDuck, 'p) stamp_methods" where
  "TestDuckDie_stamp_methods freeze = stamp_methods_of (TestDuckDie freeze)"

definition TestDuckDie_object_methods :: "(string \<Rightarrow> 'm) \<Rightarrow> TestDuck die_lib \<Rightarrow> ('m, TestDuck) object_methods" where
  "TestDuckDie_object_methods freeze = object_methods_of (TestDuckDie freeze)"

definition TestResourceUnexportedFieldsDie :: "(string \<Rightarrow> 'm) \<Rightarrow> ('m, TestResourceUnexportedFields) die_type" where
  "TestResourceUnexportedFieldsDie freeze =
     \<lparr>dtZero = empty_object_of empty_us empty_ut, dtFreeze = (\<lambda>r. freeze (toObjectMeta r)), dtDeepCopy = TestResourceUnexportedFields_DeepCopyInto\<rparr>"

definition TestResourceUnexportedFieldsDie_methods :: "(string \<Rightarrow> 'm) \<Rightarrow> TestResourceUnexportedFields die_lib \<Rightarrow> ('m, TestResourceUnexportedFields) die_methods" where
  "TestResourceUnexportedFieldsDie_methods freeze = die_methods_of (TestResourceUnexportedFieldsDie freeze)"

definition TestResourceUnexportedFieldsDie_stamp_methods :: "(string \<Rightarrow> 'm) \<Rightarrow> ('m, TestResourceUnexportedFields, 'p) stamp_methods" where
  "TestResourceUnexportedFieldsDie_stamp_methods freeze = stamp_methods_of (TestResourceUnexportedFieldsDie freeze)"

definition TestResourceUnexportedFieldsDie_object_methods :: "(string \<Rightarrow> 'm) \<Rightarrow> TestResourceUnexportedFields die_lib \<Rightarrow> ('m, TestResourceUnexportedFields) object_methods" where
  "TestResourceUnexportedFieldsDie_object_methods freeze = object_methods_of (TestResourceUnexportedFieldsDie freeze)"

section \<open>Their fields\<close>

text \<open>\<open>M\<close> is the die type of \<open>ObjectMeta\<close>, \<open>P\<close> that of \<open>PodTemplateSpec\<close>, \<open>K\<close> that of \<open>Condition\<close>.\<close>

definition TestResourceDie_APIVersion where
  "TestResourceDie_APIVersion freeze v = DieStamp (TestResourceDie freeze) (assign (set_APIVersion v))"

definition TestResourceDie_Kind where
  "TestResourceDie_Kind freeze v = DieStamp (TestResourceDie freeze) (assign (set_Kind v))"

definition TestResourceDie_MetadataDie where
  "TestResourceDie_MetadataDie freeze M fn = DieStamp (TestResourceDie freeze) (stamp_part M toObjectMeta set_meta fn)"

definition TestResourceDie_SpecDie where
  "TestResourceDie_SpecDie freeze fn = DieStamp (TestResourceDie freeze) (stamp_part TestResourceSpecDie toSpec set_spec fn)"

definition TestResourceDie_StatusDie where
  "TestResourceDie_StatusDie freeze fn = DieStamp (TestResourceDie freeze) (stamp_part TestResourceStatusDie toStatus set_status fn)"

definition TestResourceDie_Spec where
  "TestResourceDie_Spec freeze v = DieStamp (TestResourceDie freeze) (assign (set_spec v))"

definition TestResourceDie_Status where
  "TestResourceDie_Status freeze v = DieStamp (TestResourceDie freeze) (assign (set_status v))"

definition TestResourceEmptyStatusDie_APIVersion where
  "TestResourceEmptyStatusDie_APIVersion freeze v = DieStamp (TestResourceEmptyStatusDie freeze) (assign (set_APIVersion v))"

definition TestResourceEmptyStatusDie_Kind where
  "TestResourceEmptyStatusDie_Kind freeze v = DieStamp (TestResourceEmptyStatusDie freeze) (assign (set_Kind v))"

definition TestResourceEmptyStatusDie_MetadataDie where
  "TestResourceEmptyStatusDie_MetadataDie freeze M fn = DieStamp (TestResourceEmptyStatusDie freeze) (stamp_part M toObjectMeta set_meta fn)"

definition TestResourceEmptyStatusDie_SpecDie where
  "TestResourceEmptyStatusDie_SpecDie freeze fn = DieStamp (TestResourceEmptyStatusDie freeze) (stamp_part TestResourceSpecDie toSpec set_spec fn)"

definition TestResourceEmptyStatusDie_StatusDie where
  "TestResourceEmptyStatusDie_StatusDie freeze fn = DieStamp (TestResourceEmptyStatusDie freeze) (stamp_part TestResourceEmptyStatusStatusDie toStatus set_status fn)"

definition TestResourceEmptyStatusDie_Spec where
  "TestResourceEmptyStatusDie_Spec freeze v = DieStamp (TestResourceEmptyStatusDie freeze) (assign (set_spec v))"

definition TestResourceEmptyStatusDie_Status where
  "TestResourceEmptyStatusDie_Status freeze v = DieStamp (TestResourceEmptyStatusDie freeze) (assign (set_status v))"

definition TestResourceNoStatusDie_APIVersion where
  "TestResourceNoStatusDie_APIVersion freeze v = DieStamp (TestResourceNoStatusDie freeze) (assign (set_APIVersion v))"

definition TestResourceNoStatusDie_Kind where
  "TestResourceNoStatusDie_Kind freeze v = DieStamp (TestResourceNoStatusDie freeze) (assign (set_Kind v))"

definition TestResourceNoStatusDie_MetadataDie where
  "TestResourceNoStatusDie_MetadataDie freeze M fn = DieStamp (TestResourceNoStatusDie freeze) (stamp_part M toObjectMeta set_meta fn)"

definition TestResourceNoStatusDie_SpecDie where
  "TestResourceNoStatusDie_SpecDie freeze fn = DieStamp (TestResourceNoStatusDie freeze) (stamp_part TestResourceSpecDie toSpec set_spec fn)"

definition TestResourceNoStatusDie_Spec where
  "TestResourceNoStatusDie_Spec freeze v = DieStamp (TestResourceNoStatusDie freeze) (assign (set_spec v))"

definition TestResourceNilableStatusDie_APIVersion where
  "TestResourceNilableStatusDie_APIVersion freeze v = DieStamp (TestResourceNilableStatusDie freeze) (assign (set_APIVersion v))"

definition TestResourceNilableStatusDie_Kind where
  "TestResourceNilableStatusDie_Kind freeze v = DieStamp (TestResourceNilableStatusDie freeze) (assign (set_Kind v))"

definition TestResourceNilableStatusDie_MetadataDie where
  "TestResourceNilableStatusDie_MetadataDie freeze M fn = DieStamp (TestResourceNilableStatusDie freeze) (stamp_part M toObjectMeta set_meta fn)"

definition TestResourceNilableStatusDie_SpecDie where
  "TestResourceNilableStatusDie_SpecDie freeze fn = DieStamp (TestResourceNilableStatusDie freeze) (stamp_part TestResourceSpecDie toSpec set_spec fn)"

definition TestResourceNilableStatusDie_Spec where
  "TestResourceNilableStatusDie_Spec freeze v = DieStamp (TestResourceNilableStatusDie freeze) (assign (set_spec v))"

definition TestResourceNilableStatusDie_Status where
  "TestResourceNilableStatusDie_Status freeze v = DieStamp (TestResourceNilableStatusDie freeze) (assign (set_status v))"

definition TestDuckDie_APIVersion where
  "TestDuckDie_APIVersion freeze v = DieStamp (TestDuckDie freeze) (assign (set_APIVersion v))"

definition TestDuckDie_Kind where
  "TestDuckDie_Kind freeze v = DieStamp (TestDuckDie freeze) (assign (set_Kind v))"

definition TestDuckDie_MetadataDie where
  "TestDuckDie_MetadataDie freeze M fn = DieStamp (TestDuckDie freeze) (stamp_part M toObjectMeta set_meta fn)"

definition TestDuckDie_SpecDie where
  "TestDuckDie_SpecDie freeze fn = DieStamp (TestDuckDie freeze) (stamp_part TestDuckSpecDie toSpec set_spec fn)"

definition TestDuckDie_StatusDie where
  "TestDuckDie_StatusDie freeze fn = DieStamp (TestDuckDie freeze) (stamp_part TestResourceStatusDie toStatus set_status fn)"

definition TestDuckDie_Spec where
  "TestDuckDie_Spec freeze v = DieStamp (TestDuckDie freeze) (assign (set_spec v))"

definition TestDuckDie_Status where
  "TestDuckDie_Status freeze v = DieStamp (TestDuckDie freeze) (assign (set_status v))"

definition TestResourceUnexportedFieldsDie_APIVersion where
  "TestResourceUnexportedFieldsDie_APIVersion freeze v = DieStamp (TestResourceUnexportedFieldsDie freeze) (assign (set_APIVersion v))"

definition TestResourceUnexportedFieldsDie_Kind where
  "TestResourceUnexportedFieldsDie_Kind freeze v = DieStamp (TestResourceUnexportedFieldsDie freeze) (assign (set_Kind v))"

definition TestResourceUnexportedFieldsDie_MetadataDie where
  "TestResourceUnexportedFieldsDie_MetadataDie freeze M fn = DieStamp (TestResourceUnexportedFieldsDie freeze) (stamp_part M toObjectMeta set_meta fn)"

definition TestResourceUnexportedFieldsDie_SpecDie where
  "TestResourceUnexportedFieldsDie_SpecDie freeze fn = DieStamp (TestResourceUnexportedFieldsDie freeze) (stamp_part TestResourceUnexportedFieldsSpecDie toSpec set_spec fn)"

definition TestResourceUnexportedFieldsDie_StatusDie where
  "TestResourceUnexportedFieldsDie_StatusDie freeze fn = DieStamp (TestResourceUnexportedFieldsDie freeze) (stamp_part TestResourceUnexportedFieldsStatusDie toStatus set_status fn)"

definition TestResourceUnexportedFieldsDie_Spec where
  "TestResourceUnexportedFieldsDie_Spec freeze v = DieStamp (TestResourceUnexportedFieldsDie freeze) (assign (set_spec v))"

definition TestResourceUnexportedFieldsDie_Status where
  "TestResourceUnexportedFieldsDie_Status freeze v = DieStamp (TestResourceUnexportedFieldsDie freeze) (assign (set_status v))"

text \<open>A nil status is fed as the empty one, and the released status is a new variable.\<close>

definition TestResourceNilableStatusDie_StatusDie where
  "TestResourceNilableStatusDie_StatusDie freeze fn =
     DieStamp (TestResourceNilableStatusDie freeze) (\<lambda>r h.
       let (d, h) = DieImmutable TestResourceStatusDie False (Blank TestResourceStatusDie) h;
           d = snd (DieFeedPtr TestResourceStatusDie (map_option (ghStatuses h) (toStatus r)) d)
       in do { (d, h) \<leftarrow> fn d h;
               let (s, h) = DieReleasePtr TestResourceStatusDie d h;
               let (p, h) = alloc_status s h;
               Some (set_status (Some p) r, h) })"

definition TestResourceSpecDie_Fields where
  "TestResourceSpecDie_Fields v = DieStamp TestResourceSpecDie (assign (\<lambda>r. r\<lparr>rpFields := v\<rparr>))"

definition TestResourceSpecDie_Template where
  "TestResourceSpecDie_Template v = DieStamp TestResourceSpecDie (assign (\<lambda>r. r\<lparr>rpTemplate := v\<rparr>))"

definition TestResourceSpecDie_ErrOnMarshal where
  "TestResourceSpecDie_ErrOnMarshal v = DieStamp TestResourceSpecDie (assign (\<lambda>r. r\<lparr>rpErrOnMarshal := v\<rparr>))"

definition TestResourceSpecDie_ErrOnUnmarshal where
  "TestResourceSpecDie_ErrOnUnmarshal v = DieStamp TestResourceSpecDie (assign (\<lambda>r. r\<lparr>rpErrOnUnmarshal := v\<rparr>))"

definition TestResourceStatusDie_Status where
  "TestResourceStatusDie_Status v = DieStamp TestResourceStatusDie (assign (\<lambda>r. r\<lparr>rsStatus := v\<rparr>))"

definition TestResourceStatusDie_Fields where
  "TestResourceStatusDie_Fields v = DieStamp TestResourceStatusDie (assign (\<lambda>r. r\<lparr>rsFields := v\<rparr>))"

definition TestDuckSpecDie_Fields where
  "TestDuckSpecDie_Fields v = DieStamp TestDuckSpecDie (assign (\<lambda>r. r\<lparr>dsFields := v\<rparr>))"

definition TestResourceUnexportedFieldsSpecDie_Fields where
  "TestResourceUnexportedFieldsSpecDie_Fields v = DieStamp TestResourceUnexportedFieldsSpecDie (assign (\<lambda>r. r\<lparr>usFields := v\<rparr>))"

definition TestResourceUnexportedFieldsSpecDie_Template where
  "TestResourceUnexportedFieldsSpecDie_Template v = DieStamp TestResourceUnexportedFieldsSpecDie (assign (\<lambda>r. r\<lparr>usTemplate := v\<rparr>))"

definition TestResourceUnexportedFieldsSpecDie_ErrOnMarshal where
  "TestResourceUnexportedFieldsSpecDie_ErrOnMarshal v = DieStamp TestResourceUnexportedFieldsSpecDie (assign (\<lambda>r. r\<lparr>usErrOnMarshal := v\<rparr>))"

definition TestResourceUnexportedFieldsSpecDie_ErrOnUnmarshal where
  "TestResourceUnexportedFieldsSpecDie_ErrOnUnmarshal v = DieStamp TestResourceUnexportedFieldsSpecDie (assign (\<lambda>r. r\<lparr>usErrOnUnmarshal := v\<rparr>))"

definition TestResourceUnexportedFieldsStatusDie_Status where
  "TestResourceUnexportedFieldsStatusDie_Status v = DieStamp TestResourceUnexportedFieldsStatusDie (assign (\<lambda>r. r\<lparr>utStatus := v\<rparr>))"

definition TestResourceUnexportedFieldsStatusDie_Fields where
  "TestResourceUnexportedFieldsStatusDie_Fields v = DieStamp TestResourceUnexportedFieldsStatusDie (assign (\<lambda>r. r\<lparr>utFields := v\<rparr>))"

text \<open>The methods written by hand in \<^verbatim>\<open>dies.go\<close>.\<close>

definition TestResourceSpecDie_AddField where
  "TestResourceSpecDie_AddField key v = DieStamp TestResourceSpecDie (stamp_field rpFields (\<lambda>f r. r\<lparr>rpFields := f\<rparr>) key v)"

definition TestResourceStatusDie_AddField where
  "TestResourceStatusDie_AddField key v = DieStamp TestResourceStatusDie (stamp_field rsFields (\<lambda>f r. r\<lparr>rsFields := f\<rparr>) key v)"

definition TestDuckSpecDie_AddField where
  "TestDuckSpecDie_AddField key v = DieStamp TestDuckSpecDie (stamp_field dsFields (\<lambda>f r. r\<lparr>dsFields := f\<rparr>) key v)"

definition TestResourceUnexportedFieldsSpecDie_AddField where
  "TestResourceUnexportedFieldsSpecDie_AddField key v = DieStamp TestResourceUnexportedFieldsSpecDie (stamp_field usFields (\<lambda>f r. r\<lparr>usFields := f\<rparr>) key v)"

definition TestResourceUnexportedFieldsStatusDie_AddField where
  "TestResourceUnexportedFieldsStatusDie_AddField key v = DieStamp TestResourceUnexportedFieldsStatusDie (stamp_field utFields (\<lambda>f r. r\<lparr>utFields := f\<rparr>) key v)"

definition TestResourceUnexportedFieldsSpecDie_AddUnexportedField where
  "TestResourceUnexportedFieldsSpecDie_AddUnexportedField key v = DieStamp TestResourceUnexportedFieldsSpecDie (stamp_field us_GetUnexportedFields us_SetUnexportedFields key v)"

definition TestResourceUnexportedFieldsStatusDie_AddUnexportedField where
  "TestResourceUnexportedFieldsStatusDie_AddUnexportedField key v = DieStamp TestResourceUnexportedFieldsStatusDie (stamp_field ut_GetUnexportedFields ut_SetUnexportedFields key v)"

definition TestResourceSpecDie_TemplateDie where
  "TestResourceSpecDie_TemplateDie P fn = DieStamp TestResourceSpecDie (stamp_part P rpTemplate (\<lambda>t r. r\<lparr>rpTemplate := t\<rparr>) fn)"

definition TestResourceUnexportedFieldsSpecDie_TemplateDie where
  "TestResourceUnexportedFieldsSpecDie_TemplateDie P fn = DieStamp TestResourceUnexportedFieldsSpecDie (stamp_part P usTemplate (\<lambda>t r. r\<lparr>usTemplate := t\<rparr>) fn)"

text \<open>A new slice holds what the condition dies release, one by one.\<close>

fun release_all :: "('m, 'r) die_type \<Rightarrow> ('m, 'r) die list \<Rightarrow> go_heap \<Rightarrow> 'r list \<times> go_heap" where
  "release_all K [] h = ([], h)"
| "release_all K (d # ds) h =
     (let (c, h) = DieRelease K d h; (cs, h) = release_all K ds h in (c # cs, h))"

definition stamp_conditions ::
    "('m, condition) die_type \<Rightarrow> (heap_status \<Rightarrow> 'r \<Rightarrow> 'r) \<Rightarrow> ('r \<Rightarrow> heap_status) \<Rightarrow> ('m, condition) die list \<Rightarrow> 'r stamp" where
  "stamp_conditions K put get conds r h =
     (let (cs, h) = release_all K conds h;
          (a, h) = alloc_conditions cs h
      in Some (put ((get r)\<lparr>hsConditions := Some a\<rparr>) r, h))"

definition TestResourceStatusDie_ConditionsDie where
  "TestResourceStatusDie_ConditionsDie K conds = DieStamp TestResourceStatusDie (stamp_conditions K (\<lambda>s r. r\<lparr>rsStatus := s\<rparr>) rsStatus conds)"

definition TestResourceUnexportedFieldsStatusDie_ConditionsDie where
  "TestResourceUnexportedFieldsStatusDie_ConditionsDie K conds = DieStamp TestResourceUnexportedFieldsStatusDie (stamp_conditions K (\<lambda>s r. r\<lparr>utStatus := s\<rparr>) utStatus conds)"

section \<open>Immutable dies\<close>

text \<open>Callbacks one after the other, each on the die the one before returned.\<close>

fun stamp_all :: "('m, 'r) die_type \<Rightarrow> 'r stamp list \<Rightarrow> ('m, 'r) die \<Rightarrow> (go_heap, ('m, 'r) die) go" where
  "stamp_all T [] d h = Some (d, h)"
| "stamp_all T (fn # fns) d h = do { ((_, d), h) \<leftarrow> DieStamp T fn d h; stamp_all T fns d h }"

context deep_copy
begin

lemma DieStamp_immutable:
  assumes T: "dtDeepCopy T = copy" and d: "\<not> dieMutable d" and al: "reach h (dieR d) \<subseteq> allocated h"
    and fn: "local_stamp reach fn" and run: "DieStamp T fn d h = Some ((d', e), h')"
  shows "d' = d" and "\<not> dieMutable e" and "agree (allocated h) h h'" and "ghNext h \<le> ghNext h'"
    and "reach h' (dieR e) \<subseteq> allocated h'"
proof -
  obtain r h1 where c: "copy (dieR d) h = (r, h1)" by fastforce
  note f = copy_fresh [OF al c]
  from run d T c obtain r' where g: "fn r h1 = Some (r', h')" and "(d', e) = DieFeed T r' d"
    by (auto simp: DieStamp_def DieRelease_def)
  with d show "d' = d" and "\<not> dieMutable e" by (auto simp: DieFeed_def)
  have e: "dieR e = r'" using \<open>(d', e) = DieFeed T r' d\<close> d by (auto simp: DieFeed_def)
  have "reach h1 r \<subseteq> allocated h1" "allocated h \<subseteq> allocated h1" "reach h1 r \<inter> allocated h = {}"
    using f by (auto intro: grown_allocated [THEN subsetD])
  with fn g have s: "spares (allocated h) reach h1 (r', h')" and "reach h' r' \<subseteq> allocated h'"
    unfolding local_stamp_def by blast+
  then show "reach h' (dieR e) \<subseteq> allocated h'" by (simp add: e)
  from s f show "agree (allocated h) h h'" "ghNext h \<le> ghNext h'"
    by (auto simp: spares_def grown_def intro: agree_trans)
qed

lemma stamp_all_immutable:
  assumes T: "dtDeepCopy T = copy" and "\<not> dieMutable d" and "reach h (dieR d) \<subseteq> allocated h"
    and "\<forall>fn \<in> set fns. local_stamp reach fn" and "stamp_all T fns d h = Some (e, h')"
  shows "agree (allocated h) h h' \<and> \<not> dieMutable e"
  using assms(2-5)
proof (induction fns arbitrary: d h)
  case Nil
  then show ?case by simp
next
  case (Cons fn fns)
  from Cons.prems(4) obtain d1 d2 h1 where s: "DieStamp T fn d h = Some ((d1, d2), h1)" and
    rest: "stamp_all T fns d2 h1 = Some (e, h')" by auto
  from Cons.prems(3) have "local_stamp reach fn" by simp
  note f = DieStamp_immutable [OF T Cons.prems(1,2) this s]
  from Cons.prems(3) have "\<forall>fn \<in> set fns. local_stamp reach fn" by simp
  from Cons.IH [OF f(2,5) this rest] have a: "agree (allocated h1) h1 h'" and m: "\<not> dieMutable e" by simp_all
  have "allocated h \<subseteq> allocated h1" using f(4) by (simp add: allocated_def)
  with a have "agree (allocated h) h1 h'" by (rule agree_mono)
  with f(3) m show ?case by (auto intro: agree_trans)
qed

end

text \<open>Defaulting is such a callback, and so is every assignment that brings no foreign memory.\<close>

lemma local_assign:
  assumes "\<And>h r. reach h (f r) = reach h r"
  shows "local_stamp reach (assign f)"
  using assms by (auto simp: local_stamp_def assign_def spares_def)

lemma local_APIVersion: "local_stamp tr_reach (assign (set_APIVersion v))"
  by (rule local_assign) (simp add: reach_object_def set_APIVersion_def)

text \<open>
  Builders nest: a callback of \<open>SpecDie\<close> or \<open>StatusDie\<close> calls methods on the mutable die of the part and drops
  what they return.  Such a stamp is local when the callback is.
\<close>

definition in_place :: "('m, 'r, ('m, 'r) die) die_method \<Rightarrow> ('m, 'r) die \<Rightarrow> (go_heap, ('m, 'r) die) go" where
  "in_place run d h = do { ((d, e), h) \<leftarrow> run d h; Some (d, h) }"

definition local_part :: "(go_heap \<Rightarrow> 'r \<Rightarrow> addr set) \<Rightarrow> (('m, 'r) die \<Rightarrow> (go_heap, ('m, 'r) die) go) \<Rightarrow> bool" where
  "local_part reach fn \<longleftrightarrow>
     (\<forall>d h d' h' A. fn d h = Some (d', h') \<longrightarrow> dieMutable d \<longrightarrow> reach h (dieR d) \<subseteq> allocated h \<longrightarrow>
        A \<subseteq> allocated h \<longrightarrow> reach h (dieR d) \<inter> A = {} \<longrightarrow>
        dieMutable d' \<and> spares A reach h (dieR d', h') \<and> reach h' (dieR d') \<subseteq> allocated h')"

lemma local_stampD:
  assumes "local_stamp reach fn" and "fn r h = Some (r', h')" and "reach h r \<subseteq> allocated h"
    and "A \<subseteq> allocated h" and "reach h r \<inter> A = {}"
  shows "spares A reach h (r', h') \<and> reach h' r' \<subseteq> allocated h'"
  using assms unfolding local_stamp_def by blast

lemma local_partD:
  assumes "local_part reach fn" and "fn d h = Some (d', h')" and "dieMutable d" and "reach h (dieR d) \<subseteq> allocated h"
    and "A \<subseteq> allocated h" and "reach h (dieR d) \<inter> A = {}"
  shows "dieMutable d' \<and> spares A reach h (dieR d', h') \<and> reach h' (dieR d') \<subseteq> allocated h'"
  using assms unfolding local_part_def by blast

lemma local_part_stamp:
  assumes "local_stamp reach f"
  shows "local_part reach (in_place (DieStamp T f))"
  unfolding local_part_def
proof (intro allI impI)
  fix d h d' h' A
  assume run: "in_place (DieStamp T f) d h = Some (d', h')" and m: "dieMutable d"
    and al: "reach h (dieR d) \<subseteq> allocated h" "A \<subseteq> allocated h" "reach h (dieR d) \<inter> A = {}"
  from run m obtain r where "f (dieR d) h = Some (r, h')" and "d' = d\<lparr>dieFrozen := dtFreeze T r, dieR := r\<rparr>"
    by (auto simp: in_place_def DieStamp_def DieRelease_def DieFeed_def Let_def)
  with local_stampD [OF assms _ al] m
  show "dieMutable d' \<and> spares A reach h (dieR d', h') \<and> reach h' (dieR d') \<subseteq> allocated h'" by simp
qed

lemma stamp_part_run:
  assumes zero: "\<And>h. snd (dtDeepCopy S (dtZero S) h) = h" and loc: "local_part reach fn"
    and run: "stamp_part S get put fn r h = Some (r', h')"
    and al: "reach h (get r) \<subseteq> allocated h" "A \<subseteq> allocated h" "reach h (get r) \<inter> A = {}"
  obtains x where "r' = put x r" and "spares A reach h (x, h')" and "reach h' x \<subseteq> allocated h'"
proof -
  let ?d = "\<lparr>dieFrozen = dtFreeze S (get r), dieMutable = True, dieR = get r\<rparr>"
  obtain z where "dtDeepCopy S (dtZero S) h = (z, h)" using zero [of h] by (metis prod.collapse)
  with run obtain d' h1 where fn: "fn ?d h = Some (d', h1)" and
    out: "let (x, h) = DieRelease S d' h1 in r' = put x r \<and> h' = h"
    by (auto simp: stamp_part_def DieImmutable_def die_DeepCopy_def Blank_def DieFeed_def Let_def split: prod.splits)
  from local_partD [OF loc fn] al have "dieMutable d'" "spares A reach h (dieR d', h1)" "reach h1 (dieR d') \<subseteq> allocated h1"
    by simp_all
  with out that show thesis by (simp add: DieRelease_def)
qed

lemma blank_copies [simp]:
  "snd (dtDeepCopy TestResourceSpecDie (dtZero TestResourceSpecDie) h) = h"
  "snd (dtDeepCopy TestResourceStatusDie (dtZero TestResourceStatusDie) h) = h"
  by (simp_all add: TestResourceSpecDie_def TestResourceStatusDie_def empty_spec_def empty_rs_def empty_heap_status_def
      TestResourceSpec_DeepCopyInto_def TestResourceStatus_DeepCopyInto_def Status_DeepCopyInto_def
      copy_fields_def copy_conditions_def)

lemma local_SpecDie:
  assumes "local_part reach_spec fn"
  shows "local_stamp tr_reach (stamp_part TestResourceSpecDie toSpec set_spec fn)"
  unfolding local_stamp_def
proof (intro allI impI)
  fix r h r' h' A
  assume run: "stamp_part TestResourceSpecDie toSpec set_spec fn r h = Some (r', h')"
    and al: "tr_reach h r \<subseteq> allocated h" "A \<subseteq> allocated h" "tr_reach h r \<inter> A = {}"
  then have "reach_spec h (toSpec r) \<subseteq> allocated h" "reach_spec h (toSpec r) \<inter> A = {}"
    by (auto simp: reach_object_def)
  with stamp_part_run [OF blank_copies(1) assms run, of A] al(2) obtain x where
    "r' = set_spec x r" "spares A reach_spec h (x, h')" "reach_spec h' x \<subseteq> allocated h'" by blast
  moreover have same: "reach_rs h' (toStatus r) = reach_rs h (toStatus r)"
    by (simp add: reach_rs_def reach_status_def reach_spec_def)
  moreover have "reach_rs h (toStatus r) \<subseteq> allocated h'" if "ghNext h \<le> ghNext h'"
    using al(1) that by (intro allocated_mono [of _ h h']) (auto simp: reach_object_def)
  ultimately show "spares A tr_reach h (r', h') \<and> tr_reach h' r' \<subseteq> allocated h'"
    using al(3) by (auto simp: spares_def reach_object_def set_spec_def simp del: reach_rs_heap)
qed

lemma local_StatusDie:
  assumes "local_part reach_rs fn"
  shows "local_stamp tr_reach (stamp_part TestResourceStatusDie toStatus set_status fn)"
  unfolding local_stamp_def
proof (intro allI impI)
  fix r h r' h' A
  assume run: "stamp_part TestResourceStatusDie toStatus set_status fn r h = Some (r', h')"
    and al: "tr_reach h r \<subseteq> allocated h" "A \<subseteq> allocated h" "tr_reach h r \<inter> A = {}"
  then have "reach_rs h (toStatus r) \<subseteq> allocated h" "reach_rs h (toStatus r) \<inter> A = {}"
    by (auto simp: reach_object_def)
  with stamp_part_run [OF blank_copies(2) assms run, of A] al(2) obtain x where
    "r' = set_status x r" "spares A reach_rs h (x, h')" "reach_rs h' x \<subseteq> allocated h'" by blast
  moreover have same: "reach_spec h' (toSpec r) = reach_spec h (toSpec r)"
    by (simp add: reach_rs_def reach_status_def reach_spec_def)
  moreover have "reach_spec h (toSpec r) \<subseteq> allocated h'" if "ghNext h \<le> ghNext h'"
    using al(1) that by (intro allocated_mono [of _ h h']) (auto simp: reach_object_def)
  ultimately show "spares A tr_reach h (r', h') \<and> tr_reach h' r' \<subseteq> allocated h'"
    using al(3) by (auto simp: spares_def reach_object_def set_status_def simp del: reach_rs_heap)
qed

lemma local_AddField: "local_stamp reach_spec (stamp_field rpFields (\<lambda>f r. r\<lparr>rpFields := f\<rparr>) key v)"
  unfolding local_stamp_def
proof (intro allI impI)
  fix r h r' h' A
  assume run: "stamp_field rpFields (\<lambda>f r. r\<lparr>rpFields := f\<rparr>) key v r h = Some (r', h')"
    and al: "reach_spec h r \<subseteq> allocated h" "A \<subseteq> allocated h" "reach_spec h r \<inter> A = {}"
  obtain f h1 where f: "add_field key v (rpFields r) h = (f, h1)" by fastforce
  with add_field_spares [OF al(2), of "rpFields r" key v] add_field_allocated [OF _ f] al run
  show "spares A reach_spec h (r', h') \<and> reach_spec h' r' \<subseteq> allocated h'"
    by (auto simp: stamp_field_def spares_def reach_spec_def)
qed

lemmas local_stamps = local_Default local_APIVersion local_SpecDie local_StatusDie local_AddField local_part_stamp

section \<open>Properties\<close>

text \<open>
  C34. Immutable dies are persistent: stamping one any number of times, with callbacks that work on
  what they are given (assignments, defaulting, the methods of nested dies), changes nothing that was in memory; the die shows the same as before, and the result
  is immutable again.
\<close>

theorem immutable_die_persistent:
  assumes "\<not> dieMutable d" and "tr_reach h (dieR d) \<subseteq> allocated h"
    and "\<forall>fn \<in> set fns. local_stamp tr_reach fn" and "stamp_all (TestResourceDie freeze) fns d h = Some (e, h')"
  shows "agree (allocated h) h h' \<and> tr_view h' (dieR d) = tr_view h (dieR d) \<and> \<not> dieMutable e"
proof -
  have T: "dtDeepCopy (TestResourceDie freeze) = TestResource_DeepCopyInto" by (simp add: TestResourceDie_def)
  from tr_copy.stamp_all_immutable [OF T assms] have a: "agree (allocated h) h h'" and m: "\<not> dieMutable e" by simp_all
  from a assms(2) have "agree (tr_reach h (dieR d)) h h'" by (rule agree_mono)
  with a m show ?thesis by (simp add: tr_copy.view_cong)
qed

theorem immutable_die_persistent_witness:
  "\<exists>e h'. stamp_all (TestResourceDie id)
      [\<lambda>r h. Some (TestResource_Default r h), assign (set_APIVersion ''v2''),
       stamp_part TestResourceSpecDie toSpec set_spec (in_place (TestResourceSpecDie_AddField ''key'' ''other''))]
      \<lparr>dieFrozen = ''meta'', dieMutable = False, dieR = demo_resource\<rparr> demo_heap = Some (e, h') \<and>
     \<not> dieMutable e \<and> tr_view h' demo_resource = tr_view demo_heap demo_resource"
proof -
  let ?d = "\<lparr>dieFrozen = ''meta'', dieMutable = False, dieR = demo_resource\<rparr>"
  let ?add = "in_place (TestResourceSpecDie_AddField ''key'' ''other'')"
  let ?fns = "[\<lambda>r h. Some (TestResource_Default r h), assign (set_APIVersion ''v2''),
    stamp_part TestResourceSpecDie toSpec set_spec ?add]"
  have "\<exists>y. stamp_all (TestResourceDie id) ?fns ?d demo_heap = Some y"
    by (simp add: DieStamp_def DieRelease_def DieFeed_def TestResourceDie_def assign_def stamp_part_def in_place_def
        TestResourceSpecDie_AddField_def stamp_field_def DieImmutable_def Blank_def die_DeepCopy_def split_def Let_def)
  then obtain e h' where run: "stamp_all (TestResourceDie id) ?fns ?d demo_heap = Some (e, h')" by auto
  have al: "tr_reach demo_heap (dieR ?d) \<subseteq> allocated demo_heap"
    by (simp add: reach_object_def reach_spec_def reach_rs_def reach_status_def demo_resource_def demo_spec_def
        demo_heap_def allocated_def)
  have "local_part reach_spec ?add" unfolding TestResourceSpecDie_AddField_def by (intro local_stamps)
  then have "\<forall>fn \<in> set ?fns. local_stamp tr_reach fn" by (simp add: local_stamps)
  from immutable_die_persistent [OF _ al this run] run show ?thesis by simp
qed

text \<open>A mutable die is changed in place: what is returned is the receiver.\<close>

theorem mutable_die_in_place:
  assumes "dieMutable d" and "DieStamp T fn d h = Some ((d', e), h')"
  shows "e = d' \<and> dieMutable d' \<and> fn (dieR d) h = Some (dieR d', h')"
  using assms by (auto simp: DieStamp_def DieRelease_def DieFeed_def Let_def)

end
