(* ===== verification/Spec2Isabelle.thy ===== *)
theory Spec2Isabelle
  imports Conditions ChildSet Aggregate Cast Webhook TestCases Dies
begin

text \<open>
  A model of \<open>reconciler-runtime\<close>, a Go library for writing Kubernetes controllers, and the theorems
  that make its parts correct.

  \<^bold>\<open>The program.\<close>  A controller built with the library is a tree of reconcilers.  At the root a
  \<open>ResourceReconciler\<close>, an \<open>AggregateReconciler\<close> or an \<open>AdmissionWebhookAdapter\<close> answers a request: it
  reads a resource from the API server, prepares a context (request, configuration, a stash, the time)
  and runs a sub-reconciler on the resource, which may change it in memory; the root then writes the
  status back, creates or updates the resource, or answers with a patch.  Sub-reconcilers are composed by
  \<open>Sequence\<close>, \<open>IfThen\<close>, \<open>While\<close>, \<open>TryCatch\<close>, \<open>OverrideSetup\<close>, \<open>WithConfig\<close>, \<open>WithFinalizer\<close> and
  \<open>CastResource\<close>; the leaves are \<open>SyncReconciler\<close> (user code), \<open>ChildReconciler\<close> and
  \<open>ChildSetReconciler\<close>, which manage other objects through a \<open>ResourceManager\<close>.  A tracker remembers
  which resources were read on behalf of which request, so that changes of the former enqueue the latter.
  Conditions of a status are kept by a condition manager.

  \<^bold>\<open>How it is modelled.\<close>  Go code that may panic, not return or change something is a function
  \<open>world \<Rightarrow> (value \<times> world) option\<close> (\<open>go\<close> of Prelude); \<open>None\<close> is a panic or a loop that does not end.
  The world (theory World) is the trace of all calls made so far together with the heaps of stashes,
  trackers, mutation caches and admission responses.  Code outside the repository is a parameter: the
  record \<open>env\<close> holds the API server (\<open>respond\<close>, a function of the whole history, so every server with
  every failure and every concurrent writer is a value of it), the clock and the functions of
  apimachinery, controller-runtime, go-cache and jsonpatch the code calls.  What a theorem needs of them
  is a named hypothesis: \<open>finalizer_laws\<close> (controllerutil and the server's answer to a patch), \<open>patch_laws\<close> and
  \<open>decodes_documents\<close> (jsonpatch and decoding, up to a relation of JSON documents), \<open>cache_law\<close>,
  \<open>server_generations\<close>, \<open>unstructured_law\<close>; \<open>demo_env\<close> or a variant of it is an instance on which each is
  discharged.  User code (callbacks, sub-reconcilers, condition
  functions) is an arbitrary function; an interface or function field that may be nil is an option and
  using \<open>None\<close> panics.  An object is a value with the fields the code reads and its remaining JSON; a Go
  function that changes the object behind a pointer returns the changed object.  Errors are the datatype
  \<open>err\<close> with \<open>errors_is\<close>, the transitive closure of \<open>unwrap\<close>.

  \<^bold>\<open>Theories and sources.\<close>
  \<^item> Prelude: computations, the frame calculus \<open>keeps\<close> (locale \<open>world_relation\<close>), decimal rendering.
  \<^item> Errors, Results, Objects: error sentinels of \<^verbatim>\<open>src/reconcilers/reconcilers.go\<close>; \<open>AggregateResults\<close>,
    \<open>MergeMaps\<close>; objects, statuses, conditions, lists and the helpers of \<^verbatim>\<open>src/reconcilers/util.go\<close>.
  \<^item> Conditions: \<^verbatim>\<open>src/apis/conditionset.go\<close> and \<^verbatim>\<open>src/apis/status_types.go\<close>.  The locale \<open>conditions_accessor\<close>
    states what an accessor promises; the manager is verified inside it and it is interpreted on \<open>apis.Status\<close>.
  \<^item> Tracker: \<^verbatim>\<open>src/tracker\<close>.  Leases are two-level association lists; \<open>current_lease\<close> is the abstract view.
    The locale \<open>tracker_contract\<close> derives what any tracker with such a view reports after a run of calls.
  \<^item> World, Stash, Configs: calls, \<^verbatim>\<open>src/reconcilers/stash.go\<close>, the context accessors of
    \<^verbatim>\<open>src/reconcilers/reconcilers.go\<close> and \<^verbatim>\<open>src/time/now.go\<close>, \<^verbatim>\<open>src/reconcilers/config.go\<close>.
  \<^item> Flow: \<^verbatim>\<open>src/reconcilers/sequence.go\<close> and \<^verbatim>\<open>src/reconcilers/flow.go\<close>.
  \<^item> Sync: \<^verbatim>\<open>src/reconcilers/sync.go\<close> and \<^verbatim>\<open>src/reconcilers/finalizer.go\<close>.
  \<^item> Manager: \<^verbatim>\<open>src/reconcilers/resourcemanager.go\<close>.
  \<^item> Child, ChildSet: \<^verbatim>\<open>src/reconcilers/child.go\<close> and \<^verbatim>\<open>src/reconcilers/childset.go\<close>.
  \<^item> Duck: \<^verbatim>\<open>src/duck/client.go\<close> and \<^verbatim>\<open>src/internal/util.go\<close>.
  \<^item> Resource, Aggregate, Cast, Webhook: the files of these names under \<^verbatim>\<open>src/reconcilers\<close>.
  \<^item> FakeClient: \<^verbatim>\<open>src/testing/client.go\<close>, the client with which users test their reconcilers.  The locale
    \<open>harmless_reactors\<close> states what reactors must not do; it is interpreted on the chains the code builds.
  \<^item> TestDoubles: \<^verbatim>\<open>src/testing/recorder.go\<close> and \<^verbatim>\<open>src/testing/tracker.go\<close>; the mock tracker satisfies
    the contract \<open>tracker_contract\<close> of the real one.
  \<^item> Expectations: \<^verbatim>\<open>src/testing/config.go\<close>, \<^verbatim>\<open>src/testing/color.go\<close> and \<^verbatim>\<open>src/reconcilers/cmp.go\<close>.
  \<^item> TestCases: \<^verbatim>\<open>src/testing/reconciler.go\<close>, \<^verbatim>\<open>src/testing/subreconciler.go\<close> and
    \<^verbatim>\<open>src/testing/webhook.go\<close>.
  \<^item> GoHeap, TestTypes: the memory behind Go's maps, slices and pointers, the resource types of
    \<^verbatim>\<open>src/internal/resources\<close> and the generated deep copies (\<^verbatim>\<open>zz_generated.deepcopy.go\<close> there and in
    \<^verbatim>\<open>src/apis\<close>).  The locale \<open>deep_copy\<close> states what a deep copy promises; it is interpreted on the copy
    of every type, combinators carrying it from fields to structs, options, lists and pointers.
  \<^item> TestResources: what these types do besides (defaulting, validation, conditions, unexported fields, JSON).
    Their statuses are a second interpretation of \<open>conditions_accessor\<close>, now over the heap.
  \<^item> Dies: the builders of \<^verbatim>\<open>src/internal/resources/dies\<close>.  The generated methods are the same for twelve
    types up to names, so they are functions of a description of the type, and \<open>TestDuckDie_methods\<close> and its
    like are their instances; the methods that differ are stated one by one.

  \<^bold>\<open>What is shown.\<close>
  \<^item> Results form a semilattice, so how they are combined never matters (Results).
  \<^item> Every operation of the condition manager refines a specification on maps from types to statuses, keeps
    conditions sorted and unique, and a reachable happy status has every dependent true (Conditions).
  \<^item> After any sequence of calls \<open>GetObservers\<close> returns exactly the observers whose latest call for a watch point
    is within the lease and concerns the object, a watch by selector being identified by the text of the selector
    (Tracker); hence a read with \<open>TrackAndGet\<close> leads to a request (Configs).
  \<^item> Requests that share the heap of stashes see nothing of each other (Stash).
  \<^item> \<open>Sequence\<close> and \<open>While\<close> return what relational specifications of their runs say; \<open>While\<close> returns when it
    has a positive limit and may not when the limit is disabled; flow reconcilers make no calls (Flow).
  \<^item> A finalizer is on the resource before nested code runs and leaves it only after that code succeeded on a
    terminating resource (Sync).  On a terminating resource the finalizer of a child reconciler stays while there is one child and goes when
    there is none; with several it goes in the pass in which all their deletes were accepted (Child).
  \<^item> \<open>Manage\<close> makes at most one write, the one that is called for; a patch gives what its update decodes to, and
    the mutation cache is of no use across generations (Manager); a child reconciler deletes only
    its own children and reports an outcome exactly once (Child); a child set has one entry per identifier
    and reports results in order (ChildSet).
  \<^item> A status is written once, exactly when it changed, and halting is success (Resource); a webhook allows a
    request exactly if its reconciler did without any error and the patch could be made (Webhook); an aggregate
    reconciler creates what is missing and desired (Aggregate); the duck aware client keeps duck typed objects from
    the client it wraps (Duck).  A halt inside a sequence at the root skips what
    follows and still has the status written (this theory).
  \<^item> The test client records what was attempted and changes nothing else (FakeClient), the test tracker observes
    like the real one (TestDoubles), and a test case passes exactly when outcome, writes, events and tracks
    are the expected ones, entry by entry (Expectations, TestCases).
  \<^item> A deep copy shows what its original shows and shares no memory with it: no sequence of operations on the copy
    that stay within what they are given touches anything that was there before (TestResources), so the copies reconcilers make may be values in the other theories.
    The JSON of a spec is read back as it was written (TestResources), and immutable dies are persistent (Dies).
  \<^item> Where the code departs from its documentation or intent the theorem states what the code does, e.g.
    \<open>Child_finalizer_untracked\<close>, \<open>Child_finalizer_by_children\<close>, \<open>ChildSet_finalizer_orphans\<close>,
    \<open>mutation_cache_generation\<close>, \<open>same_rendering_overwrites\<close>, \<open>manager_refines_spec\<close>,
    \<open>additional_expectations_never_met\<close>, \<open>InduceFailure_misses_reads\<close> and \<open>validation_accepts_everything\<close>.

  \<^bold>\<open>Bounds.\<close>  The only loop that need not end is the one of \<open>While\<close>, a \<open>partial_function\<close> on options, so not
  returning is \<open>None\<close> and \<open>While_terminates\<close> proves that a positive limit suffices.  All other recursion is
  structural; \<open>decimal\<close> and \<open>errors_is\<close> have termination proofs.  Go integers are \<open>int\<close>: iteration counts and
  generations stay far below the width of a Go \<open>int\<close>, and time stamps are compared and added only.

  \<^bold>\<open>Simplifications.\<close>  A mutex makes an operation atomic, so tracker and stash operations are functions.
  The known children of a child set are values, so one that a child reconciler changes in place is not seen
  changed by another.  The values of a stash are the two kinds the library itself puts there.  Field by field
  diffs in log messages are opaque.  The options of a read (\<open>TrackAndGet\<close> passes them on) are not part of the
  modelled \<open>Get\<close>, and the merge and sanitize callbacks of a manager are total functions of their arguments.  A manager struct shared by pointer is identified by a number, which names
  its mutation cache.

  \<^bold>\<open>The test framework.\<close>  Its doubles live on a heap (\<open>test_heap\<close>) next to the world.  The client of
  controller-runtime that the fake client wraps is any \<open>client_ops\<close>; client-go's actions and matching are the
  record \<open>test_lib\<close>, go-cmp and the client builder \<open>expect_lib\<close> and \<open>case_lib\<close>.  A diff of go-cmp is a
  string, empty for equal values, and is given the path filters the code builds.  When an expected panic is
  recovered, \<open>atPanic\<close> stands for what the code had changed by then.  Hooks of a test case that change the test
  case itself are left out, since that is another test case.

  \<^bold>\<open>Memory.\<close>  The reconcilers are modelled on values; the heap of GoHeap is for the types whose copies matter.
  Addresses grow and are never reused, each cell holds one kind of data, and a theorem assumes of its starting
  heap only that what an object reaches is allocated.  Metadata, pod templates and the items of lists are values,
  since nothing here shares them.  Keys of JSON documents match fields up to the case of ASCII letters.

  \<^bold>\<open>Not modelled.\<close>  Type aliases (\<^verbatim>\<open>src/reconcilers/alias.go\<close>, \<^verbatim>\<open>src/testing/aliases.go\<close>), the
  registration of types with a scheme, assertions that a type implements an interface, and the names of context
  keys, which the model keeps apart by constructors: none has logic of its own.
\<close>

section \<open>Composition\<close>

text \<open>
  C24. A halt inside a sequence at the root: the reconcilers before the one that halts run in order, the ones
  after it do not, and the request goes on as if there had been no error.  What the sequence made of the
  status by then is written, once, exactly if it changed on a live resource and status updates are not
  skipped; the request returns the result of the halting reconciler and no error, or the error of that write.
\<close>

theorem halted_sequence_writes_status:
  assumes "Resource_init r = Some r'" and "rrReconciler r' = Some (Sequence (pre @ s # post))"
    and "fetched E r' ctx req w (ctx', (None, original), w1)"
    and "initializeConditions r' ctx' (case defaulter E original of None \<Rightarrow> original | Some f \<Rightarrow> f original) w1
      = Some (initial, w2)"
    and "deletionTimestamp initial = None \<or> finalizers initial \<noteq> []"
    and "seq_run pre ctx' 0 initial w2 results None resource1 w3"
    and "Reconcile s (WithName (decimal (length pre)) ctx') resource1 w3 = Some ((result, Some e, resource2), w4)"
    and "is_halt e" and "copyGeneration resource2 = Some resource3"
    and "Resource_Reconcile E r ctx req w = Some (reply, w')"
  shows "\<exists>cs. trace w' = trace w4 @ cs \<and>
    (if rrSkipStatusUpdate r' \<or> deletionTimestamp resource3 \<noteq> None \<or>
        statusDeepEqual E (status (synced original resource3)) (status original)
     then filter status_write cs = [] \<and> reply = (result, None)
     else written E (synced original resource3) original (result, None) cs reply)"
proof -
  from assms(6,7) have "seq_run (pre @ s # post) ctx' 0 initial w2 (results @ [result]) (Some e) resource2 w4"
    by (intro seq_run_append_error) simp_all
  then have "Sequence_Reconcile (pre @ s # post) ctx' initial w2 = Some ((result, Some e, resource2), w4)"
    unfolding Sequence_Reconcile_def Sequence_loop_run by (auto simp: seq_result_def)
  with assms(2,5,8,9) have "resource_reconcile r' ctx' initial w2 = Some ((result, None, resource3), w4)"
    by (auto simp: resource_reconcile_def Sequence_def)
  with assms(10) have run: "(if rrSkipStatusUpdate r' then Some ((result, None), w4)
      else finish_status E ctx' (rrConfig r') resource3 original (result, None) w4) = Some (reply, w')"
    by (simp add: Resource_Reconcile_fetched [OF assms(1,3)] assms(4))
  show ?thesis
  proof (cases "rrSkipStatusUpdate r'")
    case True
    with run show ?thesis by auto
  next
    case False
    with run have "finish_status E ctx' (rrConfig r') resource3 original (result, None) w4 = Some (reply, w')" by simp
    from finish_status_run [OF this] False show ?thesis by (auto split: if_splits)
  qed
qed

theorem halted_sequence_writes_status_witness:
  "\<exists>w' c. Resource_Reconcile (serving None)
      (demo_resource_reconciler (Sequence ([clearing] @ failing ErrHaltSubReconcilers # [failing ErrQuiet])))
      background demo_request demo_world = Some ((empty_result, None), w') \<and> filter status_write (trace w') = [c]"
proof -
  let ?ss = "[clearing] @ failing ErrHaltSubReconcilers # [failing ErrQuiet]"
  let ?r = "demo_resource_reconciler (Sequence ?ss)"
  let ?x = "fetched_parent\<lparr>status := StructStatus (demo_struct\<lparr>conditions := Some []\<rparr>)\<rparr>"
  obtain ctx' w1 where f: "fetched (serving None) ?r background demo_request demo_world (ctx', (None, fetched_parent), w1)"
    and t1: "trace w1 = trace demo_world @ [GroupVersionKindFor ''client'' (empty_object ''Parent''),
      Get ''client'' demo_request (empty_object ''Parent'')]"
    using demo_fetched by blast
  note i = demo_initialize [of "Sequence ?ss" ctx' fetched_parent w1]
  have seq: "seq_run [clearing] ctx' 0 fetched_parent w1 [empty_result] None ?x w1"
    by (simp add: seq_run_Cons clearing_def)
  have halt: "Reconcile (failing ErrHaltSubReconcilers) (WithName (decimal (length [clearing])) ctx') ?x w1 =
      Some ((empty_result, Some ErrHaltSubReconcilers, ?x), w1)"
    by (simp add: failing_def)
  have copy: "copyGeneration ?x = Some ?x"
    by (simp add: copyGeneration_def fetched_parent_def demo_struct_def empty_object_def)
  have live: "deletionTimestamp fetched_parent = None" by (simp add: fetched_parent_def empty_object_def)
  have "resource_reconcile ?r ctx' fetched_parent w1 = Some ((empty_result, None, ?x), w1)"
    by (simp add: resource_reconcile_def clearing_def failing_def Sequence_def Sequence_Reconcile_def
        copyGeneration_def fetched_parent_def demo_struct_def empty_object_def)
  from demo_returns [OF f this] obtain w' where run: "Resource_Reconcile (serving None) ?r background demo_request demo_world
      = Some ((empty_result, None), w')" by blast
  have rec: "rrReconciler ?r = Some (Sequence ?ss)" by simp
  have "synced fetched_parent ?x = ?x"
    by (simp add: synced_def resource_conditions_def put_conditions_def fetched_parent_def demo_struct_def)
  moreover have "\<not> statusDeepEqual (serving None) (status ?x) (status fetched_parent)"
    by (simp add: serving_def demo_env_def fetched_parent_def demo_struct_def)
  ultimately obtain cs where cs: "trace w' = trace w1 @ cs"
    and w: "written (serving None) ?x fetched_parent (empty_result, None) cs (empty_result, None)"
    using halted_sequence_writes_status [OF demo_resource_init rec f i _ seq halt _ copy run] live by auto
  from w obtain c where "filter status_write cs = [c]" by (auto simp: written_def)
  moreover have "trace demo_world = []" by (simp add: demo_world_def empty_world_def)
  ultimately show ?thesis using run cs t1 by auto
qed

end
